(* ===== verification/Prelude.thy ===== *)
theory Prelude
  imports Main "HOL-Library.Word" "HOL-Library.Sublist"
begin

text \<open>
  Shared vocabulary of the development: type synonyms for Go's byte strings, addresses and
  32-byte hashes, the result type of fallible calls, the theorem collections the components
  extend, and generic facts on lists that more than one component needs.
\<close>

section \<open>Types the components share\<close>

text \<open>
  A Go \<^verbatim>\<open>string\<close> and a Go \<^verbatim>\<open>[]byte\<close> are byte sequences; a \<^typ>\<open>char\<close> is one byte.
  \<^verbatim>\<open>common.Address\<close> is 20 bytes and \<^verbatim>\<open>common.Hash\<close> is 32 bytes; both are only compared and
  copied, so a word of that width represents them.
\<close>

type_synonym bytes = "char list"
type_synonym address = "160 word"
type_synonym hash = "256 word"
type_synonym u64 = "64 word"

abbreviation zero_address :: address where
  "zero_address \<equiv> 0"

text \<open>A Go call that returns \<^verbatim>\<open>(value, error)\<close>: \<^term>\<open>Inl\<close> holds the error's text.\<close>

type_synonym 'a result = "string + 'a"

section \<open>Theorem collections\<close>

named_theorems text_simps \<open>facts about the model of Go's string functions\<close>

section \<open>Generic lemmas\<close>

lemma takeWhile_neq_notin [simp]: "c \<notin> set s \<Longrightarrow> takeWhile (\<lambda>x. x \<noteq> c) (s @ c # t) = s"
  by (induction s) auto

lemma dropWhile_neq_notin [simp]: "c \<notin> set s \<Longrightarrow> dropWhile (\<lambda>x. x \<noteq> c) (s @ c # t) = c # t"
  by (induction s) auto

lemma filter_list_update_neither:
  "\<not> P (xs ! i) \<Longrightarrow> \<not> P x \<Longrightarrow> filter P (xs[i := x]) = filter P xs"
  by (induction xs arbitrary: i) (auto split: nat.splits)

end
