(* ===== verification/Go_Text.thy ===== *)
theory Go_Text
  imports Prelude
begin

text \<open>
  The part of Go's standard library that the program's text handling uses: decimal and
  hexadecimal rendering (\<^verbatim>\<open>%d\<close>, \<^verbatim>\<open>%x\<close>), \<^verbatim>\<open>strconv.ParseUint\<close>, \<^verbatim>\<open>strconv.Atoi\<close>,
  \<^verbatim>\<open>strconv.Quote\<close> (\<^verbatim>\<open>%q\<close>), \<^verbatim>\<open>strings.TrimSpace\<close>, \<^verbatim>\<open>HasPrefix\<close>, \<^verbatim>\<open>TrimPrefix\<close>,
  \<^verbatim>\<open>Contains\<close>, \<^verbatim>\<open>Split\<close>, \<^verbatim>\<open>SplitN\<close>, \<^verbatim>\<open>Join\<close>, and \<^verbatim>\<open>bufio.Scanner\<close>'s line mode. All of them
  work on bytes, as Go does.
\<close>

section \<open>Decimal numbers\<close>

definition dec_digit :: "nat \<Rightarrow> char" where
  "dec_digit n = char_of (48 + n)"

definition dec_val :: "char \<Rightarrow> nat" where
  "dec_val c = of_char c - 48"

definition is_dec :: "char \<Rightarrow> bool" where
  "is_dec c \<longleftrightarrow> 48 \<le> (of_char c :: nat) \<and> (of_char c :: nat) \<le> 57"

fun show_nat :: "nat \<Rightarrow> string" where
  "show_nat n = (if n < 10 then [dec_digit n] else show_nat (n div 10) @ [dec_digit (n mod 10)])"

declare show_nat.simps [simp del]

definition show_int :: "int \<Rightarrow> string" where
  "show_int i = (if i < 0 then CHR ''-'' # show_nat (nat (- i)) else show_nat (nat i))"

definition read_dec :: "string \<Rightarrow> nat" where
  "read_dec s = foldl (\<lambda>a c. 10 * a + dec_val c) 0 s"

lemma dec_val_digit [text_simps]: "n < 10 \<Longrightarrow> dec_val (dec_digit n) = n"
  by (simp add: dec_val_def dec_digit_def)

lemma is_dec_digit [text_simps]: "n < 10 \<Longrightarrow> is_dec (dec_digit n)"
  by (simp add: is_dec_def dec_digit_def)

lemma read_dec_snoc [text_simps]: "read_dec (s @ [c]) = 10 * read_dec s + dec_val c"
  by (simp add: read_dec_def)

lemma show_nat_digits: "\<forall>c \<in> set (show_nat n). is_dec c"
proof (induction n rule: show_nat.induct)
  case (1 n)
  then show ?case by (subst show_nat.simps) (auto simp: text_simps)
qed

lemma show_nat_nonempty [simp]: "show_nat n \<noteq> []"
  by (subst show_nat.simps) simp

lemma read_show_nat [simp]: "read_dec (show_nat n) = n"
proof (induction n rule: show_nat.induct)
  case (1 n)
  show ?case
  proof (cases "n < 10")
    case True
    then show ?thesis by (subst show_nat.simps) (simp add: read_dec_def text_simps)
  next
    case False
    with 1 have "read_dec (show_nat (n div 10)) = n div 10" by simp
    with False show ?thesis by (subst show_nat.simps) (simp add: text_simps)
  qed
qed

lemma show_nat_inj [simp]: "show_nat m = show_nat n \<longleftrightarrow> m = n"
  by (metis read_show_nat)

lemma minus_not_dec: "\<not> is_dec (CHR ''-'')"
  by (simp add: is_dec_def)

lemma minus_notin_show_nat: "CHR ''-'' \<notin> set (show_nat n)"
  using show_nat_digits minus_not_dec by blast

lemma show_int_inj [simp]: "show_int i = show_int j \<longleftrightarrow> i = j"
proof -
  have "CHR ''-'' # s \<noteq> show_nat n" for s n
    using minus_notin_show_nat [of n] by (metis list.set_intros(1))
  then show ?thesis
    by (auto simp: show_int_def split: if_splits) metis
qed

text \<open>\<^verbatim>\<open>strconv.ParseUint(s, 10, 64)\<close>: decimal digits only, and below \<open>2 ^ 64\<close>.\<close>

definition parse_uint64 :: "string \<Rightarrow> nat option" where
  "parse_uint64 s =
     (if s \<noteq> [] \<and> list_all is_dec s \<and> read_dec s < 2 ^ 64 then Some (read_dec s) else None)"

lemma parse_uint64_show [simp]: "n < 2 ^ 64 \<Longrightarrow> parse_uint64 (show_nat n) = Some n"
  using show_nat_digits by (auto simp: parse_uint64_def list_all_iff)

text \<open>\<^verbatim>\<open>strconv.Atoi\<close> on a 64-bit platform: an optional sign, decimal digits, and in range.\<close>

definition atoi :: "string \<Rightarrow> int option" where
  "atoi s =
     (let neg = (s \<noteq> [] \<and> hd s = CHR ''-'');
          body = (if s \<noteq> [] \<and> (hd s = CHR ''-'' \<or> hd s = CHR ''+'') then tl s else s)
      in if body = [] \<or> \<not> list_all is_dec body then None
         else let v = (if neg then - int (read_dec body) else int (read_dec body))
              in if - (2 ^ 63) \<le> v \<and> v < 2 ^ 63 then Some v else None)"

lemma atoi_show_nat: "n < 2 ^ 63 \<Longrightarrow> atoi (show_nat n) = Some (int n)"
proof -
  assume n: "n < 2 ^ 63"
  obtain c s where cs: "show_nat n = c # s" by (cases "show_nat n") auto
  then have "is_dec c" using show_nat_digits [of n] by auto
  then have "c \<noteq> CHR ''-''" "c \<noteq> CHR ''+''" by (auto simp: is_dec_def)
  then show ?thesis
    using n cs show_nat_digits [of n] read_show_nat [of n]
    by (auto simp: atoi_def list_all_iff simp del: read_show_nat)
qed

section \<open>Hexadecimal\<close>

definition hex_digit :: "nat \<Rightarrow> char" where
  "hex_digit n = (if n < 10 then char_of (48 + n) else char_of (87 + n))"

definition hex_val :: "char \<Rightarrow> nat option" where
  "hex_val c =
     (let n = of_char c :: nat in
      if 48 \<le> n \<and> n \<le> 57 then Some (n - 48)
      else if 97 \<le> n \<and> n \<le> 102 then Some (n - 87)
      else if 65 \<le> n \<and> n \<le> 70 then Some (n - 55)
      else None)"

definition is_hex :: "char \<Rightarrow> bool" where
  "is_hex c \<longleftrightarrow> hex_val c \<noteq> None"

lemma hex_val_digit [text_simps]: "n < 16 \<Longrightarrow> hex_val (hex_digit n) = Some n"
  by (auto simp: hex_val_def hex_digit_def Let_def)

text \<open>The \<open>k\<close> lowest hexadecimal digits of a number, most significant first (\<^verbatim>\<open>%0kx\<close>).\<close>

fun hex_pad :: "nat \<Rightarrow> nat \<Rightarrow> string" where
  "hex_pad 0 n = []"
| "hex_pad (Suc k) n = hex_pad k (n div 16) @ [hex_digit (n mod 16)]"

text \<open>\<^verbatim>\<open>(*big.Int).SetString(s, 16)\<close> on a string of hexadecimal digits.\<close>

definition read_hex :: "string \<Rightarrow> nat" where
  "read_hex s = foldl (\<lambda>a c. 16 * a + (case hex_val c of None \<Rightarrow> 0 | Some d \<Rightarrow> d)) 0 s"

lemma read_hex_snoc [text_simps]:
  "read_hex (s @ [c]) = 16 * read_hex s + (case hex_val c of None \<Rightarrow> 0 | Some d \<Rightarrow> d)"
  by (simp add: read_hex_def)

lemma read_hex_pad: "n < 16 ^ k \<Longrightarrow> read_hex (hex_pad k n) = n"
proof (induction k arbitrary: n)
  case 0
  then show ?case by (simp add: read_hex_def)
next
  case (Suc k)
  then have "n div 16 < 16 ^ k" by (simp add: div_less_iff_less_mult mult.commute)
  with Suc.IH show ?case by (simp add: text_simps)
qed

lemma length_hex_pad [simp]: "length (hex_pad k n) = k"
  by (induction k arbitrary: n) auto

lemma hex_pad_is_hex: "list_all is_hex (hex_pad k n)"
  by (induction k arbitrary: n) (auto simp: is_hex_def text_simps)


section \<open>Prefixes, splitting, searching\<close>

definition has_prefix :: "string \<Rightarrow> string \<Rightarrow> bool" where
  "has_prefix s p \<longleftrightarrow> prefix p s"

definition trim_prefix :: "string \<Rightarrow> string \<Rightarrow> string" where
  "trim_prefix s p = (if has_prefix s p then drop (length p) s else s)"

fun str_contains :: "string \<Rightarrow> string \<Rightarrow> bool" where
  "str_contains [] sub = (sub = [])"
| "str_contains (c # s) sub = (prefix sub (c # s) \<or> str_contains s sub)"

lemma str_contains_sublist: "str_contains s sub \<longleftrightarrow> sublist sub s"
  by (induction s) (auto simp: sublist_Cons_right)

lemma str_contains_char: "str_contains s [c] \<longleftrightarrow> c \<in> set s"
  by (auto simp: str_contains_sublist sublist_def in_set_conv_decomp)

text \<open>\<^verbatim>\<open>strings.SplitN(s, sep, 2)\<close> and \<^verbatim>\<open>strings.Split(s, sep)\<close> for a one-byte separator.\<close>

definition split_n2 :: "char \<Rightarrow> string \<Rightarrow> string list" where
  "split_n2 c s =
     (if c \<in> set s then [takeWhile (\<lambda>x. x \<noteq> c) s, tl (dropWhile (\<lambda>x. x \<noteq> c) s)] else [s])"

fun split_on :: "char \<Rightarrow> string \<Rightarrow> string list" where
  "split_on c [] = [[]]"
| "split_on c (x # xs) =
     (if x = c then [] # split_on c xs
      else (case split_on c xs of [] \<Rightarrow> [[x]] | y # ys \<Rightarrow> (x # y) # ys))"

fun join_with :: "string \<Rightarrow> string list \<Rightarrow> string" where
  "join_with sep [] = []"
| "join_with sep [x] = x"
| "join_with sep (x # y # ys) = x @ sep @ join_with sep (y # ys)"

lemma split_on_nonempty [simp]: "split_on c s \<noteq> []"
  by (induction s) (auto split: list.splits)

lemma split_n2_found [simp]: "c \<notin> set k \<Longrightarrow> split_n2 c (k @ c # v) = [k, v]"
  by (simp add: split_n2_def)

lemma split_on_append: "c \<notin> set x \<Longrightarrow> split_on c (x @ c # s) = x # split_on c s"
  by (induction x) auto

lemma split_on_notin: "c \<notin> set x \<Longrightarrow> split_on c x = [x]"
  by (induction x) auto

lemma split_on_join:
  "(\<And>x. x \<in> set xs \<Longrightarrow> c \<notin> set x) \<Longrightarrow> xs \<noteq> [] \<Longrightarrow> split_on c (join_with [c] xs) = xs"
proof (induction xs)
  case (Cons x xs)
  then show ?case by (cases xs) (simp_all add: split_on_notin split_on_append)
qed simp

section \<open>White space\<close>

text \<open>
  The UTF-8 encodings of the code points for which \<^verbatim>\<open>unicode.IsSpace\<close> holds.
  \<^verbatim>\<open>strings.TrimSpace\<close> removes them from both ends; since no encoding is a suffix or a
  prefix of another, removing byte sequences from this list is removing code points.
\<close>

definition space_seqs :: "bytes list" where
  "space_seqs =
     [[CHR 0x09], [CHR 0x0A], [CHR 0x0B], [CHR 0x0C], [CHR 0x0D], [CHR 0x20],
      [CHR 0xC2, CHR 0x85], [CHR 0xC2, CHR 0xA0], [CHR 0xE1, CHR 0x9A, CHR 0x80],
      [CHR 0xE2, CHR 0x80, CHR 0x80], [CHR 0xE2, CHR 0x80, CHR 0x81],
      [CHR 0xE2, CHR 0x80, CHR 0x82], [CHR 0xE2, CHR 0x80, CHR 0x83],
      [CHR 0xE2, CHR 0x80, CHR 0x84], [CHR 0xE2, CHR 0x80, CHR 0x85],
      [CHR 0xE2, CHR 0x80, CHR 0x86], [CHR 0xE2, CHR 0x80, CHR 0x87],
      [CHR 0xE2, CHR 0x80, CHR 0x88], [CHR 0xE2, CHR 0x80, CHR 0x89],
      [CHR 0xE2, CHR 0x80, CHR 0x8A], [CHR 0xE2, CHR 0x80, CHR 0xA8],
      [CHR 0xE2, CHR 0x80, CHR 0xA9], [CHR 0xE2, CHR 0x80, CHR 0xAF],
      [CHR 0xE2, CHR 0x81, CHR 0x9F], [CHR 0xE3, CHR 0x80, CHR 0x80]]"

fun strip_first :: "bytes list \<Rightarrow> string \<Rightarrow> string option" where
  "strip_first [] s = None"
| "strip_first (p # ps) s =
     (if p \<noteq> [] \<and> prefix p s then Some (drop (length p) s) else strip_first ps s)"

lemma strip_first_shorter: "strip_first ps s = Some t \<Longrightarrow> length t < length s"
  by (induction ps) (auto split: if_splits simp: prefix_def)

function trim_left_of :: "bytes list \<Rightarrow> string \<Rightarrow> string" where
  "trim_left_of ps s = (case strip_first ps s of None \<Rightarrow> s | Some t \<Rightarrow> trim_left_of ps t)"
  by pat_completeness auto
termination
  by (relation "measure (\<lambda>(ps, s). length s)") (auto dest: strip_first_shorter)

declare trim_left_of.simps [simp del]

definition trim_space :: "string \<Rightarrow> string" where
  "trim_space s =
     rev (trim_left_of (map rev space_seqs) (rev (trim_left_of space_seqs s)))"

text \<open>A string whose bytes are all printable ASCII other than the blank has nothing to trim.\<close>

definition graphic :: "char \<Rightarrow> bool" where
  "graphic c \<longleftrightarrow> 33 \<le> (of_char c :: nat) \<and> (of_char c :: nat) \<le> 126"

lemma strip_first_graphic:
  assumes "\<And>p. p \<in> set ps \<Longrightarrow> p \<noteq> [] \<and> \<not> graphic (hd p)" and "s = [] \<or> graphic (hd s)"
  shows "strip_first ps s = None"
  using assms by (induction ps) (auto simp: prefix_def)

lemma space_seqs_not_graphic:
  "p \<in> set space_seqs \<Longrightarrow> p \<noteq> [] \<and> \<not> graphic (hd p)"
  "p \<in> set (map rev space_seqs) \<Longrightarrow> p \<noteq> [] \<and> \<not> graphic (hd p)"
  by (auto simp: space_seqs_def graphic_def)

lemma trim_space_ends:
  assumes "s = [] \<or> graphic (hd s) \<and> graphic (last s)"
  shows "trim_space s = s"
proof -
  have "strip_first space_seqs s = None"
    using assms space_seqs_not_graphic(1) by (intro strip_first_graphic) auto
  then have l: "trim_left_of space_seqs s = s" by (subst trim_left_of.simps) simp
  have "strip_first (map rev space_seqs) (rev s) = None"
    using assms space_seqs_not_graphic(2) by (intro strip_first_graphic) (auto simp: hd_rev)
  then have "trim_left_of (map rev space_seqs) (rev s) = rev s"
    by (subst trim_left_of.simps) simp
  with l show ?thesis by (simp add: trim_space_def)
qed

lemma trim_space_graphic: "list_all graphic s \<Longrightarrow> trim_space s = s"
  by (rule trim_space_ends) (cases s, auto simp: list_all_iff)

lemma trim_space_Nil [simp]: "trim_space [] = []"
  by (rule trim_space_graphic) simp

section \<open>Reading a text line by line\<close>

text \<open>
  \<^verbatim>\<open>bufio.Scanner\<close> with its default split function: lines end at a line feed, one trailing
  carriage return is dropped, a last line without line feed counts, and a line that does not
  fit the 64 KiB buffer ends the scan (\<^verbatim>\<open>ErrTooLong\<close>, which the program never looks at).
\<close>

definition max_scan_token :: nat where
  "max_scan_token = 65536"

definition drop_cr :: "string \<Rightarrow> string" where
  "drop_cr l = (if l \<noteq> [] \<and> last l = CHR 0x0D then butlast l else l)"

lemma tl_dropWhile_shorter: "s \<noteq> [] \<Longrightarrow> length (tl (dropWhile P s)) < length s"
proof -
  assume "s \<noteq> []"
  moreover have "length (dropWhile P s) \<le> length s" by (rule length_dropWhile_le)
  ultimately show ?thesis by (cases s) auto
qed

function scan_lines :: "bytes \<Rightarrow> string list" where
  "scan_lines s =
     (if s = [] then []
      else let l = takeWhile (\<lambda>c. c \<noteq> CHR 0x0A) s; rest = dropWhile (\<lambda>c. c \<noteq> CHR 0x0A) s in
        if max_scan_token \<le> length l then []
        else drop_cr l # scan_lines (tl rest))"
  by pat_completeness auto

termination
  by (relation "measure length") (auto intro: tl_dropWhile_shorter [simplified])

declare scan_lines.simps [simp del]

lemma scan_lines_Nil [simp]: "scan_lines [] = []"
  by (subst scan_lines.simps) simp

lemma scan_lines_line:
  "CHR 0x0A \<notin> set l \<Longrightarrow> length l < max_scan_token \<Longrightarrow>
     scan_lines (l @ CHR 0x0A # rest) = drop_cr l # scan_lines rest"
  by (subst scan_lines.simps) (simp add: Let_def)

section \<open>Quoted strings\<close>

text \<open>
  \<^verbatim>\<open>utf8.DecodeRuneInString\<close> on a non-empty string: the first code point and its width, or
  \<^term>\<open>None\<close> (\<^verbatim>\<open>RuneError\<close>, width one) for bytes that are not the start of an encoding.
\<close>

definition cont :: "char \<Rightarrow> bool" where
  "cont c \<longleftrightarrow> 128 \<le> (of_char c :: nat) \<and> (of_char c :: nat) \<le> 191"

fun decode_rune :: "string \<Rightarrow> (nat \<times> nat) option" where
  "decode_rune [] = None"
| "decode_rune (a # s) =
     (let x = of_char a :: nat in
      if x < 128 then Some (x, 1)
      else case s of
        [] \<Rightarrow> None
      | b # s' \<Rightarrow>
          (let y = of_char b :: nat in
           if 194 \<le> x \<and> x \<le> 223 then
             (if cont b then Some ((x - 192) * 64 + (y - 128), 2) else None)
           else case s' of
             [] \<Rightarrow> None
           | c # s'' \<Rightarrow>
               (let z = of_char c :: nat in
                if 224 \<le> x \<and> x \<le> 239 then
                  (if cont b \<and> cont c \<and> (x = 224 \<longrightarrow> 160 \<le> y) \<and> (x = 237 \<longrightarrow> y \<le> 159)
                   then Some ((x - 224) * 4096 + (y - 128) * 64 + (z - 128), 3) else None)
                else case s'' of
                  [] \<Rightarrow> None
                | d # _ \<Rightarrow>
                    (if 240 \<le> x \<and> x \<le> 244 \<and> cont b \<and> cont c \<and> cont d
                        \<and> (x = 240 \<longrightarrow> 144 \<le> y) \<and> (x = 244 \<longrightarrow> y \<le> 143)
                     then Some ((x - 240) * 262144 + (y - 128) * 4096 + (z - 128) * 64
                                + (of_char d - 128), 4)
                     else None))))"

text \<open>
  \<^verbatim>\<open>strconv.Quote\<close>. The table of printable code points beyond ASCII is the parameter
  \<open>printable\<close>; a code point is copied with the bytes it was read from.
\<close>

definition hex_escape :: "char \<Rightarrow> nat \<Rightarrow> nat \<Rightarrow> string" where
  "hex_escape k n r = CHR 0x5C # k # hex_pad n r"

definition quote_rune :: "(nat \<Rightarrow> bool) \<Rightarrow> nat \<Rightarrow> string \<Rightarrow> string" where
  "quote_rune printable r raw =
     (if r = 34 \<or> r = 92 then CHR 0x5C # raw
      else if 32 \<le> r \<and> r < 127 \<or> 128 \<le> r \<and> printable r then raw
      else if r = 7 then [CHR 0x5C, CHR ''a'']
      else if r = 8 then [CHR 0x5C, CHR ''b'']
      else if r = 12 then [CHR 0x5C, CHR ''f'']
      else if r = 10 then [CHR 0x5C, CHR ''n'']
      else if r = 13 then [CHR 0x5C, CHR ''r'']
      else if r = 9 then [CHR 0x5C, CHR ''t'']
      else if r = 11 then [CHR 0x5C, CHR ''v'']
      else if r < 32 \<or> r = 127 then hex_escape (CHR ''x'') 2 r
      else if r < 65536 then hex_escape (CHR ''u'') 4 r
      else hex_escape (CHR ''U'') 8 r)"

function quote_body :: "(nat \<Rightarrow> bool) \<Rightarrow> string \<Rightarrow> string" where
  "quote_body printable s =
     (case s of
        [] \<Rightarrow> []
      | c # cs \<Rightarrow>
          (case decode_rune s of
             None \<Rightarrow> hex_escape (CHR ''x'') 2 (of_char c) @ quote_body printable cs
           | Some (r, w) \<Rightarrow>
               quote_rune printable r (take w s) @ quote_body printable (drop (max 1 w) s)))"
  by pat_completeness auto
termination
  by (relation "measure (\<lambda>(p, s). length s)") auto

declare quote_body.simps [simp del]

definition go_quote :: "(nat \<Rightarrow> bool) \<Rightarrow> string \<Rightarrow> string" where
  "go_quote printable s = [CHR 0x22] @ quote_body printable s @ [CHR 0x22]"

end
