(* ===== verification/Auction_Types.thy ===== *)
theory Auction_Types
  imports Go_Text
begin

text \<open>
  The wire types of the auction extension (\<^verbatim>\<open>go/pkg/types/types.go\<close>), its configuration
  (\<^verbatim>\<open>go/internal/config/config.go\<close>), the tee-node types it exchanges, and the third-party
  functions it calls. A nil \<^verbatim>\<open>*big.Int\<close> is \<^term>\<open>None\<close>.
\<close>

section \<open>Configuration\<close>

definition config_Version :: string where
  "config_Version = ''0.1.0''"

definition OPTypeAuction :: string where
  "OPTypeAuction = ''AUCTION''"

definition OPCommandPlaceBid :: string where
  "OPCommandPlaceBid = ''PLACE_BID''"

definition OPCommandCloseAuction :: string where
  "OPCommandCloseAuction = ''CLOSE_AUCTION''"

text \<open>The package initialiser: the environment overrides a default port when it parses.\<close>

definition port_override :: "string \<Rightarrow> int \<Rightarrow> int" where
  "port_override v dflt =
     (if v \<noteq> '''' then (case atoi v of Some n \<Rightarrow> n | None \<Rightarrow> dflt) else dflt)"

definition config_init :: "(string \<Rightarrow> string) \<Rightarrow> int \<times> int" where
  "config_init getenv =
     (port_override (getenv ''EXTENSION_PORT'') 8080, port_override (getenv ''SIGN_PORT'') 9090)"

section \<open>Messages of the extension\<close>

record PlaceBidMessage =
  pbm_AuctionId :: "int option"
  pbm_Bidder :: address
  pbm_Ciphertext :: bytes

record BidPayload =
  bp_AuctionId :: "int option"
  bp_ContractAddr :: address
  bp_Bidder :: address
  bp_AmountWei :: "int option"
  bp_Salt :: hash

record PlaceBidResponse =
  Accepted :: bool

record CloseMessage =
  cm_AuctionId :: "int option"
  cm_ContractAddr :: address
  cm_ReservePrice :: "int option"
  cm_Deadline :: u64

record AuctionResult =
  ar_ContractAddr :: address
  ar_AuctionId :: int
  ar_Winner :: address
  ar_ClearingPrice :: int

record State =
  AuctionsTracked :: nat
  AuctionsClosed :: nat
  BidsStored :: nat

record StateResponse =
  StateVersion :: hash
  resp_State :: State

text \<open>The ABI layouts the package initialiser builds with \<^verbatim>\<open>abi.NewType\<close>.\<close>

datatype abi_type = ABI_Elem string | ABI_Tuple "(string \<times> string) list"

definition PlaceBidMessageArg :: abi_type where
  "PlaceBidMessageArg =
     ABI_Tuple [(''auctionId'', ''uint256''), (''bidder'', ''address''), (''ciphertext'', ''bytes'')]"

definition BidPayloadArg :: abi_type where
  "BidPayloadArg =
     ABI_Tuple [(''auctionId'', ''uint256''), (''contractAddr'', ''address''),
                (''bidder'', ''address''), (''amountWei'', ''uint256''), (''salt'', ''bytes32'')]"

definition CloseMessageArg :: abi_type where
  "CloseMessageArg =
     ABI_Tuple [(''auctionId'', ''uint256''), (''contractAddr'', ''address''),
                (''reservePrice'', ''uint256''), (''deadline'', ''uint64'')]"

definition AuctionResultArgs :: "abi_type list" where
  "AuctionResultArgs =
     [ABI_Elem ''address'', ABI_Elem ''uint256'', ABI_Elem ''address'', ABI_Elem ''uint256'']"

text \<open>\<^verbatim>\<open>json.Marshal\<close> of the place-bid response.\<close>

definition marshal_PlaceBidResponse :: "PlaceBidResponse \<Rightarrow> bytes" where
  "marshal_PlaceBidResponse r =
     [CHR ''{'', CHR 0x22] @ ''accepted'' @ [CHR 0x22, CHR '':''] @
     (if Accepted r then ''true'' else ''false'') @ ''}''"

section \<open>Types of tee-node and go-flare-common\<close>

text \<open>
  The fields of \<^verbatim>\<open>teetypes.Action\<close>, \<^verbatim>\<open>instruction.DataFixed\<close> and
  \<^verbatim>\<open>teetypes.ActionResult\<close> that the extension reads or writes.
\<close>

record Action =
  act_ID :: hash
  act_SubmissionTag :: string
  act_Message :: bytes

record DataFixed =
  df_Timestamp :: u64
  df_OPType :: hash
  df_OPCommand :: hash
  df_OriginalMessage :: bytes

record ActionResult =
  res_ID :: hash
  res_SubmissionTag :: string
  res_Version :: string
  res_OPType :: hash
  res_OPCommand :: hash
  res_Data :: bytes
  res_Status :: "8 word"
  res_Log :: string

text \<open>
  Third-party functions the extension calls, as parameters: \<^verbatim>\<open>teeutils.ToHash\<close>,
  \<^verbatim>\<open>common.Hash.Hex\<close>, \<^verbatim>\<open>processorutils.Parse\<close>, \<^verbatim>\<open>structs.Decode\<close> at its three
  instances, \<^verbatim>\<open>abi.Arguments.Pack\<close>, and the JSON encoding of tee-node's result type.
\<close>

record lib =
  to_hash :: "string \<Rightarrow> hash"
  hash_hex :: "hash \<Rightarrow> string"
  parse_data_fixed :: "bytes \<Rightarrow> DataFixed result"
  decode_place_bid :: "abi_type \<Rightarrow> bytes \<Rightarrow> PlaceBidMessage result"
  decode_bid_payload :: "abi_type \<Rightarrow> bytes \<Rightarrow> BidPayload result"
  decode_close :: "abi_type \<Rightarrow> bytes \<Rightarrow> CloseMessage result"
  pack_result :: "abi_type list \<Rightarrow> address \<Rightarrow> int \<Rightarrow> address \<Rightarrow> int \<Rightarrow> bytes result"
  marshal_result :: "ActionResult \<Rightarrow> bytes"
  unmarshal_action :: "bytes \<Rightarrow> Action result"

end
