(* ===== verification/Winner.thy ===== *)
theory Winner
  imports Auction_Types "HOL-Library.Product_Lexorder" "HOL-Library.Multiset"
begin

text \<open>
  Winner selection (\<^verbatim>\<open>go/internal/extension/winner.go\<close>). \<^verbatim>\<open>pickWinner\<close> scans the bids once
  and keeps the best one so far; the loop is modelled with its guards in the source's order
  and with a nil dereference as \<^term>\<open>None\<close>. The lemmas relate the scan to a ranking of the
  qualifying bids.
\<close>

section \<open>Bids and their comparison\<close>

record Bid =
  Bidder :: address
  ContractAddr :: address
  Amount :: "int option"
  Timestamp :: u64
  Seq :: u64

definition better :: "Bid \<Rightarrow> Bid \<Rightarrow> bool option" where
  "better a b =
     (case (Amount a, Amount b) of
        (Some x, Some y) \<Rightarrow>
          Some (if x > y then True
                else if x < y then False
                else if Timestamp a \<noteq> Timestamp b then Timestamp a < Timestamp b
                else Seq a < Seq b)
      | _ \<Rightarrow> None)"

definition skipped :: "int \<Rightarrow> Bid \<Rightarrow> bool" where
  "skipped reserve b = (case Amount b of None \<Rightarrow> True | Some x \<Rightarrow> x \<le> 0 \<or> x < reserve)"

fun pick_loop :: "address \<Rightarrow> int \<Rightarrow> Bid list \<Rightarrow> Bid option \<Rightarrow> Bid option option" where
  "pick_loop contractAddr reserve [] best = Some best"
| "pick_loop contractAddr reserve (b # bids) best =
     (if ContractAddr b \<noteq> contractAddr then pick_loop contractAddr reserve bids best
      else if skipped reserve b then pick_loop contractAddr reserve bids best
      else case best of
        None \<Rightarrow> pick_loop contractAddr reserve bids (Some b)
      | Some h \<Rightarrow>
          (case better b h of
             None \<Rightarrow> None
           | Some True \<Rightarrow> pick_loop contractAddr reserve bids (Some b)
           | Some False \<Rightarrow> pick_loop contractAddr reserve bids best))"

definition pickWinner :: "Bid list \<Rightarrow> address \<Rightarrow> int option \<Rightarrow> (address \<times> int \<times> bool) option" where
  "pickWinner bids contractAddr reserve =
     (let r = (case reserve of None \<Rightarrow> 0 | Some r \<Rightarrow> r) in
      case pick_loop contractAddr r bids None of
        None \<Rightarrow> None
      | Some None \<Rightarrow> Some (zero_address, 0, False)
      | Some (Some best) \<Rightarrow>
          (case Amount best of None \<Rightarrow> None | Some a \<Rightarrow> Some (Bidder best, a, True)))"

section \<open>What a ranking promises\<close>

text \<open>
  The scan needs of its comparison that it is a strict weak order on the elements it
  compares. Under that contract the scan keeps an element that nothing beats.
\<close>

fun scan_best :: "('a \<Rightarrow> 'a \<Rightarrow> bool) \<Rightarrow> 'a list \<Rightarrow> 'a \<Rightarrow> 'a" where
  "scan_best beats [] h = h"
| "scan_best beats (x # xs) h = scan_best beats xs (if beats x h then x else h)"

locale ranking =
  fixes beats :: "'a \<Rightarrow> 'a \<Rightarrow> bool" and comparable :: "'a \<Rightarrow> bool"
  assumes asym: "comparable a \<Longrightarrow> comparable b \<Longrightarrow> beats a b \<Longrightarrow> \<not> beats b a"
    and cotrans: "comparable a \<Longrightarrow> comparable b \<Longrightarrow> comparable c \<Longrightarrow> beats a c \<Longrightarrow>
      beats a b \<or> beats b c"
begin

lemma irrefl: "comparable a \<Longrightarrow> \<not> beats a a"
  using asym by blast

lemma scan_in: "scan_best beats xs h \<in> insert h (set xs)"
  by (induction xs arbitrary: h) (auto split: if_splits)

lemma scan_not_worse:
  "comparable h \<Longrightarrow> (\<forall>x \<in> set xs. comparable x) \<Longrightarrow> \<not> beats h (scan_best beats xs h)"
proof (induction xs arbitrary: h)
  case Nil
  then show ?case by (simp add: irrefl)
next
  case (Cons x xs)
  let ?h = "if beats x h then x else h"
  have c: "comparable ?h" using Cons.prems by simp
  have ih: "\<not> beats ?h (scan_best beats xs ?h)" using Cons.IH [OF c] Cons.prems by simp
  have cs: "comparable (scan_best beats xs ?h)"
    using scan_in [of xs ?h] Cons.prems by auto
  show ?case
  proof
    assume b: "beats h (scan_best beats (x # xs) h)"
    then have "beats h (scan_best beats xs ?h)" by simp
    with cotrans [OF _ c cs] Cons.prems ih have "beats h ?h" by auto
    then show False using Cons.prems asym [of x h] irrefl [of h] by (auto split: if_splits)
  qed
qed

lemma scan_unbeaten:
  "comparable h \<Longrightarrow> (\<forall>x \<in> set xs. comparable x) \<Longrightarrow>
     \<forall>x \<in> insert h (set xs). \<not> beats x (scan_best beats xs h)"
proof (induction xs arbitrary: h)
  case Nil
  then show ?case by (simp add: irrefl)
next
  case (Cons x xs)
  let ?h = "if beats x h then x else h"
  let ?r = "scan_best beats xs ?h"
  have c: "comparable ?h" using Cons.prems by simp
  have ih: "\<forall>y \<in> insert ?h (set xs). \<not> beats y ?r" using Cons.IH [OF c] Cons.prems by simp
  have cs: "comparable ?r" using scan_in [of xs ?h] Cons.prems by auto
  have "\<not> beats h ?r" using scan_not_worse [of h "x # xs"] Cons.prems by simp
  moreover have "\<not> beats x ?r"
  proof
    assume "beats x ?r"
    then have "beats x h \<or> beats h ?r" using cotrans cs Cons.prems by simp
    then show False using \<open>\<not> beats h ?r\<close> ih \<open>beats x ?r\<close> by auto
  qed
  ultimately show ?case using ih by auto
qed

end

section \<open>The comparison of bids is a ranking\<close>

definition beats :: "Bid \<Rightarrow> Bid \<Rightarrow> bool" where
  "beats a b \<longleftrightarrow> better a b = Some True"

definition priced :: "Bid \<Rightarrow> bool" where
  "priced b \<longleftrightarrow> Amount b \<noteq> None"

definition qualifies :: "address \<Rightarrow> int \<Rightarrow> Bid \<Rightarrow> bool" where
  "qualifies contractAddr reserve b \<longleftrightarrow>
     ContractAddr b = contractAddr \<and> (\<exists>a. Amount b = Some a \<and> 0 < a \<and> reserve \<le> a)"

text \<open>The order of \<^verbatim>\<open>better\<close> as one key: amount descending, then timestamp, then arrival.\<close>

definition rank :: "Bid \<Rightarrow> int \<times> u64 \<times> u64" where
  "rank b = (- the (Amount b), Timestamp b, Seq b)"

lemma better_defined: "priced a \<Longrightarrow> priced b \<Longrightarrow> better a b = Some (beats a b)"
  by (auto simp: better_def beats_def priced_def)

lemma beats_rank: "priced a \<Longrightarrow> priced b \<Longrightarrow> beats a b \<longleftrightarrow> rank a < rank b"
  by (auto simp: better_def beats_def priced_def rank_def split: if_splits)

interpretation bid: ranking beats priced
  by unfold_locales (auto simp: beats_rank)

lemma qualifies_priced: "qualifies c r b \<Longrightarrow> priced b"
  by (auto simp: qualifies_def priced_def)

lemma qualifies_iff: "ContractAddr b = c \<and> \<not> skipped r b \<longleftrightarrow> qualifies c r b"
  by (auto simp: qualifies_def skipped_def split: option.splits)

section \<open>The scan computes the ranking's best\<close>

lemma pick_loop_Some:
  "priced h \<Longrightarrow> pick_loop c r bids (Some h) =
     Some (Some (scan_best beats (filter (qualifies c r) bids) h))"
proof (induction bids arbitrary: h)
  case (Cons b bids)
  show ?case
  proof (cases "qualifies c r b")
    case True
    then have "ContractAddr b = c" "\<not> skipped r b" "priced b"
      using qualifies_iff qualifies_priced by auto
    with Cons True show ?thesis by (cases "beats b h") (simp_all add: better_defined)
  next
    case False
    with Cons qualifies_iff [of b c r] show ?thesis by auto
  qed
qed simp

lemma pick_loop_None:
  "pick_loop c r bids None =
     Some (case filter (qualifies c r) bids of [] \<Rightarrow> None | b # bs \<Rightarrow> Some (scan_best beats bs b))"
proof (induction bids)
  case (Cons b bids)
  show ?case
  proof (cases "qualifies c r b")
    case True
    then have "ContractAddr b = c" "\<not> skipped r b" "priced b"
      using qualifies_iff qualifies_priced by auto
    with True show ?thesis by (simp add: pick_loop_Some)
  next
    case False
    with Cons qualifies_iff [of b c r] show ?thesis by auto
  qed
qed simp

definition reserve_or_zero :: "int option \<Rightarrow> int" where
  "reserve_or_zero reserve = (case reserve of None \<Rightarrow> 0 | Some r \<Rightarrow> r)"

definition outcome_of :: "Bid \<Rightarrow> address \<times> int \<times> bool" where
  "outcome_of b = (Bidder b, the (Amount b), True)"

lemma pickWinner_scan:
  "pickWinner bids c res =
     Some (case filter (qualifies c (reserve_or_zero res)) bids of
             [] \<Rightarrow> (zero_address, 0, False)
           | b # bs \<Rightarrow> outcome_of (scan_best beats bs b))"
proof (cases "filter (qualifies c (reserve_or_zero res)) bids")
  case Nil
  then show ?thesis
    by (simp add: pickWinner_def pick_loop_None reserve_or_zero_def [symmetric])
next
  case (Cons b bs)
  have "scan_best beats bs b \<in> set (filter (qualifies c (reserve_or_zero res)) bids)"
    using bid.scan_in [of bs b] Cons by simp
  then have "priced (scan_best beats bs b)" by (auto dest: qualifies_priced)
  with Cons show ?thesis
    by (auto simp: pickWinner_def pick_loop_None reserve_or_zero_def [symmetric]
        outcome_of_def priced_def)
qed

lemma pickWinner_cases:
  obtains (none) "pickWinner bids c res = Some (zero_address, 0, False)"
      "\<forall>b \<in> set bids. \<not> qualifies c (reserve_or_zero res) b"
  | (some) b where "pickWinner bids c res = Some (outcome_of b)" "b \<in> set bids"
      "qualifies c (reserve_or_zero res) b"
      "\<forall>x \<in> set bids. qualifies c (reserve_or_zero res) x \<longrightarrow> \<not> beats x b"
proof (cases "filter (qualifies c (reserve_or_zero res)) bids")
  case Nil
  then show ?thesis using none by (simp add: pickWinner_scan filter_empty_conv)
next
  case (Cons b bs)
  let ?q = "qualifies c (reserve_or_zero res)"
  have q: "set (filter ?q bids) = insert b (set bs)" using Cons by simp
  then have p: "priced b" "\<forall>x \<in> set bs. priced x" by (auto dest: qualifies_priced)
  have m: "scan_best beats bs b \<in> set (filter ?q bids)" using bid.scan_in [of bs b] q by simp
  have u: "\<forall>x \<in> set (filter ?q bids). \<not> beats x (scan_best beats bs b)"
    using bid.scan_unbeaten [OF p] q by simp
  show ?thesis
  proof (rule some)
    show "pickWinner bids c res = Some (outcome_of (scan_best beats bs b))"
      using Cons by (simp add: pickWinner_scan)
  qed (use m u in simp_all)
qed

section \<open>The ranking decides the outcome\<close>

lemma hd_insort_key:
  "hd (insort_key f x ys) = (if ys = [] \<or> f x \<le> f (hd ys) then x else hd ys)"
  by (cases ys) auto

lemma sort_key_eq_Nil [simp]: "sort_key f xs = [] \<longleftrightarrow> xs = []"
  by (metis length_0_conv length_sort)

lemma scan_best_sort:
  "(\<forall>x \<in> insert h (set xs). priced x) \<Longrightarrow> scan_best beats xs h = hd (sort_key rank (h # xs))"
proof (induction xs arbitrary: h)
  case (Cons x xs)
  have "scan_best beats (x # xs) h = scan_best beats xs (if rank x < rank h then x else h)"
    using Cons.prems by (simp add: beats_rank)
  also have "\<dots> = hd (sort_key rank ((if rank x < rank h then x else h) # xs))"
    using Cons by auto
  also have "\<dots> = hd (sort_key rank (h # x # xs))"
    by (auto simp: hd_insort_key)
  finally show ?case .
qed simp

lemma rank_inj: "inj_on Seq A \<Longrightarrow> inj_on rank A"
  by (auto simp: inj_on_def rank_def)

lemma pickWinner_sorted:
  "pickWinner bids c res =
     Some (case sort_key rank (filter (qualifies c (reserve_or_zero res)) bids) of
             [] \<Rightarrow> (zero_address, 0, False)
           | b # _ \<Rightarrow> outcome_of b)"
proof (cases "filter (qualifies c (reserve_or_zero res)) bids")
  case (Cons b bs)
  have "\<forall>x \<in> set (filter (qualifies c (reserve_or_zero res)) bids). priced x"
    by (auto dest: qualifies_priced)
  then have "\<forall>x \<in> insert b (set bs). priced x" using Cons by simp
  then have "scan_best beats bs b = hd (sort_key rank (b # bs))" by (rule scan_best_sort)
  then show ?thesis using Cons
    by (cases "sort_key rank (b # bs)") (auto simp: pickWinner_scan simp del: sort_key_simps)
qed (simp add: pickWinner_scan)

lemma pickWinner_outcome_sorted:
  "pickWinner bids c res = Some (outcome_of b) \<longleftrightarrow>
     (\<exists>b' bs. sort_key rank (filter (qualifies c (reserve_or_zero res)) bids) = b' # bs
              \<and> outcome_of b' = outcome_of b)"
  by (auto simp: pickWinner_sorted outcome_of_def split: list.splits)

text \<open>Bids below the winning price can be dropped, or changed, without any effect.\<close>

lemma pickWinner_drop_cheaper:
  assumes "sort_key rank (filter q bids) = b # bs" and "P b"
  shows "\<exists>bs'. sort_key rank (filter q (filter P bids)) = b # bs'"
proof -
  have "sort_key rank (filter q (filter P bids)) = filter P (sort_key rank (filter q bids))"
    by (simp add: filter_sort conj_commute)
  with assms show ?thesis by simp
qed

lemma sort_key_head_in: "sort_key f xs = y # ys \<Longrightarrow> y \<in> set xs"
  by (metis list.set_intros(1) set_sort)

lemma hd_sort_key_least:
  assumes "sort_key f xs = y # ys" and "x \<in> set xs"
  shows "f y \<le> f x"
proof -
  have "sorted (map f (y # ys))" using sorted_sort_key [of f xs] assms(1) by simp
  moreover have "x \<in> set (y # ys)" using assms by (metis set_sort)
  ultimately show ?thesis by auto
qed

section \<open>Properties of the auction's outcome\<close>

text \<open>
  C8. Winner selection always returns (no nil amount is ever dereferenced), and what it
  returns is the head of the qualifying bids under a stable sort by (amount descending,
  instruction timestamp ascending, arrival order ascending), or address zero, price zero and
  \<open>ok = false\<close> when no bid qualifies.
\<close>

theorem pickWinner_is_first_ranked:
  "pickWinner bids contractAddr reserve =
     Some (case sort_key rank (filter (qualifies contractAddr (reserve_or_zero reserve)) bids) of
             [] \<Rightarrow> (zero_address, 0, False)
           | b # _ \<Rightarrow> outcome_of b)"
  by (rule pickWinner_sorted)

text \<open>
  A reported winner placed a bid on this contract at exactly the clearing price, the
  price is positive and meets the reserve, and every other qualifying bid is lower, or ties
  and came later (by timestamp, then by arrival).
\<close>

theorem pickWinner_optimal:
  assumes "pickWinner bids c res = Some (w, p, True)"
  shows "\<exists>b \<in> set bids. Bidder b = w \<and> Amount b = Some p \<and> ContractAddr b = c
           \<and> 0 < p \<and> reserve_or_zero res \<le> p
           \<and> (\<forall>x \<in> set bids. \<forall>a. qualifies c (reserve_or_zero res) x \<longrightarrow> Amount x = Some a \<longrightarrow>
                a < p \<or> a = p \<and> (Timestamp b < Timestamp x
                                   \<or> Timestamp b = Timestamp x \<and> Seq b \<le> Seq x))"
proof (cases rule: pickWinner_cases [of bids c res])
  case (some b)
  then have b: "Bidder b = w" "Amount b = Some p" "ContractAddr b = c" "0 < p"
    "reserve_or_zero res \<le> p"
    using assms by (auto simp: outcome_of_def qualifies_def)
  have "a < p \<or> a = p \<and> (Timestamp b < Timestamp x \<or> Timestamp b = Timestamp x \<and> Seq b \<le> Seq x)"
    if "x \<in> set bids" "qualifies c (reserve_or_zero res) x" "Amount x = Some a" for x a
  proof -
    have "\<not> rank x < rank b"
      using that some beats_rank [of x b] by (auto dest: qualifies_priced)
    then show ?thesis using that b by (auto simp: rank_def)
  qed
  with b some show ?thesis by blast
qed (use assms in simp)

definition demo_bid :: "address \<Rightarrow> int \<Rightarrow> u64 \<Rightarrow> u64 \<Rightarrow> Bid" where
  "demo_bid who amount ts sq =
     \<lparr>Bidder = who, ContractAddr = 170, Amount = Some amount, Timestamp = ts, Seq = sq\<rparr>"

lemma demo_auction:
  "pickWinner [demo_bid 1 100 1 1, demo_bid 2 300 20 2, demo_bid 3 300 10 3] 170 (Some 150)
     = Some (3, 300, True)"
  by (simp add: demo_bid_def pickWinner_def skipped_def better_def)

lemma pickWinner_optimal_witness:
  "\<exists>b \<in> set [demo_bid 1 100 1 1, demo_bid 2 300 20 2, demo_bid 3 300 10 3]. Bidder b = 3"
  using pickWinner_optimal [OF demo_auction] by blast

text \<open>
  No winner is reported exactly when no stored bid is for this contract, positive and at
  or above the reserve; then the reported address and price are zero.
\<close>

theorem pickWinner_no_winner_iff:
  "(\<exists>w p. pickWinner bids c res = Some (w, p, False)) \<longleftrightarrow>
     pickWinner bids c res = Some (zero_address, 0, False) \<and>
     \<not> (\<exists>b \<in> set bids. qualifies c (reserve_or_zero res) b)"
  by (cases rule: pickWinner_cases [of bids c res]) (auto simp: outcome_of_def)

text \<open>
  C28. When arrival numbers are distinct, the outcome depends only on the multiset of bids,
  not on the order in which they are stored.
\<close>

theorem pickWinner_order_independent:
  assumes "mset bids = mset bids'" and "inj_on Seq (set bids)"
  shows "pickWinner bids c res = pickWinner bids' c res"
proof -
  let ?q = "qualifies c (reserve_or_zero res)"
  have m: "mset (filter ?q bids) = mset (filter ?q bids')" using assms(1) by simp
  have i: "inj_on rank (set (filter ?q bids))"
    using rank_inj [OF assms(2)] by (rule inj_on_subset) auto
  have "sort_key rank (filter ?q bids) = sort_key rank (filter ?q bids')"
    using m i by (intro sort_key_inj_key_eq) simp_all
  then show ?thesis by (simp add: pickWinner_sorted)
qed

lemma pickWinner_order_independent_witness:
  "pickWinner [demo_bid 1 100 1 1, demo_bid 2 300 20 2] 170 None
     = pickWinner [demo_bid 2 300 20 2, demo_bid 1 100 1 1] 170 None"
  by (rule pickWinner_order_independent) (simp_all add: demo_bid_def)

text \<open>
  C20. Losing amounts leave no trace in the outcome: replacing the amount of a bid below the
  clearing price by any other amount below it gives the same winner and price.
\<close>

theorem pickWinner_hides_losing_amounts:
  assumes won: "pickWinner bids c res = Some (w, p, True)"
    and "i < length bids" and "Amount (bids ! i) = Some y" and "y < p" and "x < p"
  shows "pickWinner (bids[i := (bids ! i)\<lparr>Amount := Some x\<rparr>]) c res = Some (w, p, True)"
proof -
  let ?r = "reserve_or_zero res"
  let ?q = "qualifies c ?r"
  let ?P = "\<lambda>b. \<exists>a. Amount b = Some a \<and> p \<le> a"
  let ?bids' = "bids[i := (bids ! i)\<lparr>Amount := Some x\<rparr>]"
  obtain b bs where b: "sort_key rank (filter ?q bids) = b # bs" "Bidder b = w" "the (Amount b) = p"
    using won by (auto simp: pickWinner_sorted outcome_of_def split: list.splits)
  then have "b \<in> set (filter ?q bids)" by (blast dest: sort_key_head_in)
  then have qb: "?q b" "Amount b = Some p" and Pb: "?P b" using b(3) by (auto simp: qualifies_def)
  have same: "filter ?P ?bids' = filter ?P bids"
    using assms by (intro filter_list_update_neither) auto
  obtain bs1 where bs1: "sort_key rank (filter ?q (filter ?P bids)) = b # bs1"
    using pickWinner_drop_cheaper [of ?q bids b bs ?P] b(1) Pb by blast
  have "b \<in> set (filter ?P ?bids')"
    using sort_key_head_in [OF bs1] same by auto
  then have bin: "b \<in> set (filter ?q ?bids')" using qb by auto
  then obtain d ds where d: "sort_key rank (filter ?q ?bids') = d # ds"
    by (cases "sort_key rank (filter ?q ?bids')") (auto simp: filter_empty_conv)
  have "rank d \<le> rank b" using hd_sort_key_least [OF d bin] .
  moreover have "?q d" using sort_key_head_in [OF d] by simp
  ultimately have Pd: "?P d" using qb by (auto simp: rank_def qualifies_def)
  obtain bs2 where "sort_key rank (filter ?q (filter ?P ?bids')) = d # bs2"
    using pickWinner_drop_cheaper [of ?q ?bids' d ds ?P] d Pd by blast
  with bs1 same have "d = b" by simp
  with d b qb show ?thesis by (simp add: pickWinner_sorted outcome_of_def)
qed

lemma pickWinner_hides_losing_amounts_witness:
  "pickWinner ([demo_bid 1 100 1 1, demo_bid 2 300 20 2, demo_bid 3 300 10 3]
       [0 := (demo_bid 1 100 1 1)\<lparr>Amount := Some 299\<rparr>]) 170 (Some 150) = Some (3, 300, True)"
  using pickWinner_hides_losing_amounts [OF demo_auction, of 0 100 299]
  by (simp add: demo_bid_def)

end
