(* ===== verification/Extension.thy ===== *)
theory Extension
  imports Winner "HOL-Library.AList"
begin

text \<open>
  The TEE extension (\<^verbatim>\<open>go/internal/extension\<close>): its in-memory state, the handlers of
  PLACE_BID and CLOSE_AUCTION, the dispatch on operation type and command, and the HTTP
  entry points. A handler is one function from the state to a response and the next state;
  PLACE_BID is composed of the three parts between which the source releases its lock, so
  that the interleaving model runs exactly these parts. A handler's result is
  \<^term>\<open>None\<close> where the Go code would panic.
\<close>

section \<open>State\<close>

text \<open>The two Go maps are association lists with distinct keys.\<close>

record Extension =
  bids :: "(string \<times> Bid list) list"
  closed :: "(string \<times> bool) list"
  seq :: u64

definition New :: Extension where
  "New = \<lparr>bids = [], closed = [], seq = 0\<rparr>"

definition bids_of :: "Extension \<Rightarrow> string \<Rightarrow> Bid list" where
  "bids_of e key = (case map_of (bids e) key of None \<Rightarrow> [] | Some bs \<Rightarrow> bs)"

definition is_closed :: "Extension \<Rightarrow> string \<Rightarrow> bool" where
  "is_closed e key = (map_of (closed e) key = Some True)"

section \<open>Action results\<close>

definition buildResult ::
  "Action \<Rightarrow> DataFixed \<Rightarrow> bytes \<Rightarrow> 8 word \<Rightarrow> string option \<Rightarrow> ActionResult" where
  "buildResult a df data status err =
     \<lparr>res_ID = act_ID a, res_SubmissionTag = act_SubmissionTag a, res_Version = config_Version,
      res_OPType = df_OPType df, res_OPCommand = df_OPCommand df, res_Data = data,
      res_Status = status,
      res_Log = (if status = 0 then ''error: '' @ (case err of None \<Rightarrow> ''<nil>'' | Some m \<Rightarrow> m)
                 else if status = 1 then ''ok''
                 else ''pending'')\<rparr>"

definition failed :: "Action \<Rightarrow> DataFixed \<Rightarrow> string \<Rightarrow> ActionResult" where
  "failed a df m = buildResult a df [] 0 (Some m)"

section \<open>PLACE_BID\<close>

text \<open>Everything up to and including the closed check under the read lock.\<close>

definition placeBid_precheck ::
  "lib \<Rightarrow> Extension \<Rightarrow> Action \<Rightarrow> DataFixed \<Rightarrow> ActionResult + PlaceBidMessage \<times> int" where
  "placeBid_precheck L e action df =
     (if df_OriginalMessage df = [] then Inl (failed action df ''originalMessage is empty'')
      else case decode_place_bid L PlaceBidMessageArg (df_OriginalMessage df) of
        Inl err \<Rightarrow> Inl (failed action df (''decoding place-bid message: '' @ err))
      | Inr wrapper \<Rightarrow>
          (case pbm_AuctionId wrapper of
             None \<Rightarrow> Inl (failed action df ''auctionId missing'')
           | Some aid \<Rightarrow>
               if pbm_Ciphertext wrapper = []
               then Inl (failed action df ''ciphertext must not be empty'')
               else if is_closed e (show_int aid)
               then Inl (failed action df (''auction '' @ show_int aid @ '' already closed''))
               else Inr (wrapper, aid)))"

text \<open>Decryption's answer, decoding, and the cross-checks; no shared state.\<close>

definition placeBid_open ::
  "lib \<Rightarrow> bytes result \<Rightarrow> Action \<Rightarrow> DataFixed \<Rightarrow> PlaceBidMessage \<Rightarrow> int
     \<Rightarrow> ActionResult + BidPayload" where
  "placeBid_open L answer action df wrapper aid =
     (case answer of
        Inl err \<Rightarrow> Inl (failed action df (''decryption failed: '' @ err))
      | Inr plaintext \<Rightarrow>
          (case decode_bid_payload L BidPayloadArg plaintext of
             Inl err \<Rightarrow> Inl (failed action df (''decoding bid payload: '' @ err))
           | Inr payload \<Rightarrow>
               if bp_Bidder payload \<noteq> pbm_Bidder wrapper
               then Inl (failed action df ''payload bidder does not match on-chain sender'')
               else if (case bp_AuctionId payload of None \<Rightarrow> True | Some i \<Rightarrow> i \<noteq> aid)
               then Inl (failed action df ''payload auctionId does not match instruction'')
               else if (case bp_AmountWei payload of None \<Rightarrow> True | Some x \<Rightarrow> x \<le> 0)
               then Inl (failed action df ''bid amount must be positive'')
               else Inr payload))"

text \<open>The append under the write lock.\<close>

definition new_bid :: "u64 \<Rightarrow> DataFixed \<Rightarrow> BidPayload \<Rightarrow> Bid" where
  "new_bid s df payload =
     \<lparr>Bidder = bp_Bidder payload, ContractAddr = bp_ContractAddr payload,
      Amount = bp_AmountWei payload, Timestamp = df_Timestamp df, Seq = s\<rparr>"

definition placeBid_store :: "Extension \<Rightarrow> string \<Rightarrow> DataFixed \<Rightarrow> BidPayload \<Rightarrow> Extension" where
  "placeBid_store e key df payload =
     (let s = seq e + 1 in
      e\<lparr>seq := s, bids := AList.update key (bids_of e key @ [new_bid s df payload]) (bids e)\<rparr>)"

definition accepted :: "Action \<Rightarrow> DataFixed \<Rightarrow> ActionResult" where
  "accepted action df =
     buildResult action df (marshal_PlaceBidResponse \<lparr>Accepted = True\<rparr>) 1 None"

definition processPlaceBid ::
  "lib \<Rightarrow> (bytes \<Rightarrow> bytes result) \<Rightarrow> Extension \<Rightarrow> Action \<Rightarrow> DataFixed \<Rightarrow> ActionResult \<times> Extension"
  where
  "processPlaceBid L decrypt e action df =
     (case placeBid_precheck L e action df of
        Inl ar \<Rightarrow> (ar, e)
      | Inr (wrapper, aid) \<Rightarrow>
          (case placeBid_open L (decrypt (pbm_Ciphertext wrapper)) action df wrapper aid of
             Inl ar \<Rightarrow> (ar, e)
           | Inr payload \<Rightarrow> (accepted action df, placeBid_store e (show_int aid) df payload)))"

section \<open>CLOSE_AUCTION\<close>

definition mark_closed :: "Extension \<Rightarrow> string \<Rightarrow> Extension" where
  "mark_closed e key = e\<lparr>closed := AList.update key True (closed e)\<rparr>"

text \<open>What is done with the snapshot, after the lock is released.\<close>

definition close_result ::
  "lib \<Rightarrow> Action \<Rightarrow> DataFixed \<Rightarrow> CloseMessage \<Rightarrow> int \<Rightarrow> Bid list \<Rightarrow> ActionResult option" where
  "close_result L action df req aid snapshot =
     (case pickWinner snapshot (cm_ContractAddr req) (cm_ReservePrice req) of
        None \<Rightarrow> None
      | Some (winner, clearingPrice, _) \<Rightarrow>
          (case pack_result L AuctionResultArgs (cm_ContractAddr req) aid winner clearingPrice of
             Inl err \<Rightarrow> Some (failed action df (''ABI encode auction result: '' @ err))
           | Inr encoded \<Rightarrow> Some (buildResult action df encoded 1 None)))"

definition processCloseAuction ::
  "lib \<Rightarrow> Extension \<Rightarrow> Action \<Rightarrow> DataFixed \<Rightarrow> ActionResult option \<times> Extension" where
  "processCloseAuction L e action df =
     (if df_OriginalMessage df = [] then (Some (failed action df ''originalMessage is empty''), e)
      else case decode_close L CloseMessageArg (df_OriginalMessage df) of
        Inl err \<Rightarrow> (Some (failed action df (''decoding close message: '' @ err)), e)
      | Inr req \<Rightarrow>
          (case cm_AuctionId req of
             None \<Rightarrow> (Some (failed action df ''auctionId missing''), e)
           | Some aid \<Rightarrow>
               (close_result L action df req aid (bids_of e (show_int aid)),
                mark_closed e (show_int aid))))"

section \<open>Dispatch\<close>

definition processAuction ::
  "lib \<Rightarrow> (bytes \<Rightarrow> bytes result) \<Rightarrow> Extension \<Rightarrow> Action \<Rightarrow> DataFixed
     \<Rightarrow> (nat \<times> bytes) option \<times> Extension" where
  "processAuction L decrypt e action df =
     (if df_OPCommand df = to_hash L OPCommandPlaceBid then
        (let (ar, e') = processPlaceBid L decrypt e action df
         in (Some (200, marshal_result L ar), e'))
      else if df_OPCommand df = to_hash L OPCommandCloseAuction then
        (let (ar, e') = processCloseAuction L e action df
         in (map_option (\<lambda>r. (200, marshal_result L r)) ar, e'))
      else
        (Some (501,
           ''unsupported op command: received '' @ hash_hex L (df_OPCommand df) @
           '', expected one of ['' @ hash_hex L (to_hash L OPCommandPlaceBid) @
           '' ('' @ OPCommandPlaceBid @ ''), '' @ hash_hex L (to_hash L OPCommandCloseAuction) @
           '' ('' @ OPCommandCloseAuction @ '')]''), e))"

definition processAction ::
  "lib \<Rightarrow> (bytes \<Rightarrow> bytes result) \<Rightarrow> Extension \<Rightarrow> Action \<Rightarrow> (nat \<times> bytes) option \<times> Extension"
  where
  "processAction L decrypt e action =
     (case parse_data_fixed L (act_Message action) of
        Inl err \<Rightarrow> (Some (400, ''decoding fixed data: '' @ err), e)
      | Inr df \<Rightarrow>
          if df_OPType df = to_hash L OPTypeAuction then processAuction L decrypt e action df
          else
            (Some (501,
               ''unsupported op type: received '' @ hash_hex L (df_OPType df) @ '', expected '' @
               hash_hex L (to_hash L OPTypeAuction) @ '' ('' @ OPTypeAuction @ '')''), e))"

section \<open>HTTP entry points\<close>

text \<open>\<^verbatim>\<open>http.Error\<close> writes the message and a line feed.\<close>

definition actionHandler ::
  "lib \<Rightarrow> (bytes \<Rightarrow> bytes result) \<Rightarrow> Extension \<Rightarrow> bytes \<Rightarrow> (nat \<times> bytes) option \<times> Extension" where
  "actionHandler L decrypt e body =
     (case unmarshal_action L body of
        Inl err \<Rightarrow> (Some (400, ''decoding action: '' @ err @ [CHR 0x0A]), e)
      | Inr action \<Rightarrow> processAction L decrypt e action)"

definition stateHandler :: "lib \<Rightarrow> Extension \<Rightarrow> StateResponse" where
  "stateHandler L e =
     \<lparr>StateVersion = to_hash L config_Version,
      resp_State = \<lparr>AuctionsTracked = length (bids e), AuctionsClosed = length (closed e),
                    BidsStored = sum_list (map (\<lambda>(_, bs). length bs) (bids e))\<rparr>\<rparr>"

end
