(* ===== verification/Bid_Store.thy ===== *)
theory Bid_Store
  imports Extension
begin

text \<open>
  The interface between the handlers and the extension's memory: append a bid to an auction,
  mark an auction closed, read an auction's bids, its closed flag and the arrival counter.
  The contract is a locale; the handlers' lemmas on histories of store operations are proved
  once inside it, and the extension's own state is its interpretation.
\<close>

section \<open>Histories of store operations\<close>

datatype store_op = Put string DataFixed BidPayload | Shut string

fun apply_op ::
  "('s \<Rightarrow> string \<Rightarrow> DataFixed \<Rightarrow> BidPayload \<Rightarrow> 's) \<Rightarrow> ('s \<Rightarrow> string \<Rightarrow> 's) \<Rightarrow> 's \<Rightarrow> store_op \<Rightarrow> 's"
  where
  "apply_op put shut s (Put k df p) = put s k df p"
| "apply_op put shut s (Shut k) = shut s k"

fun puts :: "store_op list \<Rightarrow> nat" where
  "puts [] = 0"
| "puts (Put _ _ _ # ops) = Suc (puts ops)"
| "puts (Shut _ # ops) = puts ops"

fun puts_to :: "string \<Rightarrow> store_op list \<Rightarrow> bool" where
  "puts_to k [] = False"
| "puts_to k (Put k' _ _ # ops) = (k' = k \<or> puts_to k ops)"
| "puts_to k (Shut _ # ops) = puts_to k ops"

text \<open>
  Arrival numbers: positive, increasing along every auction's list, never above the number
  of bids taken so far, and never shared by two auctions.
\<close>

definition arrival_ordered :: "(string \<Rightarrow> Bid list) \<Rightarrow> nat \<Rightarrow> bool" where
  "arrival_ordered f n \<longleftrightarrow>
     (\<forall>k. sorted_wrt (\<lambda>a b. Seq a < Seq b) (f k)) \<and>
     (\<forall>k b. b \<in> set (f k) \<longrightarrow> 0 < unat (Seq b) \<and> unat (Seq b) \<le> n) \<and>
     (\<forall>k k' b b'. b \<in> set (f k) \<longrightarrow> b' \<in> set (f k') \<longrightarrow> Seq b = Seq b' \<longrightarrow> k = k')"

lemma arrival_ordered_inj:
  assumes "arrival_ordered f n"
  shows "inj_on Seq (set (f k))"
proof -
  have "sorted_wrt (<) (map Seq (f k))"
    using assms by (simp add: arrival_ordered_def sorted_wrt_map)
  then show ?thesis by (simp add: strict_sorted_iff distinct_map)
qed

locale bid_store =
  fixes stored :: "'s \<Rightarrow> string \<Rightarrow> Bid list"
    and is_shut :: "'s \<Rightarrow> string \<Rightarrow> bool"
    and arrivals :: "'s \<Rightarrow> u64"
    and put :: "'s \<Rightarrow> string \<Rightarrow> DataFixed \<Rightarrow> BidPayload \<Rightarrow> 's"
    and shut :: "'s \<Rightarrow> string \<Rightarrow> 's"
  assumes stored_put: "stored (put s k df p) k' =
      (if k' = k then stored s k @ [new_bid (arrivals s + 1) df p] else stored s k')"
    and shut_put: "is_shut (put s k df p) k' = is_shut s k'"
    and arrivals_put: "arrivals (put s k df p) = arrivals s + 1"
    and stored_shut: "stored (shut s k) k' = stored s k'"
    and shut_shut: "is_shut (shut s k) k' = (k' = k \<or> is_shut s k')"
    and arrivals_shut: "arrivals (shut s k) = arrivals s"
begin

lemmas store_laws = stored_put shut_put arrivals_put stored_shut shut_shut arrivals_shut

lemma shut_mono: "is_shut s k \<Longrightarrow> is_shut (foldl (apply_op put shut) s ops) k"
proof (induction ops arbitrary: s)
  case (Cons op ops)
  then show ?case by (cases op) (simp_all add: store_laws)
qed simp

lemma stored_grows: "prefix (stored s k) (stored (foldl (apply_op put shut) s ops) k)"
proof (induction ops arbitrary: s)
  case (Cons op ops)
  have "prefix (stored s k) (stored (apply_op put shut s op) k)"
    by (cases op) (simp_all add: store_laws)
  with Cons show ?case by (auto intro: prefix_order.trans)
qed simp

lemma stored_frozen: "\<not> puts_to k ops \<Longrightarrow> stored (foldl (apply_op put shut) s ops) k = stored s k"
proof (induction ops arbitrary: s)
  case (Cons op ops)
  then show ?case by (cases op) (auto simp: store_laws)
qed simp

lemma arrivals_counted: "arrivals (foldl (apply_op put shut) s ops) = arrivals s + of_nat (puts ops)"
proof (induction ops arbitrary: s)
  case (Cons op ops)
  then show ?case by (cases op) (simp_all add: store_laws)
qed simp

lemma arrival_ordered_put:
  assumes inv: "arrival_ordered (stored s) n" and n: "arrivals s = of_nat n" "Suc n < 2 ^ 64"
  shows "arrival_ordered (stored (put s k df p)) (Suc n)"
proof -
  have new: "unat (Seq (new_bid (arrivals s + 1) df p)) = Suc n"
  proof -
    have e: "arrivals s + 1 = (of_nat (Suc n) :: u64)" using n by simp
    have "unat (of_nat (Suc n) :: u64) = Suc n" 
      using n(2) by (simp add: unat_of_nat take_bit_nat_eq_self del: of_nat_Suc)
    with e show ?thesis by (simp only: new_bid_def Bid.simps)
  qed
  have old: "unat (Seq b) \<le> n" if "b \<in> set (stored s k')" for b k'
    using inv that by (auto simp: arrival_ordered_def)
  have less: "Seq b < Seq (new_bid (arrivals s + 1) df p)" if "b \<in> set (stored s k')" for b k'
    using old [OF that] new by (simp add: word_less_nat_alt)
  have ne: "Seq b \<noteq> Seq (new_bid (arrivals s + 1) df p)" if "b \<in> set (stored s k')" for b k'
    using less [OF that] by auto
  show ?thesis
    using inv less ne new
    by (auto simp: arrival_ordered_def stored_put sorted_wrt_append dest: old le_SucI
        split: if_splits)
qed

lemma arrival_ordered_history:
  "arrival_ordered (stored s) n \<Longrightarrow> arrivals s = of_nat n \<Longrightarrow> n + puts ops < 2 ^ 64 \<Longrightarrow>
     arrival_ordered (stored (foldl (apply_op put shut) s ops)) (n + puts ops)"
proof (induction ops arbitrary: s n)
  case (Cons op ops)
  show ?case
  proof (cases op)
    case (Put k df p)
    have "arrival_ordered (stored (put s k df p)) (Suc n)"
      using Cons.prems Put by (intro arrival_ordered_put) auto
    then show ?thesis
      using Cons.IH [of "put s k df p" "Suc n"] Cons.prems Put by (simp add: arrivals_put)
  next
    case (Shut k)
    then have "stored (shut s k) = stored s" by (auto simp: stored_shut)
    then show ?thesis using Cons.IH [of "shut s k" n] Cons.prems Shut
      by (simp add: arrivals_shut)
  qed
qed simp

end

section \<open>The extension's memory keeps the contract\<close>

lemma bids_of_store:
  "bids_of (placeBid_store e k df p) k' =
     (if k' = k then bids_of e k @ [new_bid (seq e + 1) df p] else bids_of e k')"
  by (simp add: bids_of_def placeBid_store_def Let_def update_conv')

lemma is_closed_mark: "is_closed (mark_closed e k) k' = (k' = k \<or> is_closed e k')"
  by (simp add: is_closed_def mark_closed_def update_conv')

interpretation store: bid_store bids_of is_closed seq placeBid_store mark_closed
proof unfold_locales
  fix s :: Extension and k k' df p
  show "bids_of (placeBid_store s k df p) k' =
      (if k' = k then bids_of s k @ [new_bid (seq s + 1) df p] else bids_of s k')"
    by (rule bids_of_store)
  show "is_closed (mark_closed s k) k' = (k' = k \<or> is_closed s k')" by (rule is_closed_mark)
qed (simp_all add: is_closed_def placeBid_store_def mark_closed_def bids_of_def Let_def)

lemma arrival_ordered_New: "arrival_ordered (bids_of New) 0"
  by (simp add: arrival_ordered_def bids_of_def New_def)

lemma seq_New [simp]: "seq New = 0"
  by (simp add: New_def)

end
