(* ===== verification/Demo_Lib.thy ===== *)
theory Demo_Lib
  imports Auction_Types
begin

text \<open>
  A concrete instance of the third-party functions, with one-byte fields, at which the
  hypotheses of the properties are checked. It stands for nothing in the program.
\<close>

definition demo_lib :: lib where
  "demo_lib =
     \<lparr>to_hash = (\<lambda>s. of_nat (length s)),
      hash_hex = (\<lambda>h. ''0x''),
      parse_data_fixed = (\<lambda>m. case m of
          c # t # rest \<Rightarrow> Inr \<lparr>df_Timestamp = of_char t, df_OPType = 7,
             df_OPCommand = (if c = CHR ''B'' then 9 else 13), df_OriginalMessage = rest\<rparr>
        | _ \<Rightarrow> Inl ''short''),
      decode_place_bid = (\<lambda>_ m. case m of
          i # b # ct \<Rightarrow> Inr \<lparr>pbm_AuctionId = Some (of_char i), pbm_Bidder = of_char b,
             pbm_Ciphertext = ct\<rparr>
        | _ \<Rightarrow> Inl ''short''),
      decode_bid_payload = (\<lambda>_ m. case m of
          [i, c, b, v] \<Rightarrow> Inr \<lparr>bp_AuctionId = Some (of_char i), bp_ContractAddr = of_char c,
             bp_Bidder = of_char b, bp_AmountWei = Some (of_char v), bp_Salt = 0\<rparr>
        | _ \<Rightarrow> Inl ''short''),
      decode_close = (\<lambda>_ m. case m of
          [i, c, r] \<Rightarrow> Inr \<lparr>cm_AuctionId = Some (of_char i), cm_ContractAddr = of_char c,
             cm_ReservePrice = Some (of_char r), cm_Deadline = 0\<rparr>
        | _ \<Rightarrow> Inl ''short''),
      pack_result = (\<lambda>_ c i w p. Inr (show_int i @ '','' @ show_int (uint w) @ '','' @ show_int p)),
      marshal_result = (\<lambda>r. res_Data r),
      unmarshal_action = (\<lambda>b. Inr \<lparr>act_ID = 0, act_SubmissionTag = '''', act_Message = b\<rparr>)\<rparr>"

definition demo_df :: "bytes \<Rightarrow> DataFixed" where
  "demo_df m = \<lparr>df_Timestamp = 5, df_OPType = 7, df_OPCommand = 9, df_OriginalMessage = m\<rparr>"

definition demo_action :: "bytes \<Rightarrow> Action" where
  "demo_action m = \<lparr>act_ID = 1, act_SubmissionTag = ''submit'', act_Message = m\<rparr>"

end
