(* ===== verification/Handlers.thy ===== *)
theory Handlers
  imports Bid_Store Demo_Lib
begin

text \<open>
  Properties of the extension's handlers when instructions are handled one at a time, which
  is what \<^verbatim>\<open>docs/extension-contract.md\<close> (section 5) requires of every implementation:
  acceptance and rejection of bids, isolation of auctions, idempotence of closing, what the
  public results reveal, the dispatch's status codes, and the counters of \<^verbatim>\<open>GET /state\<close>.
\<close>

section \<open>The effect of one instruction\<close>

lemma failed_status [simp]: "res_Status (failed a df m) = 0"
  by (simp add: failed_def buildResult_def)

lemma accepted_status [simp]: "res_Status (accepted a df) = 1"
  by (simp add: accepted_def buildResult_def)

lemma failed_log: "res_Log (failed a df m) = ''error: '' @ m"
  by (simp add: failed_def buildResult_def)

lemma precheck_cases:
  obtains (rejected) m where "placeBid_precheck L e a df = Inl (failed a df m)"
  | (passed) wrapper aid where "placeBid_precheck L e a df = Inr (wrapper, aid)"
      "decode_place_bid L PlaceBidMessageArg (df_OriginalMessage df) = Inr wrapper"
      "pbm_AuctionId wrapper = Some aid" "pbm_Ciphertext wrapper \<noteq> []"
      "\<not> is_closed e (show_int aid)" "df_OriginalMessage df \<noteq> []"
proof -
  have "(\<exists>m. placeBid_precheck L e a df = Inl (failed a df m)) \<or>
      (\<exists>wrapper aid. placeBid_precheck L e a df = Inr (wrapper, aid)
         \<and> decode_place_bid L PlaceBidMessageArg (df_OriginalMessage df) = Inr wrapper
         \<and> pbm_AuctionId wrapper = Some aid \<and> pbm_Ciphertext wrapper \<noteq> []
         \<and> \<not> is_closed e (show_int aid) \<and> df_OriginalMessage df \<noteq> [])"
    by (cases "decode_place_bid L PlaceBidMessageArg (df_OriginalMessage df)")
      (auto simp: placeBid_precheck_def split: option.splits)
  then show ?thesis using that by blast
qed

lemma open_cases:
  obtains (rejected) m where "placeBid_open L answer a df wrapper aid = Inl (failed a df m)"
  | (passed) plaintext payload amount where
      "placeBid_open L answer a df wrapper aid = Inr payload" "answer = Inr plaintext"
      "decode_bid_payload L BidPayloadArg plaintext = Inr payload"
      "bp_Bidder payload = pbm_Bidder wrapper" "bp_AuctionId payload = Some aid"
      "bp_AmountWei payload = Some amount" "0 < amount"
proof -
  have "(\<exists>m. placeBid_open L answer a df wrapper aid = Inl (failed a df m)) \<or>
      (\<exists>plaintext payload amount. placeBid_open L answer a df wrapper aid = Inr payload
         \<and> answer = Inr plaintext
         \<and> decode_bid_payload L BidPayloadArg plaintext = Inr payload
         \<and> bp_Bidder payload = pbm_Bidder wrapper \<and> bp_AuctionId payload = Some aid
         \<and> bp_AmountWei payload = Some amount \<and> 0 < amount)"
    by (auto simp: placeBid_open_def split: sum.splits option.splits)
  then show ?thesis using that by blast
qed

lemma processPlaceBid_cases:
  obtains (rejected) m where "processPlaceBid L decrypt e a df = (failed a df m, e)"
  | (stored) wrapper aid payload amount where
      "processPlaceBid L decrypt e a df =
         (accepted a df, placeBid_store e (show_int aid) df payload)"
      "decode_place_bid L PlaceBidMessageArg (df_OriginalMessage df) = Inr wrapper"
      "pbm_AuctionId wrapper = Some aid" "\<not> is_closed e (show_int aid)"
      "bp_Bidder payload = pbm_Bidder wrapper" "bp_AuctionId payload = Some aid"
      "bp_AmountWei payload = Some amount" "0 < amount"
      "\<exists>plaintext. decrypt (pbm_Ciphertext wrapper) = Inr plaintext
         \<and> decode_bid_payload L BidPayloadArg plaintext = Inr payload"
      "df_OriginalMessage df \<noteq> []" "pbm_Ciphertext wrapper \<noteq> []"
proof (cases rule: precheck_cases [of L e a df])
  case (rejected m)
  then show ?thesis using that(1) by (simp add: processPlaceBid_def)
next
  case (passed wrapper aid)
  then have p: "processPlaceBid L decrypt e a df =
      (case placeBid_open L (decrypt (pbm_Ciphertext wrapper)) a df wrapper aid of
         Inl ar \<Rightarrow> (ar, e)
       | Inr payload \<Rightarrow> (accepted a df, placeBid_store e (show_int aid) df payload))"
    by (simp add: processPlaceBid_def)
  show ?thesis
  proof (cases rule: open_cases [of L "decrypt (pbm_Ciphertext wrapper)" a df wrapper aid])
    case (rejected m)
    then show ?thesis using p that(1) by simp
  next
    case (passed plaintext payload amount)
    then show ?thesis using p that(2) \<open>pbm_AuctionId wrapper = Some aid\<close>
        \<open>decode_place_bid L _ _ = Inr wrapper\<close> \<open>\<not> is_closed e (show_int aid)\<close>
        \<open>df_OriginalMessage df \<noteq> []\<close> \<open>pbm_Ciphertext wrapper \<noteq> []\<close> by simp
  qed
qed

lemma pickWinner_some: "\<exists>w p ok. pickWinner bs c res = Some (w, p, ok)"
  by (cases rule: pickWinner_cases [of bs c res]) (auto simp: outcome_of_def)

lemma close_result_some: "close_result L a df req aid bs \<noteq> None"
  using pickWinner_some [of bs "cm_ContractAddr req" "cm_ReservePrice req"]
  by (auto simp: close_result_def split: sum.splits)

lemma processCloseAuction_cases:
  obtains (rejected) m where "processCloseAuction L e a df = (Some (failed a df m), e)"
  | (closed) req aid where
      "processCloseAuction L e a df =
         (close_result L a df req aid (bids_of e (show_int aid)), mark_closed e (show_int aid))"
      "decode_close L CloseMessageArg (df_OriginalMessage df) = Inr req"
      "cm_AuctionId req = Some aid" "df_OriginalMessage df \<noteq> []"
proof -
  have "(\<exists>m. processCloseAuction L e a df = (Some (failed a df m), e)) \<or>
      (\<exists>req aid. processCloseAuction L e a df =
           (close_result L a df req aid (bids_of e (show_int aid)), mark_closed e (show_int aid))
         \<and> decode_close L CloseMessageArg (df_OriginalMessage df) = Inr req
         \<and> cm_AuctionId req = Some aid \<and> df_OriginalMessage df \<noteq> [])"
    by (cases "decode_close L CloseMessageArg (df_OriginalMessage df)")
      (auto simp: processCloseAuction_def split: option.splits)
  then show ?thesis using that by blast
qed

text \<open>One instruction is at most one store operation, and never a bid on a closed auction.\<close>

definition run_ops :: "Extension \<Rightarrow> store_op list \<Rightarrow> Extension" where
  "run_ops = foldl (apply_op placeBid_store mark_closed)"

lemma run_ops_simps [simp]:
  "run_ops e [] = e"
  "run_ops e (op # ops) = run_ops (apply_op placeBid_store mark_closed e op) ops"
  "run_ops e (ops @ ops') = run_ops (run_ops e ops) ops'"
  by (simp_all add: run_ops_def)

lemma processAction_ops:
  "\<exists>ops. snd (processAction L decrypt e a) = run_ops e ops
       \<and> (\<forall>k. is_closed e k \<longrightarrow> \<not> puts_to k ops)"
proof (cases "parse_data_fixed L (act_Message a)")
  case (Inr df)
  have "\<exists>ops. snd (processPlaceBid L decrypt e a df) = run_ops e ops
      \<and> (\<forall>k. is_closed e k \<longrightarrow> \<not> puts_to k ops)"
  proof (cases rule: processPlaceBid_cases [of L decrypt e a df])
    case (rejected m)
    then show ?thesis by (intro exI [of _ "[]"]) simp
  next
    case (stored wrapper aid payload amount)
    then show ?thesis by (intro exI [of _ "[Put (show_int aid) df payload]"]) auto
  qed
  moreover have "\<exists>ops. snd (processCloseAuction L e a df) = run_ops e ops
      \<and> (\<forall>k. is_closed e k \<longrightarrow> \<not> puts_to k ops)"
  proof (cases rule: processCloseAuction_cases [of L e a df])
    case (rejected m)
    then show ?thesis by (intro exI [of _ "[]"]) simp
  next
    case (closed req aid)
    then show ?thesis by (intro exI [of _ "[Shut (show_int aid)]"]) simp
  qed
  moreover have "\<exists>ops. e = run_ops e ops \<and> (\<forall>k. is_closed e k \<longrightarrow> \<not> puts_to k ops)"
    by (intro exI [of _ "[]"]) simp
  ultimately show ?thesis using Inr
    by (simp add: processAction_def processAuction_def Let_def split_def)
qed (auto simp: processAction_def intro: exI [of _ "[]"])

text \<open>Instructions handled one at a time, each with its own answer of the decryption service.\<close>

fun serve :: "lib \<Rightarrow> Extension \<Rightarrow> ((bytes \<Rightarrow> bytes result) \<times> Action) list \<Rightarrow> Extension" where
  "serve L e [] = e"
| "serve L e ((decrypt, a) # as) = serve L (snd (processAction L decrypt e a)) as"

lemma serve_ops:
  "\<exists>ops. serve L e as = run_ops e ops \<and> (\<forall>k. is_closed e k \<longrightarrow> \<not> puts_to k ops)"
proof (induction as arbitrary: e)
  case (Cons x as)
  obtain decrypt a where x: "x = (decrypt, a)" by (cases x)
  obtain ops where ops: "snd (processAction L decrypt e a) = run_ops e ops"
    "\<forall>k. is_closed e k \<longrightarrow> \<not> puts_to k ops"
    using processAction_ops by blast
  obtain ops' where ops': "serve L (run_ops e ops) as = run_ops (run_ops e ops) ops'"
    "\<forall>k. is_closed (run_ops e ops) k \<longrightarrow> \<not> puts_to k ops'"
    using Cons.IH by blast
  have "puts_to k (ops @ ops') = (puts_to k ops \<or> puts_to k ops')" for k
    by (induction ops rule: puts.induct) auto
  moreover have "is_closed e k \<Longrightarrow> is_closed (run_ops e ops) k" for k
    unfolding run_ops_def by (rule store.shut_mono)
  ultimately show ?case using x ops ops' by (intro exI [of _ "ops @ ops'"]) auto
qed (auto intro: exI [of _ "[]"])

lemma serve_closed_frozen: "is_closed e k \<Longrightarrow> bids_of (serve L e as) k = bids_of e k"
  using serve_ops [of L e as] store.stored_frozen [of k _ e] by (auto simp: run_ops_def)

lemma serve_closed_mono: "is_closed e k \<Longrightarrow> is_closed (serve L e as) k"
  using serve_ops [of L e as] store.shut_mono [of e k] by (auto simp: run_ops_def)

section \<open>Accepting and rejecting bids\<close>

text \<open>
  C14. An accepted bid is authenticated: the decrypted payload names the bidder and the
  auction of the on-chain wrapper, its amount is positive, the auction was open, and the only
  effect is one new bid at the end of that auction's list with the next arrival number and
  the instruction's timestamp. No other auction and no closed flag changes.
\<close>

theorem place_bid_accepted:
  assumes run: "processPlaceBid L decrypt e a df = (ar, e')" and ok: "res_Status ar = 1"
  shows "\<exists>wrapper aid plaintext payload amount.
      decode_place_bid L PlaceBidMessageArg (df_OriginalMessage df) = Inr wrapper
      \<and> pbm_AuctionId wrapper = Some aid
      \<and> decrypt (pbm_Ciphertext wrapper) = Inr plaintext
      \<and> decode_bid_payload L BidPayloadArg plaintext = Inr payload
      \<and> bp_Bidder payload = pbm_Bidder wrapper \<and> bp_AuctionId payload = Some aid
      \<and> bp_AmountWei payload = Some amount \<and> 0 < amount
      \<and> \<not> is_closed e (show_int aid)
      \<and> seq e' = seq e + 1 \<and> closed e' = closed e
      \<and> bids_of e' = (bids_of e)(show_int aid := bids_of e (show_int aid) @
           [\<lparr>Bidder = pbm_Bidder wrapper, ContractAddr = bp_ContractAddr payload,
             Amount = Some amount, Timestamp = df_Timestamp df, Seq = seq e + 1\<rparr>])"
proof (cases rule: processPlaceBid_cases [of L decrypt e a df])
  case (rejected m)
  with run ok show ?thesis by auto
next
  case (stored wrapper aid payload amount)
  then have e': "e' = placeBid_store e (show_int aid) df payload" using run by simp
  have "bids_of e' = (bids_of e)(show_int aid := bids_of e (show_int aid) @
      [new_bid (seq e + 1) df payload])"
    unfolding e' by (rule ext) (simp add: bids_of_store)
  moreover have "closed e' = closed e" by (simp add: e' placeBid_store_def Let_def)
  moreover have "seq e' = seq e + 1" by (simp add: e' store.store_laws)
  ultimately show ?thesis using stored by (auto simp: new_bid_def)
qed

text \<open>A demonstration bid: auction 9, bidder \<open>b\<close>, contract \<open>c\<close>, amount 65.\<close>

definition demo_bid_df :: DataFixed where
  "demo_bid_df = demo_df [CHR 0x09, CHR ''b'', CHR 0x09, CHR ''c'', CHR ''b'', CHR ''A'']"

definition demo_after :: Extension where
  "demo_after = snd (processPlaceBid demo_lib Inr New (demo_action []) demo_bid_df)"

lemma show_int_nine [simp]: "show_int 9 = ''9''"
  by code_simp

lemma demo_accepted:
  "processPlaceBid demo_lib Inr New (demo_action []) demo_bid_df =
     (accepted (demo_action []) demo_bid_df, demo_after)"
  by (simp add: demo_after_def processPlaceBid_def placeBid_precheck_def placeBid_open_def
      demo_lib_def demo_bid_df_def demo_df_def New_def is_closed_def)

lemma place_bid_accepted_witness: "seq demo_after = 1 \<and> closed demo_after = []"
  using place_bid_accepted [OF demo_accepted accepted_status] by (auto simp: New_def)

text \<open>
  C29. A bid that is not accepted is answered with status 0, no data and a log that starts
  with \<open>error: \<close>, and leaves the extension's state as it was.
\<close>

theorem place_bid_rejected:
  assumes "processPlaceBid L decrypt e a df = (ar, e')" and "res_Status ar \<noteq> 1"
  shows "e' = e \<and> res_Status ar = 0 \<and> res_Data ar = [] \<and> prefix ''error: '' (res_Log ar)"
proof (cases rule: processPlaceBid_cases [of L decrypt e a df])
  case (rejected m)
  with assms show ?thesis by (auto simp: failed_def buildResult_def prefix_def)
next
  case stored
  with assms show ?thesis by auto
qed

lemma demo_rejected:
  "processPlaceBid demo_lib (\<lambda>_. Inl ''node down'') demo_after (demo_action []) demo_bid_df =
     (failed (demo_action []) demo_bid_df ''decryption failed: node down'', demo_after)"
  by (simp add: demo_after_def processPlaceBid_def placeBid_precheck_def placeBid_open_def
      demo_lib_def demo_bid_df_def demo_df_def New_def is_closed_def placeBid_store_def)

lemma place_bid_rejected_witness:
  "res_Data (failed (demo_action []) demo_bid_df ''decryption failed: node down'') = []"
  using place_bid_rejected [OF demo_rejected] by simp

text \<open>
  The public answer to an accepted bid reveals nothing about it: two accepted bids under
  the same action envelope get the same answer, whatever the ciphertexts decrypt to and
  whatever state the extension is in.
\<close>

theorem place_bid_reveals_nothing:
  assumes "processPlaceBid L decrypt e a df = (ar, e1)" and "res_Status ar = 1"
    and "processPlaceBid L decrypt' e' a df = (ar', e2)" and "res_Status ar' = 1"
  shows "ar = ar'"
proof -
  have "ar = accepted a df"
    by (cases rule: processPlaceBid_cases [of L decrypt e a df]) (use assms(1,2) in auto)
  moreover have "ar' = accepted a df"
    by (cases rule: processPlaceBid_cases [of L decrypt' e' a df]) (use assms(3,4) in auto)
  ultimately show ?thesis by simp
qed

definition demo_later :: Extension where
  "demo_later = snd (processPlaceBid demo_lib (\<lambda>_. Inr [CHR 0x09, CHR ''c'', CHR ''b'', CHR ''Z''])
     demo_after (demo_action []) demo_bid_df)"

lemma demo_accepted_other:
  "processPlaceBid demo_lib (\<lambda>_. Inr [CHR 0x09, CHR ''c'', CHR ''b'', CHR ''Z'']) demo_after
       (demo_action []) demo_bid_df = (accepted (demo_action []) demo_bid_df, demo_later)"
  by (simp add: demo_later_def demo_after_def processPlaceBid_def placeBid_precheck_def
      placeBid_open_def demo_lib_def demo_bid_df_def demo_df_def New_def is_closed_def
      placeBid_store_def Let_def)

lemma place_bid_reveals_nothing_witness:
  "fst (processPlaceBid demo_lib Inr New (demo_action []) demo_bid_df) =
     fst (processPlaceBid demo_lib (\<lambda>_. Inr [CHR 0x09, CHR ''c'', CHR ''b'', CHR ''Z''])
       demo_after (demo_action []) demo_bid_df)"
  unfolding demo_accepted demo_accepted_other fst_conv
  by (rule place_bid_reveals_nothing [OF demo_accepted accepted_status demo_accepted_other
        accepted_status])

text \<open>
  C13. Once an auction is closed, a bid on it is refused before decryption, whatever
  instructions are handled in between.
\<close>

theorem late_bid_refused:
  assumes "is_closed e (show_int aid)" and "df_OriginalMessage df \<noteq> []"
    and "decode_place_bid L PlaceBidMessageArg (df_OriginalMessage df) = Inr wrapper"
    and "pbm_AuctionId wrapper = Some aid" and "pbm_Ciphertext wrapper \<noteq> []"
  shows "processPlaceBid L decrypt (serve L e history) a df =
     (failed a df (''auction '' @ show_int aid @ '' already closed''), serve L e history)"
  using assms serve_closed_mono [of e "show_int aid" L history]
  by (simp add: processPlaceBid_def placeBid_precheck_def)

lemma late_bid_refused_witness:
  "snd (processPlaceBid demo_lib Inr (serve demo_lib (mark_closed demo_after ''9'')
       [(Inr, demo_action [])]) (demo_action []) demo_bid_df) =
     serve demo_lib (mark_closed demo_after ''9'') [(Inr, demo_action [])]"
  using late_bid_refused [of "mark_closed demo_after ''9''" 9 demo_bid_df demo_lib
      "\<lparr>pbm_AuctionId = Some 9, pbm_Bidder = 98, pbm_Ciphertext =
         [CHR 0x09, CHR ''c'', CHR ''b'', CHR ''A'']\<rparr>" Inr "[(Inr, demo_action [])]"
      "demo_action []"]
  by (simp add: is_closed_mark demo_bid_df_def demo_df_def demo_lib_def)

section \<open>Closing\<close>

lemma mark_closed_again: "is_closed e k \<Longrightarrow> mark_closed e k = e"
proof -
  have "map_of xs k = Some v \<Longrightarrow> AList.update k v xs = xs" for xs :: "(string \<times> bool) list" and v
    by (induction xs) (auto split: if_splits)
  then show "is_closed e k \<Longrightarrow> mark_closed e k = e"
    by (simp add: is_closed_def mark_closed_def)
qed

text \<open>
  C17. Closing is idempotent: whatever instructions are handled after a CLOSE_AUCTION, the
  same CLOSE_AUCTION again gives the same answer and changes nothing.
\<close>

theorem close_idempotent:
  "processCloseAuction L (serve L (snd (processCloseAuction L e a df)) history) a df =
     (fst (processCloseAuction L e a df), serve L (snd (processCloseAuction L e a df)) history)"
proof (cases "df_OriginalMessage df = []")
  case False
  show ?thesis
  proof (cases "decode_close L CloseMessageArg (df_OriginalMessage df)")
    case (Inr req)
    show ?thesis
    proof (cases "cm_AuctionId req")
      case (Some aid)
      let ?e1 = "mark_closed e (show_int aid)"
      have "is_closed ?e1 (show_int aid)" by (simp add: is_closed_mark)
      then have "is_closed (serve L ?e1 history) (show_int aid)"
        "bids_of (serve L ?e1 history) (show_int aid) = bids_of e (show_int aid)"
        using serve_closed_mono serve_closed_frozen by (auto simp: store.store_laws)
      then show ?thesis using False Inr Some
        by (simp add: processCloseAuction_def mark_closed_again)
    qed (use False Inr in \<open>simp add: processCloseAuction_def\<close>)
  qed (use False in \<open>simp add: processCloseAuction_def\<close>)
qed (simp add: processCloseAuction_def)

section \<open>Dispatch and status codes\<close>

text \<open>
  C31. The action endpoint always answers: 400 exactly when the body or its fixed data do not
  parse, 501 exactly when the operation type, or the command under it, is not this
  extension's, 200 otherwise; and it changes the state only under 200.
\<close>

theorem action_status:
  "case actionHandler L decrypt e body of
     (None, _) \<Rightarrow> False
   | (Some (status, _), e') \<Rightarrow>
       status = (case unmarshal_action L body of
          Inl _ \<Rightarrow> 400
        | Inr action \<Rightarrow>
            (case parse_data_fixed L (act_Message action) of
               Inl _ \<Rightarrow> 400
             | Inr df \<Rightarrow>
                 if df_OPType df = to_hash L OPTypeAuction
                    \<and> df_OPCommand df \<in> {to_hash L OPCommandPlaceBid, to_hash L OPCommandCloseAuction}
                 then 200 else 501))
       \<and> (status = 200 \<or> e' = e)"
proof (cases "unmarshal_action L body")
  case (Inr action)
  show ?thesis
  proof (cases "parse_data_fixed L (act_Message action)")
    case (Inr df)
    obtain ar e1 where c: "processCloseAuction L e action df = (ar, e1)" by fastforce
    have "ar \<noteq> None"
      using c by (cases rule: processCloseAuction_cases [of L e action df])
        (use close_result_some in auto)
    with c Inr \<open>unmarshal_action L body = Inr action\<close> show ?thesis
      by (auto simp: actionHandler_def processAction_def processAuction_def Let_def
          split: prod.splits)
  qed (use Inr in \<open>simp add: actionHandler_def processAction_def\<close>)
qed (simp add: actionHandler_def)

section \<open>What the extension's memory holds\<close>

definition wf_extension :: "Extension \<Rightarrow> bool" where
  "wf_extension e \<longleftrightarrow>
     distinct (map fst (bids e)) \<and> distinct (map fst (closed e)) \<and>
     (\<forall>(k, shut) \<in> set (closed e). shut) \<and>
     (\<forall>(k, bs) \<in> set (bids e). bs \<noteq> [] \<and> (\<forall>b \<in> set bs. \<exists>x > 0. Amount b = Some x)) \<and>
     seq e = of_nat (sum_list (map (\<lambda>(_, bs). length bs) (bids e)))"

lemma wf_New: "wf_extension New"
  by (simp add: wf_extension_def New_def)

lemma set_update_subset: "set (AList.update k v xs) \<subseteq> insert (k, v) (set xs)"
  by (induction xs) auto

lemma ball_update: "\<forall>x \<in> insert (k, v) (set xs). P x \<Longrightarrow> \<forall>x \<in> set (AList.update k v xs). P x"
  using set_update_subset by (metis subset_iff)

lemma sum_lengths_update:
  assumes "distinct (map fst xs)"
  shows "sum_list (map (\<lambda>(_, bs). length bs) (AList.update k v xs)) +
      length (case map_of xs k of None \<Rightarrow> [] | Some bs \<Rightarrow> bs) =
      length v + sum_list (map (\<lambda>(_, bs). length bs) xs)"
  using assms
proof (induction xs)
  case (Cons x xs)
  obtain k' bs where x: "x = (k', bs)" by (cases x)
  then show ?case
  proof (cases "k = k'")
    case True
    then have "map_of xs k = None" using Cons.prems x by (simp add: map_of_eq_None_iff)
    then show ?thesis using x True by simp
  next
    case False
    let ?S = "\<lambda>xs. sum_list (map (\<lambda>(_, bs). length bs) xs)"
    have "?S (AList.update k v (x # xs)) = length bs + ?S (AList.update k v xs)"
      using x False by simp
    moreover have m: "map_of (x # xs) k = map_of xs k" using x False by simp
    moreover have "?S (x # xs) = length bs + ?S xs" using x by simp
    moreover have "?S (AList.update k v xs) +
        length (case map_of xs k of None \<Rightarrow> [] | Some bs \<Rightarrow> bs) = length v + ?S xs"
      using Cons by simp
    ultimately show ?thesis unfolding m by linarith
  qed
qed simp

lemma wf_placeBid_store:
  assumes wf: "wf_extension e" and amount: "bp_AmountWei p = Some x" "0 < x"
  shows "wf_extension (placeBid_store e k df p)"
proof -
  let ?v = "bids_of e k @ [new_bid (seq e + 1) df p]"
  have old: "\<forall>b \<in> set (bids_of e k). \<exists>x > 0. Amount b = Some x"
    using wf by (cases "map_of (bids e) k") (auto simp: wf_extension_def bids_of_def dest!: map_of_SomeD)
  have "\<forall>(k, bs) \<in> insert (k, ?v) (set (bids e)).
      bs \<noteq> [] \<and> (\<forall>b \<in> set bs. \<exists>x > 0. Amount b = Some x)"
    using wf old amount by (auto simp: wf_extension_def new_bid_def)
  then have "\<forall>(k, bs) \<in> set (AList.update k ?v (bids e)).
      bs \<noteq> [] \<and> (\<forall>b \<in> set bs. \<exists>x > 0. Amount b = Some x)"
    by (rule ball_update)
  moreover have "sum_list (map (\<lambda>(_, bs). length bs) (AList.update k ?v (bids e))) =
      Suc (sum_list (map (\<lambda>(_, bs). length bs) (bids e)))"
    using wf sum_lengths_update [of "bids e" k ?v]
    by (simp add: wf_extension_def bids_of_def [symmetric])
  ultimately show ?thesis
    using wf by (simp add: wf_extension_def placeBid_store_def Let_def distinct_update)
qed

lemma wf_mark_closed: "wf_extension e \<Longrightarrow> wf_extension (mark_closed e k)"
  using set_update_subset [of k True "closed e"]
  by (auto simp: wf_extension_def mark_closed_def distinct_update)

lemma wf_processAction: "wf_extension e \<Longrightarrow> wf_extension (snd (processAction L decrypt e a))"
proof (cases "parse_data_fixed L (act_Message a)")
  case (Inr df)
  assume wf: "wf_extension e"
  have "wf_extension (snd (processPlaceBid L decrypt e a df))"
    by (cases rule: processPlaceBid_cases [of L decrypt e a df])
      (use wf in \<open>auto intro: wf_placeBid_store\<close>)
  moreover have "wf_extension (snd (processCloseAuction L e a df))"
    by (cases rule: processCloseAuction_cases [of L e a df])
      (use wf in \<open>auto intro: wf_mark_closed\<close>)
  ultimately show ?thesis using Inr wf
    by (simp add: processAction_def processAuction_def Let_def split_def)
qed (simp add: processAction_def)

lemma wf_serve: "wf_extension e \<Longrightarrow> wf_extension (serve L e history)"
  by (induction history arbitrary: e) (auto simp: wf_processAction)

lemma is_closed_keys: "wf_extension e \<Longrightarrow> {k. is_closed e k} = set (map fst (closed e))"
  by (force simp: wf_extension_def is_closed_def image_iff)

lemma bids_of_keys: "wf_extension e \<Longrightarrow> {k. bids_of e k \<noteq> []} = set (map fst (bids e))"
proof (rule set_eqI)
  fix k
  assume wf: "wf_extension e"
  show "k \<in> {k. bids_of e k \<noteq> []} \<longleftrightarrow> k \<in> set (map fst (bids e))"
  proof (cases "map_of (bids e) k")
    case None
    then have "k \<notin> set (map fst (bids e))" by (simp add: map_of_eq_None_iff)
    with None show ?thesis by (simp add: bids_of_def)
  next
    case (Some bs)
    then have m: "(k, bs) \<in> set (bids e)" by (rule map_of_SomeD)
    with wf have "bs \<noteq> []" by (auto simp: wf_extension_def)
    moreover have "k \<in> set (map fst (bids e))" using m by force
    ultimately show ?thesis using Some by (simp add: bids_of_def)
  qed
qed

text \<open>
  The state endpoint reports only counters, and they are exact: after any instructions,
  the number of auctions that hold a bid, the number of closed auctions, and the total number
  of stored bids, which is also the arrival counter modulo \<open>2 ^ 64\<close>.
\<close>

theorem state_counters:
  "let e = serve L New history; r = resp_State (stateHandler L e) in
     AuctionsTracked r = card {k. bids_of e k \<noteq> []}
     \<and> AuctionsClosed r = card {k. is_closed e k}
     \<and> BidsStored r = (\<Sum>k | bids_of e k \<noteq> []. length (bids_of e k))
     \<and> seq e = of_nat (BidsStored r)"
proof -
  let ?e = "serve L New history"
  have wf: "wf_extension ?e" using wf_serve wf_New by blast
  then have d: "distinct (map fst (bids ?e))" "distinct (map fst (closed ?e))"
    by (auto simp: wf_extension_def)
  have "(\<Sum>k | bids_of ?e k \<noteq> []. length (bids_of ?e k)) =
      (\<Sum>k \<in> set (map fst (bids ?e)). length (bids_of ?e k))"
    using bids_of_keys [OF wf] by simp
  also have "\<dots> = sum_list (map (\<lambda>k. length (bids_of ?e k)) (map fst (bids ?e)))"
    using d(1) by (rule sum_list_distinct_conv_sum_set [symmetric])
  also have "\<dots> = sum_list (map (\<lambda>(_, bs). length bs) (bids ?e))"
    unfolding map_map by (rule arg_cong [where f = sum_list], rule map_cong [OF refl])
      (use d(1) in \<open>auto simp: bids_of_def\<close>)
  finally show ?thesis
    using wf bids_of_keys [OF wf] is_closed_keys [OF wf] d distinct_card [OF d(1)]
      distinct_card [OF d(2)]
    by (simp add: Let_def stateHandler_def wf_extension_def)
qed

end
