(* ===== verification/Sealed_Book.thy ===== *)
theory Sealed_Book
  imports Handlers
begin

text \<open>
  What a sealed auction promises, without the extension's data structures: one log of
  authentic bids in arrival order, the set of closed auctions, and an outcome computed by a
  stable sort of the log by price and instruction time. The extension keeps a map of lists
  with a 64-bit arrival counter instead; the theorems here show that it refines this
  specification for every sequence of instructions.
\<close>

section \<open>The specification\<close>

record entry =
  en_auction :: int
  en_bidder :: address
  en_contract :: address
  en_amount :: int
  en_time :: u64

record book =
  bk_log :: "entry list"
  bk_shut :: "int list"

definition empty_book :: book where
  "empty_book = \<lparr>bk_log = [], bk_shut = []\<rparr>"

definition book_bid :: "book \<Rightarrow> entry \<Rightarrow> book" where
  "book_bid b x = (if en_auction x \<in> set (bk_shut b) then b else b\<lparr>bk_log := bk_log b @ [x]\<rparr>)"

definition book_close :: "book \<Rightarrow> int \<Rightarrow> book" where
  "book_close b aid = b\<lparr>bk_shut := aid # bk_shut b\<rparr>"

definition price_time :: "entry \<Rightarrow> int \<times> u64" where
  "price_time x = (- en_amount x, en_time x)"

text \<open>The entries of the log that compete for an auction.\<close>

definition competes :: "int \<Rightarrow> address \<Rightarrow> int \<Rightarrow> entry \<Rightarrow> bool" where
  "competes aid contract reserve x \<longleftrightarrow> en_auction x = aid \<and> en_contract x = contract \<and>
     0 < en_amount x \<and> reserve \<le> en_amount x"

definition book_outcome :: "book \<Rightarrow> int \<Rightarrow> address \<Rightarrow> int \<Rightarrow> address \<times> int \<times> bool" where
  "book_outcome b aid contract reserve =
     (case sort_key price_time (filter (competes aid contract reserve) (bk_log b)) of
        [] \<Rightarrow> (zero_address, 0, False)
      | x # _ \<Rightarrow> (en_bidder x, en_amount x, True))"

text \<open>
  What an instruction means to the specification. A bid is authentic when the wrapper built
  on chain decodes, its ciphertext decrypts, and the payload agrees with the wrapper.
\<close>

definition authentic_bid :: "lib \<Rightarrow> (bytes \<Rightarrow> bytes result) \<Rightarrow> DataFixed \<Rightarrow> entry option" where
  "authentic_bid L decrypt df =
     (case decode_place_bid L PlaceBidMessageArg (df_OriginalMessage df) of
        Inl _ \<Rightarrow> None
      | Inr w \<Rightarrow>
          (case decrypt (pbm_Ciphertext w) of
             Inl _ \<Rightarrow> None
           | Inr plain \<Rightarrow>
               (case decode_bid_payload L BidPayloadArg plain of
                  Inl _ \<Rightarrow> None
                | Inr p \<Rightarrow>
                    (case (pbm_AuctionId w, bp_AmountWei p) of
                       (Some aid, Some amount) \<Rightarrow>
                         if df_OriginalMessage df \<noteq> [] \<and> pbm_Ciphertext w \<noteq> []
                            \<and> bp_Bidder p = pbm_Bidder w \<and> bp_AuctionId p = Some aid \<and> 0 < amount
                         then Some \<lparr>en_auction = aid, en_bidder = pbm_Bidder w,
                                en_contract = bp_ContractAddr p, en_amount = amount,
                                en_time = df_Timestamp df\<rparr>
                         else None
                     | _ \<Rightarrow> None))))"

definition close_request :: "lib \<Rightarrow> DataFixed \<Rightarrow> int option" where
  "close_request L df =
     (if df_OriginalMessage df = [] then None
      else case decode_close L CloseMessageArg (df_OriginalMessage df) of
        Inl _ \<Rightarrow> None
      | Inr req \<Rightarrow> cm_AuctionId req)"

definition book_step :: "lib \<Rightarrow> (bytes \<Rightarrow> bytes result) \<Rightarrow> book \<Rightarrow> Action \<Rightarrow> book" where
  "book_step L decrypt b a =
     (case parse_data_fixed L (act_Message a) of
        Inl _ \<Rightarrow> b
      | Inr df \<Rightarrow>
          if df_OPType df \<noteq> to_hash L OPTypeAuction then b
          else if df_OPCommand df = to_hash L OPCommandPlaceBid then
            (case authentic_bid L decrypt df of None \<Rightarrow> b | Some x \<Rightarrow> book_bid b x)
          else if df_OPCommand df = to_hash L OPCommandCloseAuction then
            (case close_request L df of None \<Rightarrow> b | Some aid \<Rightarrow> book_close b aid)
          else b)"

fun book_run :: "lib \<Rightarrow> book \<Rightarrow> ((bytes \<Rightarrow> bytes result) \<times> Action) list \<Rightarrow> book" where
  "book_run L b [] = b"
| "book_run L b ((decrypt, a) # as) = book_run L (book_step L decrypt b a) as"

section \<open>The extension's state simulates the book\<close>

definition bid_of :: "nat \<times> entry \<Rightarrow> Bid" where
  "bid_of = (\<lambda>(i, x). \<lparr>Bidder = en_bidder x, ContractAddr = en_contract x,
     Amount = Some (en_amount x), Timestamp = en_time x, Seq = of_nat i\<rparr>)"

definition stored_of :: "entry list \<Rightarrow> int \<Rightarrow> Bid list" where
  "stored_of xs aid = map bid_of (filter (\<lambda>(i, x). en_auction x = aid) (List.enumerate 1 xs))"

definition sim :: "Extension \<Rightarrow> book \<Rightarrow> bool" where
  "sim e b \<longleftrightarrow>
     (\<forall>aid. is_closed e (show_int aid) \<longleftrightarrow> aid \<in> set (bk_shut b)) \<and>
     (\<forall>aid. bids_of e (show_int aid) = stored_of (bk_log b) aid) \<and>
     seq e = of_nat (length (bk_log b))"

lemma sim_New: "sim New empty_book"
  by (simp add: sim_def empty_book_def New_def is_closed_def bids_of_def stored_of_def)

lemma stored_of_snoc:
  "stored_of (xs @ [x]) aid =
     stored_of xs aid @ (if en_auction x = aid then [bid_of (Suc (length xs), x)] else [])"
  by (simp add: stored_of_def enumerate_append_eq)

lemma sim_close: "sim e b \<Longrightarrow> sim (mark_closed e (show_int aid)) (book_close b aid)"
  by (auto simp: sim_def book_close_def store.store_laws)

lemma authentic_cases:
  assumes "authentic_bid L decrypt df = Some x"
  obtains w p plain where
    "decode_place_bid L PlaceBidMessageArg (df_OriginalMessage df) = Inr w"
    "pbm_AuctionId w = Some (en_auction x)" "decrypt (pbm_Ciphertext w) = Inr plain"
    "decode_bid_payload L BidPayloadArg plain = Inr p" "df_OriginalMessage df \<noteq> []"
    "pbm_Ciphertext w \<noteq> []" "bp_Bidder p = pbm_Bidder w" "bp_AuctionId p = Some (en_auction x)"
    "bp_AmountWei p = Some (en_amount x)" "0 < en_amount x"
    "\<And>i. new_bid (of_nat i) df p = bid_of (i, x)"
  using assms that
  by (auto simp: authentic_bid_def new_bid_def bid_of_def split: sum.splits option.splits if_splits)

lemma not_authentic: "authentic_bid L decrypt df = None \<Longrightarrow> snd (processPlaceBid L decrypt e a df) = e"
  by (cases rule: processPlaceBid_cases [of L decrypt e a df]) (auto simp: authentic_bid_def)

lemma sim_store:
  assumes sim: "sim e b" and new: "\<And>i. new_bid (of_nat i) df p = bid_of (i, x)"
    and notin: "en_auction x \<notin> set (bk_shut b)"
  shows "sim (placeBid_store e (show_int (en_auction x)) df p) (book_bid b x)"
  using sim notin new [of "Suc (length (bk_log b))"]
  by (auto simp: sim_def book_bid_def stored_of_snoc store.store_laws add.commute [of _ "1 :: u64"])

lemma sim_placeBid:
  assumes sim: "sim e b"
  shows "sim (snd (processPlaceBid L decrypt e a df))
     (case authentic_bid L decrypt df of None \<Rightarrow> b | Some x \<Rightarrow> book_bid b x)"
proof (cases "authentic_bid L decrypt df")
  case None
  with sim show ?thesis by (simp add: not_authentic)
next
  case (Some x)
  from Some obtain w p plain where d:
    "decode_place_bid L PlaceBidMessageArg (df_OriginalMessage df) = Inr w"
    "pbm_AuctionId w = Some (en_auction x)" "decrypt (pbm_Ciphertext w) = Inr plain"
    "decode_bid_payload L BidPayloadArg plain = Inr p" "df_OriginalMessage df \<noteq> []"
    "pbm_Ciphertext w \<noteq> []" "bp_Bidder p = pbm_Bidder w" "bp_AuctionId p = Some (en_auction x)"
    "bp_AmountWei p = Some (en_amount x)" "0 < en_amount x"
    and new: "\<And>i. new_bid (of_nat i) df p = bid_of (i, x)"
    by (rule authentic_cases) blast
  show ?thesis
  proof (cases "is_closed e (show_int (en_auction x))")
    case True
    with sim Some d show ?thesis
      by (simp add: processPlaceBid_def placeBid_precheck_def sim_def book_bid_def)
  next
    case False
    then have "snd (processPlaceBid L decrypt e a df) =
        placeBid_store e (show_int (en_auction x)) df p"
      using d by (simp add: processPlaceBid_def placeBid_precheck_def placeBid_open_def)
    moreover have "en_auction x \<notin> set (bk_shut b)" using False sim by (simp add: sim_def)
    ultimately show ?thesis using Some sim_store [OF sim new] by simp
  qed
qed

lemma sim_closeAuction:
  assumes sim: "sim e b"
  shows "sim (snd (processCloseAuction L e a df))
     (case close_request L df of None \<Rightarrow> b | Some aid \<Rightarrow> book_close b aid)"
  using sim sim_close [OF sim]
  by (auto simp: processCloseAuction_def close_request_def split: sum.splits option.splits)

lemma sim_step: "sim e b \<Longrightarrow> sim (snd (processAction L decrypt e a)) (book_step L decrypt b a)"
  using sim_placeBid [of e b L decrypt a] sim_closeAuction [of e b L a]
  by (auto simp: processAction_def processAuction_def book_step_def Let_def split_def
      split: sum.splits)

lemma sim_run: "sim e b \<Longrightarrow> sim (serve L e history) (book_run L b history)"
  by (induction history arbitrary: e b) (auto simp: sim_step)

section \<open>The winner of the simulated state is the book's\<close>

text \<open>
  A stable sort only compares an element with later ones, so on a list whose arrival numbers
  increase the arrival number in the key changes nothing.
\<close>

lemma insort_key_cong:
  "(\<forall>y \<in> set ys. f x \<le> f y \<longleftrightarrow> g x \<le> g y) \<Longrightarrow> insort_key f x ys = insort_key g x ys"
  by (induction ys) auto

lemma sort_key_later:
  "sorted_wrt R xs \<Longrightarrow> (\<And>x y. R x y \<Longrightarrow> f x \<le> f y \<longleftrightarrow> g x \<le> g y) \<Longrightarrow>
     sort_key f xs = sort_key g xs"
proof (induction xs)
  case (Cons x xs)
  then show ?case by (simp add: insort_key_cong [of "sort_key g xs" f x g])
qed simp

lemma insort_key_map: "insort_key f (h x) (map h ys) = map h (insort_key (\<lambda>a. f (h a)) x ys)"
  by (induction ys) auto

lemma sort_key_map_comp: "sort_key f (map h xs) = map h (sort_key (\<lambda>a. f (h a)) xs)"
  by (induction xs) (simp_all add: insort_key_map)

lemma enumerate_strict:
  "sorted_wrt (\<lambda>p q. fst p < fst q \<and> fst q < n + length xs) (List.enumerate n xs)"
proof (induction xs arbitrary: n)
  case (Cons x xs)
  have "\<forall>q \<in> set (List.enumerate (Suc n) xs). n < fst q \<and> fst q < n + length (x # xs)"
    by (auto simp: in_set_enumerate_eq)
  moreover have "sorted_wrt (\<lambda>p q. fst p < fst q \<and> fst q < n + length (x # xs))
      (List.enumerate (Suc n) xs)"
    using Cons [of "Suc n"] by simp
  ultimately show ?case by simp
qed simp

lemma rank_later:
  "fst p < fst q \<Longrightarrow> fst q < 2 ^ 64 \<Longrightarrow>
     rank (bid_of p) \<le> rank (bid_of q) \<longleftrightarrow> price_time (snd p) \<le> price_time (snd q)"
  by (cases p; cases q) (auto simp: rank_def bid_of_def price_time_def of_nat_inverse
      word_less_nat_alt word_le_nat_alt unat_of_nat take_bit_nat_eq_self)

lemma map_snd_enumerate_filter:
  "map snd (filter (\<lambda>p. P (snd p)) (List.enumerate n xs)) = filter P xs"
  by (induction xs arbitrary: n) auto

lemma qualifying_stored:
  "filter (qualifies contract reserve) (stored_of xs aid) =
     map bid_of (filter (\<lambda>p. competes aid contract reserve (snd p)) (List.enumerate 1 xs))"
proof -
  have "filter (qualifies contract reserve) (stored_of xs aid) = map bid_of
      (filter (\<lambda>p. en_auction (snd p) = aid \<and> qualifies contract reserve (bid_of p))
        (List.enumerate 1 xs))"
    by (simp add: stored_of_def filter_map comp_def split_def conj_commute)
  also have "(\<lambda>p. en_auction (snd p) = aid \<and> qualifies contract reserve (bid_of p)) =
      (\<lambda>p. competes aid contract reserve (snd p))"
    by (auto simp: competes_def qualifies_def bid_of_def fun_eq_iff split_def)
  finally show ?thesis .
qed

lemma stored_outcome:
  assumes "length (bk_log b) < 2 ^ 64 - 1"
  shows "pickWinner (stored_of (bk_log b) aid) contract reserve =
    Some (book_outcome b aid contract (reserve_or_zero reserve))"
proof -
  let ?xs = "bk_log b"
  let ?r = "reserve_or_zero reserve"
  let ?P = "competes aid contract ?r"
  let ?ys = "filter (\<lambda>p. ?P (snd p)) (List.enumerate 1 ?xs)"
  have "sorted_wrt (\<lambda>p q. fst p < fst q \<and> fst q < 1 + length ?xs) ?ys"
    by (intro sorted_wrt_filter enumerate_strict)
  then have "sort_key (\<lambda>p. rank (bid_of p)) ?ys = sort_key (\<lambda>p. price_time (snd p)) ?ys"
    by (rule sort_key_later) (use assms in \<open>auto intro!: rank_later\<close>)
  then have "sort_key rank (filter (qualifies contract ?r) (stored_of ?xs aid)) =
      map bid_of (sort_key (\<lambda>p. price_time (snd p)) ?ys)"
    by (simp add: qualifying_stored sort_key_map_comp)
  moreover have "sort_key price_time (filter ?P ?xs) =
      map snd (sort_key (\<lambda>p. price_time (snd p)) ?ys)"
    by (simp add: sort_key_map_comp [of price_time snd, symmetric] map_snd_enumerate_filter)
  ultimately show ?thesis unfolding pickWinner_sorted book_outcome_def
    by (cases "sort_key (\<lambda>p. price_time (snd p)) ?ys")
      (auto simp: pickWinner_sorted book_outcome_def outcome_of_def bid_of_def split_def)
qed

lemma book_step_log: "length (bk_log (book_step L decrypt b a)) \<le> Suc (length (bk_log b))"
  by (auto simp: book_step_def book_bid_def book_close_def split: sum.splits option.splits)

lemma book_run_log: "length (bk_log (book_run L b history)) \<le> length (bk_log b) + length history"
proof (induction history arbitrary: b)
  case (Cons x history)
  obtain decrypt a where x: "x = (decrypt, a)" by (cases x)
  have "length (bk_log (book_run L b (x # history)))
      \<le> length (bk_log (book_step L decrypt b a)) + length history"
    using Cons [of "book_step L decrypt b a"] x by simp
  then show ?case using book_step_log [of L decrypt b a] by simp
qed simp

lemma served_winner:
  assumes "length history < 2 ^ 64 - 1"
  shows "pickWinner (bids_of (serve L New history) (show_int aid)) contract reserve =
    Some (book_outcome (book_run L empty_book history) aid contract (reserve_or_zero reserve))"
proof -
  let ?b = "book_run L empty_book history"
  have "length (bk_log ?b) < 2 ^ 64 - 1"
    using book_run_log [of L empty_book history] assms by (simp add: empty_book_def)
  moreover have "bids_of (serve L New history) (show_int aid) = stored_of (bk_log ?b) aid"
    using sim_run [OF sim_New] by (simp add: sim_def)
  ultimately show ?thesis using stored_outcome [of ?b aid contract reserve] by simp
qed

text \<open>
  C2. Refinement: after any sequence of instructions the extension's state represents the
  specification's book of authentic bids and closed auctions.
\<close>

theorem extension_refines_book:
  "sim (serve L New history) (book_run L empty_book history)"
  by (intro sim_run sim_New)

text \<open>
  C1. The winner the extension computes for an auction is the specification's: the first
  entry, in a stable sort of the whole log of authentic bids by price and instruction time,
  among this auction's bids for the contract at or above the reserve. The bound is the width
  of the arrival counter.
\<close>

theorem extension_winner_is_book_winner:
  assumes "length history < 2 ^ 64 - 1"
  shows "pickWinner (bids_of (serve L New history) (show_int aid)) contract reserve =
    Some (book_outcome (book_run L empty_book history) aid contract (reserve_or_zero reserve))"
  using assms by (rule served_winner)

lemma extension_winner_is_book_winner_witness:
  "pickWinner (bids_of (serve demo_lib New [(Inr, demo_action ''B1'')]) (show_int 9)) 99 None =
     Some (book_outcome (book_run demo_lib empty_book [(Inr, demo_action ''B1'')]) 9 99 0)"
  using extension_winner_is_book_winner [of "[(Inr, demo_action ''B1'')]" demo_lib 9 99 None]
  by (simp add: reserve_or_zero_def)

end
