(* ===== verification/Interleaving.thy ===== *)
theory Interleaving
  imports Handlers
begin

text \<open>
  Concurrent handlers. The Go server runs each request on its own goroutine, and
  \<^verbatim>\<open>processPlaceBid\<close> holds its lock only for the closed check and for the append, so other
  handlers run in between. A thread's phase records how far a bid has come; the steps run
  exactly the parts \<^term>\<open>placeBid_precheck\<close>, \<^term>\<open>placeBid_open\<close> (with any answer of the
  decryption service) and \<^term>\<open>placeBid_store\<close>. Closing marks the auction and copies its bids
  under one lock, and works on the copy afterwards, so it is one step.
\<close>

section \<open>Threads and steps\<close>

datatype phase =
    Idle
  | Checked Action DataFixed PlaceBidMessage int
  | Opened Action DataFixed int BidPayload
  | Done ActionResult

record system =
  ext :: Extension
  thread :: "nat \<Rightarrow> phase"

definition initial :: system where
  "initial = \<lparr>ext = New, thread = (\<lambda>_. Idle)\<rparr>"

definition move :: "system \<Rightarrow> nat \<Rightarrow> phase \<Rightarrow> system" where
  "move s t ph = s\<lparr>thread := (thread s)(t := ph)\<rparr>"

inductive step :: "lib \<Rightarrow> system \<Rightarrow> system \<Rightarrow> bool" for L where
  refused: "thread s t = Idle \<Longrightarrow> placeBid_precheck L (ext s) a df = Inl ar \<Longrightarrow>
    step L s (move s t (Done ar))"
| checked: "thread s t = Idle \<Longrightarrow> placeBid_precheck L (ext s) a df = Inr (w, aid) \<Longrightarrow>
    step L s (move s t (Checked a df w aid))"
| not_opened: "thread s t = Checked a df w aid \<Longrightarrow> placeBid_open L answer a df w aid = Inl ar \<Longrightarrow>
    step L s (move s t (Done ar))"
| opened: "thread s t = Checked a df w aid \<Longrightarrow> placeBid_open L answer a df w aid = Inr p \<Longrightarrow>
    step L s (move s t (Opened a df aid p))"
| stored: "thread s t = Opened a df aid p \<Longrightarrow>
    step L s (move s t (Done (accepted a df)) \<lparr>ext := placeBid_store (ext s) (show_int aid) df p\<rparr>)"
| closing: "thread s t = Idle \<Longrightarrow> processCloseAuction L (ext s) a df = (Some ar, e') \<Longrightarrow>
    step L s (move s t (Done ar) \<lparr>ext := e'\<rparr>)"

inductive_cases step_cases: "step L s s'"

inductive steps :: "lib \<Rightarrow> system \<Rightarrow> system \<Rightarrow> bool" for L where
  none: "steps L s s"
| more: "steps L s s' \<Longrightarrow> step L s' s'' \<Longrightarrow> steps L s s''"

lemma move_simps [simp]:
  "ext (move s t ph) = ext s" "thread (move s t ph) = (thread s)(t := ph)"
  by (simp_all add: move_def)

lemma steps_trans: "steps L s' s'' \<Longrightarrow> steps L s s' \<Longrightarrow> steps L s s''"
  by (induction rule: steps.induct) (auto intro: steps.more)

lemma steps_one: "step L s s' \<Longrightarrow> steps L s s'"
  by (blast intro: steps.intros)

text \<open>A handler that is not interrupted is a run of these steps.\<close>

lemma uninterrupted_place_bid:
  assumes "thread s t = Idle"
  shows "\<exists>s'. steps L s s' \<and> ext s' = snd (processPlaceBid L decrypt (ext s) a df)
    \<and> thread s' t = Done (fst (processPlaceBid L decrypt (ext s) a df))"
proof (cases rule: precheck_cases [of L "ext s" a df])
  case (rejected m)
  then have "steps L s (move s t (Done (failed a df m)))"
    using assms by (intro steps_one step.refused)
  with rejected show ?thesis
    by (intro exI [of _ "move s t (Done (failed a df m))"]) (auto simp: processPlaceBid_def)
next
  case (passed w aid)
  let ?c = "move s t (Checked a df w aid)"
  let ?ans = "decrypt (pbm_Ciphertext w)"
  have c: "steps L s ?c" using assms passed by (intro steps_one step.checked)
  show ?thesis
  proof (cases rule: open_cases [of L ?ans a df w aid])
    case (rejected m)
    then have "step L ?c (move ?c t (Done (failed a df m)))"
      by (intro step.not_opened [where answer = ?ans]) simp_all
    with c have "steps L s (move ?c t (Done (failed a df m)))" by (rule steps.more)
    then show ?thesis using passed rejected
      by (intro exI [of _ "move ?c t (Done (failed a df m))"]) (auto simp: processPlaceBid_def)
  next
    case o: (passed plain p x)
    let ?o = "move ?c t (Opened a df aid p)"
    have "step L ?c ?o" using o by (intro step.opened [where answer = ?ans]) simp_all
    with c have so: "steps L s ?o" by (rule steps.more)
    let ?d = "move ?o t (Done (accepted a df))
        \<lparr>ext := placeBid_store (ext ?o) (show_int aid) df p\<rparr>"
    have "step L ?o ?d" by (rule step.stored) simp
    with so have "steps L s ?d" by (rule steps.more)
    then show ?thesis using passed o by (intro exI [of _ ?d]) (auto simp: processPlaceBid_def)
  qed
qed

section \<open>Invariants of every interleaving\<close>

definition stored_total :: "Extension \<Rightarrow> nat" where
  "stored_total e = sum_list (map (\<lambda>(_, bs). length bs) (bids e))"

text \<open>
  The memory is well formed, its arrival numbers are ordered until the counter wraps, and a
  bid in flight has passed the checks it has passed.
\<close>

definition sound :: "system \<Rightarrow> bool" where
  "sound s \<longleftrightarrow> wf_extension (ext s)
     \<and> (stored_total (ext s) < 2 ^ 64 \<longrightarrow> arrival_ordered (bids_of (ext s)) (stored_total (ext s)))
     \<and> (\<forall>t a df aid p. thread s t = Opened a df aid p \<longrightarrow>
          bp_AuctionId p = Some aid \<and> (\<exists>x > 0. bp_AmountWei p = Some x))"

lemma sound_initial: "sound initial"
  by (simp add: sound_def initial_def wf_New stored_total_def arrival_ordered_New)
    (simp add: New_def arrival_ordered_def bids_of_def)

lemma stored_total_put:
  assumes "wf_extension e"
  shows "stored_total (placeBid_store e k df p) = Suc (stored_total e)"
  using assms sum_lengths_update [of "bids e" k "bids_of e k @ [new_bid (seq e + 1) df p]"]
  by (simp add: stored_total_def placeBid_store_def Let_def wf_extension_def
      bids_of_def [symmetric])

lemma stored_total_mark [simp]: "stored_total (mark_closed e k) = stored_total e"
  by (simp add: stored_total_def mark_closed_def)

lemma sound_put:
  assumes "sound s" and "thread s t = Opened a df aid p"
  shows "sound (move s t (Done ar) \<lparr>ext := placeBid_store (ext s) k df p\<rparr>)"
proof -
  obtain x where x: "bp_AmountWei p = Some x" "0 < x"
    using assms unfolding sound_def by metis
  have wf: "wf_extension (ext s)" using assms by (simp add: sound_def)
  have "seq (ext s) = of_nat (stored_total (ext s))"
    using wf by (simp add: wf_extension_def stored_total_def)
  then have "arrival_ordered (bids_of (placeBid_store (ext s) k df p)) (Suc (stored_total (ext s)))"
    if "Suc (stored_total (ext s)) < 2 ^ 64"
    using that assms(1) by (intro store.arrival_ordered_put) (auto simp: sound_def)
  then show ?thesis
    using assms(1) wf wf_placeBid_store [OF wf x] by (simp add: sound_def stored_total_put)
qed

lemma sound_close:
  assumes "sound s" and "processCloseAuction L (ext s) a df = (Some ar, e')"
  shows "sound (move s t (Done ar) \<lparr>ext := e'\<rparr>)"
proof (cases rule: processCloseAuction_cases [of L "ext s" a df])
  case (rejected m)
  with assms show ?thesis by (auto simp: sound_def)
next
  case (closed req aid)
  have "bids_of (mark_closed (ext s) k) = bids_of (ext s)" for k
    by (rule ext) (simp add: store.store_laws)
  with assms closed show ?thesis by (auto simp: sound_def wf_mark_closed)
qed

lemma sound_step: "step L s s' \<Longrightarrow> sound s \<Longrightarrow> sound s'"
proof (induction rule: step.induct)
  case (opened s t a df w aid answer p)
  then show ?case
    by (cases rule: open_cases [of L answer a df w aid]) (auto simp: sound_def)
qed (auto intro: sound_put sound_close, auto simp: sound_def)

lemma sound_steps: "steps L s s' \<Longrightarrow> sound s \<Longrightarrow> sound s'"
  by (induction rule: steps.induct) (auto intro: sound_step)

text \<open>
  C19. In every state any interleaving of handlers reaches, the stored bids are positive, the
  counters are exact, and, as long as fewer than \<open>2 ^ 64\<close> bids are stored, arrival numbers
  are distinct and increase along each auction's list.
\<close>

theorem interleaving_sound:
  assumes "steps L initial s" and "stored_total (ext s) < 2 ^ 64"
  shows "wf_extension (ext s) \<and> arrival_ordered (bids_of (ext s)) (stored_total (ext s))"
  using sound_steps [OF assms(1) sound_initial] assms(2) by (simp add: sound_def)

section \<open>Closing under concurrency\<close>

definition in_flight :: "phase \<Rightarrow> string \<Rightarrow> bool" where
  "in_flight ph k = (case ph of
       Checked _ _ _ aid \<Rightarrow> show_int aid = k
     | Opened _ _ aid _ \<Rightarrow> show_int aid = k
     | _ \<Rightarrow> False)"

definition settled :: "system \<Rightarrow> string \<Rightarrow> bool" where
  "settled s k \<longleftrightarrow> is_closed (ext s) k \<and> (\<forall>t. \<not> in_flight (thread s t) k)"

lemma settled_step:
  "step L s s' \<Longrightarrow> settled s k \<Longrightarrow> settled s' k \<and> bids_of (ext s') k = bids_of (ext s) k"
proof (induction rule: step.induct)
  case (checked s t a df w aid)
  then show ?case
    by (cases rule: precheck_cases [of L "ext s" a df]) (auto simp: settled_def in_flight_def)
next
  case (opened s t a df w aid answer p)
  then have "\<not> in_flight (Checked a df w aid) k" by (metis settled_def)
  with opened show ?case by (auto simp: settled_def in_flight_def)
next
  case (stored s t a df aid p)
  then have "\<not> in_flight (Opened a df aid p) k" by (metis settled_def)
  with stored show ?case by (auto simp: settled_def in_flight_def store.store_laws)
next
  case (closing s t a df ar e')
  then show ?case
    by (cases rule: processCloseAuction_cases [of L "ext s" a df])
      (auto simp: settled_def in_flight_def store.store_laws)
qed (auto simp: settled_def in_flight_def)

lemma settled_steps:
  "steps L s s' \<Longrightarrow> settled s k \<Longrightarrow> settled s' k \<and> bids_of (ext s') k = bids_of (ext s) k"
  by (induction rule: steps.induct) (auto dest: settled_step)

text \<open>
  C30. Once an auction is closed and no handler holds a bid on it that already passed the
  closed check, its result is final under every interleaving: a repeated CLOSE_AUCTION gives
  the same answer and changes nothing.
\<close>

theorem close_final_when_settled:
  assumes "settled s (show_int aid)" and "steps L s s'"
    and "decode_close L CloseMessageArg (df_OriginalMessage df) = Inr req"
    and "cm_AuctionId req = Some aid"
  shows "processCloseAuction L (ext s') a df = (fst (processCloseAuction L (ext s) a df), ext s')"
proof -
  have "settled s' (show_int aid)" "bids_of (ext s') (show_int aid) = bids_of (ext s) (show_int aid)"
    using settled_steps assms(1,2) by auto
  then show ?thesis using assms(3,4)
    by (simp add: processCloseAuction_def settled_def mark_closed_again)
qed

text \<open>
  C15. Without that condition it is not: the closed check and the append of one PLACE_BID are
  two critical sections, so an auction can be closed between them. For every bid the handler
  accepts first, and every CLOSE_AUCTION of its auction and contract whose reserve the bid meets, there is a run in which CLOSE_AUCTION finds no bid at all, the bid is then
  stored although the auction is closed, and the same CLOSE_AUCTION now reports the bid as
  the winner.
\<close>

theorem close_races_place_bid:
  assumes pre: "placeBid_precheck L New a df = Inr (w, aid)"
    and opn: "placeBid_open L answer a df w aid = Inr p"
    and req: "decode_close L CloseMessageArg (df_OriginalMessage cdf) = Inr req"
      "df_OriginalMessage cdf \<noteq> []" "cm_AuctionId req = Some aid"
      "cm_ContractAddr req = bp_ContractAddr p" "cm_ReservePrice req = Some r"
      "r \<le> the (bp_AmountWei p)"
  shows "\<exists>s s'. steps L initial s \<and> steps L s s'
     \<and> is_closed (ext s) (show_int aid)
     \<and> fst (processCloseAuction L (ext s) ca cdf) =
         close_result L ca cdf req aid []
     \<and> pickWinner [] (cm_ContractAddr req) (cm_ReservePrice req) = Some (zero_address, 0, False)
     \<and> fst (processCloseAuction L (ext s') ca cdf) =
         close_result L ca cdf req aid (bids_of (ext s') (show_int aid))
     \<and> pickWinner (bids_of (ext s') (show_int aid)) (cm_ContractAddr req) (cm_ReservePrice req) =
         Some (pbm_Bidder w, the (bp_AmountWei p), True)"
proof -
  let ?k = "show_int aid"
  obtain x where p: "bp_AmountWei p = Some x" "0 < x" "bp_Bidder p = pbm_Bidder w"
    using opn by (cases rule: open_cases [of L answer a df w aid]) auto
  obtain ar where ar: "close_result L ca cdf req aid [] = Some ar"
    using close_result_some by blast
  let ?s1 = "move initial 0 (Checked a df w aid)"
  let ?s2 = "move ?s1 1 (Done ar) \<lparr>ext := mark_closed New ?k\<rparr>"
  let ?s3 = "move ?s2 0 (Opened a df aid p)"
  let ?s4 = "move ?s3 0 (Done (accepted a df)) \<lparr>ext := placeBid_store (ext ?s3) ?k df p\<rparr>"
  have i: "ext initial = New" "thread initial = (\<lambda>_. Idle)" by (simp_all add: initial_def)
  have b: "bids_of New ?k = []" by (simp add: New_def bids_of_def)
  have "step L initial ?s1" using pre i by (intro step.checked) simp_all
  moreover have "step L ?s1 ?s2"
    using i b ar req by (intro step.closing [where a = ca and df = cdf]) (simp_all add: processCloseAuction_def)
  ultimately have r: "steps L initial ?s2" by (blast intro: steps.intros)
  have "step L ?s2 ?s3" using opn by (intro step.opened [where answer = answer]) simp_all
  moreover have "step L ?s3 ?s4" by (rule step.stored) simp
  ultimately have r': "steps L ?s2 ?s4" by (blast intro: steps.intros)
  have b4: "bids_of (ext ?s4) ?k = [new_bid 1 df p]"
    using b by (simp add: store.store_laws)
  have c: "is_closed (ext ?s2) ?k" by (simp add: is_closed_mark)
  have first: "fst (processCloseAuction L (ext ?s2) ca cdf) = close_result L ca cdf req aid []"
    using req b by (simp add: processCloseAuction_def store.store_laws)
  have again: "fst (processCloseAuction L (ext ?s4) ca cdf) =
      close_result L ca cdf req aid (bids_of (ext ?s4) ?k)"
    using req by (simp add: processCloseAuction_def)
  have nobody: "pickWinner [] (cm_ContractAddr req) (cm_ReservePrice req) =
      Some (zero_address, 0, False)" by (simp add: pickWinner_def)
  have wins: "pickWinner (bids_of (ext ?s4) ?k) (cm_ContractAddr req) (cm_ReservePrice req) =
      Some (pbm_Bidder w, the (bp_AmountWei p), True)"
    unfolding b4 using req(4-6) p by (simp add: pickWinner_def new_bid_def skipped_def)
  show ?thesis using r r' c first again nobody wins by blast
qed

section \<open>Instances\<close>

definition demo_wrapper :: PlaceBidMessage where
  "demo_wrapper = \<lparr>pbm_AuctionId = Some 9, pbm_Bidder = 98,
     pbm_Ciphertext = [CHR 0x09, CHR ''c'', CHR ''b'', CHR ''A'']\<rparr>"

definition demo_payload :: BidPayload where
  "demo_payload = \<lparr>bp_AuctionId = Some 9, bp_ContractAddr = 99, bp_Bidder = 98,
     bp_AmountWei = Some 65, bp_Salt = 0\<rparr>"

definition demo_close_lib :: lib where
  "demo_close_lib = demo_lib\<lparr>decode_close := (\<lambda>_ _. Inr \<lparr>cm_AuctionId = Some 9,
     cm_ContractAddr = 99, cm_ReservePrice = Some 60, cm_Deadline = 0\<rparr>)\<rparr>"

definition demo_settled :: system where
  "demo_settled = \<lparr>ext = mark_closed demo_after ''9'', thread = (\<lambda>_. Idle)\<rparr>"

lemma close_final_when_settled_witness:
  "snd (processCloseAuction demo_close_lib
     (ext (move demo_settled 0 (Done (failed (demo_action []) (demo_df []) ''originalMessage is empty''))))
     (demo_action []) (demo_df ''x'')) = mark_closed demo_after ''9''"
proof -
  let ?m = "move demo_settled 0
    (Done (failed (demo_action []) (demo_df []) ''originalMessage is empty''))"
  have "settled demo_settled (show_int 9)"
    by (simp add: settled_def demo_settled_def is_closed_mark in_flight_def)
  moreover have "steps demo_close_lib demo_settled ?m"
    by (intro steps_one step.refused [where a = "demo_action []" and df = "demo_df []"])
      (simp_all add: demo_settled_def placeBid_precheck_def demo_df_def)
  ultimately have "processCloseAuction demo_close_lib (ext ?m) (demo_action []) (demo_df ''x'') =
      (fst (processCloseAuction demo_close_lib (ext demo_settled) (demo_action []) (demo_df ''x'')),
       ext ?m)"
    by (rule close_final_when_settled) (simp add: demo_close_lib_def, simp)
  then show ?thesis by (metis demo_settled_def move_simps(1) snd_conv system.select_convs(1))
qed

lemma demo_race_precheck:
  "placeBid_precheck demo_close_lib New (demo_action []) demo_bid_df = Inr (demo_wrapper, 9)"
  by (simp add: placeBid_precheck_def demo_close_lib_def demo_lib_def demo_bid_df_def demo_df_def
      New_def is_closed_def demo_wrapper_def)

lemma demo_race_open:
  "placeBid_open demo_close_lib (Inr (pbm_Ciphertext demo_wrapper)) (demo_action []) demo_bid_df
     demo_wrapper 9 = Inr demo_payload"
  by (simp add: placeBid_open_def demo_close_lib_def demo_lib_def demo_wrapper_def
      demo_payload_def)

lemma close_races_place_bid_witness:
  "\<exists>s s'. steps demo_close_lib initial s \<and> steps demo_close_lib s s' \<and> is_closed (ext s) ''9''
     \<and> pickWinner (bids_of (ext s') ''9'') 99 (Some 60) = Some (98, 65, True)"
proof -
  have "decode_close demo_close_lib CloseMessageArg (df_OriginalMessage (demo_df ''x'')) =
      Inr \<lparr>cm_AuctionId = Some 9, cm_ContractAddr = 99, cm_ReservePrice = Some 60, cm_Deadline = 0\<rparr>"
    by (simp add: demo_close_lib_def)
  from close_races_place_bid [OF demo_race_precheck demo_race_open this, where ca = "demo_action []"]
  show ?thesis by (auto simp: demo_df_def demo_payload_def demo_wrapper_def)
qed

text \<open>Two bids on one auction and its close, interleaved; the later of the two is stored first.\<close>

definition demo_store :: "nat \<Rightarrow> system \<Rightarrow> system" where
  "demo_store t s = move s t (Done (accepted (demo_action []) demo_bid_df))
     \<lparr>ext := placeBid_store (ext s) ''9'' demo_bid_df demo_payload\<rparr>"

definition demo_close_answer :: ActionResult where
  "demo_close_answer = the (fst (processCloseAuction demo_close_lib New (demo_action []) (demo_df ''x'')))"

definition demo_closed :: system where
  "demo_closed =
     (let ph = Checked (demo_action []) demo_bid_df demo_wrapper 9
      in move (move (move initial 0 ph) 2 ph) 1 (Done demo_close_answer) \<lparr>ext := mark_closed New ''9''\<rparr>)"

definition demo_race :: system where
  "demo_race =
     (let ph = Opened (demo_action []) demo_bid_df 9 demo_payload
      in demo_store 0 (move (demo_store 2 (move demo_closed 2 ph)) 0 ph))"

lemma demo_race_closing:
  "processCloseAuction demo_close_lib New (demo_action []) (demo_df ''x'') =
     (Some demo_close_answer, mark_closed New ''9'')"
  by code_simp

lemma demo_closed_steps: "steps demo_close_lib initial demo_closed"
proof -
  let ?ph = "Checked (demo_action []) demo_bid_df demo_wrapper 9"
  let ?s1 = "move initial 0 ?ph" and ?s2 = "move (move initial 0 ?ph) 2 ?ph"
  have "step demo_close_lib initial ?s1" "step demo_close_lib ?s1 ?s2"
    by (intro step.checked; simp add: initial_def demo_race_precheck)+
  moreover have "step demo_close_lib ?s2 demo_closed"
    unfolding demo_closed_def Let_def
    by (intro step.closing [where a = "demo_action []" and df = "demo_df ''x''"])
      (simp_all add: initial_def demo_race_closing)
  ultimately show ?thesis by (blast intro: steps.intros)
qed

lemma demo_store_step:
  assumes "thread s t = Checked (demo_action []) demo_bid_df demo_wrapper 9"
  shows "steps demo_close_lib s (demo_store t (move s t (Opened (demo_action []) demo_bid_df 9 demo_payload)))"
proof -
  let ?o = "move s t (Opened (demo_action []) demo_bid_df 9 demo_payload)"
  have "step demo_close_lib s ?o" using assms demo_race_open by (rule step.opened)
  moreover have "step demo_close_lib ?o (demo_store t ?o)"
    using step.stored [of ?o t "demo_action []" demo_bid_df 9 demo_payload demo_close_lib]
    by (simp add: demo_store_def)
  ultimately show ?thesis by (blast intro: steps.intros)
qed

lemma demo_race_steps: "steps demo_close_lib initial demo_race"
proof -
  let ?o = "Opened (demo_action []) demo_bid_df 9 demo_payload"
  have "steps demo_close_lib demo_closed (demo_store 2 (move demo_closed 2 ?o))"
    by (rule demo_store_step) (simp add: demo_closed_def Let_def)
  moreover have "steps demo_close_lib (demo_store 2 (move demo_closed 2 ?o)) demo_race"
    unfolding demo_race_def Let_def by (rule demo_store_step) (simp add: demo_closed_def demo_store_def Let_def)
  ultimately show ?thesis using demo_closed_steps steps_trans by blast
qed

lemma demo_race_memory: "ext demo_race =
  placeBid_store (placeBid_store (mark_closed New ''9'') ''9'' demo_bid_df demo_payload) ''9'' demo_bid_df demo_payload"
  by (simp add: demo_race_def demo_store_def demo_closed_def Let_def)

lemma demo_race_counts: "stored_total (ext demo_race) = 2"
  "map Seq (bids_of (ext demo_race) ''9'') = [1, 2]" "is_closed (ext demo_race) ''9''"
  unfolding demo_race_memory by code_simp+

lemma interleaving_sound_witness:
  "wf_extension (ext demo_race) \<and> arrival_ordered (bids_of (ext demo_race)) 2
   \<and> map Seq (bids_of (ext demo_race) ''9'') = [1, 2] \<and> is_closed (ext demo_race) ''9''"
  using interleaving_sound [OF demo_race_steps] by (simp add: demo_race_counts)

end
