(* ===== verification/Well_Formed.thy ===== *)
theory Well_Formed
  imports Handlers
begin

text \<open>
  The shape of the extension's memory (\<^verbatim>\<open>Extension.bids\<close> and \<^verbatim>\<open>Extension.closed\<close> in
  \<^verbatim>\<open>go/internal/extension/extension.go\<close>): every key is the decimal text of an auction
  identifier, no auction is filed under two keys, no bid list is empty, every stored amount is
  there and positive, and a closed flag is only ever set.
\<close>

definition auction_key :: "string \<Rightarrow> bool" where
  "auction_key k \<longleftrightarrow> (\<exists>aid. k = show_int aid)"

definition priced_bid :: "Bid \<Rightarrow> bool" where
  "priced_bid b \<longleftrightarrow> (case Amount b of None \<Rightarrow> False | Some x \<Rightarrow> 0 < x)"

definition well_formed :: "Extension \<Rightarrow> bool" where
  "well_formed e \<longleftrightarrow>
     distinct (map fst (bids e)) \<and> distinct (map fst (closed e))
     \<and> list_all (\<lambda>(k, bs). auction_key k \<and> bs \<noteq> [] \<and> list_all priced_bid bs) (bids e)
     \<and> list_all (\<lambda>(k, c). auction_key k \<and> c) (closed e)"

lemma well_formed_New: "well_formed New"
  by (simp add: well_formed_def New_def)

lemma list_all_update:
  "list_all P al \<Longrightarrow> P (k, v) \<Longrightarrow> list_all P (AList.update k v al)"
  by (induction al) auto

lemma bids_of_priced: "well_formed e \<Longrightarrow> list_all priced_bid (bids_of e k)"
  by (auto simp: well_formed_def bids_of_def list_all_iff split: option.split dest!: map_of_SomeD)

lemma well_formed_store:
  assumes "well_formed e" and "auction_key k" and "priced_bid (new_bid (seq e + 1) df p)"
  shows "well_formed (placeBid_store e k df p)"
  using assms bids_of_priced [OF assms(1), of k]
  by (auto simp: well_formed_def placeBid_store_def Let_def intro!: list_all_update distinct_update)

lemma well_formed_mark: "well_formed e \<Longrightarrow> auction_key k \<Longrightarrow> well_formed (mark_closed e k)"
  by (auto simp: well_formed_def mark_closed_def intro!: list_all_update distinct_update)

lemma well_formed_action:
  assumes "well_formed e" shows "well_formed (snd (processAction L decrypt e a))"
proof (cases "parse_data_fixed L (act_Message a)")
  case (Inr df)
  have "well_formed (snd (processPlaceBid L decrypt e a df))"
  proof (cases rule: processPlaceBid_cases [of L decrypt e a df])
    case (stored wrapper aid payload amount)
    then show ?thesis
      using assms by (auto simp: auction_key_def priced_bid_def new_bid_def intro!: well_formed_store)
  qed (simp add: assms)
  moreover have "well_formed (snd (processCloseAuction L e a df))"
  proof (cases rule: processCloseAuction_cases [of L e a df])
    case (closed req aid)
    then show ?thesis using assms by (auto simp: auction_key_def intro!: well_formed_mark)
  qed (simp add: assms)
  ultimately show ?thesis using Inr assms
    by (simp add: processAction_def processAuction_def Let_def split_def)
qed (simp add: processAction_def assms)

lemma well_formed_serve: "well_formed e \<Longrightarrow> well_formed (serve L e history)"
proof (induction history arbitrary: e)
  case (Cons x history)
  then show ?case by (cases x) (simp add: well_formed_action)
qed simp

text \<open>
  C23. The memory is well typed after any instructions: keys are decimal auction identifiers,
  each identifier has at most one entry in either map, no stored list is empty, every stored
  amount is present and positive, and closed flags are only ever true.
\<close>

theorem memory_well_formed: "well_formed (serve L New history)"
  by (rule well_formed_serve [OF well_formed_New])

end
