(* ===== verification/Decrypt.thy ===== *)
theory Decrypt
  imports Handlers
begin

text \<open>
  The decryption client (\<^verbatim>\<open>go/internal/extension/decrypt.go\<close>): the JSON request with the
  ciphertext in base64, one POST to the local tee-node, and the mapping of its answer. The
  transport and the decoding of the JSON answer are parameters.
\<close>

section \<open>Base64\<close>

text \<open>Go marshals a \<^verbatim>\<open>[]byte\<close> as a string in the standard alphabet, padded.\<close>

definition b64_char :: "nat \<Rightarrow> char" where
  "b64_char n =
     (if n < 26 then char_of (65 + n)
      else if n < 52 then char_of (97 + (n - 26))
      else if n < 62 then char_of (48 + (n - 52))
      else if n = 62 then CHR ''+'' else CHR ''/'')"

fun b64_encode :: "bytes \<Rightarrow> string" where
  "b64_encode [] = []"
| "b64_encode [a] =
     (let x = of_char a :: nat
      in [b64_char (x div 4), b64_char (x mod 4 * 16), CHR ''='', CHR ''=''])"
| "b64_encode [a, b] =
     (let x = of_char a :: nat; y = of_char b :: nat
      in [b64_char (x div 4), b64_char (x mod 4 * 16 + y div 16), b64_char (y mod 16 * 4), CHR ''=''])"
| "b64_encode (a # b # c # rest) =
     (let x = of_char a :: nat; y = of_char b :: nat; z = of_char c :: nat
      in [b64_char (x div 4), b64_char (x mod 4 * 16 + y div 16),
          b64_char (y mod 16 * 4 + z div 64), b64_char (z mod 64)] @ b64_encode rest)"

text \<open>The reader of the alphabet, for what the node finds in the request.\<close>

definition b64_val :: "char \<Rightarrow> nat option" where
  "b64_val c =
     (let n = of_char c :: nat in
      if 65 \<le> n \<and> n < 91 then Some (n - 65)
      else if 97 \<le> n \<and> n < 123 then Some (n - 97 + 26)
      else if 48 \<le> n \<and> n < 58 then Some (n - 48 + 52)
      else if c = CHR ''+'' then Some 62
      else if c = CHR ''/'' then Some 63 else None)"

fun b64_decode :: "string \<Rightarrow> bytes option" where
  "b64_decode [] = Some []"
| "b64_decode (p # q # r # s # rest) =
     (case (b64_val p, b64_val q) of
        (Some i, Some j) \<Rightarrow>
          (let a = char_of (i * 4 + j div 16) in
           if r = CHR ''='' then (if s = CHR ''='' \<and> rest = [] then Some [a] else None)
           else case b64_val r of
             None \<Rightarrow> None
           | Some k \<Rightarrow>
               (let b = char_of (j mod 16 * 16 + k div 4) in
                if s = CHR ''='' then (if rest = [] then Some [a, b] else None)
                else case (b64_val s, b64_decode rest) of
                  (Some l, Some bs) \<Rightarrow> Some (a # b # char_of (k mod 4 * 64 + l) # bs)
                | _ \<Rightarrow> None))
      | _ \<Rightarrow> None)"
| "b64_decode _ = None"

section \<open>The request and its answer\<close>

definition decrypt_url :: "int \<Rightarrow> string" where
  "decrypt_url signPort = ''http://localhost:'' @ show_int signPort @ ''/decrypt''"

text \<open>The handlers call with a non-empty ciphertext, so the slice is never nil.\<close>

definition decryptRequest_json :: "bytes \<Rightarrow> bytes" where
  "decryptRequest_json ciphertext =
     [CHR 0x7B, CHR 0x22] @ ''encryptedMessage'' @ [CHR 0x22, CHR '':'', CHR 0x22] @
     b64_encode ciphertext @ [CHR 0x22, CHR 0x7D]"

definition decryptViaNode ::
  "(string \<Rightarrow> bytes \<Rightarrow> (nat \<times> bytes) result) \<Rightarrow> (bytes \<Rightarrow> bytes result) \<Rightarrow> int \<Rightarrow> bytes \<Rightarrow> bytes result"
  where
  "decryptViaNode post decode_response signPort ciphertext =
     (case post (decrypt_url signPort) (decryptRequest_json ciphertext) of
        Inl err \<Rightarrow> Inl (''request error: '' @ err)
      | Inr (status, body) \<Rightarrow>
          if status \<noteq> 200 then Inl (''node returned '' @ show_nat status @ '': '' @ body)
          else (case decode_response body of
             Inl err \<Rightarrow> Inl (''decode response: '' @ err)
           | Inr plaintext \<Rightarrow> Inr plaintext))"

section \<open>Lemmas\<close>

lemma b64_val_char [simp]: "n < 64 \<Longrightarrow> b64_val (b64_char n) = Some n"
  by (auto simp: b64_val_def b64_char_def Let_def)

lemma b64_char_not_pad [simp]: "n < 64 \<Longrightarrow> b64_char n \<noteq> CHR ''=''"
proof
  assume n: "n < 64" and e: "b64_char n = CHR ''=''"
  have "b64_val (CHR ''='') = Some n" using b64_val_char [OF n] unfolding e .
  then show False by (simp add: b64_val_def)
qed

lemma b64_decode_encode [simp]: "b64_decode (b64_encode bs) = Some bs"
proof (induction bs rule: b64_encode.induct)
  case (2 a)
  have "(of_char a :: nat) < 256" by (rule nat_of_char_less_256)
  then show ?case by (simp add: Let_def less_mult_imp_div_less)
next
  case (3 a b)
  have x: "(of_char a :: nat) < 256" and y: "(of_char b :: nat) < 256" by (rule nat_of_char_less_256)+
  then have "(of_char a mod 4 * 16 + of_char b div 16 :: nat) < 64" by linarith
  with x y show ?case by (simp add: Let_def less_mult_imp_div_less)
next
  case (4 a b c rest)
  have x: "(of_char a :: nat) < 256" and y: "(of_char b :: nat) < 256" and z: "(of_char c :: nat) < 256"
    by (rule nat_of_char_less_256)+
  then have "(of_char a mod 4 * 16 + of_char b div 16 :: nat) < 64"
    "(of_char b mod 16 * 4 + of_char c div 64 :: nat) < 64" by linarith+
  with 4 x y z show ?case by (simp add: Let_def less_mult_imp_div_less)
qed simp

section \<open>Properties\<close>

text \<open>What the node reads out of a request: the value of its one field.\<close>

definition request_head :: bytes where
  "request_head = [CHR 0x7B, CHR 0x22] @ ''encryptedMessage'' @ [CHR 0x22, CHR '':'', CHR 0x22]"

definition read_request :: "bytes \<Rightarrow> bytes option" where
  "read_request body =
     (if prefix request_head body \<and> suffix [CHR 0x22, CHR 0x7D] body
      then b64_decode (drop (length request_head) (butlast (butlast body))) else None)"

lemma read_request_json: "read_request (decryptRequest_json ct) = Some ct"
proof -
  have body: "decryptRequest_json ct = request_head @ b64_encode ct @ [CHR 0x22, CHR 0x7D]"
    by (simp add: decryptRequest_json_def request_head_def)
  have "butlast (butlast (decryptRequest_json ct)) = request_head @ b64_encode ct"
    unfolding body by (simp add: butlast_append)
  moreover have "prefix request_head (decryptRequest_json ct)" unfolding body by simp
  moreover have "suffix [CHR 0x22, CHR 0x7D] (decryptRequest_json ct)"
    unfolding body by (simp add: suffix_def)
  ultimately show ?thesis by (simp add: read_request_def)
qed

text \<open>
  The decryption request is faithful: whatever bytes the ciphertext has, the JSON body
  that is posted reads back as exactly that ciphertext.
\<close>

theorem decrypt_request_reads_back:
  "read_request (decryptRequest_json ciphertext) = Some ciphertext"
  by (rule read_request_json)

text \<open>
  C26. With the decryption client in place, an accepted bid was decrypted by the node: the
  local node answered 200 to a POST whose body reads back as the on-chain ciphertext, and the
  stored bid is the decoded answer, for the bidder and the auction of the on-chain wrapper.
  Any other answer of the node, of whatever kind, rejects the bid and leaves the state alone.
\<close>

theorem accepted_bid_was_decrypted:
  assumes "processPlaceBid L (decryptViaNode post decode_response signPort) e a df = (ar, e')"
  shows "if res_Status ar = 1
    then \<exists>wrapper aid request body plaintext payload.
      decode_place_bid L PlaceBidMessageArg (df_OriginalMessage df) = Inr wrapper
      \<and> pbm_AuctionId wrapper = Some aid
      \<and> read_request request = Some (pbm_Ciphertext wrapper)
      \<and> post (''http://localhost:'' @ show_int signPort @ ''/decrypt'') request = Inr (200, body)
      \<and> decode_response body = Inr plaintext
      \<and> decode_bid_payload L BidPayloadArg plaintext = Inr payload
      \<and> bp_Bidder payload = pbm_Bidder wrapper \<and> bp_AuctionId payload = Some aid
      \<and> e' = placeBid_store e (show_int aid) df payload
    else e' = e"
proof (cases rule: processPlaceBid_cases [of L "decryptViaNode post decode_response signPort" e a df])
  case (rejected m)
  with assms show ?thesis by auto
next
  case (stored wrapper aid payload amount)
  then obtain plaintext where
    "decryptViaNode post decode_response signPort (pbm_Ciphertext wrapper) = Inr plaintext"
    "decode_bid_payload L BidPayloadArg plaintext = Inr payload" by blast
  moreover from this(1) obtain body where
    "post (decrypt_url signPort) (decryptRequest_json (pbm_Ciphertext wrapper)) = Inr (200, body)"
    "decode_response body = Inr plaintext"
    by (auto simp: decryptViaNode_def split: sum.splits prod.splits if_splits)
  ultimately show ?thesis
    using stored assms read_request_json [of "pbm_Ciphertext wrapper"] by (auto simp: decrypt_url_def)
qed

lemma accepted_bid_was_decrypted_witness:
  "\<exists>request. read_request request = Some [CHR 0x09, CHR ''c'', CHR ''b'', CHR ''A'']"
proof -
  have run: "processPlaceBid demo_lib (decryptViaNode (\<lambda>u b. Inr (200, the (read_request b))) Inr 9090)
      New (demo_action []) demo_bid_df = (accepted (demo_action []) demo_bid_df, demo_after)"
    by (simp add: demo_after_def processPlaceBid_def placeBid_precheck_def placeBid_open_def
        decryptViaNode_def read_request_json demo_lib_def demo_bid_df_def demo_df_def New_def is_closed_def)
  show ?thesis
    using accepted_bid_was_decrypted [OF run]
    by (auto simp: demo_lib_def demo_bid_df_def demo_df_def)
qed

end
