(* ===== verification/Report.thy ===== *)
theory Report
  imports Go_Text "HOL-Library.Multiset"
begin

text \<open>
  The verification report of the deployment tools (\<^verbatim>\<open>tools/pkg/validate/report.go\<close>): check
  results, the summary, the terminal output grouped by step, and the JSON output.
\<close>

section \<open>Results and reports\<close>

text \<open>Go's \<^verbatim>\<open>Status\<close> is an \<^verbatim>\<open>int\<close>; values without a name are \<open>Other_Status\<close>.\<close>

datatype Status = PASS | WARN | FAIL | SKIP | Other_Status int

definition Status_String :: "Status \<Rightarrow> string" where
  "Status_String s =
     (case s of PASS \<Rightarrow> ''PASS'' | WARN \<Rightarrow> ''WARN'' | FAIL \<Rightarrow> ''FAIL'' | SKIP \<Rightarrow> ''SKIP''
      | Other_Status _ \<Rightarrow> ''UNKNOWN'')"

record CheckResult =
  chk_Step :: string
  chk_ID :: string
  chk_Name :: string
  chk_Status :: Status
  chk_Message :: string
  chk_Fix :: string

definition chk :: "string \<Rightarrow> string \<Rightarrow> string \<Rightarrow> Status \<Rightarrow> string \<Rightarrow> string \<Rightarrow> CheckResult" where
  "chk step i name st msg fix =
     \<lparr>chk_Step = step, chk_ID = i, chk_Name = name, chk_Status = st, chk_Message = msg,
      chk_Fix = fix\<rparr>"

lemma chk_sel [simp]:
  "chk_Step (chk step i name st msg fix) = step" "chk_ID (chk step i name st msg fix) = i"
  "chk_Name (chk step i name st msg fix) = name" "chk_Status (chk step i name st msg fix) = st"
  "chk_Message (chk step i name st msg fix) = msg" "chk_Fix (chk step i name st msg fix) = fix"
  by (simp_all add: chk_def)

type_synonym Report = "CheckResult list"

definition Add :: "Report \<Rightarrow> CheckResult \<Rightarrow> Report" where
  "Add r x = r @ [x]"

fun HasFailures :: "Report \<Rightarrow> bool" where
  "HasFailures [] = False"
| "HasFailures (res # rs) = (if chk_Status res = FAIL then True else HasFailures rs)"

fun tally :: "Report \<Rightarrow> nat \<times> nat \<times> nat \<times> nat \<Rightarrow> nat \<times> nat \<times> nat \<times> nat" where
  "tally [] acc = acc"
| "tally (res # rs) (passed, warning, failed, skipped) =
     tally rs (case chk_Status res of
       PASS \<Rightarrow> (passed + 1, warning, failed, skipped)
     | WARN \<Rightarrow> (passed, warning + 1, failed, skipped)
     | FAIL \<Rightarrow> (passed, warning, failed + 1, skipped)
     | SKIP \<Rightarrow> (passed, warning, failed, skipped + 1)
     | Other_Status _ \<Rightarrow> (passed, warning, failed, skipped))"

definition Summary :: "Report \<Rightarrow> string" where
  "Summary r =
     (case tally r (0, 0, 0, 0) of (passed, warning, failed, skipped) \<Rightarrow>
        show_nat passed @ '' passed, '' @ show_nat warning @ '' warning, '' @
        show_nat failed @ '' failed, '' @ show_nat skipped @ '' skipped'')"

section \<open>Terminal output\<close>

definition ansi :: "string \<Rightarrow> string" where
  "ansi code = CHR 0x1B # ''['' @ code @ ''m''"

definition statusColor :: "Status \<Rightarrow> string" where
  "statusColor s =
     (case s of PASS \<Rightarrow> ansi ''32'' | WARN \<Rightarrow> ansi ''33'' | FAIL \<Rightarrow> ansi ''31'' | SKIP \<Rightarrow> ansi ''90''
      | Other_Status _ \<Rightarrow> ansi ''0'')"

definition stepLabel :: "string \<Rightarrow> string" where
  "stepLabel step =
     (case map_of [(''deploy'', ''Contract Deployment''), (''register'', ''Extension Registration''),
        (''services'', ''Service Startup''), (''tee-version'', ''TEE Version Registration''),
        (''tee-machine'', ''TEE Machine Registration''), (''test'', ''Testing'')] step of
        None \<Rightarrow> '''' | Some l \<Rightarrow> l)"

text \<open>The steps in order of first appearance, with the set of steps already seen.\<close>

fun unique_steps :: "string set \<Rightarrow> Report \<Rightarrow> string list" where
  "unique_steps seen [] = []"
| "unique_steps seen (res # rs) =
     (if chk_Step res \<in> seen then unique_steps seen rs
      else chk_Step res # unique_steps (insert (chk_Step res) seen) rs)"

definition result_lines :: "CheckResult \<Rightarrow> string list" where
  "result_lines res =
     [''  '' @ statusColor (chk_Status res) @ ''['' @ Status_String (chk_Status res) @ '']'' @
        ansi ''0'' @ '' '' @ chk_ID res @ ''  '' @ chk_Name res] @
     (if chk_Status res = FAIL \<or> chk_Status res = WARN then
        (if chk_Message res \<noteq> '''' then [''         '' @ chk_Message res] else []) @
        (if chk_Fix res \<noteq> '''' then [''         Fix: '' @ chk_Fix res] else [])
      else [])"

fun section_lines :: "string \<Rightarrow> Report \<Rightarrow> string list" where
  "section_lines step [] = []"
| "section_lines step (res # rs) =
     (if chk_Step res \<noteq> step then section_lines step rs
      else result_lines res @ section_lines step rs)"

definition step_block :: "Report \<Rightarrow> string \<Rightarrow> string list" where
  "step_block r step =
     (let label = (if stepLabel step = '''' then step else stepLabel step)
      in [label @ '':''] @ section_lines step r @ [''''])"

definition newline :: string where
  "newline = [CHR 0x0A]"

definition unlines :: "string list \<Rightarrow> string" where
  "unlines ls = concat (map (\<lambda>l. l @ newline) ls)"

definition Fprint :: "Report \<Rightarrow> string" where
  "Fprint r =
     newline @ ansi ''36'' @ ''=== Deployment Verification Report ==='' @ ansi ''0'' @ newline @
     newline @ unlines (concat (map (step_block r) (unique_steps {} r))) @ Summary r @ newline"

section \<open>JSON output\<close>

text \<open>
  \<^verbatim>\<open>encoding/json\<close>'s quoting with HTML escaping: the two-character escapes, \<open>\u00XX\<close> for the
  remaining control characters and for \<open><\<close>, \<open>>\<close> and \<open>&\<close>, the line separators U+2028 and U+2029,
  and the replacement character for bytes that are not UTF-8.
\<close>

definition json_char :: "nat \<Rightarrow> char \<Rightarrow> string" where
  "json_char n c =
     (if c = CHR 0x22 then [CHR 0x5C, CHR 0x22]
      else if c = CHR 0x5C then [CHR 0x5C, CHR 0x5C]
      else if n = 8 then CHR 0x5C # ''b''
      else if n = 12 then CHR 0x5C # ''f''
      else if n = 10 then CHR 0x5C # ''n''
      else if n = 13 then CHR 0x5C # ''r''
      else if n = 9 then CHR 0x5C # ''t''
      else if n < 32 \<or> c = CHR ''<'' \<or> c = CHR ''>'' \<or> c = CHR ''&''
      then CHR 0x5C # ''u'' @ hex_pad 4 n
      else [c])"

function json_body :: "string \<Rightarrow> string" where
  "json_body s =
     (case s of
        [] \<Rightarrow> []
      | c # rest \<Rightarrow>
          if (of_char c :: nat) < 128 then json_char (of_char c) c @ json_body rest
          else (case decode_rune s of
                  None \<Rightarrow> CHR 0x5C # ''ufffd'' @ json_body rest
                | Some (r, w) \<Rightarrow>
                    (if r = 0x2028 \<or> r = 0x2029 then CHR 0x5C # ''u'' @ hex_pad 4 r
                     else take w s) @ json_body (drop (max 1 w) s)))"
  by pat_completeness auto
termination
  by (relation "measure length") auto

declare json_body.simps [simp del]

definition json_string :: "string \<Rightarrow> string" where
  "json_string s = CHR 0x22 # json_body s @ [CHR 0x22]"

definition json_field :: "string \<Rightarrow> string \<Rightarrow> string" where
  "json_field name v = json_string name @ '': '' @ json_string v"

definition jsonResult_fields :: "CheckResult \<Rightarrow> string list" where
  "jsonResult_fields res =
     [json_field ''step'' (chk_Step res), json_field ''id'' (chk_ID res),
      json_field ''name'' (chk_Name res), json_field ''status'' (Status_String (chk_Status res))] @
     (if trim_space (chk_Message res) = '''' then []
      else [json_field ''message'' (trim_space (chk_Message res))]) @
     (if trim_space (chk_Fix res) = '''' then []
      else [json_field ''fix'' (trim_space (chk_Fix res))])"

definition json_object :: "string \<Rightarrow> string list \<Rightarrow> string" where
  "json_object indent entries =
     ''{'' @ newline @ join_with ('','' @ newline) (map (\<lambda>f. indent @ ''  '' @ f) entries) @ newline @
     indent @ ''}''"

definition FprintJSON :: "Report \<Rightarrow> string" where
  "FprintJSON r =
     json_object ''''
       [json_string ''results'' @ '': '' @
          (if r = [] then ''[]''
           else ''['' @ newline @
             join_with ('','' @ newline)
               (map (\<lambda>res. ''    '' @ json_object ''    '' (jsonResult_fields res)) r) @
             newline @ ''  ]''),
        json_field ''summary'' (Summary r)] @ newline"

section \<open>Lemmas\<close>

lemma HasFailures_iff: "HasFailures r \<longleftrightarrow> (\<exists>res \<in> set r. chk_Status res = FAIL)"
  by (induction r) auto

lemma HasFailures_append [simp]: "HasFailures (r @ r') \<longleftrightarrow> HasFailures r \<or> HasFailures r'"
  by (auto simp: HasFailures_iff)

definition count_status :: "Status \<Rightarrow> Report \<Rightarrow> nat" where
  "count_status s r = length (filter (\<lambda>res. chk_Status res = s) r)"

lemma count_status_simps [simp]:
  "count_status s [] = 0"
  "count_status s (res # r) = (if chk_Status res = s then 1 else 0) + count_status s r"
  by (simp_all add: count_status_def)

lemma tally_counts:
  "tally r (a, b, c, d) = (a + count_status PASS r, b + count_status WARN r,
     c + count_status FAIL r, d + count_status SKIP r)"
  by (induction r arbitrary: a b c d) (auto split: Status.split)

lemma section_lines_filter:
  "section_lines step r = concat (map result_lines (filter (\<lambda>res. chk_Step res = step) r))"
  by (induction r) auto

lemma unique_steps_set: "set (unique_steps seen r) = chk_Step ` set r - seen"
  by (induction r arbitrary: seen) auto

lemma unique_steps_distinct: "distinct (unique_steps seen r)"
  by (induction r arbitrary: seen) (auto simp: unique_steps_set)

lemma mset_by_key:
  "distinct ks \<Longrightarrow> f ` set xs \<subseteq> set ks \<Longrightarrow>
     mset (concat (map (\<lambda>k. filter (\<lambda>x. f x = k) xs) ks)) = mset xs"
proof (induction ks arbitrary: xs)
  case (Cons k ks)
  let ?ys = "filter (\<lambda>x. f x \<noteq> k) xs"
  have "filter (\<lambda>x. f x = k') xs = filter (\<lambda>x. f x = k') ?ys" if "k' \<in> set ks" for k'
    using Cons.prems that by (auto intro!: filter_cong)
  then have e: "map (\<lambda>k'. filter (\<lambda>x. f x = k') xs) ks = map (\<lambda>k'. filter (\<lambda>x. f x = k') ?ys) ks"
    by (intro map_cong refl)
  have m: "mset (concat (map (\<lambda>k'. filter (\<lambda>x. f x = k') ?ys) ks)) = mset ?ys"
    using Cons.prems by (intro Cons.IH) auto
  have "mset (concat (map (\<lambda>k'. filter (\<lambda>x. f x = k') xs) (k # ks))) =
      mset (filter (\<lambda>x. f x = k) xs) + mset (concat (map (\<lambda>k'. filter (\<lambda>x. f x = k') xs) ks))"
    by simp
  also have "\<dots> = mset (filter (\<lambda>x. f x = k) xs) + mset ?ys" by (simp only: e m)
  also have "\<dots> = mset xs" using multiset_partition [of "mset xs" "\<lambda>x. f x = k"] by simp
  finally show ?case .
qed simp

section \<open>Properties\<close>

text \<open>
  The summary prints the exact number of results of each named status, and the report
  has failures exactly when its number of failed checks is not zero.
\<close>

theorem summary_exact:
  "Summary r = show_nat (count_status PASS r) @ '' passed, '' @ show_nat (count_status WARN r) @
     '' warning, '' @ show_nat (count_status FAIL r) @ '' failed, '' @
     show_nat (count_status SKIP r) @ '' skipped''
   \<and> (HasFailures r \<longleftrightarrow> count_status FAIL r \<noteq> 0)"
  by (auto simp: Summary_def tally_counts HasFailures_iff count_status_def filter_empty_conv)

text \<open>
  The terminal output shows every result exactly once: it is the header, one block per
  step in order of first appearance, each block holding that step's results in report order,
  and the summary; together the blocks hold the report's results.
\<close>

theorem terminal_shows_every_result:
  "\<exists>steps. distinct steps \<and> set steps = chk_Step ` set r
     \<and> mset (concat (map (\<lambda>s. filter (\<lambda>res. chk_Step res = s) r) steps)) = mset r
     \<and> Fprint r = newline @ ansi ''36'' @ ''=== Deployment Verification Report ==='' @ ansi ''0'' @
         newline @ newline @
         unlines (concat (map (\<lambda>s. [(if stepLabel s = '''' then s else stepLabel s) @ '':''] @
           concat (map result_lines (filter (\<lambda>res. chk_Step res = s) r)) @ ['''']) steps)) @
         Summary r @ newline"
proof (intro exI [of _ "unique_steps {} r"] conjI)
  show "distinct (unique_steps {} r)" by (rule unique_steps_distinct)
  show "set (unique_steps {} r) = chk_Step ` set r" by (simp add: unique_steps_set)
  show "mset (concat (map (\<lambda>s. filter (\<lambda>res. chk_Step res = s) r) (unique_steps {} r))) = mset r"
    by (intro mset_by_key unique_steps_distinct) (simp add: unique_steps_set)
  have "step_block r = (\<lambda>s. [(if stepLabel s = '''' then s else stepLabel s) @ '':''] @
      concat (map result_lines (filter (\<lambda>res. chk_Step res = s) r)) @ [''''])"
    by (rule ext) (simp add: step_block_def Let_def section_lines_filter)
  then show "Fprint r = newline @ ansi ''36'' @ ''=== Deployment Verification Report ==='' @
      ansi ''0'' @ newline @ newline @
      unlines (concat (map (\<lambda>s. [(if stepLabel s = '''' then s else stepLabel s) @ '':''] @
        concat (map result_lines (filter (\<lambda>res. chk_Step res = s) r)) @ ['''']) (unique_steps {} r))) @
      Summary r @ newline"
    by (simp add: Fprint_def)
qed

end
