(* ===== verification/Env_File.thy ===== *)
theory Env_File
  imports Report
begin

text \<open>
  Reading \<^verbatim>\<open>extension.env\<close> (\<^verbatim>\<open>tools/pkg/validate/checks.go\<close>). The file is read twice in the
  source, by \<^verbatim>\<open>CheckExtensionEnvFormat\<close> into a map and by \<^verbatim>\<open>parseExtensionEnv\<close> into two
  strings. What a reader keeps of the assignments is an interface with two implementations;
  the facts on lines, comments and repeated keys are proved once for both.
\<close>

section \<open>Files and lines\<close>

text \<open>
  What \<^verbatim>\<open>os.Open\<close> finds: nothing (\<^verbatim>\<open>os.IsNotExist\<close>), something it cannot open, or bytes. A
  directory opens and then reads as no line at all.
\<close>

datatype file_state = Missing | Unopenable | Content bytes

definition ignored :: "string \<Rightarrow> bool" where
  "ignored line \<longleftrightarrow> line = '''' \<or> has_prefix line ''#''"

text \<open>\<^verbatim>\<open>CheckExtensionEnvFormat\<close>: every assignment into a Go map.\<close>

definition put_var :: "(string \<times> string) list \<Rightarrow> string \<Rightarrow> string \<Rightarrow> (string \<times> string) list" where
  "put_var vars k v = (k, v) # vars"

fun env_vars :: "string list \<Rightarrow> (string \<times> string) list \<Rightarrow> (string \<times> string) list" where
  "env_vars [] vars = vars"
| "env_vars (l # ls) vars =
     (let line = trim_space l in
      if ignored line then env_vars ls vars
      else case split_n2 (CHR ''='') line of
        [k, v] \<Rightarrow> env_vars ls (put_var vars (trim_space k) (trim_space v))
      | _ \<Rightarrow> env_vars ls vars)"

text \<open>\<^verbatim>\<open>parseExtensionEnv\<close>: only two keys, into two string variables.\<close>

definition put_two :: "string \<times> string \<Rightarrow> string \<Rightarrow> string \<Rightarrow> string \<times> string" where
  "put_two e k v =
     (if k = ''EXTENSION_ID'' then (v, snd e)
      else if k = ''INSTRUCTION_SENDER'' then (fst e, v)
      else e)"

fun env_two :: "string list \<Rightarrow> string \<times> string \<Rightarrow> string \<times> string" where
  "env_two [] e = e"
| "env_two (l # ls) e =
     (let line = trim_space l in
      if ignored line then env_two ls e
      else case split_n2 (CHR ''='') line of
        [k, v] \<Rightarrow> env_two ls (put_two e (trim_space k) (trim_space v))
      | _ \<Rightarrow> env_two ls e)"

definition parseExtensionEnv :: "file_state \<Rightarrow> string \<times> string" where
  "parseExtensionEnv f = (case f of Content b \<Rightarrow> env_two (scan_lines b) ('''', '''') | _ \<Rightarrow> ('''', ''''))"

section \<open>Patterns\<close>

definition hex_of_length :: "nat \<Rightarrow> string \<Rightarrow> bool" where
  "hex_of_length n s \<longleftrightarrow> has_prefix s ''0x'' \<and> length s = n + 2 \<and> list_all is_hex (drop 2 s)"

definition addressRegex :: "string \<Rightarrow> bool" where
  "addressRegex s = hex_of_length 40 s"

definition extensionIDRegex :: "string \<Rightarrow> bool" where
  "extensionIDRegex s = hex_of_length 64 s"

lemma hex_of_length_0x: "list_all is_hex h \<Longrightarrow> length h = n \<Longrightarrow> hex_of_length n (''0x'' @ h)"
  by (simp add: hex_of_length_def has_prefix_def)

lemma hex_of_length_nonempty [dest]: "hex_of_length n s \<Longrightarrow> s \<noteq> []"
  by (auto simp: hex_of_length_def)

lemma regex_nonempty [simp]: "\<not> addressRegex []" "\<not> extensionIDRegex []"
  by (auto simp: addressRegex_def extensionIDRegex_def)

section \<open>What a reader keeps\<close>

text \<open>
  The contract of an accumulator of assignments, for the keys it watches: the last assigned
  value is returned, other keys do not interfere. \<open>get\<close> gives the empty string for a watched
  key that was not assigned.
\<close>

fun assignments :: "string list \<Rightarrow> (string \<times> string) list" where
  "assignments [] = []"
| "assignments (l # ls) =
     (let line = trim_space l in
      if ignored line then assignments ls
      else case split_n2 (CHR ''='') line of
        [k, v] \<Rightarrow> (trim_space k, trim_space v) # assignments ls
      | _ \<Rightarrow> assignments ls)"

fun last_value :: "string \<Rightarrow> (string \<times> string) list \<Rightarrow> string \<Rightarrow> string" where
  "last_value k [] d = d"
| "last_value k ((k', v) # as) d = last_value k as (if k' = k then v else d)"

locale env_sink =
  fixes put :: "'m \<Rightarrow> string \<Rightarrow> string \<Rightarrow> 'm"
    and get :: "'m \<Rightarrow> string \<Rightarrow> string"
    and watched :: "string \<Rightarrow> bool"
    and read :: "string list \<Rightarrow> 'm \<Rightarrow> 'm"
  assumes get_put: "watched k \<Longrightarrow> get (put m k' v) k = (if k' = k then v else get m k)"
    and read_nil: "read [] m = m"
    and read_line: "read (l # ls) m =
      (case assignments [l] of [] \<Rightarrow> read ls m | (k, v) # _ \<Rightarrow> read ls (put m k v))"
begin

lemma assignments_cons: "assignments (l # ls) = assignments [l] @ assignments ls"
  by (auto simp: Let_def split: list.splits)

lemma assignments_one: "assignments [l] = [] \<or> (\<exists>k v. assignments [l] = [(k, v)])"
  by (auto simp: Let_def split: list.splits)

lemma get_read: "watched k \<Longrightarrow> get (read ls m) k = last_value k (assignments ls) (get m k)"
proof (induction ls arbitrary: m)
  case (Cons l ls)
  from assignments_one [of l] show ?case
  proof
    assume "assignments [l] = []"
    then show ?thesis using Cons
      by (subst assignments_cons) (simp add: read_line)
  next
    assume "\<exists>k v. assignments [l] = [(k, v)]"
    then obtain k' v where "assignments [l] = [(k', v)]" by blast
    then show ?thesis using Cons
      by (subst assignments_cons) (simp add: read_line get_put)
  qed
qed (simp add: read_nil)

end

lemma env_vars_line: "env_vars (l # ls) m =
   (case assignments [l] of [] \<Rightarrow> env_vars ls m | (k, v) # _ \<Rightarrow> env_vars ls (put_var m k v))"
  by (auto simp: Let_def split: list.splits)

lemma env_two_line: "env_two (l # ls) m =
   (case assignments [l] of [] \<Rightarrow> env_two ls m | (k, v) # _ \<Rightarrow> env_two ls (put_two m k v))"
  by (auto simp: Let_def split: list.splits)

definition get_var :: "(string \<times> string) list \<Rightarrow> string \<Rightarrow> string" where
  "get_var vars k = (case map_of vars k of None \<Rightarrow> '''' | Some v \<Rightarrow> v)"

definition get_two :: "string \<times> string \<Rightarrow> string \<Rightarrow> string" where
  "get_two e k = (if k = ''EXTENSION_ID'' then fst e else snd e)"

definition env_key :: "string \<Rightarrow> bool" where
  "env_key k \<longleftrightarrow> k = ''EXTENSION_ID'' \<or> k = ''INSTRUCTION_SENDER''"

interpretation env_map: env_sink put_var get_var "\<lambda>_. True" env_vars
  by unfold_locales (simp_all add: put_var_def get_var_def env_vars_line del: env_vars.simps(2))

interpretation env_pair: env_sink put_two get_two env_key env_two
proof unfold_locales
  fix k k' v and m :: "string \<times> string"
  assume "env_key k"
  then show "get_two (put_two m k' v) k = (if k' = k then v else get_two m k)"
    by (auto simp: env_key_def put_two_def get_two_def)
qed (simp_all only: env_two_line env_two.simps(1))

text \<open>Both readers see the same value of a key they both know.\<close>

lemma readers_agree:
  "env_key k \<Longrightarrow> get_two (env_two ls ('''', '''')) k = get_var (env_vars ls []) k"
  by (simp add: env_pair.get_read env_map.get_read)
    (auto simp: get_two_def get_var_def)

lemma parse_values:
  "parseExtensionEnv (Content b) =
     (get_var (env_vars (scan_lines b) []) ''EXTENSION_ID'',
      get_var (env_vars (scan_lines b) []) ''INSTRUCTION_SENDER'')"
  using readers_agree [of "''EXTENSION_ID''" "scan_lines b"]
    readers_agree [of "''INSTRUCTION_SENDER''" "scan_lines b"]
  by (simp add: parseExtensionEnv_def env_key_def get_two_def prod_eq_iff)

end
