(* ===== verification/Checks.thy ===== *)
theory Checks
  imports Env_File
begin

text \<open>
  The pre-flight and post-deploy checks (\<^verbatim>\<open>tools/pkg/validate/checks.go\<close> and
  \<^verbatim>\<open>validate.go\<close>). What a check observes is a \<open>world\<close>: environment variables, the file
  system, HTTP probes, TCP dials, and the chain client with its contract bindings, every
  answer possibly an error. Each function appends to a report, with the source's branches in
  the source's order. A Go map handed to a check is its list of entries in iteration order.
\<close>

section \<open>What a check observes\<close>

text \<open>
  \<open>http_get\<close> is the status of a response, or \<^term>\<open>None\<close> for a transport error; \<open>dial\<close> says
  that a TCP connection was accepted. \<open>addr_hex\<close> is go-ethereum's checksummed
  \<^verbatim>\<open>Address.Hex\<close>, \<open>hex_to_address\<close> its \<^verbatim>\<open>HexToAddress\<close>, \<open>printable\<close> the table behind
  \<^verbatim>\<open>%q\<close>.
\<close>

record world =
  getenv :: "string \<Rightarrow> string"
  file_at :: "string \<Rightarrow> file_state"
  http_get :: "string \<Rightarrow> nat option"
  dial :: "string \<Rightarrow> bool"
  addr_hex :: "address \<Rightarrow> string"
  hex_to_address :: "string \<Rightarrow> address"
  printable :: "nat \<Rightarrow> bool"

record chain_client =
  code_at :: "address \<Rightarrow> bytes result"
  balance_at :: "address \<Rightarrow> int result"
  chain_id :: "int result"

record registry_contract =
  next_public_id :: "int result"
  instructions_sender :: "int \<Rightarrow> address result"
  key_type_supported :: "int \<Rightarrow> bytes \<Rightarrow> bool result"

type_synonym allowlist_contract = "int \<Rightarrow> address \<Rightarrow> bool result"

text \<open>A Go pointer that may be nil is an option; a key is known by its account's address.\<close>

definition quoted :: "world \<Rightarrow> string \<Rightarrow> string" where
  "quoted w s = go_quote (printable w) s"

definition em_dash :: string where
  "em_dash = [CHR 0xE2, CHR 0x80, CHR 0x94]"

section \<open>Basic validations\<close>

definition MinDeployBalance :: int where
  "MinDeployBalance = 10000000000000000"

definition AddressNotZero :: "world \<Rightarrow> address \<Rightarrow> string \<Rightarrow> string option" where
  "AddressNotZero w addr label =
     (if addr = zero_address
      then Some (label @ '' is the zero address ('' @ addr_hex w addr @ '') in the addresses file'')
      else None)"

definition AddressHasCode ::
  "world \<Rightarrow> chain_client option \<Rightarrow> address \<Rightarrow> string \<Rightarrow> string option" where
  "AddressHasCode w client addr label =
     (case client of
        None \<Rightarrow> Some (''cannot check '' @ label @ '': no chain client connected'')
      | Some c \<Rightarrow>
          (case code_at c addr of
             Inl err \<Rightarrow> Some (''cannot check '' @ label @ '': '' @ err)
           | Inr code \<Rightarrow>
               if code = [] then Some (label @ '' at '' @ addr_hex w addr @
                 '' has no deployed code. '' @
                 ''This address will be set as immutable in the contract constructor and cannot be changed. '' @
                 ''Check your deployed-addresses.json file '' @ em_dash @ '' are you on the right network?'')
               else None))"

definition KeyHasFunds ::
  "world \<Rightarrow> chain_client option \<Rightarrow> address \<Rightarrow> int \<Rightarrow> string option" where
  "KeyHasFunds w client addr minWei =
     (case client of
        None \<Rightarrow> Some ''cannot check deployer balance: no chain client connected''
      | Some c \<Rightarrow>
          (case balance_at c addr of
             Inl err \<Rightarrow> Some (''cannot check deployer balance: '' @ err)
           | Inr balance \<Rightarrow>
               if balance < minWei then Some (''deployer '' @ addr_hex w addr @
                 '' has insufficient funds (balance: '' @ show_int balance @
                 '' wei, minimum required: '' @ show_int minWei @ '' wei). '' @
                 ''Fund this account before deploying'')
               else None))"

definition IsUsingDevKey :: "world \<Rightarrow> bool" where
  "IsUsingDevKey w \<longleftrightarrow> getenv w ''DEPLOYMENT_PRIVATE_KEY'' = ''''"

section \<open>Deployment checks\<close>

definition d3_check :: "world \<Rightarrow> string \<times> address \<Rightarrow> CheckResult" where
  "d3_check w = (\<lambda>(label, addr).
     (case AddressNotZero w addr label of
        Some err \<Rightarrow> chk ''deploy'' ''D3'' (label @ '' address not zero'') FAIL err
          ''Re-run the deploy script or check deployed-addresses.json''
      | None \<Rightarrow> chk ''deploy'' ''D3'' (label @ '' address not zero'') PASS (addr_hex w addr) ''''))"

fun d3_loop :: "world \<Rightarrow> (string \<times> address) list \<Rightarrow> Report \<Rightarrow> string set \<Rightarrow> Report \<times> string set" where
  "d3_loop w [] r zero = (r, zero)"
| "d3_loop w ((label, addr) # as) r zero =
     d3_loop w as (Add r (d3_check w (label, addr)))
       (if AddressNotZero w addr label \<noteq> None then insert label zero else zero)"

definition d1_check :: "world \<Rightarrow> chain_client option \<Rightarrow> string \<times> address \<Rightarrow> CheckResult" where
  "d1_check w client = (\<lambda>(label, addr).
     (case AddressHasCode w client addr label of
        Some err \<Rightarrow> chk ''deploy'' ''D1'' (label @ '' has deployed code'') FAIL err
          ''Deploy contracts or check CHAIN_URL / deployed-addresses.json''
      | None \<Rightarrow> chk ''deploy'' ''D1'' (label @ '' has deployed code'') PASS
          (''code found at '' @ addr_hex w addr) ''''))"

fun d1_loop ::
  "world \<Rightarrow> chain_client option \<Rightarrow> (string \<times> address) list \<Rightarrow> string set \<Rightarrow> Report \<Rightarrow> Report" where
  "d1_loop w client [] zero r = r"
| "d1_loop w client ((label, addr) # as) zero r =
     (if label \<in> zero then d1_loop w client as zero r
      else d1_loop w client as zero (Add r (d1_check w client (label, addr))))"

definition CheckDeployerKeySource :: "world \<Rightarrow> CheckResult" where
  "CheckDeployerKeySource w =
     (if getenv w ''DEPLOYMENT_PRIVATE_KEY'' \<noteq> '''' then
        chk ''deploy'' ''D5'' ''deployer key source'' PASS ''DEPLOYMENT_PRIVATE_KEY is set'' ''''
      else if getenv w ''LOCAL_MODE'' = ''true'' \<or> getenv w ''LOCAL_MODE'' = '''' then
        chk ''deploy'' ''D5'' ''deployer key source'' PASS ''using Hardhat dev key (LOCAL_MODE)'' ''''
      else
        chk ''deploy'' ''D5'' ''deployer key source'' WARN
          (''DEPLOYMENT_PRIVATE_KEY not set '' @ em_dash @
           '' using Hardhat dev key which has no funds on Coston2'')
          ''Set DEPLOYMENT_PRIVATE_KEY in .env to a funded account on the target network'')"

definition chainName :: "int \<Rightarrow> string" where
  "chainName i =
     (if show_int i = ''31337'' then ''Hardhat/Anvil (local devnet)''
      else if show_int i = ''114'' then ''Coston2 (testnet)''
      else if show_int i = ''14'' then ''Flare (mainnet)''
      else ''unknown network'')"

definition checkChainID :: "chain_client \<Rightarrow> CheckResult" where
  "checkChainID c =
     (case chain_id c of
        Inl err \<Rightarrow> chk ''deploy'' ''D6'' ''chain ID'' FAIL (''failed to get chain ID: '' @ err)
          ''Check CHAIN_URL''
      | Inr i \<Rightarrow> chk ''deploy'' ''D6'' ''chain ID'' PASS
          (''chain ID '' @ show_int i @ '' ('' @ chainName i @ '')'') '''')"

definition env_fix :: string where
  "env_fix = ''Delete config/extension.env and re-run scripts/pre-build.sh''"

definition d7_check :: "world \<Rightarrow> (string \<times> string) list \<Rightarrow> string \<Rightarrow> (string \<Rightarrow> bool) \<Rightarrow> CheckResult" where
  "d7_check w vars k matches =
     (case map_of vars k of
        None \<Rightarrow> chk ''deploy'' ''D7'' (k @ '' in extension.env'') FAIL
          (k @ '' not found in extension.env'') env_fix
      | Some v \<Rightarrow>
          if \<not> matches v then chk ''deploy'' ''D7'' (k @ '' in extension.env'') FAIL
            (k @ '' has invalid format: '' @ quoted w v) env_fix
          else chk ''deploy'' ''D7'' (k @ '' in extension.env'') PASS v '''')"

definition CheckExtensionEnvFormat :: "world \<Rightarrow> string \<Rightarrow> CheckResult list" where
  "CheckExtensionEnvFormat w path =
     (case file_at w path of
        Content b \<Rightarrow>
          (let vars = env_vars (scan_lines b) [] in
             [d7_check w vars ''INSTRUCTION_SENDER'' addressRegex,
              d7_check w vars ''EXTENSION_ID'' extensionIDRegex])
      | _ \<Rightarrow> [chk ''deploy'' ''D7'' ''extension.env exists'' SKIP (''file not found: '' @ path) ''''])"

definition funds_check :: "world \<Rightarrow> chain_client option \<Rightarrow> address \<Rightarrow> CheckResult" where
  "funds_check w client addr =
     (case KeyHasFunds w client addr MinDeployBalance of
        Some err \<Rightarrow> chk ''deploy'' ''D5'' ''deployer has sufficient funds'' FAIL err
          ''Fund the deployer account before deploying''
      | None \<Rightarrow> chk ''deploy'' ''D5'' ''deployer has sufficient funds'' PASS
          ''balance above minimum threshold'' '''')"

text \<open>The two loops range over one map and may see its entries in two orders.\<close>

definition RegisterDeployChecks ::
  "world \<Rightarrow> Report \<Rightarrow> chain_client option \<Rightarrow> address option \<Rightarrow> (string \<times> address) list
     \<Rightarrow> (string \<times> address) list \<Rightarrow> string \<Rightarrow> Report" where
  "RegisterDeployChecks w r client key order1 order2 path =
     (let (r1, zeroAddrs) = d3_loop w order1 r {};
          r2 = d1_loop w client order2 zeroAddrs r1;
          r3 = Add r2 (CheckDeployerKeySource w);
          r4 = (case (key, client) of
                  (Some k, Some _) \<Rightarrow> Add r3 (funds_check w client k) | _ \<Rightarrow> r3);
          r5 = (case client of Some c \<Rightarrow> Add r4 (checkChainID c) | None \<Rightarrow> r4)
      in if path \<noteq> '''' then foldl Add r5 (CheckExtensionEnvFormat w path) else r5)"

section \<open>Registration checks\<close>

definition reg :: "string \<Rightarrow> string \<Rightarrow> Status \<Rightarrow> string \<Rightarrow> string \<Rightarrow> CheckResult" where
  "reg i name st msg fix = chk ''register'' i name st msg fix"

definition r1_check :: "int result \<Rightarrow> CheckResult" where
  "r1_check answer =
     (case answer of
        Inl err \<Rightarrow> reg ''R1'' ''next public extension id'' FAIL
          (''failed to query nextPublicExtensionId: '' @ err) ''''
      | Inr counter \<Rightarrow>
          if counter = 0 then reg ''R1'' ''next public extension id'' WARN
            (''nextPublicExtensionId is 0 '' @ em_dash @ '' no public extensions registered yet'') ''''
          else reg ''R1'' ''next public extension id'' PASS
            (''nextPublicExtensionId = '' @ show_int counter) '''')"

definition r2_check :: "world \<Rightarrow> address result \<Rightarrow> string \<Rightarrow> CheckResult" where
  "r2_check w answer instrSender =
     (case answer of
        Inl err \<Rightarrow> reg ''R2'' ''instruction sender matches on-chain'' FAIL
          (''failed to query instruction sender: '' @ err) ''''
      | Inr onChain \<Rightarrow>
          if onChain = hex_to_address w instrSender
          then reg ''R2'' ''instruction sender matches on-chain'' PASS
            (''on-chain sender '' @ addr_hex w onChain @ '' matches extension.env'') ''''
          else reg ''R2'' ''instruction sender matches on-chain'' FAIL
            (''on-chain sender '' @ addr_hex w onChain @ '' != extension.env '' @ instrSender)
            ''Re-register the extension or update extension.env'')"

definition r3_check :: "bool result \<Rightarrow> CheckResult" where
  "r3_check answer =
     (case answer of
        Inl err \<Rightarrow> reg ''R3'' ''deployer is allowed TEE machine owner'' FAIL
          (''failed to query allowlist: '' @ err) ''''
      | Inr allowed \<Rightarrow>
          if allowed then reg ''R3'' ''deployer is allowed TEE machine owner'' PASS
            ''deployer is on the TEE machine owner allowlist'' ''''
          else reg ''R3'' ''deployer is allowed TEE machine owner'' FAIL
            ''deployer is NOT on the TEE machine owner allowlist''
            ''Run the register step to add the deployer as a TEE machine owner'')"

definition r4_check :: "bool result \<Rightarrow> CheckResult" where
  "r4_check answer =
     (case answer of
        Inl err \<Rightarrow> reg ''R4'' ''EVM key type supported'' FAIL
          (''failed to query key type support: '' @ err) ''''
      | Inr supported \<Rightarrow>
          if supported then reg ''R4'' ''EVM key type supported'' PASS
            ''EVM key type is supported for this extension'' ''''
          else reg ''R4'' ''EVM key type supported'' FAIL
            ''EVM key type is NOT supported for this extension''
            ''Run the register step to add EVM key type support'')"

text \<open>\<^verbatim>\<open>(*big.Int).Int64\<close> keeps the low 64 bits; the loop runs while \<open>i\<close> is below it.\<close>

definition int64_of :: "int \<Rightarrow> int" where
  "int64_of c = sint (of_int c :: 64 word)"

fun matching_ids :: "registry_contract \<Rightarrow> address \<Rightarrow> int list \<Rightarrow> string list \<Rightarrow> string list" where
  "matching_ids g expected [] acc = acc"
| "matching_ids g expected (i # is) acc =
     (case instructions_sender g i of
        Inl _ \<Rightarrow> matching_ids g expected is acc
      | Inr sender \<Rightarrow>
          if sender = expected then matching_ids g expected is (acc @ [show_int i])
          else matching_ids g expected is acc)"

definition ids_below :: "int \<Rightarrow> int list" where
  "ids_below c = map int [0 ..< nat (int64_of c)]"

definition r7_check :: "world \<Rightarrow> registry_contract \<Rightarrow> int \<Rightarrow> string \<Rightarrow> CheckResult" where
  "r7_check w g counter instrSender =
     (let matching = matching_ids g (hex_to_address w instrSender) (ids_below counter) [] in
      if 1 < length matching
      then reg ''R7'' ''unique instruction sender'' WARN
        (''INSTRUCTION_SENDER '' @ instrSender @ '' is used by multiple extensions: '' @
         join_with '', '' matching) ''''
      else reg ''R7'' ''unique instruction sender'' PASS
        ''instruction sender is unique across registered extensions'' '''')"

definition reg_skip :: "string \<Rightarrow> CheckResult" where
  "reg_skip msg = reg ''R1-R7'' ''registration checks'' SKIP msg ''''"

text \<open>The checks after the format of \<^verbatim>\<open>EXTENSION_ID\<close> has been accepted.\<close>

definition registration_onchain ::
  "world \<Rightarrow> bytes \<Rightarrow> Report \<Rightarrow> chain_client option \<Rightarrow> address option \<Rightarrow> registry_contract option
     \<Rightarrow> allowlist_contract option \<Rightarrow> int option \<Rightarrow> int \<Rightarrow> string \<Rightarrow> Report" where
  "registration_onchain w evm_type r client key registry allowlist counter extensionID instrSender =
     (let r2 = (case (registry, client) of
           (Some g, Some _) \<Rightarrow> if addressRegex instrSender
             then Add r (r2_check w (instructions_sender g extensionID) instrSender) else r
         | _ \<Rightarrow> r);
       r3 = (case (key, allowlist, client) of
           (Some k, Some allowed, Some _) \<Rightarrow> Add r2 (r3_check (allowed extensionID k))
         | _ \<Rightarrow> r2);
       r4 = (case (registry, client) of
           (Some g, Some _) \<Rightarrow> Add r3 (r4_check (key_type_supported g extensionID evm_type))
         | _ \<Rightarrow> r3)
      in case (counter, registry, client) of
           (Some c, Some g, Some _) \<Rightarrow>
             if 0 < c \<and> addressRegex instrSender then Add r4 (r7_check w g c instrSender) else r4
         | _ \<Rightarrow> r4)"

text \<open>
  \<^verbatim>\<open>extensionID.SetString(extIDStr[2:], 16)\<close> cannot fail after the pattern matched. The
  counter stays non-nil only when its query succeeded: the bindings return nil with an error.
\<close>

definition RegisterRegistrationChecks ::
  "world \<Rightarrow> bytes \<Rightarrow> Report \<Rightarrow> chain_client option \<Rightarrow> address option \<Rightarrow> registry_contract option
     \<Rightarrow> allowlist_contract option \<Rightarrow> string \<Rightarrow> Report" where
  "RegisterRegistrationChecks w evm_type r client key registry allowlist path =
     (if path = '''' then Add r (reg_skip ''no --config path provided'')
      else case parseExtensionEnv (file_at w path) of (extIDStr, instrSender) \<Rightarrow>
        if extIDStr = '''' \<and> instrSender = ''''
        then Add r (reg_skip (''config/extension.env not found '' @ em_dash @
               '' run pre-build.sh first''))
        else
          (let r1 = (case (registry, client) of
                 (Some g, Some _) \<Rightarrow> Add r (r1_check (next_public_id g)) | _ \<Rightarrow> r);
               counter = (case (registry, client) of
                 (Some g, Some _) \<Rightarrow> (case next_public_id g of Inl _ \<Rightarrow> None | Inr c \<Rightarrow> Some c)
               | _ \<Rightarrow> None)
           in if \<not> extensionIDRegex extIDStr
              then Add r1 (reg ''R2'' ''EXTENSION_ID format'' FAIL
                     (''malformed EXTENSION_ID: '' @ quoted w extIDStr) env_fix)
              else registration_onchain w evm_type r1 client key registry allowlist counter
                     (int (read_hex (drop 2 extIDStr))) instrSender))"

section \<open>Services, TEE version, TEE machine and test checks\<close>

definition reachable :: "world \<Rightarrow> string \<Rightarrow> bool" where
  "reachable w url \<longleftrightarrow> http_get w (url @ ''/info'') = Some 200"

definition s2_check :: "world \<Rightarrow> string \<Rightarrow> CheckResult" where
  "s2_check w path =
     (if path = '''' then chk ''services'' ''S2'' ''EXTENSION_ID is set and well-formed'' SKIP
        ''run pre-build.sh first'' ''''
      else let extID = fst (parseExtensionEnv (file_at w path)) in
        if extID = '''' then chk ''services'' ''S2'' ''EXTENSION_ID is set and well-formed'' FAIL
          ''EXTENSION_ID is empty or not found in extension.env'' env_fix
        else if \<not> extensionIDRegex extID
        then chk ''services'' ''S2'' ''EXTENSION_ID is set and well-formed'' FAIL
          (''EXTENSION_ID has invalid format: '' @ quoted w extID) env_fix
        else chk ''services'' ''S2'' ''EXTENSION_ID is set and well-formed'' PASS extID '''')"

definition s5_check :: "world \<Rightarrow> CheckResult" where
  "s5_check w =
     (let port = (if getenv w ''EXTENSION_PORT'' = '''' then ''7702'' else getenv w ''EXTENSION_PORT'')
      in if dial w (''localhost:'' @ port)
         then chk ''services'' ''S5'' ''extension port not in use'' WARN
           (''port '' @ port @ '' is already in use '' @ em_dash @
            '' extension server will fail to bind'')
           ''Stop the process using that port or change EXTENSION_PORT''
         else chk ''services'' ''S5'' ''extension port not in use'' PASS ''port available'' '''')"

definition s7_check :: "world \<Rightarrow> CheckResult" where
  "s7_check w =
     (let extPort = getenv w ''EXTENSION_PORT''; signPort = getenv w ''SIGN_PORT'' in
      if extPort \<noteq> '''' \<or> signPort \<noteq> ''''
      then chk ''services'' ''S7'' ''port configuration'' PASS
        (''EXTENSION_PORT='' @ extPort @ '', SIGN_PORT='' @ signPort) ''''
      else chk ''services'' ''S7'' ''port configuration'' PASS
        ''using defaults (standalone: 8080/9090, Docker: 7702/7701)'' '''')"

definition s9_check :: "world \<Rightarrow> CheckResult" where
  "s9_check w =
     (let url = getenv w ''EXT_PROXY_URL'' in
      if url = '''' then chk ''services'' ''S9'' ''EXT_PROXY_URL reachable'' SKIP
        ''EXT_PROXY_URL not set'' ''''
      else if reachable w url then chk ''services'' ''S9'' ''EXT_PROXY_URL reachable'' PASS
        (''proxy reachable at '' @ url) ''''
      else chk ''services'' ''S9'' ''EXT_PROXY_URL reachable'' WARN
        (''proxy not reachable at '' @ url @ '' '' @ em_dash @ '' is the proxy running?'')
        ''Start the proxy or check EXT_PROXY_URL'')"

definition s10_check :: "world \<Rightarrow> CheckResult" where
  "s10_check w =
     (let localMode = getenv w ''LOCAL_MODE''; privateKey = getenv w ''PROXY_PRIVATE_KEY'' in
      if localMode = ''true'' \<or> localMode = ''''
      then chk ''services'' ''S10'' ''PROXY_PRIVATE_KEY set on non-local'' PASS
        ''local mode, dev key OK'' ''''
      else if localMode = ''false'' \<and> privateKey = ''''
      then chk ''services'' ''S10'' ''PROXY_PRIVATE_KEY set on non-local'' WARN
        (''PROXY_PRIVATE_KEY not set in non-local mode '' @ em_dash @ '' proxy will use default key'')
        ''Set PROXY_PRIVATE_KEY in .env for non-local deployments''
      else chk ''services'' ''S10'' ''PROXY_PRIVATE_KEY set on non-local'' PASS
        ''PROXY_PRIVATE_KEY is configured'' '''')"

definition RegisterServicesChecks :: "world \<Rightarrow> Report \<Rightarrow> string \<Rightarrow> Report" where
  "RegisterServicesChecks w r path =
     foldl Add r [s2_check w path, s5_check w, s7_check w, s9_check w, s10_check w]"

definition v2_check :: "world \<Rightarrow> CheckResult" where
  "v2_check w =
     (let extOwnerKey = getenv w ''EXTENSION_OWNER_KEY''; privKey = getenv w ''DEPLOYMENT_PRIVATE_KEY'';
          localMode = getenv w ''LOCAL_MODE'' in
      if extOwnerKey \<noteq> '''' then chk ''tee-version'' ''V2'' ''extension owner key'' PASS
        ''EXTENSION_OWNER_KEY is configured'' ''''
      else if privKey \<noteq> '''' then chk ''tee-version'' ''V2'' ''extension owner key'' PASS
        ''using DEPLOYMENT_PRIVATE_KEY (EXTENSION_OWNER_KEY not set)'' ''''
      else if localMode \<noteq> ''true'' \<and> localMode \<noteq> ''''
      then chk ''tee-version'' ''V2'' ''extension owner key'' WARN
        (''neither EXTENSION_OWNER_KEY nor DEPLOYMENT_PRIVATE_KEY set '' @ em_dash @
         '' AddTeeVersion will use dev key which isn'' @ [CHR 0x27] @
         ''t the extension owner on Coston2'')
        ''Set EXTENSION_OWNER_KEY or DEPLOYMENT_PRIVATE_KEY in .env''
      else chk ''tee-version'' ''V2'' ''extension owner key'' PASS
        ''using dev key (local mode)'' '''')"

text \<open>\<^verbatim>\<open>os.Stat\<close> after an empty parse tells a missing file from a file without the key.\<close>

definition v4_check :: "world \<Rightarrow> string \<Rightarrow> CheckResult" where
  "v4_check w path =
     (if path = '''' then chk ''tee-version'' ''V4'' ''EXTENSION_ID valid'' SKIP
        ''no --config provided'' ''''
      else let extID = fst (parseExtensionEnv (file_at w path)) in
        if extID = '''' then
          (if file_at w path = Missing
           then chk ''tee-version'' ''V4'' ''EXTENSION_ID valid'' SKIP
             (''extension.env not found '' @ em_dash @ '' run pre-build.sh first'') ''''
           else chk ''tee-version'' ''V4'' ''EXTENSION_ID valid'' FAIL ''EXTENSION_ID not set'' env_fix)
        else if \<not> extensionIDRegex extID
        then chk ''tee-version'' ''V4'' ''EXTENSION_ID valid'' FAIL ''EXTENSION_ID malformed'' env_fix
        else chk ''tee-version'' ''V4'' ''EXTENSION_ID valid'' PASS extID '''')"

definition v6_check :: "world \<Rightarrow> CheckResult" where
  "v6_check w =
     (let url = getenv w ''EXT_PROXY_URL'' in
      if url = '''' then chk ''tee-version'' ''V6'' ''proxy reachable'' SKIP
        (''EXT_PROXY_URL not set '' @ em_dash @ '' allow-tee-version uses -p flag'') ''''
      else if reachable w url then chk ''tee-version'' ''V6'' ''proxy reachable'' PASS
        (''proxy reachable at '' @ url) ''''
      else chk ''tee-version'' ''V6'' ''proxy reachable'' WARN
        (''proxy not reachable at '' @ url @ '' '' @ em_dash @ '' start services first'')
        ''Start the proxy or check EXT_PROXY_URL'')"

definition RegisterTeeVersionChecks :: "world \<Rightarrow> Report \<Rightarrow> string \<Rightarrow> Report" where
  "RegisterTeeVersionChecks w r path = foldl Add r [v2_check w, v4_check w path, v6_check w]"

definition t1_check :: "world \<Rightarrow> CheckResult" where
  "t1_check w =
     (let simulatedTee = getenv w ''SIMULATED_TEE''; localMode = getenv w ''LOCAL_MODE'' in
      if simulatedTee = ''true'' \<and> localMode = ''false''
      then chk ''tee-machine'' ''T1'' ''SIMULATED_TEE mode'' WARN
        (''SIMULATED_TEE=true on non-local deployment '' @ em_dash @
         '' machine will be registered with test attestation values. '' @
         ''Set SIMULATED_TEE=false for real TEE hardware'')
        ''Set SIMULATED_TEE=false in .env when deploying to a real GCP TEE''
      else if simulatedTee = ''true''
      then chk ''tee-machine'' ''T1'' ''SIMULATED_TEE mode'' PASS ''simulated TEE mode (local)'' ''''
      else chk ''tee-machine'' ''T1'' ''SIMULATED_TEE mode'' PASS ''real attestation mode'' '''')"

definition t5_check :: "world \<Rightarrow> CheckResult" where
  "t5_check w =
     (let url = getenv w ''NORMAL_PROXY_URL'' in
      if url = '''' then chk ''tee-machine'' ''T5'' ''NORMAL_PROXY_URL reachable'' SKIP
        ''NORMAL_PROXY_URL not set'' ''''
      else if reachable w url then chk ''tee-machine'' ''T5'' ''NORMAL_PROXY_URL reachable'' PASS
        (''normal proxy reachable at '' @ url) ''''
      else chk ''tee-machine'' ''T5'' ''NORMAL_PROXY_URL reachable'' WARN
        (''normal proxy not reachable at '' @ url @ '' '' @ em_dash @
         '' required for FTDC availability check'')
        ''Ensure the normal/FTDC proxy is running and NORMAL_PROXY_URL is correct in .env'')"

definition t10_check :: "world \<Rightarrow> CheckResult" where
  "t10_check w =
     (let url = getenv w ''EXT_PROXY_URL'' in
      if url = '''' then chk ''tee-machine'' ''T10'' ''host URL reachable'' SKIP
        ''EXT_PROXY_URL not set'' ''''
      else if reachable w url then chk ''tee-machine'' ''T10'' ''host URL reachable'' PASS
        (''host URL reachable at '' @ url) ''''
      else chk ''tee-machine'' ''T10'' ''host URL reachable'' WARN
        (''host URL not reachable at '' @ url @ '' '' @ em_dash @
         '' machine will be registered with unreachable host. Data providers can'' @ [CHR 0x27] @
         ''t relay instructions'')
        ''Ensure the host is accessible and EXT_PROXY_URL or -h flag points to the right URL'')"

definition RegisterTeeMachineChecks :: "world \<Rightarrow> Report \<Rightarrow> string \<Rightarrow> Report" where
  "RegisterTeeMachineChecks w r path = foldl Add r [t1_check w, t5_check w, t10_check w]"

definition e1_check :: "world \<Rightarrow> string \<Rightarrow> CheckResult" where
  "e1_check w path =
     (if path = '''' then chk ''test'' ''E1'' ''INSTRUCTION_SENDER valid'' SKIP
        ''no --config provided'' ''''
      else let instrSender = snd (parseExtensionEnv (file_at w path)) in
        if file_at w path = Missing then chk ''test'' ''E1'' ''INSTRUCTION_SENDER valid'' SKIP
          (''extension.env not found '' @ em_dash @ '' run pre-build.sh first'') ''''
        else if instrSender = '''' then chk ''test'' ''E1'' ''INSTRUCTION_SENDER valid'' FAIL
          (''INSTRUCTION_SENDER not set '' @ em_dash @ '' run pre-build.sh'')
          ''Run scripts/pre-build.sh to deploy and register the extension''
        else if \<not> addressRegex instrSender
        then chk ''test'' ''E1'' ''INSTRUCTION_SENDER valid'' FAIL ''INSTRUCTION_SENDER malformed'' env_fix
        else chk ''test'' ''E1'' ''INSTRUCTION_SENDER valid'' PASS instrSender '''')"

definition e3_check :: "world \<Rightarrow> CheckResult" where
  "e3_check w =
     (let url = getenv w ''EXT_PROXY_URL'' in
      if url = '''' then chk ''test'' ''E3'' ''proxy reachable for test results'' SKIP
        ''EXT_PROXY_URL not set'' ''''
      else if reachable w url then chk ''test'' ''E3'' ''proxy reachable for test results'' PASS
        ''proxy reachable for test result polling'' ''''
      else chk ''test'' ''E3'' ''proxy reachable for test results'' WARN
        (''proxy not reachable '' @ em_dash @ '' test results cannot be polled'')
        ''Start the proxy or check EXT_PROXY_URL'')"

definition e6_check :: CheckResult where
  "e6_check = chk ''test'' ''E6'' ''OPType/OPCommand alignment info'' PASS
     (''OPType/OPCommand hashes are validated at runtime '' @ em_dash @
      '' if a 501 error occurs, check the hash values in the error message'') ''''"

definition RegisterTestChecks :: "world \<Rightarrow> Report \<Rightarrow> string \<Rightarrow> Report" where
  "RegisterTestChecks w r path = foldl Add r [e1_check w path, e3_check w, e6_check]"

definition RegisterStubChecks :: "Report \<Rightarrow> string \<Rightarrow> string \<Rightarrow> string \<Rightarrow> Report" where
  "RegisterStubChecks r step idRange name =
     Add r (chk step idRange name SKIP ''not yet implemented'' '''')"

end
