(* ===== verification/Verify_Deploy.thy ===== *)
theory Verify_Deploy
  imports Checks
begin

text \<open>
  The command \<^verbatim>\<open>tools/cmd/verify-deploy\<close>: which groups of checks a step runs, the filter of
  \<^verbatim>\<open>--checks\<close>, which compacts the report's slice in place while it ranges over it, the
  output, and the exit code.
\<close>

section \<open>The command\<close>

record support =
  sp_FlareTeeManager :: address
  sp_client :: chain_client
  sp_key :: address
  sp_registry :: registry_contract
  sp_allowlist :: allowlist_contract

record flags =
  fl_a :: string
  fl_c :: string
  fl_config :: string
  fl_step :: string
  fl_checks :: string
  fl_json :: bool

text \<open>
  The groups run one after the other and may observe different worlds; \<open>ws\<close> gives the world
  of each group by its step name.
\<close>

definition deploy_group :: "(string \<Rightarrow> world) \<Rightarrow> support \<Rightarrow> string \<Rightarrow> Report \<Rightarrow> Report" where
  "deploy_group ws s path r =
     RegisterDeployChecks (ws ''deploy'') r (Some (sp_client s)) (Some (sp_key s))
       [(''FlareTeeManager'', sp_FlareTeeManager s)] [(''FlareTeeManager'', sp_FlareTeeManager s)] path"

definition register_group :: "(string \<Rightarrow> world) \<Rightarrow> bytes \<Rightarrow> support \<Rightarrow> string \<Rightarrow> Report \<Rightarrow> Report" where
  "register_group ws evm_type s path r =
     RegisterRegistrationChecks (ws ''register'') evm_type r (Some (sp_client s)) (Some (sp_key s))
       (Some (sp_registry s)) (Some (sp_allowlist s)) path"

definition services_group :: "(string \<Rightarrow> world) \<Rightarrow> string \<Rightarrow> Report \<Rightarrow> Report" where
  "services_group ws path r = RegisterServicesChecks (ws ''services'') r path"

definition version_group :: "(string \<Rightarrow> world) \<Rightarrow> string \<Rightarrow> Report \<Rightarrow> Report" where
  "version_group ws path r = RegisterTeeVersionChecks (ws ''tee-version'') r path"

definition machine_group :: "(string \<Rightarrow> world) \<Rightarrow> string \<Rightarrow> Report \<Rightarrow> Report" where
  "machine_group ws path r = RegisterTeeMachineChecks (ws ''tee-machine'') r path"

definition test_group :: "(string \<Rightarrow> world) \<Rightarrow> string \<Rightarrow> Report \<Rightarrow> Report" where
  "test_group ws path r = RegisterTestChecks (ws ''test'') r path"

text \<open>The report of a step, or the text of the error the command stops with.\<close>

definition run_step ::
  "(string \<Rightarrow> world) \<Rightarrow> bytes \<Rightarrow> (string \<Rightarrow> string \<Rightarrow> support result) \<Rightarrow> flags \<Rightarrow> string + Report" where
  "run_step ws evm_type DefaultSupport fl =
     (let step = fl_step fl; path = fl_config fl in
      if step \<in> {''deploy'', ''register'', ''all''} then
        (case DefaultSupport (fl_a fl) (fl_c fl) of
           Inl err \<Rightarrow> Inl (''Error initializing support: '' @ err @ newline @ newline @
             ''Hints:'' @ newline @
             ''  - Check that the addresses file exists: '' @ fl_a fl @ newline @
             ''  - Check that the chain node is running: '' @ fl_c fl @ newline @
             ''  - If using a custom key, ensure DEPLOYMENT_PRIVATE_KEY is set in .env'' @ newline)
         | Inr s \<Rightarrow>
             Inr (if step = ''deploy'' then deploy_group ws s path []
                  else if step = ''register'' then register_group ws evm_type s path []
                  else test_group ws path (machine_group ws path (version_group ws path
                    (services_group ws path (register_group ws evm_type s path
                      (deploy_group ws s path [])))))))
      else if step = ''services'' then Inr (services_group ws path [])
      else if step = ''tee-version'' then Inr (version_group ws path [])
      else if step = ''tee-machine'' then Inr (machine_group ws path [])
      else if step = ''test'' then Inr (test_group ws path [])
      else Inl (''Unknown step: '' @ quoted (ws ''main'') step @ newline @
        ''Valid steps: deploy, register, services, tee-version, tee-machine, test, all'' @ newline))"

text \<open>The identifiers of \<^verbatim>\<open>--checks\<close>: separated by commas, spaces trimmed, empty ones dropped.\<close>

definition allowed_ids :: "string \<Rightarrow> string set" where
  "allowed_ids s = set (filter (\<lambda>t. t \<noteq> '''') (map trim_space (split_on (CHR '','') s)))"

text \<open>
  \<^verbatim>\<open>filtered := report.Results[:0]\<close> shares the array it ranges over: element \<open>i\<close> is read from
  the array as it is when the loop reaches it, and an accepted element is written at \<open>j\<close>.
\<close>

fun compact :: "('a \<Rightarrow> bool) \<Rightarrow> nat list \<Rightarrow> 'a list \<Rightarrow> nat \<Rightarrow> 'a list" where
  "compact P [] arr j = take j arr"
| "compact P (i # is) arr j =
     (if P (arr ! i) then compact P is (arr[j := arr ! i]) (Suc j) else compact P is arr j)"

definition filter_results :: "string \<Rightarrow> Report \<Rightarrow> Report" where
  "filter_results checks r =
     (if checks \<noteq> '''' then
        compact (\<lambda>res. chk_ID res \<in> allowed_ids checks) [0 ..< length r] r 0
      else r)"

text \<open>Standard output, standard error, and the exit code.\<close>

definition verify_deploy ::
  "(string \<Rightarrow> world) \<Rightarrow> bytes \<Rightarrow> (string \<Rightarrow> string \<Rightarrow> support result) \<Rightarrow> flags \<Rightarrow> string \<times> string \<times> nat"
  where
  "verify_deploy ws evm_type DefaultSupport fl =
     (case run_step ws evm_type DefaultSupport fl of
        Inl msg \<Rightarrow> ('''', msg, 1)
      | Inr r \<Rightarrow>
          (let shown = filter_results (fl_checks fl) r in
             (if fl_json fl then FprintJSON shown else Fprint shown, '''',
              if HasFailures shown then 1 else 0)))"

section \<open>Compacting in place is filtering\<close>

lemma compact_filter:
  "j \<le> n \<Longrightarrow> n \<le> length arr \<Longrightarrow>
     compact P [n ..< length arr] arr j = take j arr @ filter P (drop n arr)"
proof (induction "length arr - n" arbitrary: n arr j)
  case 0
  then show ?case by simp
next
  case (Suc m)
  then have n: "n < length arr" by simp
  then have split: "[n ..< length arr] = n # [Suc n ..< length arr]" "drop n arr = arr ! n # drop (Suc n) arr"
    by (simp_all add: upt_conv_Cons Cons_nth_drop_Suc)
  show ?case
  proof (cases "P (arr ! n)")
    case True
    let ?arr = "arr[j := arr ! n]"
    have "compact P [Suc n ..< length ?arr] ?arr (Suc j) = take (Suc j) ?arr @ filter P (drop (Suc n) ?arr)"
      using Suc n by (intro Suc.hyps(1)) simp_all
    moreover have "take (Suc j) ?arr = take j arr @ [arr ! n]"
      using Suc.prems n by (simp add: take_Suc_conv_app_nth)
    moreover have "drop (Suc n) ?arr = drop (Suc n) arr" using Suc.prems by simp
    ultimately show ?thesis using True split by simp
  next
    case False
    have "compact P [Suc n ..< length arr] arr j = take j arr @ filter P (drop (Suc n) arr)"
      using Suc n by (intro Suc.hyps(1)) simp_all
    then show ?thesis using False split by simp
  qed
qed

lemma filter_results_eq:
  "filter_results checks r =
     (if checks = '''' then r else filter (\<lambda>res. chk_ID res \<in> allowed_ids checks) r)"
  using compact_filter [of 0 0 r] by (simp add: filter_results_def)

text \<open>The steps the command knows, and those of them that need the chain.\<close>

definition valid_steps :: "string set" where
  "valid_steps = {''deploy'', ''register'', ''services'', ''tee-version'', ''tee-machine'', ''test'', ''all''}"

definition chain_steps :: "string set" where
  "chain_steps = {''deploy'', ''register'', ''all''}"

text \<open>The checks that belong to a step, as a set: its own group's, or every group's.\<close>

definition step_checks ::
  "(string \<Rightarrow> world) \<Rightarrow> bytes \<Rightarrow> support \<Rightarrow> string \<Rightarrow> string \<Rightarrow> CheckResult set" where
  "step_checks ws evm_type s step path =
     (let on = (\<lambda>g. step = g \<or> step = ''all'') in
        (if on ''deploy'' then set (deploy_group ws s path []) else {})
      \<union> (if on ''register'' then set (register_group ws evm_type s path []) else {})
      \<union> (if on ''services'' then set (services_group ws path []) else {})
      \<union> (if on ''tee-version'' then set (version_group ws path []) else {})
      \<union> (if on ''tee-machine'' then set (machine_group ws path []) else {})
      \<union> (if on ''test'' then set (test_group ws path []) else {}))"

end
