(* ===== verification/Check_Props.thy ===== *)
theory Check_Props
  imports Verify_Deploy
begin

text \<open>
  Properties of the deployment checks: what each group reports on every branch, when a group
  has failures, that checks reading \<^verbatim>\<open>extension.env\<close> agree with each other, and that Go's map
  iteration order does not matter.
\<close>

section \<open>Groups append\<close>

lemma foldl_Add: "foldl Add r xs = r @ xs"
  by (induction xs arbitrary: r) (simp_all add: Add_def)

lemma d3_loop_eq:
  "d3_loop w as r zero =
     (r @ map (d3_check w) as, zero \<union> {l. \<exists>a. (l, a) \<in> set as \<and> a = zero_address})"
  by (induction as arbitrary: r zero) (auto simp: Add_def AddressNotZero_def)

lemma d1_loop_eq:
  "d1_loop w c as zero r = r @ map (d1_check w c) (filter (\<lambda>(l, a). l \<notin> zero) as)"
  by (induction as arbitrary: r) (auto simp: Add_def)

definition deploy_tail ::
  "world \<Rightarrow> chain_client option \<Rightarrow> address option \<Rightarrow> string \<Rightarrow> CheckResult list" where
  "deploy_tail w client key path =
     [CheckDeployerKeySource w] @
     (case (key, client) of (Some k, Some _) \<Rightarrow> [funds_check w client k] | _ \<Rightarrow> []) @
     (case client of Some c \<Rightarrow> [checkChainID c] | None \<Rightarrow> []) @
     (if path \<noteq> '''' then CheckExtensionEnvFormat w path else [])"

lemma RegisterDeployChecks_eq:
  "RegisterDeployChecks w r client key o1 o2 path =
     r @ map (d3_check w) o1 @
     map (d1_check w client) (filter (\<lambda>(l, a). (l, zero_address) \<notin> set o1) o2) @
     deploy_tail w client key path"
proof -
  have "(\<lambda>(l, a). l \<notin> {} \<union> {l. \<exists>a. (l, a) \<in> set o1 \<and> a = zero_address}) =
      (\<lambda>(l, a). (l, zero_address) \<notin> set o1)" by auto
  then show ?thesis
    by (auto simp: RegisterDeployChecks_def d3_loop_eq d1_loop_eq foldl_Add deploy_tail_def Let_def
        Add_def split: option.splits)
qed

text \<open>
  The order in which Go iterates over the map of addresses does not matter: two runs of
  the deployment checks report the same results, up to their order.
\<close>

theorem deploy_checks_order_independent:
  assumes "mset o1 = mset o1'" and "mset o2 = mset o2'"
  shows "mset (RegisterDeployChecks w r client key o1 o2 path) =
     mset (RegisterDeployChecks w r client key o1' o2' path)"
proof -
  have s: "set o1 = set o1'" using assms(1) by (rule mset_eq_setD)
  have "mset (map (d3_check w) o1) = mset (map (d3_check w) o1')" using assms by simp
  moreover have "mset (map (d1_check w client) (filter P o2)) =
      mset (map (d1_check w client) (filter P o2'))" for P
    using assms by simp
  ultimately show ?thesis unfolding RegisterDeployChecks_eq s mset_append by simp
qed

definition demo_world :: world where
  "demo_world = \<lparr>getenv = (\<lambda>_. ''''), file_at = (\<lambda>p. if p = ''bad'' then Missing else Content
       (''INSTRUCTION_SENDER=0x1234'' @ newline)),
     http_get = (\<lambda>_. None), dial = (\<lambda>_. False), addr_hex = (\<lambda>_. ''0x''),
     hex_to_address = (\<lambda>_. 0), printable = (\<lambda>_. False)\<rparr>"

lemma deploy_checks_order_independent_witness:
  "mset (RegisterDeployChecks demo_world [] None None [(''A'', 0), (''B'', 1)]
       [(''A'', 0), (''B'', 1)] '''') =
     mset (RegisterDeployChecks demo_world [] None None [(''B'', 1), (''A'', 0)]
       [(''A'', 0), (''B'', 1)] '''')"
  by (rule deploy_checks_order_independent) simp_all

section \<open>What each group reports\<close>

lemma check_ids [simp]:
  "chk_ID (s2_check w p) = ''S2''" "chk_ID (s5_check w) = ''S5''" "chk_ID (s7_check w) = ''S7''"
  "chk_ID (s9_check w) = ''S9''" "chk_ID (s10_check w) = ''S10''" "chk_ID (v2_check w) = ''V2''"
  "chk_ID (v4_check w p) = ''V4''" "chk_ID (v6_check w) = ''V6''" "chk_ID (t1_check w) = ''T1''"
  "chk_ID (t5_check w) = ''T5''" "chk_ID (t10_check w) = ''T10''" "chk_ID (e1_check w p) = ''E1''"
  "chk_ID (e3_check w) = ''E3''" "chk_ID e6_check = ''E6''"
  by (simp_all add: s2_check_def s5_check_def s7_check_def s9_check_def s10_check_def v2_check_def
      v4_check_def v6_check_def t1_check_def t5_check_def t10_check_def e1_check_def e3_check_def
      e6_check_def Let_def)

text \<open>
  On every branch the service, TEE version, TEE machine and test groups append exactly
  one result per check, in a fixed order, and keep what the report already held.
\<close>

theorem groups_report_each_check_once:
  "\<exists>s v t e.
     RegisterServicesChecks w r path = r @ s \<and> map chk_ID s = [''S2'', ''S5'', ''S7'', ''S9'', ''S10'']
     \<and> RegisterTeeVersionChecks w r path = r @ v \<and> map chk_ID v = [''V2'', ''V4'', ''V6'']
     \<and> RegisterTeeMachineChecks w r path = r @ t \<and> map chk_ID t = [''T1'', ''T5'', ''T10'']
     \<and> RegisterTestChecks w r path = r @ e \<and> map chk_ID e = [''E1'', ''E3'', ''E6'']"
proof (intro exI conjI)
  show "RegisterServicesChecks w r path =
      r @ [s2_check w path, s5_check w, s7_check w, s9_check w, s10_check w]"
    by (simp add: RegisterServicesChecks_def Add_def)
  show "RegisterTeeVersionChecks w r path = r @ [v2_check w, v4_check w path, v6_check w]"
    by (simp add: RegisterTeeVersionChecks_def Add_def)
  show "RegisterTeeMachineChecks w r path = r @ [t1_check w, t5_check w, t10_check w]"
    by (simp add: RegisterTeeMachineChecks_def Add_def)
  show "RegisterTestChecks w r path = r @ [e1_check w path, e3_check w, e6_check]"
    by (simp add: RegisterTestChecks_def Add_def)
qed simp_all

section \<open>Checks of one file agree\<close>

lemma s2_pass: "path \<noteq> '''' \<Longrightarrow> chk_Status (s2_check w path) = PASS \<longleftrightarrow>
    extensionIDRegex (fst (parseExtensionEnv (file_at w path)))"
  by (auto simp: s2_check_def Let_def)

lemma v4_pass: "path \<noteq> '''' \<Longrightarrow> chk_Status (v4_check w path) = PASS \<longleftrightarrow>
    extensionIDRegex (fst (parseExtensionEnv (file_at w path)))"
  by (auto simp: v4_check_def Let_def)

lemma e1_pass: "path \<noteq> '''' \<Longrightarrow> chk_Status (e1_check w path) = PASS \<longleftrightarrow>
    addressRegex (snd (parseExtensionEnv (file_at w path)))"
  by (auto simp: e1_check_def Let_def parseExtensionEnv_def)

lemma d7_pass:
  "\<not> matches [] \<Longrightarrow> chk_Status (d7_check w vars k matches) = PASS \<longleftrightarrow> matches (get_var vars k)"
  by (auto simp: d7_check_def get_var_def split: option.splits)

definition passes :: "CheckResult list \<Rightarrow> string \<Rightarrow> bool" where
  "passes r name \<longleftrightarrow> (\<exists>res \<in> set r. chk_Name res = name \<and> chk_Status res = PASS)"

lemma d7_name [simp]: "chk_Name (d7_check w vars k m) = k @ '' in extension.env''"
  by (simp add: d7_check_def split: option.splits)

lemma format_passes:
  "passes (CheckExtensionEnvFormat w path) ''EXTENSION_ID in extension.env'' \<longleftrightarrow>
     extensionIDRegex (fst (parseExtensionEnv (file_at w path)))"
  "passes (CheckExtensionEnvFormat w path) ''INSTRUCTION_SENDER in extension.env'' \<longleftrightarrow>
     addressRegex (snd (parseExtensionEnv (file_at w path)))"
  by (cases "file_at w path";
      auto simp: CheckExtensionEnvFormat_def passes_def parse_values d7_pass Let_def
        parseExtensionEnv_def [of Missing] parseExtensionEnv_def [of Unopenable])+

text \<open>
  The four readers of \<^verbatim>\<open>extension.env\<close> agree: in one world, D7 accepts the extension id
  exactly when S2 and V4 do, and D7 accepts the instruction sender exactly when E1 does,
  although D7 reads the file into a map and the others into two strings.
\<close>

theorem env_checks_agree:
  assumes "path \<noteq> ''''"
  shows "passes (CheckExtensionEnvFormat w path) ''EXTENSION_ID in extension.env'' =
       (chk_Status (s2_check w path) = PASS)
     \<and> (chk_Status (s2_check w path) = PASS) = (chk_Status (v4_check w path) = PASS)
     \<and> passes (CheckExtensionEnvFormat w path) ''INSTRUCTION_SENDER in extension.env'' =
       (chk_Status (e1_check w path) = PASS)"
  using assms by (simp add: format_passes s2_pass v4_pass e1_pass)

lemma env_checks_agree_witness:
  "passes (CheckExtensionEnvFormat demo_world ''bad'') ''EXTENSION_ID in extension.env'' =
     (chk_Status (s2_check demo_world ''bad'') = PASS)"
  using env_checks_agree [of "''bad''" demo_world] by simp

section \<open>Reading back what was written\<close>

text \<open>
  Files of comments, empty lines and settings. A comment may hold any bytes but a newline; a
  setting is of visible ASCII characters, its key not starting a comment. No line is as long as
  the reader's buffer.
\<close>

datatype env_item = Remark string | Blank | Setting string string

fun env_line :: "env_item \<Rightarrow> string" where
  "env_line (Remark t) = CHR ''#'' # t"
| "env_line Blank = ''''"
| "env_line (Setting k v) = k @ ''='' @ v"

fun writable :: "env_item \<Rightarrow> bool" where
  "writable (Remark t) \<longleftrightarrow> CHR 0x0A \<notin> set t \<and> length t + 1 < max_scan_token"
| "writable Blank \<longleftrightarrow> True"
| "writable (Setting k v) \<longleftrightarrow> k \<noteq> '''' \<and> hd k \<noteq> CHR ''#'' \<and> CHR ''='' \<notin> set k \<and> list_all graphic (k @ v)
     \<and> length k + length v + 1 < max_scan_token"

fun settings :: "env_item list \<Rightarrow> (string \<times> string) list" where
  "settings [] = []"
| "settings (Setting k v # its) = (k, v) # settings its"
| "settings (_ # its) = settings its"

definition env_file :: "env_item list \<Rightarrow> bytes" where
  "env_file its = unlines (map env_line its)"

text \<open>The file that \<^verbatim>\<open>scripts/pre-build.sh\<close> writes.\<close>

definition pre_build_items :: "string \<Rightarrow> string \<Rightarrow> env_item list" where
  "pre_build_items extensionId instructionSender =
     [Remark ('' Auto-generated by pre-build.sh '' @ em_dash @ '' do not edit manually''),
      Setting ''EXTENSION_ID'' extensionId, Setting ''INSTRUCTION_SENDER'' instructionSender]"

lemma graphic_eq [simp]: "graphic (CHR ''='')"
  by (simp add: graphic_def)

lemma graphic_no_break: "list_all graphic s \<Longrightarrow> CHR 0x0A \<notin> set s \<and> CHR 0x0D \<notin> set s"
  by (auto simp: list_all_iff graphic_def)

lemma drop_cr_graphic: "list_all graphic s \<Longrightarrow> drop_cr s = s"
  using graphic_no_break [of s] by (auto simp: drop_cr_def dest: last_in_set)

text \<open>Trimming only takes blanks away, so a comment stays one.\<close>

lemma strip_first_part: "strip_first ps s = Some t \<Longrightarrow> \<exists>p \<in> set ps. s = p @ t"
  by (induction ps) (auto simp: prefix_def split: if_splits)

lemma trim_left_part: "\<exists>u. s = u @ trim_left_of ps s \<and> set u \<subseteq> (\<Union>p \<in> set ps. set p)"
proof (induction ps s rule: trim_left_of.induct)
  case (1 ps s)
  show ?case
  proof (cases "strip_first ps s")
    case None
    then show ?thesis by (subst trim_left_of.simps) simp
  next
    case (Some t)
    obtain p where p: "p \<in> set ps" "s = p @ t" using strip_first_part [OF Some] by blast
    obtain u where u: "t = u @ trim_left_of ps t" "set u \<subseteq> (\<Union>p \<in> set ps. set p)" using 1 Some by blast
    have "trim_left_of ps s = trim_left_of ps t" by (subst trim_left_of.simps) (simp add: Some)
    with p u show ?thesis by (intro exI [of _ "p @ u"]) auto
  qed
qed

lemma hash_no_space: "CHR ''#'' \<notin> (\<Union>p \<in> set (map rev space_seqs). set p)"
  by (simp add: space_seqs_def)

lemma trim_comment: "ignored (trim_space (CHR ''#'' # t))"
proof -
  let ?s = "CHR ''#'' # t"
  have "strip_first space_seqs ?s = None"
    using space_seqs_not_graphic(1) by (intro strip_first_graphic) (auto simp: graphic_def)
  then have l: "trim_left_of space_seqs ?s = ?s" by (subst trim_left_of.simps) simp
  obtain u where u: "rev ?s = u @ trim_left_of (map rev space_seqs) (rev ?s)" "CHR ''#'' \<notin> set u"
    using trim_left_part [of "rev ?s" "map rev space_seqs"] hash_no_space by blast
  then have "?s = trim_space ?s @ rev u"
    unfolding trim_space_def l by (metis rev_append rev_rev_ident)
  with u(2) show ?thesis by (cases "trim_space ?s") (auto simp: ignored_def has_prefix_def)
qed

lemma assignments_item:
  assumes "writable it"
  shows "assignments (drop_cr (env_line it) # ls) = settings [it] @ assignments ls"
proof (cases it)
  case (Remark t)
  have "\<exists>t'. drop_cr (CHR ''#'' # t) = CHR ''#'' # t'" by (auto simp: drop_cr_def)
  with Remark trim_comment show ?thesis by auto
next
  case Blank
  then show ?thesis by (simp add: drop_cr_def ignored_def)
next
  case (Setting k v)
  have w: "k \<noteq> []" "hd k \<noteq> CHR ''#''" "CHR ''='' \<notin> set k" "list_all graphic k" "list_all graphic v"
    using assms Setting by auto
  have t: "drop_cr (k @ CHR ''='' # v) = k @ CHR ''='' # v" "trim_space (k @ CHR ''='' # v) = k @ CHR ''='' # v"
    using w by (simp_all add: drop_cr_graphic trim_space_graphic)
  have "\<not> ignored (k @ CHR ''='' # v)"
    using w by (cases k) (auto simp: ignored_def has_prefix_def)
  then show ?thesis using Setting w t by (simp add: trim_space_graphic)
qed

lemma scan_item:
  assumes "writable it"
  shows "scan_lines (env_line it @ CHR 0x0A # rest) = drop_cr (env_line it) # scan_lines rest"
proof (rule scan_lines_line)
  show "CHR 0x0A \<notin> set (env_line it)" using assms graphic_no_break [of "env_line it"] by (cases it) auto
  show "length (env_line it) < max_scan_token" using assms by (cases it) (auto simp: max_scan_token_def)
qed

lemma env_file_assignments:
  "list_all writable its \<Longrightarrow> assignments (scan_lines (env_file its)) = settings its"
proof (induction its)
  case (Cons it its)
  then have "assignments (scan_lines (env_file (it # its))) = settings [it] @ assignments (scan_lines (env_file its))"
    using scan_item [of it "env_file its"] assignments_item [of it]
    by (simp add: env_file_def unlines_def newline_def)
  with Cons show ?case by (cases it) simp_all
qed (simp add: env_file_def unlines_def)

lemma env_file_values:
  assumes "list_all writable its"
  shows "parseExtensionEnv (Content (env_file its)) =
      (last_value ''EXTENSION_ID'' (settings its) '''', last_value ''INSTRUCTION_SENDER'' (settings its) '''')
    \<and> get_var (env_vars (scan_lines (env_file its)) []) k = last_value k (settings its) ''''"
proof -
  have "get_var (env_vars (scan_lines (env_file its)) []) k = last_value k (settings its) ''''" for k
    using env_map.get_read [where k = k and ls = "scan_lines (env_file its)" and m = "[]"] assms
    by (simp add: env_file_assignments get_var_def)
  then show ?thesis by (simp add: parse_values)
qed

lemma hex_graphic: "is_hex c \<Longrightarrow> graphic c"
  by (auto simp: is_hex_def hex_val_def graphic_def Let_def split: if_splits)

lemma hex_of_length_graphic:
  assumes "hex_of_length n s"
  shows "list_all graphic s \<and> length s = n + 2"
proof -
  obtain t where "s = ''0x'' @ t" "list_all is_hex t" "length s = n + 2"
    using assms by (auto simp: hex_of_length_def has_prefix_def prefix_def)
  then show ?thesis using hex_graphic by (auto simp: list_all_iff graphic_def)
qed

lemma pre_build_writable:
  "extensionIDRegex x \<Longrightarrow> addressRegex a \<Longrightarrow> list_all writable (pre_build_items x a)"
  using hex_of_length_graphic [of 64 x] hex_of_length_graphic [of 40 a]
  by (auto simp: pre_build_items_def extensionIDRegex_def addressRegex_def graphic_def em_dash_def max_scan_token_def)

text \<open>
  C33. A written file reads back: from a file of comments, empty lines and settings, both readers of
  \<^verbatim>\<open>extension.env\<close> return, for each of the two keys, the last value set, and the empty
  string when it was not set; comments before, between and after change nothing. In particular, from
  the file that \<^verbatim>\<open>pre-build.sh\<close> writes, which begins with a comment, they return the extension id
  and the instruction sender it was written with.
\<close>

theorem env_file_reads_back:
  assumes "list_all writable its" and "extensionIDRegex x" and "addressRegex a"
  shows "parseExtensionEnv (Content (env_file its)) =
      (last_value ''EXTENSION_ID'' (settings its) '''', last_value ''INSTRUCTION_SENDER'' (settings its) '''')
    \<and> get_var (env_vars (scan_lines (env_file its)) []) k = last_value k (settings its) ''''
    \<and> parseExtensionEnv (Content (env_file (pre_build_items x a))) = (x, a)"
  using env_file_values [OF assms(1)] env_file_values [OF pre_build_writable [OF assms(2,3)]]
  by (simp add: pre_build_items_def)

lemma env_file_reads_back_witness:
  "parseExtensionEnv (Content (env_file [Remark '' the first'', Setting ''EXTENSION_ID'' ''0x1'', Blank,
     Remark ''EXTENSION_ID=0x3'', Setting ''EXTENSION_ID'' ''0x2''])) = (''0x2'', '''')
   \<and> parseExtensionEnv (Content (env_file (pre_build_items (''0x'' @ replicate 64 (CHR ''7''))
       (''0x'' @ replicate 40 (CHR ''a''))))) = (''0x'' @ replicate 64 (CHR ''7''), ''0x'' @ replicate 40 (CHR ''a''))"
proof -
  let ?its = "[Remark '' the first'', Setting ''EXTENSION_ID'' ''0x1'', Blank,
     Remark ''EXTENSION_ID=0x3'', Setting ''EXTENSION_ID'' ''0x2'']"
  have its: "list_all writable ?its"
    by (simp add: graphic_def max_scan_token_def)
  have x: "extensionIDRegex (''0x'' @ replicate 64 (CHR ''7''))" "addressRegex (''0x'' @ replicate 40 (CHR ''a''))"
    unfolding extensionIDRegex_def addressRegex_def
    by (rule hex_of_length_0x; simp add: list_all_iff is_hex_def hex_val_def)+
  from env_file_reads_back [OF its x] show ?thesis by simp
qed

section \<open>When registration is clean\<close>

lemma check_status_fail:
  "chk_Status (r1_check a1) = FAIL \<longleftrightarrow> \<not> (\<exists>c. a1 = Inr c)"
  "chk_Status (r2_check w a2 s) = FAIL \<longleftrightarrow> a2 \<noteq> Inr (hex_to_address w s)"
  "chk_Status (r3_check a3) = FAIL \<longleftrightarrow> a3 \<noteq> Inr True"
  "chk_Status (r4_check a3) = FAIL \<longleftrightarrow> a3 \<noteq> Inr True"
  "chk_Status (r7_check w g c s) \<noteq> FAIL"
  by (auto simp: r1_check_def r2_check_def r3_check_def r4_check_def r7_check_def reg_def Let_def
      split: sum.splits)

text \<open>
  C32. With a chain client, a key and both contracts, the registration group reports no
  failure for a non-empty \<^verbatim>\<open>extension.env\<close> exactly when the id counter can be read, the
  extension id is well formed, the deployer is an allowed TEE machine owner, the EVM key type
  is supported, and, only if the instruction sender has the form of an address, the chain
  records that sender. A malformed instruction sender alone does not fail this group.
\<close>

theorem registration_clean_iff:
  assumes "path \<noteq> ''''" and "parseExtensionEnv (file_at w path) = (x, s)" and "x \<noteq> '''' \<or> s \<noteq> ''''"
  shows "\<not> HasFailures (RegisterRegistrationChecks w evm_type [] (Some c) (Some k) (Some g)
       (Some allowed) path) \<longleftrightarrow>
     (\<exists>n. next_public_id g = Inr n) \<and> extensionIDRegex x
     \<and> allowed (int (read_hex (drop 2 x))) k = Inr True
     \<and> key_type_supported g (int (read_hex (drop 2 x))) evm_type = Inr True
     \<and> (\<not> addressRegex s \<or> instructions_sender g (int (read_hex (drop 2 x))) =
          Inr (hex_to_address w s))"
proof -
  have env: "chk_Status (reg i n FAIL m f) = FAIL" for i n m f by (simp add: reg_def)
  show ?thesis
  proof (cases "extensionIDRegex x")
    case False
    with assms env show ?thesis
      by (auto simp: RegisterRegistrationChecks_def Add_def Let_def)
  next
    case True
    with assms show ?thesis
      by (cases "next_public_id g")
        (auto simp: RegisterRegistrationChecks_def registration_onchain_def Add_def Let_def
          check_status_fail)
  qed
qed

lemma matching_ids_eq:
  "matching_ids g a is acc = acc @ map show_int (filter (\<lambda>i. instructions_sender g i = Inr a) is)"
  by (induction "is" arbitrary: acc) (auto split: sum.split)

lemma int64_of_small: "0 \<le> c \<Longrightarrow> c < 2 ^ 63 \<Longrightarrow> int64_of c = c"
  by (simp add: int64_of_def signed_of_int signed_take_bit_int_eq_self)

text \<open>
  The uniqueness check warns exactly when at least two extension ids below the counter
  have the configured instruction sender on chain; ids whose query fails do not count. The
  bound is the range of \<^verbatim>\<open>int64\<close>.
\<close>

theorem uniqueness_warning_iff:
  assumes "0 < c" and "c < 2 ^ 63"
  shows "chk_Status (r7_check w g c s) = WARN \<longleftrightarrow>
     2 \<le> card {i. 0 \<le> i \<and> i < c \<and> instructions_sender g i = Inr (hex_to_address w s)}"
proof -
  let ?P = "\<lambda>i. instructions_sender g i = Inr (hex_to_address w s)"
  have e: "set (filter ?P (ids_below c)) = {i. 0 \<le> i \<and> i < c \<and> ?P i}"
    using assms by (auto simp: ids_below_def int64_of_small image_int_atLeastLessThan)
  have "distinct (filter ?P (ids_below c))"
    by (simp add: ids_below_def distinct_map inj_on_def)
  then have "card (set (filter ?P (ids_below c))) = length (filter ?P (ids_below c))"
    by (rule distinct_card)
  then have "length (filter ?P (ids_below c)) = card {i. 0 \<le> i \<and> i < c \<and> ?P i}"
    unfolding e by (rule sym)
  moreover have "chk_Status (r7_check w g c s) = WARN \<longleftrightarrow> 1 < length (filter ?P (ids_below c))"
    unfolding r7_check_def matching_ids_eq Let_def reg_def by simp
  ultimately show ?thesis by linarith
qed

section \<open>Instances\<close>

definition demo_registry :: registry_contract where
  "demo_registry = \<lparr>next_public_id = Inr 2, instructions_sender = (\<lambda>_. Inr 0),
     key_type_supported = (\<lambda>_ _. Inr True)\<rparr>"

lemma registration_clean_iff_witness:
  "HasFailures (RegisterRegistrationChecks demo_world [] [] (Some \<lparr>code_at = (\<lambda>_. Inr []),
     balance_at = (\<lambda>_. Inr 0), chain_id = Inr 1\<rparr>) (Some 5) (Some demo_registry)
     (Some (\<lambda>_ _. Inr True)) ''extension.env'')"
proof -
  have "file_at demo_world ''extension.env'' = Content (env_file [Setting ''INSTRUCTION_SENDER'' ''0x1234''])"
    by (simp add: demo_world_def env_file_def unlines_def newline_def)
  then have s: "parseExtensionEnv (file_at demo_world ''extension.env'') = ('''', ''0x1234'')"
    using env_file_values [of "[Setting ''INSTRUCTION_SENDER'' ''0x1234'']"]
    by (simp add: graphic_def max_scan_token_def)
  from registration_clean_iff [OF _ s] show ?thesis by simp
qed

lemma uniqueness_warning_iff_witness:
  "chk_Status (r7_check demo_world demo_registry 2 ''0x'') = WARN"
proof -
  have "{i. 0 \<le> i \<and> i < (2 :: int) \<and>
      instructions_sender demo_registry i = Inr (hex_to_address demo_world ''0x'')} = {0 ..< 2}"
    by (auto simp: demo_registry_def demo_world_def)
  then show ?thesis
    using uniqueness_warning_iff [of 2 demo_world demo_registry "''0x''"] by simp
qed

section \<open>The exit code\<close>

text \<open>Every group appends to the report.\<close>

lemma registration_onchain_append:
  "registration_onchain w e (r @ r') cl k g al c i s = r @ registration_onchain w e r' cl k g al c i s"
  by (simp add: registration_onchain_def Let_def Add_def split: option.split)

lemma register_group_append:
  "register_group ws e s path r = r @ register_group ws e s path []"
  unfolding register_group_def RegisterRegistrationChecks_def reg_skip_def
  using registration_onchain_append [of _ _ r "[]"] registration_onchain_append [of _ _ r "[_]"]
  by (simp add: Let_def Add_def registration_onchain_append split: prod.split)

lemma deploy_group_append: "deploy_group ws s path r = r @ deploy_group ws s path []"
  by (simp add: deploy_group_def RegisterDeployChecks_eq)

lemma other_groups_append:
  "services_group ws path r = r @ services_group ws path []"
  "version_group ws path r = r @ version_group ws path []"
  "machine_group ws path r = r @ machine_group ws path []"
  "test_group ws path r = r @ test_group ws path []"
  by (simp_all add: services_group_def RegisterServicesChecks_def version_group_def RegisterTeeVersionChecks_def
      machine_group_def RegisterTeeMachineChecks_def test_group_def RegisterTestChecks_def Add_def)

text \<open>What a step comes to: an error for a bad step or a failed setup, else the checks of the step.\<close>

definition stopped :: "(string \<Rightarrow> string \<Rightarrow> support result) \<Rightarrow> flags \<Rightarrow> bool" where
  "stopped DefaultSupport fl \<longleftrightarrow> fl_step fl \<notin> valid_steps
     \<or> fl_step fl \<in> chain_steps \<and> isl (DefaultSupport (fl_a fl) (fl_c fl))"

lemma run_step_cases:
  "case run_step ws evm_type DefaultSupport fl of
     Inl msg \<Rightarrow> stopped DefaultSupport fl \<and> msg \<noteq> ''''
   | Inr r \<Rightarrow> \<not> stopped DefaultSupport fl \<and> set r = step_checks ws evm_type
       (projr (DefaultSupport (fl_a fl) (fl_c fl))) (fl_step fl) (fl_config fl)"
proof (cases "fl_step fl = ''all''")
  case True
  then show ?thesis
    by (cases "DefaultSupport (fl_a fl) (fl_c fl)")
      (auto simp: run_step_def stopped_def valid_steps_def chain_steps_def step_checks_def Let_def
        register_group_append [of _ _ _ _ "deploy_group _ _ _ _"]
        other_groups_append(1) [of _ _ "_ @ _"] other_groups_append(2) [of _ _ "_ @ _"]
        other_groups_append(3) [of _ _ "_ @ _"] other_groups_append(4) [of _ _ "_ @ _"])
next
  case False
  then show ?thesis
    by (cases "DefaultSupport (fl_a fl) (fl_c fl)")
      (auto simp: run_step_def stopped_def valid_steps_def chain_steps_def step_checks_def Let_def)
qed

text \<open>
  C34. The exit code of the command is 1 exactly when the step is none of the seven it knows, or it
  needs the chain support and that cannot be set up, or one of the checks that belong to the step
  has failed and is not filtered out; otherwise it is 0. A step by itself runs its own group of
  checks and \<^verbatim>\<open>all\<close> runs the six groups. A bad step and a failed setup, and nothing else, write to
  standard error. The in-place filter keeps exactly the results whose identifier was asked for,
  in order.
\<close>

theorem verify_deploy_exit:
  "snd (snd (verify_deploy ws evm_type DefaultSupport fl)) =
     (if fl_step fl \<notin> {''deploy'', ''register'', ''services'', ''tee-version'', ''tee-machine'', ''test'', ''all''}
         \<or> fl_step fl \<in> {''deploy'', ''register'', ''all''} \<and> isl (DefaultSupport (fl_a fl) (fl_c fl))
         \<or> (\<exists>res \<in> step_checks ws evm_type (projr (DefaultSupport (fl_a fl) (fl_c fl))) (fl_step fl) (fl_config fl).
              chk_Status res = FAIL
              \<and> (fl_checks fl = '''' \<or> chk_ID res \<in> allowed_ids (fl_checks fl)))
      then 1 else 0)
   \<and> (fst (snd (verify_deploy ws evm_type DefaultSupport fl)) \<noteq> '''' \<longleftrightarrow>
        fl_step fl \<notin> {''deploy'', ''register'', ''services'', ''tee-version'', ''tee-machine'', ''test'', ''all''}
        \<or> fl_step fl \<in> {''deploy'', ''register'', ''all''} \<and> isl (DefaultSupport (fl_a fl) (fl_c fl)))
   \<and> filter_results (fl_checks fl) report =
      filter (\<lambda>res. fl_checks fl = '''' \<or> chk_ID res \<in> allowed_ids (fl_checks fl)) report"
proof -
  let ?run = "run_step ws evm_type DefaultSupport fl"
  note cases = run_step_cases [where ws = ws and evm_type = evm_type and DefaultSupport = DefaultSupport and fl = fl, unfolded stopped_def valid_steps_def chain_steps_def]
  show ?thesis
  proof (cases ?run)
    case (Inl msg)
    with cases show ?thesis by (auto simp: verify_deploy_def filter_results_eq)
  next
    case (Inr r)
    have "HasFailures (filter_results (fl_checks fl) r) \<longleftrightarrow> (\<exists>res \<in> set r. chk_Status res = FAIL
        \<and> (fl_checks fl = '''' \<or> chk_ID res \<in> allowed_ids (fl_checks fl)))"
      by (auto simp: filter_results_eq HasFailures_iff)
    then have "snd (snd (verify_deploy ws evm_type DefaultSupport fl)) = (if \<exists>res \<in> set r. chk_Status res = FAIL
        \<and> (fl_checks fl = '''' \<or> chk_ID res \<in> allowed_ids (fl_checks fl)) then 1 else 0)"
      "fst (snd (verify_deploy ws evm_type DefaultSupport fl)) = ''''"
      by (simp_all add: verify_deploy_def Let_def Inr)
    with Inr cases show ?thesis by (auto simp: filter_results_eq)
  qed
qed

definition demo_flags :: "string \<Rightarrow> flags" where
  "demo_flags step = \<lparr>fl_a = ''a.json'', fl_c = ''http://c'', fl_config = ''bad'', fl_step = step, fl_checks = '''',
     fl_json = True\<rparr>"

text \<open>An unknown step, a failed setup, and a group with a failed check.\<close>

lemma verify_deploy_exit_witness:
  "snd (snd (verify_deploy (\<lambda>_. demo_world) [] (\<lambda>_ _. Inl ''no file'') (demo_flags ''tests''))) = 1
   \<and> snd (snd (verify_deploy (\<lambda>_. demo_world) [] (\<lambda>_ _. Inl ''no file'') (demo_flags ''deploy''))) = 1
   \<and> snd (snd (verify_deploy (\<lambda>_. demo_world) [] (\<lambda>_ _. Inl ''no file'') (demo_flags ''services''))) = 1"
proof -
  have "s2_check demo_world ''bad'' \<in> step_checks (\<lambda>_. demo_world) [] (projr (Inl ''no file'')) ''services'' ''bad''"
    by (simp add: step_checks_def services_group_def RegisterServicesChecks_def Add_def)
  moreover have "chk_Status (s2_check demo_world ''bad'') = FAIL"
    by (simp add: s2_check_def demo_world_def parseExtensionEnv_def)
  ultimately show ?thesis
    using verify_deploy_exit [of "\<lambda>_. demo_world" "[]" "\<lambda>_ _. Inl ''no file''" "demo_flags ''tests''"]
      verify_deploy_exit [of "\<lambda>_. demo_world" "[]" "\<lambda>_ _. Inl ''no file''" "demo_flags ''deploy''"]
      verify_deploy_exit [of "\<lambda>_. demo_world" "[]" "\<lambda>_ _. Inl ''no file''" "demo_flags ''services''"]
    by (auto simp: demo_flags_def)
qed

section \<open>Hints\<close>

definition hinted :: "CheckResult \<Rightarrow> bool" where
  "hinted res \<longleftrightarrow> chk_Fix res = '''' \<or> chk_Status res = FAIL \<or> chk_Status res = WARN"

lemma hinted_chk [simp]: "hinted (chk a b c st m f) \<longleftrightarrow> f = '''' \<or> st = FAIL \<or> st = WARN"
  by (simp add: hinted_def)

lemma hinted_single [simp]:
  "hinted (s2_check w p)" "hinted (s5_check w)" "hinted (s7_check w)" "hinted (s9_check w)"
  "hinted (s10_check w)" "hinted (v2_check w)" "hinted (v4_check w p)" "hinted (v6_check w)"
  "hinted (t1_check w)" "hinted (t5_check w)" "hinted (t10_check w)" "hinted (e1_check w p)"
  "hinted (e3_check w)" "hinted e6_check"
  by (simp_all add: s2_check_def s5_check_def s7_check_def s9_check_def s10_check_def v2_check_def
      v4_check_def v6_check_def t1_check_def t5_check_def t10_check_def e1_check_def e3_check_def
      e6_check_def Let_def)

lemma hinted_registration [simp]:
  "hinted (reg i n SKIP m '''')" "hinted (reg i n FAIL m f)" "hinted (r1_check a1)"
  "hinted (r2_check w a2 s)" "hinted (r3_check a3)" "hinted (r4_check a3)" "hinted (r7_check w g c s)"
  by (auto simp: r1_check_def r2_check_def r3_check_def r4_check_def r7_check_def reg_def Let_def
      split: sum.splits)

lemma hinted_deploy [simp]:
  "hinted (d3_check w la)" "hinted (d1_check w c la)" "hinted (CheckDeployerKeySource w)"
  "hinted (funds_check w c k)" "hinted (checkChainID cc)" "hinted (d7_check w vars key m)"
  by (auto simp: d3_check_def d1_check_def CheckDeployerKeySource_def funds_check_def
      checkChainID_def d7_check_def split: option.splits sum.splits prod.splits)

lemma hinted_format: "res \<in> set (CheckExtensionEnvFormat w path) \<Longrightarrow> hinted res"
  by (auto simp: CheckExtensionEnvFormat_def Let_def split: file_state.splits)

lemma hinted_deploy_group: "list_all hinted (RegisterDeployChecks w [] client key o1 o2 path)"
  by (auto simp: RegisterDeployChecks_eq deploy_tail_def list_all_iff hinted_format
      split: option.splits if_splits)

lemma hinted_registration_onchain:
  "list_all hinted r \<Longrightarrow> list_all hinted (registration_onchain w e r cl k g al c i s)"
  by (simp add: registration_onchain_def Let_def Add_def split: option.split)

lemma hinted_register_group:
  "list_all hinted r \<Longrightarrow> list_all hinted (RegisterRegistrationChecks w e r cl k g al path)"
  by (auto simp: RegisterRegistrationChecks_def reg_skip_def Let_def Add_def
      intro!: hinted_registration_onchain split: prod.split option.split)

lemma hinted_other_groups:
  "list_all hinted r \<Longrightarrow> list_all hinted (RegisterServicesChecks w r path)"
  "list_all hinted r \<Longrightarrow> list_all hinted (RegisterTeeVersionChecks w r path)"
  "list_all hinted r \<Longrightarrow> list_all hinted (RegisterTeeMachineChecks w r path)"
  "list_all hinted r \<Longrightarrow> list_all hinted (RegisterTestChecks w r path)"
  by (simp_all add: RegisterServicesChecks_def RegisterTeeVersionChecks_def
      RegisterTeeMachineChecks_def RegisterTestChecks_def Add_def)

text \<open>
  Whatever step is run, a result carries a hint how to fix it only when it failed or
  warned, as the report's type promises.
\<close>

theorem hints_only_on_problems:
  assumes "run_step ws evm_type DefaultSupport fl = Inr r" and "res \<in> set r"
  shows "chk_Fix res = '''' \<or> chk_Status res = FAIL \<or> chk_Status res = WARN"
proof -
  have "list_all hinted r"
    using assms(1)
    by (auto simp: run_step_def deploy_group_def register_group_def services_group_def
        version_group_def machine_group_def test_group_def Let_def
        intro!: hinted_other_groups hinted_register_group hinted_deploy_group
        split: if_splits sum.splits)
  then show ?thesis using assms(2) by (auto simp: list_all_iff hinted_def)
qed

lemma hints_only_on_problems_witness:
  "chk_Fix e6_check = '''' \<or> chk_Status e6_check = FAIL \<or> chk_Status e6_check = WARN"
  using hints_only_on_problems [of "\<lambda>_. demo_world" "[]" "\<lambda>_ _. Inl ''''"
      "\<lparr>fl_a = '''', fl_c = '''', fl_config = '''', fl_step = ''test'', fl_checks = '''',
        fl_json = False\<rparr>" "[e1_check demo_world '''', e3_check demo_world, e6_check]" e6_check]
  by (simp add: run_step_def test_group_def RegisterTestChecks_def Add_def)

end
