(* ===== verification/IO_Trace.thy ===== *)
theory IO_Trace
  imports Prelude
begin

text \<open>
  Programs that talk to the outside: a chain node, HTTP services, the file system. A run
  threads the list of calls made so far; the answer to a call is a function of that history,
  so that the environment may answer the same question differently later. A failed call is
  \<^term>\<open>Inl\<close> with the error's text, and \<open>bindE\<close> stops at the first failure, which is Go's
  \<^verbatim>\<open>if err != nil { return err }\<close>.
\<close>

section \<open>The monad\<close>

type_synonym ('c, 'a) io = "'c list \<Rightarrow> 'a result \<times> 'c list"

definition ret :: "'a \<Rightarrow> ('c, 'a) io" where
  "ret x = (\<lambda>h. (Inr x, h))"

definition throw :: "string \<Rightarrow> ('c, 'a) io" where
  "throw err = (\<lambda>h. (Inl err, h))"

definition bindE :: "('c, 'a) io \<Rightarrow> ('a \<Rightarrow> ('c, 'b) io) \<Rightarrow> ('c, 'b) io" where
  "bindE m f = (\<lambda>h. case m h of (Inl err, h') \<Rightarrow> (Inl err, h') | (Inr x, h') \<Rightarrow> f x h')"

text \<open>One call: its answer depends on the calls before it, and it joins the history.\<close>

definition perform :: "'c \<Rightarrow> ('c list \<Rightarrow> 'a result) \<Rightarrow> ('c, 'a) io" where
  "perform c answer = (\<lambda>h. (answer h, h @ [c]))"

text \<open>The outcome as a value, for code that looks at the error itself.\<close>

definition attempt :: "('c, 'a) io \<Rightarrow> ('c, 'a result) io" where
  "attempt m = (\<lambda>h. case m h of (r, h') \<Rightarrow> (Inr r, h'))"

text \<open>An error passed on with another text, as \<^verbatim>\<open>errors.Errorf\<close> does.\<close>

definition relabel :: "(string \<Rightarrow> string) \<Rightarrow> ('c, 'a) io \<Rightarrow> ('c, 'a) io" where
  "relabel f m = (\<lambda>h. case m h of (Inl err, h') \<Rightarrow> (Inl (f err), h') | (Inr x, h') \<Rightarrow> (Inr x, h'))"

definition lift_result :: "'a result \<Rightarrow> ('c, 'a) io" where
  "lift_result r = (\<lambda>h. (r, h))"

fun for_each :: "('x \<Rightarrow> ('c, unit) io) \<Rightarrow> 'x list \<Rightarrow> ('c, unit) io" where
  "for_each f [] = ret ()"
| "for_each f (x # xs) = bindE (f x) (\<lambda>_. for_each f xs)"

lemmas io_defs = ret_def throw_def bindE_def perform_def attempt_def relabel_def lift_result_def

lemma bindE_ret [simp]: "bindE (ret x) f = f x"
  by (simp add: bindE_def ret_def)

lemma bindE_throw [simp]: "bindE (throw err) f = throw err"
  by (simp add: bindE_def throw_def)

lemma ret_bindE [simp]: "bindE m ret = m"
  by (rule ext) (simp add: bindE_def ret_def split: prod.split sum.split)

lemma bindE_assoc: "bindE (bindE m f) g = bindE m (\<lambda>x. bindE (f x) g)"
  by (rule ext) (simp add: bindE_def split: prod.split sum.split)

text \<open>Running the first operation of a sequence.\<close>

named_theorems run_simps \<open>one step of a run\<close>

lemma run_perform [run_simps]:
  "bindE (perform c answer) f h =
     (case answer h of Inl err \<Rightarrow> (Inl err, h @ [c]) | Inr x \<Rightarrow> f x (h @ [c]))"
  by (simp add: bindE_def perform_def)

lemma run_attempt [run_simps]: "bindE (attempt (perform c answer)) f h = f (answer h) (h @ [c])"
  by (simp add: bindE_def attempt_def perform_def)

lemma run_lift [run_simps]:
  "bindE (lift_result r) f h = (case r of Inl err \<Rightarrow> (Inl err, h) | Inr x \<Rightarrow> f x h)"
  by (simp add: bindE_def lift_result_def)

lemma run_result [run_simps]: "lift_result r h = (r, h)"
  by (simp add: lift_result_def)

lemma bindE_Inr:
  "bindE m f h = (Inr y, h') \<longleftrightarrow> (\<exists>x h1. m h = (Inr x, h1) \<and> f x h1 = (Inr y, h'))"
  by (auto simp: bindE_def split: prod.splits sum.splits)

lemma relabel_Inr: "relabel f m h = (Inr x, h') \<longleftrightarrow> m h = (Inr x, h')"
  by (auto simp: relabel_def split: prod.splits sum.splits)

lemma perform_Inr: "perform c answer h = (Inr x, h') \<longleftrightarrow> answer h = Inr x \<and> h' = h @ [c]"
  by (auto simp: perform_def)

lemma lift_Inr: "lift_result r h = (Inr x, h') \<longleftrightarrow> r = Inr x \<and> h' = h"
  by (auto simp: lift_result_def)

lemma ret_Inr: "ret y h = (Inr x, h') \<longleftrightarrow> y = x \<and> h' = h"
  by (auto simp: ret_def)

lemma throw_Inr: "throw err h \<noteq> (Inr x, h')"
  by (simp add: throw_def)

lemma attempt_Inr: "attempt m h = (Inr r, h') \<longleftrightarrow> m h = (r, h')"
  by (auto simp: attempt_def split: prod.splits)

text \<open>Taking apart a run that succeeded.\<close>

lemmas succeeded = bindE_Inr relabel_Inr perform_Inr lift_Inr ret_Inr throw_Inr attempt_Inr

lemma run_attempt_any: "bindE (attempt m) f h = f (fst (m h)) (snd (m h))"
  by (simp add: bindE_def attempt_def split: prod.split)

lemma run_ret [run_simps]: "ret x h = (Inr x, h)"
  by (simp add: ret_def)

lemma run_throw [run_simps]: "throw err h = (Inl err, h)"
  by (simp add: throw_def)

section \<open>What a program may do\<close>

text \<open>
  \<open>only P m\<close>: the calls \<open>m\<close> adds to the history all satisfy \<open>P\<close>, and nothing before is
  changed. The rules below prove it by following the program's text.
\<close>

definition only :: "('c \<Rightarrow> bool) \<Rightarrow> ('c, 'a) io \<Rightarrow> bool" where
  "only P m \<longleftrightarrow> (\<forall>h. \<exists>cs. snd (m h) = h @ cs \<and> list_all P cs)"

named_theorems only_rules \<open>which calls a program makes\<close>

lemma only_ret [only_rules]: "only P (ret x)"
  by (simp add: only_def ret_def)

lemma only_throw [only_rules]: "only P (throw err)"
  by (simp add: only_def throw_def)

lemma only_lift [only_rules]: "only P (lift_result r)"
  by (simp add: only_def lift_result_def)

text \<open>When what follows a call depends on its answer.\<close>

lemma only_perform_bind:
  assumes "P c" and "\<And>h x. answer h = Inr x \<Longrightarrow> only P (f x)"
  shows "only P (bindE (perform c answer) f)"
  unfolding only_def
proof
  fix h
  show "\<exists>cs. snd (bindE (perform c answer) f h) = h @ cs \<and> list_all P cs"
  proof (cases "answer h")
    case (Inl err)
    then show ?thesis using assms(1) by (simp add: run_perform)
  next
    case (Inr x)
    obtain cs where "snd (f x (h @ [c])) = (h @ [c]) @ cs" "list_all P cs"
      using assms(2) [OF Inr] unfolding only_def by blast
    then show ?thesis using Inr assms(1) by (intro exI [of _ "c # cs"]) (simp add: run_perform)
  qed
qed

lemma only_lift_bind:
  assumes "\<And>x. r = Inr x \<Longrightarrow> only P (f x)"
  shows "only P (bindE (lift_result r) f)"
  by (cases r) (use assms in \<open>auto simp: only_def run_lift\<close>)

lemma only_perform: "P c \<Longrightarrow> only P (perform c answer)"
  by (simp add: only_def perform_def)

lemma only_attempt [only_rules]: "only P m \<Longrightarrow> only P (attempt m)"
  by (auto simp: only_def attempt_def split: prod.split) (metis snd_conv)

lemma only_relabel [only_rules]: "only P m \<Longrightarrow> only P (relabel f m)"
  by (auto simp: only_def relabel_def split: prod.split sum.split) (metis snd_conv)+

lemma only_bindE [only_rules]:
  assumes "only P m" and "\<And>x. only P (f x)"
  shows "only P (bindE m f)"
  unfolding only_def
proof
  fix h
  obtain r h1 where m: "m h = (r, h1)" by fastforce
  with assms(1) obtain cs where cs: "h1 = h @ cs" "list_all P cs" unfolding only_def by (metis snd_conv)
  show "\<exists>cs. snd (bindE m f h) = h @ cs \<and> list_all P cs"
  proof (cases r)
    case (Inl err)
    then show ?thesis using m cs by (simp add: bindE_def)
  next
    case (Inr x)
    obtain cs' where "snd (f x h1) = h1 @ cs'" "list_all P cs'"
      using assms(2) [of x] unfolding only_def by blast
    then show ?thesis using m cs Inr by (intro exI [of _ "cs @ cs'"]) (simp add: bindE_def)
  qed
qed

lemma only_for_each [only_rules]: "(\<And>x. only P (f x)) \<Longrightarrow> only P (for_each f xs)"
  by (induction xs) (auto intro: only_rules)

lemma only_if [only_rules]: "(b \<Longrightarrow> only P m) \<Longrightarrow> (\<not> b \<Longrightarrow> only P n) \<Longrightarrow> only P (if b then m else n)"
  by simp

lemma only_option [only_rules]:
  "(x = None \<Longrightarrow> only P m) \<Longrightarrow> (\<And>y. x = Some y \<Longrightarrow> only P (f y)) \<Longrightarrow>
     only P (case x of None \<Rightarrow> m | Some y \<Rightarrow> f y)"
  by (cases x) auto

lemma only_sum [only_rules]:
  "(\<And>a. x = Inl a \<Longrightarrow> only P (f a)) \<Longrightarrow> (\<And>b. x = Inr b \<Longrightarrow> only P (g b)) \<Longrightarrow>
     only P (case x of Inl a \<Rightarrow> f a | Inr b \<Rightarrow> g b)"
  by (cases x) auto

lemma only_prod [only_rules]: "(\<And>a b. x = (a, b) \<Longrightarrow> only P (f a b)) \<Longrightarrow> only P (case x of (a, b) \<Rightarrow> f a b)"
  by (cases x) auto

lemma only_list [only_rules]:
  "(xs = [] \<Longrightarrow> only P m) \<Longrightarrow> (\<And>y ys. xs = y # ys \<Longrightarrow> only P (f y ys)) \<Longrightarrow>
     only P (case xs of [] \<Rightarrow> m | y # ys \<Rightarrow> f y ys)"
  by (cases xs) auto

lemma only_mono: "only P m \<Longrightarrow> (\<And>c. P c \<Longrightarrow> Q c) \<Longrightarrow> only Q m"
  by (fastforce simp: only_def list_all_iff)


section \<open>What justifies a call\<close>

text \<open>
  \<open>justified P h cs\<close>: each call of \<open>cs\<close> is allowed by the history just before it. With
  \<open>follows A P m\<close>, a run of \<open>m\<close> from a history with \<open>A\<close> adds only justified calls.
\<close>

fun justified :: "('c list \<Rightarrow> 'c \<Rightarrow> bool) \<Rightarrow> 'c list \<Rightarrow> 'c list \<Rightarrow> bool" where
  "justified P h [] = True"
| "justified P h (c # cs) = (P h c \<and> justified P (h @ [c]) cs)"

lemma justified_append [simp]:
  "justified P h (cs @ ds) \<longleftrightarrow> justified P h cs \<and> justified P (h @ cs) ds"
  by (induction cs arbitrary: h) auto

lemma justified_mono: "justified P h cs \<Longrightarrow> (\<And>h c. P h c \<Longrightarrow> Q h c) \<Longrightarrow> justified Q h cs"
  by (induction cs arbitrary: h) auto

definition follows ::
  "('c list \<Rightarrow> bool) \<Rightarrow> ('c list \<Rightarrow> 'c \<Rightarrow> bool) \<Rightarrow> ('c, 'a) io \<Rightarrow> bool" where
  "follows A P m \<longleftrightarrow> (\<forall>h. A h \<longrightarrow> (\<exists>cs. snd (m h) = h @ cs \<and> justified P h cs))"

named_theorems follows_rules \<open>which calls a program makes, and after which calls\<close>

lemma follows_run: "follows (\<lambda>_. True) P m \<Longrightarrow> \<exists>cs. snd (m h) = h @ cs \<and> justified P h cs"
  by (simp add: follows_def)

lemma follows_weaken: "follows (\<lambda>_. True) P m \<Longrightarrow> follows A P m"
  by (simp add: follows_def)

lemma follows_only: "only Q m \<Longrightarrow> (\<And>h c. Q c \<Longrightarrow> P h c) \<Longrightarrow> follows A P m"
proof -
  assume o: "only Q m" and q: "\<And>h c. Q c \<Longrightarrow> P h c"
  have "list_all Q cs \<Longrightarrow> justified P h cs" for h cs
    by (induction cs arbitrary: h) (auto intro: q)
  with o show "follows A P m" unfolding follows_def only_def by blast
qed

lemma follows_ret [follows_rules]: "follows A P (ret x)"
  by (simp add: follows_def ret_def)

lemma follows_throw [follows_rules]: "follows A P (throw err)"
  by (simp add: follows_def throw_def)

lemma follows_lift [follows_rules]: "follows A P (lift_result r)"
  by (simp add: follows_def lift_result_def)

lemma follows_perform: "(\<And>h. A h \<Longrightarrow> P h c) \<Longrightarrow> follows A P (perform c answer)"
  by (simp add: follows_def perform_def)

lemma follows_if [follows_rules]:
  "(b \<Longrightarrow> follows A P m) \<Longrightarrow> (\<not> b \<Longrightarrow> follows A P n) \<Longrightarrow> follows A P (if b then m else n)"
  by simp

lemma follows_option [follows_rules]:
  "(x = None \<Longrightarrow> follows A P m) \<Longrightarrow> (\<And>y. x = Some y \<Longrightarrow> follows A P (f y)) \<Longrightarrow>
     follows A P (case x of None \<Rightarrow> m | Some y \<Rightarrow> f y)"
  by (cases x) auto

lemma follows_sum [follows_rules]:
  "(\<And>a. x = Inl a \<Longrightarrow> follows A P (f a)) \<Longrightarrow> (\<And>b. x = Inr b \<Longrightarrow> follows A P (g b)) \<Longrightarrow>
     follows A P (case x of Inl a \<Rightarrow> f a | Inr b \<Rightarrow> g b)"
  by (cases x) auto

lemma follows_relabel [follows_rules]: "follows A P m \<Longrightarrow> follows A P (relabel f m)"
  by (auto simp: follows_def relabel_def split: prod.split sum.split)

lemma follows_attempt [follows_rules]: "follows A P m \<Longrightarrow> follows A P (attempt m)"
  by (auto simp: follows_def attempt_def split: prod.split)

text \<open>A relabelled or attempted call is a call with another answer.\<close>

lemma relabel_perform:
  "relabel f (perform c answer) = perform c (\<lambda>h. case answer h of Inl err \<Rightarrow> Inl (f err) | Inr x \<Rightarrow> Inr x)"
  by (rule ext) (simp add: relabel_def perform_def split: sum.split)

lemma attempt_perform: "attempt (perform c answer) = perform c (\<lambda>h. Inr (answer h))"
  by (rule ext) (simp add: attempt_def perform_def)

lemma follows_lift_bind [follows_rules]:
  "(\<And>x. r = Inr x \<Longrightarrow> follows A P (f x)) \<Longrightarrow> follows A P (bindE (lift_result r) f)"
  by (cases r) (auto simp: follows_def run_lift)

lemma follows_prod [follows_rules]:
  "(\<And>a b. x = (a, b) \<Longrightarrow> follows A P (f a b)) \<Longrightarrow> follows A P (case x of (a, b) \<Rightarrow> f a b)"
  by (cases x) auto

lemma follows_bind_post:
  assumes "follows A P m" and "\<And>h x h'. A h \<Longrightarrow> m h = (Inr x, h') \<Longrightarrow> B x h'"
    and "\<And>x. follows (B x) P (f x)"
  shows "follows A P (bindE m f)"
  unfolding follows_def
proof (intro allI impI)
  fix h assume "A h"
  obtain r h1 where m: "m h = (r, h1)" by fastforce
  with assms(1) \<open>A h\<close> obtain cs where cs: "h1 = h @ cs" "justified P h cs"
    unfolding follows_def by (metis snd_conv)
  show "\<exists>cs. snd (bindE m f h) = h @ cs \<and> justified P h cs"
  proof (cases r)
    case (Inl err)
    then show ?thesis using m cs by (simp add: bindE_def)
  next
    case (Inr x)
    then have "B x h1" using assms(2) [OF \<open>A h\<close>] m by simp
    then obtain ds where "snd (f x h1) = h1 @ ds" "justified P h1 ds"
      using assms(3) unfolding follows_def by blast
    then show ?thesis using m cs Inr by (intro exI [of _ "cs @ ds"]) (simp add: bindE_def)
  qed
qed

lemma follows_bind:
  "follows A P m \<Longrightarrow> (\<And>x. follows (\<lambda>_. True) P (f x)) \<Longrightarrow> follows A P (bindE m f)"
  by (rule follows_bind_post [where B = "\<lambda>_ _. True"]) simp_all

lemma follows_perform_bind:
  assumes "\<And>h. A h \<Longrightarrow> P h c"
    and "\<And>x. follows (\<lambda>h'. \<exists>h. A h \<and> answer h = Inr x \<and> h' = h @ [c]) P (f x)"
  shows "follows A P (bindE (perform c answer) f)"
  by (rule follows_bind_post [OF follows_perform _ assms(2)]) (auto simp: assms(1) perform_def)

lemma follows_for_each:
  "(\<And>x. x \<in> set xs \<Longrightarrow> follows (\<lambda>_. True) P (f x)) \<Longrightarrow> follows (\<lambda>_. True) P (for_each f xs)"
  by (induction xs) (auto intro: follows_rules follows_bind)

end
