(* ===== verification/Chain_Access.thy ===== *)
theory Chain_Access
  imports IO_Trace Go_Text
begin

text \<open>
  The outside of the registration tools: the calls they make, what they get back, and the
  two helpers every transaction goes through, \<^verbatim>\<open>CheckTx\<close> with \<^verbatim>\<open>getFailingMessage\<close>
  (\<^verbatim>\<open>tools/pkg/support/support.go\<close>) and the decoding of revert data
  (\<^verbatim>\<open>tools/pkg/fccutils/revert.go\<close>). Contract bindings, ABI and signature functions are
  third-party code and are fields of \<open>outside\<close>; logging is not modelled.
\<close>

section \<open>Values exchanged with the chain\<close>

text \<open>A key is represented by a number, a public key by its coordinates.\<close>

type_synonym private_key = nat
type_synonym public_key = "int \<times> int"

record machine_data =
  tmd_ExtensionId :: int
  tmd_InitialOwner :: address
  tmd_CodeHash :: hash
  tmd_Platform :: hash
  tmd_PublicKey :: public_key
  tmd_GovernanceHash :: hash

record signature =
  sig_V :: char
  sig_R :: bytes
  sig_S :: bytes

text \<open>
  The proof of an availability check, and the proof response it is built from. What is only
  carried along (signatures, header, the other fields of the request, the machine's state)
  is kept as bytes.
\<close>

record prove_response =
  pv_DataProviderSignatures :: "bytes list"
  pv_ResponseHeader :: bytes
  pv_RequestBody :: bytes
  pv_ResponseBody :: bytes

record check_request =
  cq_TeeId :: address
  cq_Others :: bytes

record check_response =
  cs_Status :: nat
  cs_TeeTimestamp :: u64
  cs_CodeHash :: hash
  cs_Platform :: hash
  cs_InitialSigningPolicyId :: nat
  cs_LastSigningPolicyId :: nat
  cs_State :: bytes

record availability_proof =
  pr_SigningPolicySignatures :: "bytes list"
  pr_Header :: bytes
  pr_RequestBody :: check_request
  pr_ResponseBody :: check_response

text \<open>The terms of an auction, the arguments of \<^verbatim>\<open>createAuction\<close>.\<close>

record lot_terms =
  lt_Lot :: string
  lt_Kind :: "8 word"
  lt_Token :: address
  lt_TokenId :: int
  lt_Amount :: int
  lt_PayToken :: address
  lt_Deadline :: u64
  lt_Reserve :: int

text \<open>
  The transactions, with the contract they go to where it is not fixed. A native transfer
  carries its nonce, recipient, gas limit and gas price, a token transfer its gas limit.
\<close>

datatype (plugins only: code size) tx =
    Tx_Register_Machine machine_data signature address string address
  | Tx_Request_Attestation address address
  | Tx_Request_Availability address hash address address address
  | Tx_To_Production availability_proof
  | Tx_Pause address
  | Tx_Set_Governance int "address list" u64
  | Tx_Register_Extension address address
  | Tx_Add_Machine_Owners int "address list"
  | Tx_Add_Project_Owners int "address list"
  | Tx_Add_Key_Types int "hash list"
  | Tx_Add_Version int bytes hash "hash list"
  | Tx_Deploy_Auction address address
  | Tx_Set_Extension_Id address
  | Tx_Set_Tee_Address address address
  | Tx_Create_Auction address lot_terms
  | Tx_Place_Bid address int bytes
  | Tx_Close_Auction address int
  | Tx_Settle address bytes hash string "8 word" bytes
  | Tx_Native u64 address u64 int
  | Tx_Token_Approve address address int
  | Tx_Token_Transfer address address int u64
  | Tx_Nft_Mint address address
  | Tx_Nft_Approve address address int

datatype (plugins only: code size) query =
    Q_Tee_Machine address
  | Q_Machine_Status address
  | Q_Machine_Owner address
  | Q_Active_Machines int
  | Q_Reward_Epoch
  | Q_Governance_Hash int
  | Q_Machine_Owner_Allowed int address
  | Q_Project_Owner_Allowed int address
  | Q_Key_Type int hash
  | Q_Version_Supported int hash hash
  | Q_Chain_Head
  | Q_Token_Balance address address
  | Q_Nft_Owner address int
  | Q_Pending_Nonce address
  | Q_Gas_Price
  | Q_Chain_Id
  | Q_Block_Number
  | Q_Code address
  | Q_Extensions string "int option"
  | Q_Machine string address

record call_msg =
  msg_From :: address
  msg_To :: "address option"
  msg_Value :: int
  msg_Data :: bytes

datatype (plugins only: code size) call =
    Http_Get string
  | Http_Post string bytes
  | Read_File string
  | Write_File string bytes
  | Remove_File string
  | Query query
  | Send address int tx
  | Wait_Mined hash
  | Tx_By_Hash hash
  | Call_Contract call_msg
  | Sleep nat
  | Random
  | Print string
  | Make_Parents string

type_synonym history = "call list"

datatype error_data = No_Data | Data_String string | Data_Bytes bytes | Data_Other

text \<open>An RPC error with its text and the \<^verbatim>\<open>ErrorData\<close> some nodes attach.\<close>

record rpc_error =
  err_Text :: string
  err_Data :: error_data

record receipt =
  rc_Status :: u64
  rc_Logs :: "bytes list"
  rc_TxHash :: hash

datatype read_answer = File_Missing | File_Error string | File_Bytes bytes

text \<open>
  \<^verbatim>\<open>SignedTeeInfoResponse\<close>: the fields the tools read. \<open>ti_LastSigningPolicyID\<close> is the
  number after its conversion to \<^verbatim>\<open>uint64\<close>.
\<close>

record tee_info =
  ti_PublicKey :: bytes
  ti_ChainID :: u64
  ti_LastSigningPolicyID :: u64
  ti_ExtensionID :: hash
  ti_InitialOwner :: address
  ti_CodeHash :: hash
  ti_Platform :: hash
  ti_MachineKey :: public_key
  ti_GovernanceHash :: hash
  ti_DataSignature :: bytes
  ti_ProxySignature :: bytes
  ti_Attestation :: bytes

section \<open>The outside\<close>

text \<open>Pure third-party functions, and the process environment.\<close>

record crypto_lib =
  os_env :: "string \<Rightarrow> string"
  pub_to_address :: "public_key \<Rightarrow> address"
  key_address :: "private_key \<Rightarrow> address"
  hex_to_key :: "string \<Rightarrow> private_key result"
  transactor :: "private_key \<Rightarrow> unit result"
  parse_pub_key :: "bytes \<Rightarrow> public_key result"
  tee_info_hash :: "tee_info \<Rightarrow> bytes result"
  proxy_payload_hash :: "u64 \<Rightarrow> bytes \<Rightarrow> hash result"
  text_hash :: "hash \<Rightarrow> bytes"
  sig_to_pub :: "bytes \<Rightarrow> bytes \<Rightarrow> public_key result"
  signature_vrs :: "bytes \<Rightarrow> bytes result"
  decode_tee_info :: "bytes \<Rightarrow> tee_info result"
  attestation_claims :: "bytes \<Rightarrow> (hash result \<times> hash result) result"
  hash_text :: "hash \<Rightarrow> string"
  governance_hash_of :: "address list \<Rightarrow> u64 \<Rightarrow> hash result"

record abi_lib = crypto_lib +
  unpack_revert :: "bytes \<Rightarrow> string result"
  pack_register :: "machine_data \<Rightarrow> signature \<Rightarrow> address \<Rightarrow> string \<Rightarrow> address \<Rightarrow> bytes result"
  custom_errors :: "(string \<times> bytes \<times> (bytes \<Rightarrow> string result)) list"
  parse_instructions_sent :: "bytes \<Rightarrow> hash result"
  parse_attestation_requested :: "bytes \<Rightarrow> hash result"
  parse_extension_registered :: "bytes \<Rightarrow> int option result"
  parse_contracts_set :: "bytes \<Rightarrow> unit result"
  parse_machine_owners_added :: "bytes \<Rightarrow> unit result"
  parse_project_owners_added :: "bytes \<Rightarrow> unit result"
  unmarshal_prove :: "bytes \<Rightarrow> prove_response result"
  decode_header :: "bytes \<Rightarrow> bytes result"
  decode_to_request :: "bytes \<Rightarrow> check_request result"
  decode_to_response :: "bytes \<Rightarrow> check_response result"
  verification_abi :: "unit result"
  pack_availability :: "address \<Rightarrow> hash \<Rightarrow> address \<Rightarrow> address \<Rightarrow> address \<Rightarrow> bytes result"
  abi_errors :: "string \<Rightarrow> (string \<times> bytes \<times> (bytes \<Rightarrow> string result)) list result"
  from_hex :: "string \<Rightarrow> bytes"
  decode_action_response :: "bytes \<Rightarrow> bytes result"
  str_to_address :: "string \<Rightarrow> address"
  str_to_hash :: "string \<Rightarrow> hash"
  marshal_proxy_request :: "string \<Rightarrow> bytes result"
  evm_key_type :: hash

text \<open>Answers that depend on the calls made so far.\<close>

record chain_reads = abi_lib +
  tee_machine_at :: "history \<Rightarrow> address \<Rightarrow> address result"
  machine_status_at :: "history \<Rightarrow> address \<Rightarrow> nat result"
  machine_owner_at :: "history \<Rightarrow> address \<Rightarrow> address result"
  active_machines_at :: "history \<Rightarrow> int \<Rightarrow> address list result"
  reward_epoch_at :: "history \<Rightarrow> int option result"
  governance_hash_at :: "history \<Rightarrow> int \<Rightarrow> hash result"
  machine_owner_allowed_at :: "history \<Rightarrow> int \<Rightarrow> address \<Rightarrow> bool result"
  project_owner_allowed_at :: "history \<Rightarrow> int \<Rightarrow> address \<Rightarrow> bool result"
  key_type_supported_at :: "history \<Rightarrow> int \<Rightarrow> hash \<Rightarrow> bool result"
  version_supported_at :: "history \<Rightarrow> int \<Rightarrow> hash \<Rightarrow> hash \<Rightarrow> bool result"

record outside = chain_reads +
  get_url :: "history \<Rightarrow> string \<Rightarrow> (nat \<times> bytes) result"
  post_url :: "history \<Rightarrow> string \<Rightarrow> bytes \<Rightarrow> nat result"
  read_file :: "history \<Rightarrow> string \<Rightarrow> read_answer"
  write_file :: "history \<Rightarrow> string \<Rightarrow> bytes \<Rightarrow> unit result"
  remove_file :: "history \<Rightarrow> string \<Rightarrow> unit result"
  send_tx :: "history \<Rightarrow> address \<Rightarrow> int \<Rightarrow> tx \<Rightarrow> rpc_error + hash"
  wait_mined :: "history \<Rightarrow> hash \<Rightarrow> receipt result"
  tx_by_hash :: "history \<Rightarrow> hash \<Rightarrow> call_msg result"
  call_contract :: "history \<Rightarrow> call_msg \<Rightarrow> rpc_error + bytes"

section \<open>The support structure\<close>

record Addresses =
  ad_FlareSystemManager :: address
  ad_Fdc2Hub :: address
  ad_FlareTeeManager :: address

definition no_addresses :: Addresses where
  "no_addresses = \<lparr>ad_FlareSystemManager = 0, ad_Fdc2Hub = 0, ad_FlareTeeManager = 0\<rparr>"

text \<open>The funded key and the addresses; the diamond's address is used most.\<close>

record tool_support =
  su_Prv :: private_key
  su_Addresses :: Addresses

definition su_FlareTeeManager :: "tool_support \<Rightarrow> address" where
  "su_FlareTeeManager s = ad_FlareTeeManager (su_Addresses s)"

end
