(* ===== verification/Tx_Check.thy ===== *)
theory Tx_Check
  imports Chain_Access
begin

text \<open>
  Sending a transaction and waiting for it (\<^verbatim>\<open>support.CheckTx\<close>, \<^verbatim>\<open>getFailingMessage\<close>,
  \<^verbatim>\<open>decodeRevertFromError\<close> in \<^verbatim>\<open>tools/pkg/support/support.go\<close>) and the decoding of revert
  data (\<^verbatim>\<open>tools/pkg/fccutils/revert.go\<close>).
\<close>

section \<open>Hexadecimal byte strings\<close>

fun hex_decode :: "string \<Rightarrow> bytes option" where
  "hex_decode [] = Some []"
| "hex_decode [c] = None"
| "hex_decode (a # b # s) =
     (case (hex_val a, hex_val b, hex_decode s) of
        (Some x, Some y, Some rest) \<Rightarrow> Some (char_of (16 * x + y) # rest)
      | _ \<Rightarrow> None)"

definition hex_encode :: "bytes \<Rightarrow> string" where
  "hex_encode b = concat (map (\<lambda>c. hex_pad 2 (of_char c)) b)"

lemma hex_decode_encode [simp]: "hex_decode (hex_encode b) = Some b"
proof (induction b)
  case (Cons c b)
  have "(of_char c :: nat) div 16 < 16" "(of_char c :: nat) mod 16 < 16"
    using nat_of_char_less_256 [of c] by (simp_all add: less_mult_imp_div_less)
  then have "hex_decode (hex_pad 2 (of_char c) @ hex_encode b) =
      Some (char_of (16 * (of_char c div 16) + (of_char c mod 16 :: nat)) # b)"
    using Cons by (simp add: numeral_2_eq_2 hex_val_digit)
  then show ?case by (simp add: hex_encode_def)
qed (simp add: hex_encode_def)

lemma length_hex_encode [simp]: "length (hex_encode b) = 2 * length b"
  by (induction b) (simp_all add: hex_encode_def numeral_2_eq_2)

section \<open>Revert data\<close>

definition decodeRevertHex :: "outside \<Rightarrow> string \<Rightarrow> string" where
  "decodeRevertHex W hexStr =
     (let s = trim_prefix hexStr ''0x'' in
      case hex_decode s of
        None \<Rightarrow> ''''
      | Some decoded \<Rightarrow>
          if length decoded < 4 then ''''
          else (case unpack_revert W decoded of Inr reason \<Rightarrow> reason | Inl _ \<Rightarrow> ''0x'' @ s))"

definition DecodeRevertReason :: "outside \<Rightarrow> rpc_error option \<Rightarrow> string" where
  "DecodeRevertReason W err =
     (case err of
        None \<Rightarrow> ''''
      | Some e \<Rightarrow> (case err_Data e of Data_String s \<Rightarrow> decodeRevertHex W s | _ \<Rightarrow> ''''))"

definition SimulateAndDecodeRevert :: "outside \<Rightarrow> call_msg \<Rightarrow> (call, string) io" where
  "SimulateAndDecodeRevert W msg =
     bindE (perform (Call_Contract msg) (\<lambda>h. Inr (call_contract W h msg))) (\<lambda>answer.
       case answer of
         Inl e \<Rightarrow>
           (let reason = DecodeRevertReason W (Some e)
            in ret (if reason \<noteq> '''' then reason else err_Text e))
       | Inr res \<Rightarrow> ret (if 4 \<le> length res then decodeRevertHex W (hex_encode res) else ''''))"

text \<open>
  The errors of the ABI in the order Go iterates over them: name, identifier, and the text
  of the unpacked arguments.
\<close>

fun match_errors ::
  "(string \<times> bytes \<times> (bytes \<Rightarrow> string result)) list \<Rightarrow> bytes \<Rightarrow> string" where
  "match_errors [] data = ''''"
| "match_errors ((name, ident, unpack) # es) data =
     (if take 4 ident \<noteq> take 4 data then match_errors es data
      else case unpack data of
        Inr argStr \<Rightarrow> if argStr \<noteq> ''[]'' \<and> argStr \<noteq> ''<nil>'' then name @ argStr else name
      | Inl _ \<Rightarrow> name)"

definition MatchCustomError :: "outside \<Rightarrow> string \<Rightarrow> string" where
  "MatchCustomError W revertHex =
     (case hex_decode (trim_prefix revertHex ''0x'') of
        None \<Rightarrow> ''''
      | Some data \<Rightarrow> if length data < 4 then '''' else match_errors (custom_errors W) data)"

definition decodeRevertFromError :: "outside \<Rightarrow> rpc_error \<Rightarrow> string" where
  "decodeRevertFromError W e =
     (case err_Data e of
        Data_String s \<Rightarrow>
          (case hex_decode (trim_prefix s ''0x'') of
             Some decoded \<Rightarrow> (case unpack_revert W decoded of Inr reason \<Rightarrow> reason | Inl _ \<Rightarrow> '''')
           | None \<Rightarrow> '''')
      | _ \<Rightarrow> '''')"

section \<open>Waiting for a transaction\<close>

text \<open>\<open>tx_by_hash\<close> stands for \<^verbatim>\<open>TransactionByHash\<close> and the recovery of the sender.\<close>

definition getFailingMessage :: "outside \<Rightarrow> hash \<Rightarrow> (call, string) io" where
  "getFailingMessage W txhash =
     bindE (perform (Tx_By_Hash txhash) (\<lambda>h. tx_by_hash W h txhash)) (\<lambda>msg.
     bindE (perform (Call_Contract msg) (\<lambda>h. Inr (call_contract W h msg))) (\<lambda>answer.
       case answer of
         Inl e \<Rightarrow>
           (let reason = decodeRevertFromError W e
            in ret (if reason \<noteq> '''' then reason else err_Text e))
       | Inr res \<Rightarrow>
           ret (case unpack_revert W res of
                  Inr reason \<Rightarrow> reason
                | Inl _ \<Rightarrow> if res \<noteq> [] then ''0x'' @ hex_encode res else ''unknown revert reason'')))"

definition CheckTx :: "outside \<Rightarrow> hash \<Rightarrow> (call, receipt) io" where
  "CheckTx W txhash =
     bindE (relabel (\<lambda>err. ''transaction not mined within 2 minutes (tx: '' @ hash_text W txhash @
                ''): '' @ err)
              (perform (Wait_Mined txhash) (\<lambda>h. wait_mined W h txhash))) (\<lambda>receipt.
       if rc_Status receipt = 0
       then bindE (getFailingMessage W txhash) (\<lambda>reason. throw (''error: Transaction fail: '' @ reason))
       else ret receipt)"

text \<open>A transaction is sent; the node may refuse it before it is mined.\<close>

definition submit :: "outside \<Rightarrow> address \<Rightarrow> int \<Rightarrow> tx \<Rightarrow> (call, rpc_error + hash) io" where
  "submit W from value t = perform (Send from value t) (\<lambda>h. Inr (send_tx W h from value t))"

definition submit_or :: "outside \<Rightarrow> address \<Rightarrow> int \<Rightarrow> tx \<Rightarrow> (string \<Rightarrow> string) \<Rightarrow> (call, hash) io" where
  "submit_or W from value t message =
     bindE (submit W from value t) (\<lambda>answer.
       case answer of Inl e \<Rightarrow> throw (message (err_Text e)) | Inr txhash \<Rightarrow> ret txhash)"

section \<open>Which calls these make\<close>

definition diagnostic :: "call \<Rightarrow> bool" where
  "diagnostic c = (case c of
       Wait_Mined _ \<Rightarrow> True | Tx_By_Hash _ \<Rightarrow> True | Call_Contract _ \<Rightarrow> True | _ \<Rightarrow> False)"

lemma diagnostic_simps [simp]:
  "diagnostic (Wait_Mined t)" "diagnostic (Tx_By_Hash t)" "diagnostic (Call_Contract m)"
  "\<not> diagnostic (Send a v x)" "\<not> diagnostic (Write_File p b)" "\<not> diagnostic (Remove_File p)"
  "\<not> diagnostic (Read_File p)" "\<not> diagnostic (Http_Get u)" "\<not> diagnostic (Query q)"
  by (simp_all add: diagnostic_def)

lemma only_getFailingMessage: "only diagnostic (getFailingMessage W t)"
  unfolding getFailingMessage_def Let_def
  by (intro only_rules only_perform) simp_all

lemma only_CheckTx: "only diagnostic (CheckTx W t)"
  unfolding CheckTx_def
  by (intro only_rules only_perform only_getFailingMessage) simp_all

lemma only_Simulate: "only diagnostic (SimulateAndDecodeRevert W m)"
  unfolding SimulateAndDecodeRevert_def Let_def
  by (intro only_rules only_perform) simp_all

text \<open>\<^verbatim>\<open>CheckTx\<close> returns only the receipt of a mined transaction that did not fail.\<close>

lemma CheckTx_ok:
  "CheckTx W t h = (Inr r, h') \<Longrightarrow> wait_mined W h t = Inr r \<and> rc_Status r \<noteq> 0 \<and> h' = h @ [Wait_Mined t]"
  by (auto simp: CheckTx_def getFailingMessage_def io_defs Let_def
      split: sum.splits prod.splits if_splits)

end
