(* ===== verification/Tee_Client.thy ===== *)
theory Tee_Client
  imports Tx_Check
begin

text \<open>
  Talking to a TEE proxy (\<^verbatim>\<open>tools/pkg/fccutils/tee_calls.go\<close>, \<^verbatim>\<open>common.go\<close>) and the
  signing-policy gate (\<^verbatim>\<open>policy_consistency.go\<close>).
\<close>

section \<open>TEE info, identities and attestation\<close>

definition http_get_io :: "outside \<Rightarrow> string \<Rightarrow> (call, nat \<times> bytes) io" where
  "http_get_io W url = perform (Http_Get url) (\<lambda>h. get_url W h url)"

text \<open>The response status is not looked at: whatever the body decodes to is the answer.\<close>

definition TeeInfo :: "outside \<Rightarrow> string \<Rightarrow> (call, tee_info) io" where
  "TeeInfo W nodeURL =
     bindE (http_get_io W (nodeURL @ ''/info'')) (\<lambda>(_, body). lift_result (decode_tee_info W body))"

definition CodeHashAndPlatform :: "outside \<Rightarrow> bytes \<Rightarrow> (hash \<times> hash) result" where
  "CodeHashAndPlatform W attestation =
     (case attestation_claims W attestation of
        Inl err \<Rightarrow> Inl err
      | Inr (codeHash, platform) \<Rightarrow>
          (case codeHash of
             Inl err \<Rightarrow> Inl err
           | Inr c \<Rightarrow> (case platform of Inl err \<Rightarrow> Inl err | Inr p \<Rightarrow> Inr (c, p))))"

definition TeeProxyId :: "outside \<Rightarrow> tee_info \<Rightarrow> (address \<times> address) result" where
  "TeeProxyId W ti =
     (case parse_pub_key W (ti_PublicKey ti) of
        Inl err \<Rightarrow> Inl err
      | Inr pubKey \<Rightarrow>
          (case tee_info_hash W ti of
             Inl err \<Rightarrow> Inl err
           | Inr infoHash \<Rightarrow>
               (case proxy_payload_hash W (ti_ChainID ti) infoHash of
                  Inl err \<Rightarrow> Inl err
                | Inr signHash \<Rightarrow>
                    (case sig_to_pub W (text_hash W signHash) (ti_ProxySignature ti) of
                       Inl err \<Rightarrow> Inl err
                     | Inr proxyPubKey \<Rightarrow>
                         Inr (pub_to_address W pubKey, pub_to_address W proxyPubKey)))))"

definition GetTeeProxyID :: "outside \<Rightarrow> string \<Rightarrow> (call, address \<times> address) io" where
  "GetTeeProxyID W proxyURL = bindE (TeeInfo W proxyURL) (\<lambda>ti. lift_result (TeeProxyId W ti))"

text \<open>The simulated machine's code hash and platform (\<^verbatim>\<open>encoding.go\<close>).\<close>

definition TestPlatform :: hash where
  "TestPlatform = 0x544553545f504c4154464f524d00000000000000000000000000000000000000"

definition TeeCodeHash :: hash where
  "TeeCodeHash = 0x194844cf417dde867073e5ab7199fa4d21fd82b5dbe2bdea8b3d7fc18d10fdc2"

definition GetCodeHashAndPlatform :: "outside \<Rightarrow> tee_info \<Rightarrow> (hash \<times> hash) result" where
  "GetCodeHashAndPlatform W ti =
     (case (if os_env W ''SIMULATED_TEE'' = ''true'' then Inr (TeeCodeHash, TestPlatform)
            else CodeHashAndPlatform W (ti_Attestation ti)) of
        Inl err \<Rightarrow> Inl err
      | Inr (codeHash, platform) \<Rightarrow>
          if codeHash \<noteq> ti_CodeHash ti
          then Inl (''code hashes do not match: '' @ hash_text W codeHash @ '', '' @
                 hash_text W (ti_CodeHash ti))
          else if platform \<noteq> ti_Platform ti
          then Inl (''platforms do not matc: '' @ hash_text W platform @ '', '' @
                 hash_text W (ti_Platform ti))
          else Inr (codeHash, platform))"

definition HashArrayToBytes32Array :: "hash list \<Rightarrow> hash list" where
  "HashArrayToBytes32Array hashes = map (\<lambda>i. hashes ! i) [0 ..< length hashes]"

section \<open>Polling for an action result\<close>

definition repeats :: nat where
  "repeats = 15"

text \<open>
  One round per \<open>fuel\<close>: stop at the first 200, sleep two seconds otherwise. The variables
  \<^verbatim>\<open>result\<close> and \<^verbatim>\<open>err\<close> of the source keep the last answer.
\<close>

fun poll :: "outside \<Rightarrow> string \<Rightarrow> nat \<Rightarrow> (nat \<times> bytes) result \<Rightarrow> (call, (nat \<times> bytes) result) io" where
  "poll W url 0 latest = ret latest"
| "poll W url (Suc n) latest =
     bindE (attempt (http_get_io W url)) (\<lambda>r.
       if (case r of Inl _ \<Rightarrow> False | Inr (status, _) \<Rightarrow> status = 200) then ret r
       else bindE (perform (Sleep 2) (\<lambda>_. Inr ())) (\<lambda>_. poll W url n r))"

definition ActionResult_io :: "outside \<Rightarrow> string \<Rightarrow> hash \<Rightarrow> (call, bytes) io" where
  "ActionResult_io W nodeURL actionID =
     bindE (poll W (nodeURL @ ''/action/result/'' @ hash_text W actionID) repeats (Inl '''')) (\<lambda>r.
       case r of
         Inl err \<Rightarrow> throw err
       | Inr (status, body) \<Rightarrow>
           if status \<noteq> 200 then throw (''action result status not ok, got: '' @ show_nat status)
           else lift_result (decode_action_response W body))"

text \<open>The address is marshalled before \<^verbatim>\<open>url\<close> is reused for the node's own.\<close>

definition SetProxyUrl :: "outside \<Rightarrow> int \<Rightarrow> int \<Rightarrow> (call, unit) io" where
  "SetProxyUrl W configurationPort proxyPort =
     bindE (lift_result (marshal_proxy_request W (''http://localhost:'' @ show_int proxyPort))) (\<lambda>body.
     let url = ''http://localhost:'' @ show_int configurationPort @ ''/proxy'' in
     bindE (perform (Http_Post url body) (\<lambda>h. post_url W h url body)) (\<lambda>status.
       if status \<noteq> 200 then throw (''unexpected status code: '' @ show_nat status) else ret ()))"

section \<open>The signing-policy gate\<close>

definition policyInSync :: "u64 \<Rightarrow> u64 \<Rightarrow> bool" where
  "policyInSync onchainEpoch proxyPolicyID \<longleftrightarrow>
     proxyPolicyID = onchainEpoch \<or> proxyPolicyID = onchainEpoch + 1"

definition dquote :: string where
  "dquote = [CHR 0x22]"

definition ErrPolicyOutOfSync :: string where
  "ErrPolicyOutOfSync = ''FTDC proxy signing policy out of sync with on-chain reward epoch''"

definition outOfSyncError :: "u64 \<Rightarrow> u64 \<Rightarrow> string" where
  "outOfSyncError onchainEpoch proxyPolicyID =
     (let rel = (if proxyPolicyID < onchainEpoch
                 then ''proxy is '' @ show_nat (unat (onchainEpoch - proxyPolicyID)) @ '' epoch(s) behind''
                 else ''proxy is '' @ show_nat (unat (proxyPolicyID - onchainEpoch)) @ '' epoch(s) ahead'')
      in ErrPolicyOutOfSync @ '': proxy signing policy '' @ show_nat (unat proxyPolicyID) @
         '' vs on-chain current reward epoch '' @ show_nat (unat onchainEpoch) @ '' ('' @ rel @ ''); '' @
         ''data providers will reject the availability check with 404 '' @ dquote @ ''no round'' @ dquote @
         ''; '' @ ''wait for the proxy to catch up to the current signing policy, or check the proxy'' @
         [CHR 0x27] @ ''s '' @ ''initial_signing_policy_offset and C-chain indexer sync'')"

text \<open>\<^verbatim>\<open>onchain.Uint64()\<close> keeps the low 64 bits of the epoch.\<close>

definition CheckFTDCProxyPolicyConsistency :: "outside \<Rightarrow> string \<Rightarrow> (call, unit) io" where
  "CheckFTDCProxyPolicyConsistency W ftdcProxyURL =
     bindE (attempt (perform (Query Q_Reward_Epoch) (\<lambda>h. reward_epoch_at W h))) (\<lambda>r.
       case r of
         Inl _ \<Rightarrow> ret ()
       | Inr None \<Rightarrow> ret ()
       | Inr (Some onchain) \<Rightarrow>
           bindE (attempt (TeeInfo W ftdcProxyURL)) (\<lambda>i.
             case i of
               Inl _ \<Rightarrow> ret ()
             | Inr info \<Rightarrow>
                 if \<not> policyInSync (of_int onchain) (ti_LastSigningPolicyID info)
                 then throw (outOfSyncError (of_int onchain) (ti_LastSigningPolicyID info))
                 else ret ()))"

section \<open>Lemmas\<close>

lemma only_TeeInfo: "only (\<lambda>c. c = Http_Get (url @ ''/info'')) (TeeInfo W url)"
  unfolding TeeInfo_def http_get_io_def by (intro only_rules only_perform) simp_all

lemma only_poll: "only (\<lambda>c. c = Http_Get url \<or> c = Sleep 2) (poll W url n latest)"
  by (induction n arbitrary: latest)
    (auto simp: http_get_io_def intro!: only_rules only_perform)

lemma only_ActionResult:
  "only (\<lambda>c. (\<exists>u. c = Http_Get u) \<or> c = Sleep 2) (ActionResult_io W url i)"
  unfolding ActionResult_io_def
  by (intro only_rules only_mono [OF only_poll]) auto

lemma only_policy:
  "only (\<lambda>c. c = Query Q_Reward_Epoch \<or> c = Http_Get (url @ ''/info''))
     (CheckFTDCProxyPolicyConsistency W url)"
  unfolding CheckFTDCProxyPolicyConsistency_def
  by (intro only_rules only_perform only_mono [OF only_TeeInfo]) auto

definition ok_answer :: "(nat \<times> bytes) result \<Rightarrow> bool" where
  "ok_answer r = (case r of Inl _ \<Rightarrow> False | Inr (status, _) \<Rightarrow> status = 200)"

text \<open>The history after \<open>j\<close> rounds without success, and the answer of the round after them.\<close>

definition rounds :: "string \<Rightarrow> nat \<Rightarrow> history" where
  "rounds url j = concat (replicate j [Http_Get url, Sleep 2])"

definition answer_after :: "outside \<Rightarrow> string \<Rightarrow> history \<Rightarrow> nat \<Rightarrow> (nat \<times> bytes) result" where
  "answer_after W url h j = get_url W (h @ rounds url j) url"

lemma rounds_Suc: "rounds url (Suc j) = [Http_Get url, Sleep 2] @ rounds url j"
  by (simp add: rounds_def)

lemma answer_after_Suc:
  "answer_after W url h (Suc j) = answer_after W url (h @ [Http_Get url, Sleep 2]) j"
  by (simp add: answer_after_def rounds_Suc)

lemma poll_Suc:
  "poll W url (Suc n) latest h =
     (if ok_answer (answer_after W url h 0) then (Inr (answer_after W url h 0), h @ [Http_Get url])
      else poll W url n (answer_after W url h 0) (h @ [Http_Get url, Sleep 2]))"
  by (simp add: http_get_io_def bindE_def attempt_def perform_def ret_def answer_after_def
      rounds_def ok_answer_def)

lemma poll_success:
  "k < n \<Longrightarrow> ok_answer (answer_after W url h k) \<Longrightarrow> \<not> (\<exists>j < k. ok_answer (answer_after W url h j)) \<Longrightarrow>
     poll W url n latest h = (Inr (answer_after W url h k), h @ rounds url k @ [Http_Get url])"
proof (induction n arbitrary: k h latest)
  case (Suc n)
  show ?case
  proof (cases k)
    case 0
    with Suc.prems show ?thesis by (simp add: poll_Suc rounds_def del: poll.simps)
  next
    case (Suc k')
    let ?h = "h @ [Http_Get url, Sleep 2]"
    have "\<not> ok_answer (answer_after W url h 0)" using Suc.prems(3) Suc by blast
    moreover have "poll W url n (answer_after W url h 0) ?h =
        (Inr (answer_after W url ?h k'), ?h @ rounds url k' @ [Http_Get url])"
    proof (rule Suc.IH)
      show "k' < n" "ok_answer (answer_after W url ?h k')"
        using Suc.prems Suc by (simp_all add: answer_after_Suc)
      show "\<not> (\<exists>j < k'. ok_answer (answer_after W url ?h j))"
        using Suc.prems(3) unfolding Suc by (metis Suc_less_eq answer_after_Suc)
    qed
    ultimately show ?thesis using Suc
      by (simp add: poll_Suc answer_after_Suc rounds_Suc del: poll.simps)
  qed
qed simp

lemma poll_failure:
  "\<not> (\<exists>j < n. ok_answer (answer_after W url h j)) \<Longrightarrow> \<not> ok_answer latest \<Longrightarrow>
     \<exists>r. \<not> ok_answer r \<and> poll W url n latest h = (Inr r, h @ rounds url n)"
proof (induction n arbitrary: h latest)
  case 0
  then show ?case by (simp add: ret_def rounds_def)
next
  case (Suc n)
  let ?h = "h @ [Http_Get url, Sleep 2]"
  have z: "\<not> ok_answer (answer_after W url h 0)" using Suc.prems(1) by blast
  have "\<not> (\<exists>j < n. ok_answer (answer_after W url ?h j))"
    using Suc.prems(1) by (metis Suc_less_eq answer_after_Suc)
  from Suc.IH [OF this z] show ?case using z
    by (auto simp: poll_Suc rounds_Suc simp del: poll.simps)
qed

section \<open>Properties\<close>

definition result_url :: "outside \<Rightarrow> string \<Rightarrow> hash \<Rightarrow> string" where
  "result_url W nodeURL i = nodeURL @ ''/action/result/'' @ hash_text W i"

text \<open>
  Polling ends: an action result is asked for at most fifteen times, with a pause after
  every unsuccessful try. If round \<open>k\<close> answers 200 after \<open>k\<close> rounds that did not, exactly
  \<open>k + 1\<close> requests are made and that round's body is decoded; if none of the fifteen answers
  200, the call is an error.
\<close>

theorem action_result_polling:
  "(\<exists>k < 15. \<exists>body. answer_after W (result_url W nodeURL i) h k = Inr (200, body)
       \<and> \<not> (\<exists>j < k. ok_answer (answer_after W (result_url W nodeURL i) h j))
       \<and> ActionResult_io W nodeURL i h =
           (decode_action_response W body, h @ rounds (result_url W nodeURL i) k @
              [Http_Get (result_url W nodeURL i)]))
   \<or> (\<exists>err. ActionResult_io W nodeURL i h = (Inl err, h @ rounds (result_url W nodeURL i) 15))"
proof -
  let ?u = "result_url W nodeURL i"
  show ?thesis
  proof (cases "\<exists>j < 15. ok_answer (answer_after W ?u h j)")
    case True
    then obtain j where j: "j < 15" "ok_answer (answer_after W ?u h j)" by blast
    define k where "k = (LEAST j. ok_answer (answer_after W ?u h j))"
    have ok: "ok_answer (answer_after W ?u h k)" unfolding k_def using j(2) by (rule LeastI)
    have k: "k < 15" unfolding k_def using j Least_le [of "\<lambda>j. ok_answer (answer_after W ?u h j)" j] by simp
    have first: "\<not> (\<exists>j < k. ok_answer (answer_after W ?u h j))"
      unfolding k_def using not_less_Least by blast
    obtain body where "answer_after W ?u h k = Inr (200, body)"
      using ok by (auto simp: ok_answer_def split: sum.splits)
    with poll_success [OF k ok first, of "Inl ''''"] k first show ?thesis
      by (auto simp: ActionResult_io_def bindE_def lift_result_def repeats_def result_url_def
          intro!: disjI1 exI [of _ k])
  next
    case False
    then obtain r where r: "\<not> ok_answer r" "poll W ?u 15 (Inl '''') h = (Inr r, h @ rounds ?u 15)"
      using poll_failure [of 15 W ?u h "Inl ''''"] by (auto simp: ok_answer_def)
    then show ?thesis
      by (auto simp: ActionResult_io_def bindE_def throw_def repeats_def result_url_def
          ok_answer_def split: sum.splits)
  qed
qed

lemma policyInSync_mod:
  "policyInSync (of_int epoch) p \<longleftrightarrow> uint p = epoch mod 2 ^ 64 \<or> uint p = (epoch + 1) mod 2 ^ 64"
proof -
  have w: "p = of_int e \<longleftrightarrow> uint p = e mod 2 ^ 64" for e :: int
    unfolding word_uint_eq_iff uint_word_of_int by simp
  show ?thesis using w [of epoch] w [of "epoch + 1"] by (simp add: policyInSync_def)
qed

text \<open>
  C35. The policy gate stops a registration exactly on a confirmed mismatch: it refuses if and only
  if the on-chain reward epoch could be read and is not nil, the proxy's info could be read, and
  the proxy's signing policy is neither that epoch nor the next, both taken at 64 bits, where the
  epoch after 2^64 - 1 is 0. A lookup that fails never refuses. A refusal names the two numbers; the
  proxy is only asked when there is an epoch to compare with, and nothing else is called.
\<close>

theorem policy_gate_iff:
  "(fst (CheckFTDCProxyPolicyConsistency W url h) \<noteq> Inr () \<longleftrightarrow>
      (\<exists>epoch info. reward_epoch_at W h = Inr (Some epoch)
         \<and> fst (TeeInfo W url (h @ [Query Q_Reward_Epoch])) = Inr info
         \<and> uint (ti_LastSigningPolicyID info) \<notin> {epoch mod 2 ^ 64, (epoch + 1) mod 2 ^ 64}))
   \<and> (\<forall>err. fst (CheckFTDCProxyPolicyConsistency W url h) = Inl err \<longrightarrow>
      (\<exists>epoch info. reward_epoch_at W h = Inr (Some epoch)
         \<and> fst (TeeInfo W url (h @ [Query Q_Reward_Epoch])) = Inr info
         \<and> err = outOfSyncError (of_int epoch) (ti_LastSigningPolicyID info)))
   \<and> snd (CheckFTDCProxyPolicyConsistency W url h) =
      (case reward_epoch_at W h of
         Inr (Some _) \<Rightarrow> snd (TeeInfo W url (h @ [Query Q_Reward_Epoch]))
       | _ \<Rightarrow> h @ [Query Q_Reward_Epoch])"
proof (cases "reward_epoch_at W h")
  case (Inr r)
  show ?thesis
  proof (cases r)
    case (Some epoch)
    obtain i h' where i: "TeeInfo W url (h @ [Query Q_Reward_Epoch]) = (i, h')" by (metis surj_pair)
    show ?thesis using Inr Some i
      by (cases i) (simp_all add: CheckFTDCProxyPolicyConsistency_def bindE_def attempt_def perform_def ret_def
          throw_def policyInSync_mod)
  qed (use Inr in \<open>simp add: CheckFTDCProxyPolicyConsistency_def bindE_def attempt_def perform_def ret_def\<close>)
qed (simp add: CheckFTDCProxyPolicyConsistency_def bindE_def attempt_def perform_def ret_def)

end
