(* ===== verification/Demo_Outside.thy ===== *)
theory Demo_Outside
  imports Tee_Client
begin

text \<open>
  A concrete outside, at which the hypotheses of the properties of the registration tools are
  checked: every call succeeds, the machine is known and in production, and nothing is
  allowed yet. It stands for nothing in the program.
\<close>

definition demo_info :: tee_info where
  "demo_info = \<lparr>ti_PublicKey = [], ti_ChainID = 1, ti_LastSigningPolicyID = 7, ti_ExtensionID = 3,
     ti_InitialOwner = 1, ti_CodeHash = 5, ti_Platform = 6, ti_MachineKey = (1, 2),
     ti_GovernanceHash = 0, ti_DataSignature = replicate 65 (CHR ''s''), ti_ProxySignature = [],
     ti_Attestation = []\<rparr>"

definition demo_outside :: outside where
  "demo_outside = \<lparr>os_env = (\<lambda>_. ''''), pub_to_address = (\<lambda>p. 11), key_address = (\<lambda>k. of_nat k),
     hex_to_key = (\<lambda>s. Inr 2), transactor = (\<lambda>_. Inr ()), parse_pub_key = (\<lambda>_. Inr (0, 0)),
     tee_info_hash = (\<lambda>_. Inr []), proxy_payload_hash = (\<lambda>_ _. Inr 0), text_hash = (\<lambda>_. []),
     sig_to_pub = (\<lambda>_ _. Inr (0, 0)), signature_vrs = (\<lambda>s. Inr s),
     decode_tee_info = (\<lambda>_. Inr demo_info), attestation_claims = (\<lambda>_. Inr (Inr 5, Inr 6)),
     hash_text = (\<lambda>_. ''0x''),
     governance_hash_of = (\<lambda>_ _. Inr 9), unpack_revert = (\<lambda>_. Inl ''no''),
     pack_register = (\<lambda>_ _ _ _ _. Inr []), custom_errors = [],
     parse_instructions_sent = (\<lambda>_. Inr 21), parse_attestation_requested = (\<lambda>_. Inr 22),
     parse_extension_registered = (\<lambda>_. Inr (Some 4)), parse_contracts_set = (\<lambda>_. Inr ()),
     parse_machine_owners_added = (\<lambda>_. Inr ()), parse_project_owners_added = (\<lambda>_. Inr ()),
     unmarshal_prove = (\<lambda>_. Inr \<lparr>pv_DataProviderSignatures = [], pv_ResponseHeader = [],
       pv_RequestBody = [], pv_ResponseBody = []\<rparr>), decode_header = (\<lambda>b. Inr b),
     decode_to_request = (\<lambda>_. Inr \<lparr>cq_TeeId = 11, cq_Others = []\<rparr>),
     decode_to_response = (\<lambda>_. Inr \<lparr>cs_Status = 0, cs_TeeTimestamp = 0, cs_CodeHash = 5,
       cs_Platform = 6, cs_InitialSigningPolicyId = 7, cs_LastSigningPolicyId = 7, cs_State = []\<rparr>),
     verification_abi = Inr (), pack_availability = (\<lambda>_ _ _ _ _. Inr []),
     abi_errors = (\<lambda>_. Inr []), from_hex = (\<lambda>_. []),
     decode_action_response = (\<lambda>b. Inr b), str_to_address = (\<lambda>_. 12),
     str_to_hash = (\<lambda>_. 13), marshal_proxy_request = (\<lambda>u. Inr u), evm_key_type = 14,
     tee_machine_at = (\<lambda>_ a. Inr a), machine_status_at = (\<lambda>_ _. Inr 2),
     machine_owner_at = (\<lambda>_ _. Inr 2), active_machines_at = (\<lambda>_ _. Inr [11, 15]),
     reward_epoch_at = (\<lambda>_. Inr (Some 7)), governance_hash_at = (\<lambda>_ _. Inr 0),
     machine_owner_allowed_at = (\<lambda>_ _ _. Inr False), project_owner_allowed_at = (\<lambda>_ _ _. Inr False),
     key_type_supported_at = (\<lambda>_ _ _. Inr False),
     version_supported_at = (\<lambda>_ _ _ _. Inr False), get_url = (\<lambda>_ _. Inr (200, [])),
     post_url = (\<lambda>_ _ _. Inr 200), read_file = (\<lambda>_ _. File_Missing),
     write_file = (\<lambda>_ _ _. Inr ()), remove_file = (\<lambda>_ _. Inr ()), send_tx = (\<lambda>_ _ _ _. Inr 31),
     wait_mined = (\<lambda>_ _. Inr \<lparr>rc_Status = 1, rc_Logs = [[], []], rc_TxHash = 31\<rparr>),
     tx_by_hash = (\<lambda>_ _. Inl ''unknown''), call_contract = (\<lambda>_ _. Inr [])\<rparr>"

lemma demo_answers [simp]:
  "reward_epoch_at demo_outside h = Inr (Some 7)" "machine_status_at demo_outside h a = Inr 2"
  "machine_owner_at demo_outside h a = Inr 2" "active_machines_at demo_outside h i = Inr [11, 15]"
  "tee_machine_at demo_outside h a = Inr a" "governance_hash_at demo_outside h i = Inr 0"
  "machine_owner_allowed_at demo_outside h i a = Inr False"
  "project_owner_allowed_at demo_outside h i a = Inr False"
  "key_type_supported_at demo_outside h i t = Inr False" "get_url demo_outside h u = Inr (200, [])"
  "read_file demo_outside h p = File_Missing" "write_file demo_outside h p b = Inr ()"
  "remove_file demo_outside h p = Inr ()" "send_tx demo_outside h a v x = Inr 31"
  "wait_mined demo_outside h t = Inr \<lparr>rc_Status = 1, rc_Logs = [[], []], rc_TxHash = 31\<rparr>"
  by (simp_all add: demo_outside_def)

lemma demo_functions [simp]:
  "os_env demo_outside s = ''''" "pub_to_address demo_outside p = 11"
  "key_address demo_outside k = of_nat k" "transactor demo_outside k = Inr ()"
  "parse_pub_key demo_outside b = Inr (0, 0)" "tee_info_hash demo_outside i = Inr []"
  "proxy_payload_hash demo_outside c b = Inr 0" "sig_to_pub demo_outside b b' = Inr (0, 0)"
  "signature_vrs demo_outside s = Inr s" "decode_tee_info demo_outside b = Inr demo_info"
  "governance_hash_of demo_outside ss n = Inr 9" "parse_instructions_sent demo_outside l = Inr 21"
  "parse_attestation_requested demo_outside l = Inr 22"
  "parse_extension_registered demo_outside l = Inr (Some 4)"
  "parse_contracts_set demo_outside l = Inr ()" "parse_machine_owners_added demo_outside l = Inr ()"
  "parse_project_owners_added demo_outside l = Inr ()" "decode_action_response demo_outside b = Inr b"
  "evm_key_type demo_outside = 14"
  by (simp_all add: demo_outside_def)

lemma demo_TeeInfo: "TeeInfo demo_outside u h = (Inr demo_info, h @ [Http_Get (u @ ''/info'')])"
  by (simp add: TeeInfo_def http_get_io_def bindE_def perform_def lift_result_def)

text \<open>The proxy is in step at epoch 7, refused at epoch 9, and not refused when the epoch is not known.\<close>

lemma policy_gate_iff_witness:
  "fst (CheckFTDCProxyPolicyConsistency demo_outside ''http://p'' []) = Inr ()
   \<and> fst (CheckFTDCProxyPolicyConsistency (demo_outside\<lparr>reward_epoch_at := \<lambda>_. Inr (Some 9)\<rparr>) ''http://p'' []) =
       Inl (outOfSyncError 9 7)
   \<and> fst (CheckFTDCProxyPolicyConsistency (demo_outside\<lparr>reward_epoch_at := \<lambda>_. Inl ''down''\<rparr>) ''http://p'' []) =
       Inr ()"
proof -
  let ?nine = "demo_outside\<lparr>reward_epoch_at := \<lambda>_. Inr (Some 9)\<rparr>"
  let ?down = "demo_outside\<lparr>reward_epoch_at := \<lambda>_. Inl ''down''\<rparr>"
  have i: "TeeInfo ?nine u h = (Inr demo_info, h @ [Http_Get (u @ ''/info'')])" for u h
    by (simp add: TeeInfo_def http_get_io_def bindE_def perform_def lift_result_def demo_outside_def)
  have p: "ti_LastSigningPolicyID demo_info = 7" by (simp add: demo_info_def)
  have "fst (CheckFTDCProxyPolicyConsistency demo_outside ''http://p'' []) = Inr ()"
    using policy_gate_iff [THEN conjunct1, of demo_outside "''http://p''" "[]"] p
    by (simp add: demo_TeeInfo)
  moreover have "fst (CheckFTDCProxyPolicyConsistency ?nine ''http://p'' []) \<noteq> Inr ()"
    using policy_gate_iff [THEN conjunct1, of ?nine "''http://p''" "[]"] p by (simp add: i)
  then have "fst (CheckFTDCProxyPolicyConsistency ?nine ''http://p'' []) = Inl (outOfSyncError 9 7)"
    using policy_gate_iff [THEN conjunct2, THEN conjunct1, of ?nine "''http://p''" "[]"] p
    by (cases "fst (CheckFTDCProxyPolicyConsistency ?nine ''http://p'' [])") (auto simp: i)
  moreover have "fst (CheckFTDCProxyPolicyConsistency ?down ''http://p'' []) = Inr ()"
    using policy_gate_iff [THEN conjunct1, of ?down "''http://p''" "[]"] by simp
  ultimately show ?thesis by blast
qed

end
