(* ===== verification/Governance.thy ===== *)
theory Governance
  imports Demo_Outside
begin

text \<open>
  TEE governance: \<^verbatim>\<open>SetTeeGovernance\<close> (\<^verbatim>\<open>tools/pkg/fccutils/governance.go\<close>) and the command
  \<^verbatim>\<open>tools/cmd/set-governance\<close> that reads signers and threshold from the environment.
\<close>

section \<open>The command's inputs\<close>

text \<open>Go's \<^verbatim>\<open>strings.Split\<close>, \<^verbatim>\<open>TrimSpace\<close> and the loop that keeps the non-empty parts.\<close>

fun signer_loop :: "outside \<Rightarrow> string list \<Rightarrow> address list \<Rightarrow> address list" where
  "signer_loop W [] signers = signers"
| "signer_loop W (part # parts) signers =
     (if trim_space part \<noteq> '''' then signer_loop W parts (signers @ [str_to_address W (trim_space part)])
      else signer_loop W parts signers)"

definition parseSigners :: "outside \<Rightarrow> string \<Rightarrow> address \<Rightarrow> address list" where
  "parseSigners W raw fallback =
     (let signers = signer_loop W (split_on (CHR '','') raw) [] in
      if signers = [] then [fallback] else signers)"

definition parseThreshold :: "string \<Rightarrow> u64" where
  "parseThreshold raw =
     (case parse_uint64 (trim_space raw) of
        Some v \<Rightarrow> if 0 < v then of_nat v else 1
      | None \<Rightarrow> 1)"

section \<open>Setting the governance\<close>

definition SetTeeGovernance ::
  "outside \<Rightarrow> private_key \<Rightarrow> int \<Rightarrow> address list \<Rightarrow> u64 \<Rightarrow> (call, unit) io" where
  "SetTeeGovernance W privKey extensionId signers threshold =
     (if signers = []
      then throw ''at least one governance signer is required (set GOVERNANCE_SIGNERS)''
      else if threshold = 0 \<or> of_nat (length signers) < threshold
      then throw (''invalid GOVERNANCE_THRESHOLD '' @ show_nat (unat threshold) @ '' for '' @
             show_nat (length signers) @ '' signer(s)'')
      else case governance_hash_of W signers threshold of
        Inl err \<Rightarrow> throw (''computing governance hash: '' @ err)
      | Inr desiredHash \<Rightarrow>
          bindE (attempt (perform (Query (Q_Governance_Hash extensionId))
                   (\<lambda>h. governance_hash_at W h extensionId))) (\<lambda>current.
            if current = Inr desiredHash then ret ()
            else bindE (lift_result (transactor W privKey)) (\<lambda>_.
                 bindE (submit_or W (key_address W privKey) 0
                          (Tx_Set_Governance extensionId signers threshold)
                          (\<lambda>err. ''SetNewTeeGovernance failed: '' @ err)) (\<lambda>txhash.
                 bindE (CheckTx W txhash) (\<lambda>_. ret ())))))"

text \<open>\<^verbatim>\<open>hash.Big()\<close> reads a hash as a number. The command's failures are the run's error.\<close>

definition owner_key :: "outside \<Rightarrow> tool_support \<Rightarrow> private_key result" where
  "owner_key W s =
     (let raw = os_env W ''EXTENSION_OWNER_KEY'' in
      if raw \<noteq> '''' then hex_to_key W (trim_prefix (trim_prefix raw ''0x'') ''0X'')
      else Inr (su_Prv s))"

definition default_signer :: "outside \<Rightarrow> private_key \<Rightarrow> address" where
  "default_signer W privKey =
     (let io = trim_space (os_env W ''INITIAL_OWNER'') in
      if io \<noteq> '''' then str_to_address W io else key_address W privKey)"

definition set_governance_main :: "outside \<Rightarrow> tool_support result \<Rightarrow> string \<Rightarrow> (call, unit) io" where
  "set_governance_main W support proxyURL =
     bindE (lift_result support) (\<lambda>s.
     bindE (lift_result (owner_key W s)) (\<lambda>privKey.
     bindE (TeeInfo W proxyURL) (\<lambda>teeInfo.
       SetTeeGovernance W privKey (uint (ti_ExtensionID teeInfo))
         (parseSigners W (os_env W ''GOVERNANCE_SIGNERS'') (default_signer W privKey))
         (parseThreshold (os_env W ''GOVERNANCE_THRESHOLD'')))))"

section \<open>Lemmas\<close>

lemma signer_loop_acc: "signer_loop W parts signers = signers @ signer_loop W parts []"
proof (induction parts arbitrary: signers)
  case (Cons part parts)
  show ?case
    using Cons [of "signers @ [str_to_address W (trim_space part)]"]
      Cons [of "[str_to_address W (trim_space part)]"] Cons [of signers] by simp
qed simp

lemma parseSigners_nonempty: "parseSigners W raw fallback \<noteq> []"
  by (simp add: parseSigners_def Let_def)

lemma parse_uint64_bound: "parse_uint64 s = Some v \<Longrightarrow> v < 2 ^ 64"
  by (auto simp: parse_uint64_def split: if_splits)

lemma parseThreshold_pos: "0 < unat (parseThreshold raw)"
proof -
  have "unat (of_nat v :: u64) = v" if "v < 2 ^ 64" for v
    using that by (simp add: unat_of_nat take_bit_nat_eq_self)
  then show ?thesis
    by (auto simp: parseThreshold_def dest: parse_uint64_bound split: option.split)
qed

lemma only_submit_or: "P (Send from v t) \<Longrightarrow> only P (submit_or W from v t m)"
  unfolding submit_or_def submit_def by (intro only_rules only_perform)

section \<open>Properties\<close>

text \<open>
  Setting the governance is checked and idempotent: no call at all is made for an empty
  signer set or a threshold that is zero or above the number of signers; when the chain
  already has the desired hash, the query is the only call; otherwise exactly one transaction
  follows, with exactly the given signers and threshold, and then only its supervision.
\<close>

theorem governance_guarded:
  assumes "length signers < 2 ^ 64" and "governance_hash_of W signers threshold = Inr g"
    and "transactor W k = Inr ()"
  shows "if signers = [] \<or> threshold = 0 \<or> length signers < unat threshold
    then \<exists>err. SetTeeGovernance W k i signers threshold h = (Inl err, h)
    else if governance_hash_at W h i = Inr g
    then SetTeeGovernance W k i signers threshold h = (Inr (), h @ [Query (Q_Governance_Hash i)])
    else \<exists>cs. snd (SetTeeGovernance W k i signers threshold h) =
             h @ [Query (Q_Governance_Hash i),
                  Send (key_address W k) 0 (Tx_Set_Governance i signers threshold)] @ cs
           \<and> list_all diagnostic cs"
proof -
  have len: "of_nat (length signers) < threshold \<longleftrightarrow> length signers < unat threshold"
    using assms by (simp add: word_less_nat_alt unat_of_nat take_bit_nat_eq_self)
  let ?h = "h @ [Query (Q_Governance_Hash i)]"
  let ?t = "Tx_Set_Governance i signers threshold"
  have "only diagnostic (bindE (CheckTx W txhash) (\<lambda>_. ret ()))" for txhash
    by (intro only_rules only_CheckTx)
  then have mined: "\<exists>cs. snd (bindE (CheckTx W txhash) (\<lambda>_. ret ()) h') = h' @ cs
      \<and> list_all diagnostic cs" for txhash h'
    by (simp add: only_def)
  show ?thesis
    using mined [of _ "?h @ [Send (key_address W k) 0 ?t]"]
    by (cases "send_tx W ?h (key_address W k) 0 ?t")
      (auto simp: SetTeeGovernance_def len assms(2,3) submit_or_def submit_def bindE_assoc
        run_simps)
qed

lemma governance_guarded_witness:
  "\<exists>cs. snd (SetTeeGovernance demo_outside 2 4 [7] 1 []) =
     [Query (Q_Governance_Hash 4), Send 2 0 (Tx_Set_Governance 4 [7] 1)] @ cs \<and> list_all diagnostic cs"
  using governance_guarded [of "[7]" demo_outside 1 9 2 4 "[]"] by simp

text \<open>
  The inputs the command derives from the environment are never degenerate: the signer
  set is not empty and the threshold is positive, whatever the variables hold, and without
  \<^verbatim>\<open>GOVERNANCE_SIGNERS\<close> and \<^verbatim>\<open>GOVERNANCE_THRESHOLD\<close> they are the default signer alone with
  threshold one. A decimal threshold in range is read back exactly.
\<close>

theorem governance_inputs:
  "parseSigners W raw fallback \<noteq> [] \<and> 0 < unat (parseThreshold raw)
   \<and> parseSigners W '''' fallback = [fallback] \<and> parseThreshold '''' = 1
   \<and> \<not> (\<exists>n. 0 < n \<and> n < 2 ^ 64 \<and> parseThreshold (show_nat n) \<noteq> of_nat n)"
proof (intro conjI)
  show "parseSigners W '''' fallback = [fallback]" by (simp add: parseSigners_def)
  show "parseThreshold '''' = 1" by (simp add: parseThreshold_def parse_uint64_def)
  have "list_all graphic (show_nat n)" for n
    using show_nat_digits [of n] by (auto simp: list_all_iff is_dec_def graphic_def)
  then show "\<not> (\<exists>n. 0 < n \<and> n < 2 ^ 64 \<and> parseThreshold (show_nat n) \<noteq> of_nat n)"
    by (auto simp: parseThreshold_def trim_space_graphic)
qed (rule parseSigners_nonempty parseThreshold_pos)+

end
