(* ===== verification/Diag.thy ===== *)
theory Diag
  imports Tee_Client
begin

text \<open>
  The diagnostic of a refused availability check (\<^verbatim>\<open>tools/pkg/fccutils/diag.go\<close>): the call is
  replayed and its revert data matched against the errors of four contracts. The result is
  the finding that the last log line reports.
\<close>

section \<open>Revert data\<close>

definition ExtractRevertData :: "outside \<Rightarrow> rpc_error option \<Rightarrow> bytes" where
  "ExtractRevertData W err =
     (case err of
        None \<Rightarrow> []
      | Some e \<Rightarrow>
          (case err_Data e of
             Data_String d \<Rightarrow> from_hex W d
           | Data_Bytes d \<Rightarrow> d
           | _ \<Rightarrow> []))"

text \<open>What the diagnostic found, with the data its log line prints.\<close>

datatype diag_finding =
    No_Abi string
  | No_Calldata string
  | Call_Succeeded
  | No_Revert_Data string
  | Data_Too_Short bytes
  | Revert_String string
  | Custom_Error string string "string result"
  | Unknown_Selector bytes bytes

definition error_string_selector :: bytes where
  "error_string_selector = [CHR 0x08, CHR 0xC3, CHR 0x79, CHR 0xA0]"

fun match_in_abi ::
  "string \<Rightarrow> (string \<times> bytes \<times> (bytes \<Rightarrow> string result)) list \<Rightarrow> bytes \<Rightarrow> diag_finding option" where
  "match_in_abi src [] data = None"
| "match_in_abi src ((errName, ident, unpack) # es) data =
     (if take 4 ident \<noteq> take 4 data then match_in_abi src es data
      else Some (Custom_Error src errName (unpack (drop 4 data))))"

fun match_in_abis :: "outside \<Rightarrow> string list \<Rightarrow> bytes \<Rightarrow> diag_finding option" where
  "match_in_abis W [] data = None"
| "match_in_abis W (src # srcs) data =
     (case abi_errors W src of
        Inl _ \<Rightarrow> match_in_abis W srcs data
      | Inr es \<Rightarrow>
          (case match_in_abi src es data of
             Some f \<Rightarrow> Some f
           | None \<Rightarrow> match_in_abis W srcs data))"

definition diag_sources :: "string list" where
  "diag_sources = [''Verification'', ''Fdc2Hub'', ''MachineManager'', ''ExtensionManager'']"

definition explain_revert :: "outside \<Rightarrow> rpc_error \<Rightarrow> diag_finding" where
  "explain_revert W callErr =
     (let revertData = ExtractRevertData W (Some callErr) in
      if revertData = [] then No_Revert_Data (err_Text callErr)
      else if length revertData < 4 then Data_Too_Short revertData
      else
        (let by_selector =
           (case match_in_abis W diag_sources revertData of
              Some f \<Rightarrow> f
            | None \<Rightarrow> Unknown_Selector (take 4 revertData) revertData)
         in if take 4 revertData = error_string_selector
            then (case unpack_revert W revertData of
                    Inr reason \<Rightarrow> Revert_String reason
                  | Inl _ \<Rightarrow> by_selector)
            else by_selector))"

definition diagAvailabilityCheckRevert ::
  "outside \<Rightarrow> tool_support \<Rightarrow> int \<Rightarrow> address \<Rightarrow> hash \<Rightarrow> address \<Rightarrow> address \<Rightarrow> address
     \<Rightarrow> (call, diag_finding) io" where
  "diagAvailabilityCheckRevert W s value teeID instructionID externalTeeID proofOwner claimBack =
     (case verification_abi W of
        Inl err \<Rightarrow> ret (No_Abi err)
      | Inr _ \<Rightarrow>
          (case pack_availability W teeID instructionID externalTeeID proofOwner claimBack of
             Inl err \<Rightarrow> ret (No_Calldata err)
           | Inr calldata \<Rightarrow>
               (let msg = \<lparr>msg_From = key_address W (su_Prv s), msg_To = Some (su_FlareTeeManager s),
                           msg_Value = value, msg_Data = calldata\<rparr> in
                bindE (perform (Call_Contract msg) (\<lambda>h. Inr (call_contract W h msg))) (\<lambda>answer.
                  case answer of
                    Inr _ \<Rightarrow> ret Call_Succeeded
                  | Inl callErr \<Rightarrow> ret (explain_revert W callErr)))))"

section \<open>Lemmas\<close>

lemma only_diag: "(\<And>c. diagnostic c \<Longrightarrow> P c) \<Longrightarrow>
    only P (diagAvailabilityCheckRevert W s v t i e p b)"
  unfolding diagAvailabilityCheckRevert_def Let_def
  by (intro only_rules only_perform) (simp_all add: diagnostic_def)

end
