(* ===== verification/Registration.thy ===== *)
theory Registration
  imports Governance Report Diag
begin

text \<open>
  Registering a TEE machine (\<^verbatim>\<open>tools/pkg/fccutils/registration.go\<close>): the steps of
  \<^verbatim>\<open>RegisterNode\<close> with the state file that lets a failed run resume, the transactions they
  send, and the command \<^verbatim>\<open>tools/cmd/register-tee\<close>. Decoding the state file's JSON is the
  parameter \<open>unmarshal\<close>.
\<close>

section \<open>The state file\<close>

record registrationState =
  CompletedSteps :: string
  TeeAttestInstructionID :: hash
  InstructionID :: hash

definition fresh_state :: registrationState where
  "fresh_state = \<lparr>CompletedSteps = '''', TeeAttestInstructionID = 0, InstructionID = 0\<rparr>"

definition hash_json :: "hash \<Rightarrow> string" where
  "hash_json v = ''0x'' @ hex_pad 64 (unat v)"

definition marshal_state :: "registrationState \<Rightarrow> bytes" where
  "marshal_state st =
     json_object ''''
       [json_field ''completed_steps'' (CompletedSteps st),
        json_field ''tee_attest_instruction_id'' (hash_json (TeeAttestInstructionID st)),
        json_field ''instruction_id'' (hash_json (InstructionID st))]"

definition loadState ::
  "outside \<Rightarrow> (bytes \<Rightarrow> registrationState result) \<Rightarrow> string \<Rightarrow> (call, registrationState) io" where
  "loadState W unmarshal path =
     bindE (perform (Read_File path) (\<lambda>h. Inr (read_file W h path))) (\<lambda>answer.
       case answer of
         File_Missing \<Rightarrow> ret fresh_state
       | File_Error err \<Rightarrow> throw (''failed to read state file: '' @ err)
       | File_Bytes b \<Rightarrow>
           relabel (\<lambda>err. ''failed to parse state file: '' @ err) (lift_result (unmarshal b)))"

definition saveState :: "outside \<Rightarrow> string \<Rightarrow> registrationState \<Rightarrow> (call, unit) io" where
  "saveState W path st =
     relabel (\<lambda>err. ''failed to write state file: '' @ err)
       (perform (Write_File path (marshal_state st)) (\<lambda>h. write_file W h path (marshal_state st)))"

text \<open>A failure to save is only logged.\<close>

definition save_or_warn :: "outside \<Rightarrow> string \<Rightarrow> registrationState \<Rightarrow> (call, unit) io" where
  "save_or_warn W path st = bindE (attempt (saveState W path st)) (\<lambda>_. ret ())"

definition sleep :: "nat \<Rightarrow> (call, unit) io" where
  "sleep n = perform (Sleep n) (\<lambda>_. Inr ())"

section \<open>The transactions\<close>

definition one_gwei :: int where
  "one_gwei = 1000000000"

definition RequestTeeAttestation :: "outside \<Rightarrow> tool_support \<Rightarrow> address \<Rightarrow> (call, hash) io" where
  "RequestTeeAttestation W s teeID =
     bindE (lift_result (transactor W (su_Prv s))) (\<lambda>_.
     let me = key_address W (su_Prv s) in
     bindE (submit_or W me one_gwei (Tx_Request_Attestation teeID me) (\<lambda>err. ''error: '' @ err)) (\<lambda>txhash.
     bindE (CheckTx W txhash) (\<lambda>receipt.
       if length (rc_Logs receipt) < 2 then throw ''unexpected logs, this should not happen''
       else relabel (\<lambda>err. ''failed to parse TeeInstructionsSent event: '' @ err)
              (lift_result (parse_instructions_sent W (rc_Logs receipt ! 0))))))"

text \<open>
  Why \<^verbatim>\<open>register()\<close> was refused: the error's own revert data, else a simulation of the call
  matched against the contract's errors, else the raw data, else the error's text.
\<close>

definition register_reason ::
  "outside \<Rightarrow> tool_support \<Rightarrow> machine_data \<Rightarrow> signature \<Rightarrow> address \<Rightarrow> string \<Rightarrow> rpc_error \<Rightarrow> (call, string) io"
  where
  "register_reason W s data sig proxyID hostURL err =
     (let me = key_address W (su_Prv s); reason0 = DecodeRevertReason W (Some err);
          final = (\<lambda>reason. if reason = '''' then err_Text err else reason) in
      case pack_register W data sig proxyID hostURL me of
        Inl _ \<Rightarrow> ret (final reason0)
      | Inr callData \<Rightarrow>
          bindE (SimulateAndDecodeRevert W \<lparr>msg_From = me, msg_To = Some (su_FlareTeeManager s),
                   msg_Value = one_gwei, msg_Data = callData\<rparr>) (\<lambda>raw.
            let named = MatchCustomError W raw in
            ret (final (if named \<noteq> '''' then named else if reason0 = '''' then raw else reason0))))"

text \<open>
  The instruction id is what the caller uses; the challenge it also returns is not. The
  register call's signature is the data signature with its recovery byte first.
\<close>

definition PreRegistration ::
  "outside \<Rightarrow> tool_support \<Rightarrow> string \<Rightarrow> address \<Rightarrow> address \<Rightarrow> tee_info \<Rightarrow> (call, hash \<times> hash) io" where
  "PreRegistration W s hostURL teeID proxyID ti =
     bindE (lift_result (transactor W (su_Prv s))) (\<lambda>_.
     let me = key_address W (su_Prv s);
         data = \<lparr>tmd_ExtensionId = uint (ti_ExtensionID ti), tmd_InitialOwner = ti_InitialOwner ti,
                 tmd_CodeHash = ti_CodeHash ti, tmd_Platform = ti_Platform ti,
                 tmd_PublicKey = ti_MachineKey ti, tmd_GovernanceHash = ti_GovernanceHash ti\<rparr> in
     if length (ti_DataSignature ti) \<noteq> 65 then throw ''signature error''
     else bindE (lift_result (signature_vrs W (ti_DataSignature ti))) (\<lambda>vrs.
       let sig = \<lparr>sig_V = vrs ! 0, sig_R = take 32 (drop 1 vrs), sig_S = take 32 (drop 33 vrs)\<rparr> in
       bindE (submit W me one_gwei (Tx_Register_Machine data sig proxyID hostURL me)) (\<lambda>answer.
         case answer of
           Inl err \<Rightarrow>
             bindE (register_reason W s data sig proxyID hostURL err) (\<lambda>reason.
               throw (''register() reverted: '' @ reason))
         | Inr txhash \<Rightarrow>
             bindE (CheckTx W txhash) (\<lambda>receipt.
               if length (rc_Logs receipt) < 2 then throw ''unexpected logs, this should not happen''
               else bindE (relabel (\<lambda>err. ''failed to parse TeeAttestationRequested event: '' @ err)
                      (lift_result (parse_attestation_requested W (rc_Logs receipt ! 1)))) (\<lambda>challenge.
                    bindE (relabel (\<lambda>err. ''failed to parse TeeInstructionsSent event: '' @ err)
                      (lift_result (parse_instructions_sent W (rc_Logs receipt ! 0)))) (\<lambda>instructionID.
                    ret (challenge, instructionID)))))))"

text \<open>When the node refuses the request, a diagnostic call is made for the log.\<close>

definition RequestFTDCAvailabilityCheck ::
  "outside \<Rightarrow> tool_support \<Rightarrow> address \<Rightarrow> address \<Rightarrow> hash \<Rightarrow> (call, hash) io" where
  "RequestFTDCAvailabilityCheck W s teeID externalTeeID attestID =
     bindE (lift_result (transactor W (su_Prv s))) (\<lambda>_.
     let me = key_address W (su_Prv s) in
     bindE (submit W me one_gwei (Tx_Request_Availability teeID attestID externalTeeID me me)) (\<lambda>answer.
       case answer of
         Inl err \<Rightarrow>
           bindE (diagAvailabilityCheckRevert W s one_gwei teeID attestID externalTeeID me me) (\<lambda>_.
             throw (err_Text err))
       | Inr txhash \<Rightarrow>
           bindE (CheckTx W txhash) (\<lambda>receipt.
             if rc_Logs receipt = [] then throw ''no logs found in receipt''
             else relabel (\<lambda>err. ''failed to parse TeeInstructionsSent event: '' @ err)
                    (lift_result (parse_instructions_sent W (rc_Logs receipt ! 0))))))"

text \<open>
  \<^verbatim>\<open>encoding.go\<close>: the two bodies are ABI-decoded by a library; a decoding error is passed on.
\<close>

definition DecodeFTDCTeeAvailabilityCheckRequest :: "outside \<Rightarrow> bytes \<Rightarrow> check_request result" where
  "DecodeFTDCTeeAvailabilityCheckRequest W data =
     (case decode_to_request W data of Inl err \<Rightarrow> Inl err | Inr request \<Rightarrow> Inr request)"

definition DecodeFTDCTeeAvailabilityCheckResponse :: "outside \<Rightarrow> bytes \<Rightarrow> check_response result" where
  "DecodeFTDCTeeAvailabilityCheckResponse W data =
     (case decode_to_response W data of Inl err \<Rightarrow> Inl err | Inr response \<Rightarrow> Inr response)"

definition GetFTDCAvailabilityCheckResult ::
  "outside \<Rightarrow> string \<Rightarrow> hash \<Rightarrow> (call, availability_proof) io" where
  "GetFTDCAvailabilityCheckResult W hostURL instructionId =
     bindE (ActionResult_io W hostURL instructionId) (\<lambda>data.
     bindE (lift_result (unmarshal_prove W data)) (\<lambda>ftdcProof.
     bindE (lift_result (decode_header W (pv_ResponseHeader ftdcProof))) (\<lambda>header.
     bindE (lift_result (DecodeFTDCTeeAvailabilityCheckRequest W (pv_RequestBody ftdcProof))) (\<lambda>request.
     bindE (lift_result (DecodeFTDCTeeAvailabilityCheckResponse W (pv_ResponseBody ftdcProof))) (\<lambda>response.
     ret \<lparr>pr_SigningPolicySignatures = pv_DataProviderSignatures ftdcProof, pr_Header = header,
          pr_RequestBody = request,
          pr_ResponseBody = \<lparr>cs_Status = cs_Status response, cs_TeeTimestamp = cs_TeeTimestamp response,
            cs_CodeHash = cs_CodeHash response, cs_Platform = cs_Platform response,
            cs_InitialSigningPolicyId = cs_InitialSigningPolicyId response,
            cs_LastSigningPolicyId = cs_LastSigningPolicyId response,
            cs_State = cs_State response\<rparr>\<rparr>)))))"

definition ToProduction :: "outside \<Rightarrow> tool_support \<Rightarrow> availability_proof \<Rightarrow> (call, unit) io" where
  "ToProduction W s prf =
     bindE (lift_result (transactor W (su_Prv s))) (\<lambda>_.
     bindE (submit_or W (key_address W (su_Prv s)) 0 (Tx_To_Production prf) (\<lambda>err. err)) (\<lambda>txhash.
     bindE (CheckTx W txhash) (\<lambda>_.
     bindE (perform (Query (Q_Tee_Machine (cq_TeeId (pr_RequestBody prf))))
              (\<lambda>h. tee_machine_at W h (cq_TeeId (pr_RequestBody prf)))) (\<lambda>info.
       if info \<noteq> cq_TeeId (pr_RequestBody prf) then throw ''tee machine not set up correctly''
       else ret ()))))"

text \<open>\<^verbatim>\<open>copy\<close> into a zeroed array of 32 bytes.\<close>

definition StringToBytes32 :: "(nat \<Rightarrow> bool) \<Rightarrow> string \<Rightarrow> bytes result" where
  "StringToBytes32 printable s =
     (if 32 < length s then Inl (''version '' @ go_quote printable s @ '' exceeds 32 bytes'')
      else Inr (s @ replicate (32 - length s) (CHR 0x00)))"

definition AddTeeVersion ::
  "outside \<Rightarrow> (nat \<Rightarrow> bool) \<Rightarrow> private_key \<Rightarrow> int \<Rightarrow> hash \<Rightarrow> hash \<Rightarrow> string \<Rightarrow> (call, unit) io" where
  "AddTeeVersion W printable privKey extensionId codeHash platform version =
     bindE (lift_result (transactor W privKey)) (\<lambda>_.
     bindE (lift_result (StringToBytes32 printable version)) (\<lambda>versionBytes.
     bindE (submit_or W (key_address W privKey) 0
              (Tx_Add_Version extensionId versionBytes codeHash [platform])
              (\<lambda>err. ''TeeExtensionRegistry.AddTeeVersion failed: '' @ err)) (\<lambda>txhash.
     bindE (CheckTx W txhash) (\<lambda>_. ret ()))))"

section \<open>The steps\<close>

text \<open>Step \<open>r\<close>: the state and the local \<^verbatim>\<open>teeAttestInstructionID\<close> after it.\<close>

definition attestation_for ::
  "outside \<Rightarrow> tool_support \<Rightarrow> string \<Rightarrow> address \<Rightarrow> address \<Rightarrow> tee_info \<Rightarrow> (call, hash) io" where
  "attestation_for W s hostURL teeID proxyID ti =
     bindE (attempt (perform (Query (Q_Tee_Machine teeID)) (\<lambda>h. tee_machine_at W h teeID))) (\<lambda>machine.
       if (case machine of Inr i \<Rightarrow> i \<noteq> zero_address | Inl _ \<Rightarrow> False)
       then RequestTeeAttestation W s teeID
       else bindE (PreRegistration W s hostURL teeID proxyID ti) (\<lambda>(_, i). ret i))"

definition record_attestation :: "registrationState \<Rightarrow> string \<Rightarrow> hash \<Rightarrow> registrationState" where
  "record_attestation st step i =
     st\<lparr>CompletedSteps := CompletedSteps st @ step, TeeAttestInstructionID := i\<rparr>"

definition attest_step ::
  "outside \<Rightarrow> string \<Rightarrow> string \<Rightarrow> string \<Rightarrow> (call, hash) io \<Rightarrow> registrationState \<times> hash
     \<Rightarrow> (call, registrationState \<times> hash) io" where
  "attest_step W path command step action = (\<lambda>(st, attestID).
     if \<not> str_contains command step then ret (st, attestID)
     else if str_contains (CompletedSteps st) step
     then bindE (sleep 1) (\<lambda>_. ret (st, TeeAttestInstructionID st))
     else bindE action (\<lambda>i.
          bindE (save_or_warn W path (record_attestation st step i)) (\<lambda>_.
          bindE (sleep 1) (\<lambda>_. ret (record_attestation st step i, i)))))"

definition availability_step ::
  "outside \<Rightarrow> tool_support \<Rightarrow> string \<Rightarrow> string \<Rightarrow> string \<Rightarrow> address \<Rightarrow> address \<Rightarrow> string
     \<Rightarrow> registrationState \<times> hash \<Rightarrow> (call, hash) io" where
  "availability_step W s path command ftdcTeeURL ftdcTee teeID given = (\<lambda>(st, attestID).
     if \<not> str_contains command ''a'' then ret (str_to_hash W given)
     else if str_contains (CompletedSteps st) ''a''
     then bindE (sleep 1) (\<lambda>_. ret (InstructionID st))
     else bindE (CheckFTDCProxyPolicyConsistency W ftdcTeeURL) (\<lambda>_.
          bindE (RequestFTDCAvailabilityCheck W s teeID ftdcTee attestID) (\<lambda>i.
          bindE (save_or_warn W path (st\<lparr>CompletedSteps := CompletedSteps st @ ''a'',
                   InstructionID := i\<rparr>)) (\<lambda>_.
          bindE (sleep 1) (\<lambda>_. ret i)))))"

definition promotion_step ::
  "outside \<Rightarrow> tool_support \<Rightarrow> string \<Rightarrow> string \<Rightarrow> hash \<Rightarrow> (call, unit) io" where
  "promotion_step W s command ftdcTeeURL instructionID =
     (if str_contains command ''p''
      then bindE (GetFTDCAvailabilityCheckResult W ftdcTeeURL instructionID) (ToProduction W s)
      else ret ())"

text \<open>The steps between loading the state file and deleting it.\<close>

definition register_steps ::
  "outside \<Rightarrow> tool_support \<Rightarrow> tee_info \<Rightarrow> string \<Rightarrow> string \<Rightarrow> address \<Rightarrow> string \<Rightarrow> string \<Rightarrow> string
     \<Rightarrow> address \<Rightarrow> address \<Rightarrow> registrationState \<Rightarrow> (call, unit) io" where
  "register_steps W s ti hostURL ftdcTeeURL ftdcTee command given path teeID proxyID st =
     bindE (attest_step W path command ''r'' (attestation_for W s hostURL teeID proxyID ti) (st, 0)) (\<lambda>sa.
     bindE (attest_step W path command ''R'' (RequestTeeAttestation W s teeID) sa) (\<lambda>sa.
     bindE (availability_step W s path command ftdcTeeURL ftdcTee teeID given sa) (\<lambda>instructionID.
     promotion_step W s command ftdcTeeURL instructionID)))"

definition RegisterNode ::
  "outside \<Rightarrow> (bytes \<Rightarrow> registrationState result) \<Rightarrow> tool_support \<Rightarrow> tee_info \<Rightarrow> string \<Rightarrow> string
     \<Rightarrow> address \<Rightarrow> string \<Rightarrow> string \<Rightarrow> string \<Rightarrow> (call, unit) io" where
  "RegisterNode W unmarshal s ti hostURL ftdcTeeURL ftdcTee command given path =
     bindE (lift_result (TeeProxyId W ti)) (\<lambda>(teeID, proxyID).
     bindE (loadState W unmarshal path) (\<lambda>st.
     bindE (register_steps W s ti hostURL ftdcTeeURL ftdcTee command given path teeID proxyID st) (\<lambda>_.
     bindE (attempt (perform (Remove_File path) (\<lambda>h. remove_file W h path))) (\<lambda>_.
     ret ()))))"

text \<open>The command: without \<^verbatim>\<open>--resume\<close> the state file is deleted first.\<close>

definition register_tee_main ::
  "outside \<Rightarrow> (bytes \<Rightarrow> registrationState result) \<Rightarrow> tool_support result \<Rightarrow> string \<Rightarrow> string \<Rightarrow> string
     \<Rightarrow> string \<Rightarrow> string \<Rightarrow> string \<Rightarrow> bool \<Rightarrow> (call, unit) io" where
  "register_tee_main W unmarshal support p host ep given command path resume =
     bindE (if resume then ret ()
            else bindE (attempt (perform (Remove_File path) (\<lambda>h. remove_file W h path))) (\<lambda>_. ret ())) (\<lambda>_.
     bindE (lift_result support) (\<lambda>s.
     bindE (TeeInfo W p) (\<lambda>ti.
     bindE (lift_result (TeeProxyId W ti)) (\<lambda>_.
     bindE (GetTeeProxyID W ep) (\<lambda>(ftdcTeeID, _).
     bindE (lift_result (GetCodeHashAndPlatform W ti)) (\<lambda>_.
     RegisterNode W unmarshal s ti (if host = '''' then p else host) ep ftdcTeeID command given path))))))"

end
