(* ===== verification/Registration_Props.thy ===== *)
theory Registration_Props
  imports Registration
begin

text \<open>
  Properties of the registration flow: which calls a step can make, that progress is kept
  until everything succeeded, that completed steps are not repeated, and that the
  availability check is never requested without the signing-policy gate.
\<close>

section \<open>The calls of each step\<close>

text \<open>Calls that change neither the chain nor the file system.\<close>

definition harmless :: "call \<Rightarrow> bool" where
  "harmless c = (case c of
       Send _ _ _ \<Rightarrow> False | Write_File _ _ \<Rightarrow> False | Remove_File _ \<Rightarrow> False
     | Http_Post _ _ \<Rightarrow> False | Make_Parents _ \<Rightarrow> False | _ \<Rightarrow> True)"

lemma harmless_simps [simp]:
  "harmless (Http_Get u)" "harmless (Query q)" "harmless (Sleep n)" "harmless (Read_File p)" "harmless Random" "harmless (Print s)"
  "harmless (Wait_Mined t)" "harmless (Tx_By_Hash t)" "harmless (Call_Contract m)"
  "\<not> harmless (Send a v x)" "\<not> harmless (Write_File p b)" "\<not> harmless (Remove_File p)"
  by (simp_all add: harmless_def)

lemma diagnostic_harmless [simp]: "diagnostic c \<Longrightarrow> harmless c"
  by (simp add: diagnostic_def split: call.splits)

definition sends :: "(tx \<Rightarrow> bool) \<Rightarrow> call \<Rightarrow> bool" where
  "sends P c \<longleftrightarrow> harmless c \<or> (\<exists>from v x. c = Send from v x \<and> P x)"

lemma sends_harmless [simp]: "harmless c \<Longrightarrow> sends P c"
  by (simp add: sends_def)

lemma sends_Send [simp]: "sends P (Send a v x) \<longleftrightarrow> P x"
  by (simp add: sends_def)

lemma only_CheckTx_sends: "only (sends P) (CheckTx W t)"
  by (rule only_mono [OF only_CheckTx]) simp

lemma only_submit: "P (Send from v t) \<Longrightarrow> only P (submit W from v t)"
  unfolding submit_def by (rule only_perform)

lemma only_sleep: "only (sends P) (sleep n)"
  unfolding sleep_def by (intro only_perform) simp

lemma only_read_answer [only_rules]:
  "(x = File_Missing \<Longrightarrow> only P m) \<Longrightarrow> (\<And>e. x = File_Error e \<Longrightarrow> only P (f e)) \<Longrightarrow>
     (\<And>b. x = File_Bytes b \<Longrightarrow> only P (g b)) \<Longrightarrow>
     only P (case x of File_Missing \<Rightarrow> m | File_Error e \<Rightarrow> f e | File_Bytes b \<Rightarrow> g b)"
  by (cases x) auto

fun is_attestation :: "tx \<Rightarrow> bool" where
  "is_attestation (Tx_Request_Attestation _ _) = True"
| "is_attestation _ = False"

fun is_registration :: "tx \<Rightarrow> bool" where
  "is_registration (Tx_Register_Machine _ _ _ _ _) = True"
| "is_registration _ = False"

fun is_availability :: "tx \<Rightarrow> bool" where
  "is_availability (Tx_Request_Availability _ _ _ _ _) = True"
| "is_availability _ = False"

fun is_promotion :: "tx \<Rightarrow> bool" where
  "is_promotion (Tx_To_Production _) = True"
| "is_promotion _ = False"

lemma only_RequestTeeAttestation: "only (sends is_attestation) (RequestTeeAttestation W s t)"
  unfolding RequestTeeAttestation_def Let_def
  by (intro only_rules only_submit_or only_CheckTx_sends) simp_all

lemma only_register_reason: "only (sends P) (register_reason W s d g p u e)"
  unfolding register_reason_def Let_def
  by (intro only_rules only_mono [OF only_Simulate]) simp_all

lemma only_PreRegistration: "only (sends is_registration) (PreRegistration W s u t p ti)"
  unfolding PreRegistration_def Let_def
  by (intro only_rules only_submit only_CheckTx_sends only_register_reason) simp_all

lemma only_attestation_for:
  "only (sends (\<lambda>x. is_attestation x \<or> is_registration x)) (attestation_for W s u t p ti)"
  unfolding attestation_for_def
  by (intro only_rules only_perform only_mono [OF only_RequestTeeAttestation]
      only_mono [OF only_PreRegistration]) (auto simp: sends_def)

lemma only_RequestAvailability: "only (sends is_availability) (RequestFTDCAvailabilityCheck W s t e i)"
  unfolding RequestFTDCAvailabilityCheck_def Let_def
  by (intro only_rules only_submit only_CheckTx_sends only_diag) simp_all

lemma only_GetResult: "only (sends P) (GetFTDCAvailabilityCheckResult W u i)"
  unfolding GetFTDCAvailabilityCheckResult_def
  by (intro only_rules only_mono [OF only_ActionResult]) auto

lemma only_ToProduction: "only (sends is_promotion) (ToProduction W s p)"
  unfolding ToProduction_def
  by (intro only_rules only_submit_or only_CheckTx_sends only_perform) simp_all

lemma only_promotion: "only (sends is_promotion) (promotion_step W s c u i)"
  unfolding promotion_step_def
  by (intro only_rules only_GetResult only_ToProduction)

lemma only_policy_sends: "only (sends P) (CheckFTDCProxyPolicyConsistency W u)"
  by (rule only_mono [OF only_policy]) auto

definition writes :: "string \<Rightarrow> (tx \<Rightarrow> bool) \<Rightarrow> call \<Rightarrow> bool" where
  "writes path P c \<longleftrightarrow> sends P c \<or> (\<exists>b. c = Write_File path b)"

lemma writes_sends [simp]: "sends P c \<Longrightarrow> writes path P c"
  by (simp add: writes_def)

lemma only_save: "only (writes path P) (save_or_warn W path st)"
  unfolding save_or_warn_def saveState_def
  by (intro only_rules only_perform) (simp add: writes_def)

lemma only_attest_step:
  assumes "only (sends P) action"
  shows "only (writes path P) (attest_step W path command st action sa)"
  unfolding attest_step_def
  by (intro only_rules only_save only_mono [OF only_sleep [where P = P]] only_mono [OF assms]) simp_all

lemma only_availability_step:
  "only (writes path is_availability) (availability_step W s path c u f t g sa)"
  unfolding availability_step_def
  by (intro only_rules only_save only_mono [OF only_sleep [where P = is_availability]]
      only_mono [OF only_policy_sends [where P = is_availability]]
      only_mono [OF only_RequestAvailability]) simp_all

lemma only_register_steps: "only (writes path (\<lambda>_. True)) (register_steps W s ti u fu ft c g path t p st)"
proof -
  have "writes path P c \<Longrightarrow> writes path (\<lambda>_. True) c" "sends P c \<Longrightarrow> writes path (\<lambda>_. True) c" for P c
    by (auto simp: writes_def sends_def)
  then show ?thesis
    unfolding register_steps_def
    by (intro only_rules only_mono [OF only_attest_step [OF only_attestation_for]]
        only_mono [OF only_attest_step [OF only_RequestTeeAttestation]]
        only_mono [OF only_availability_step] only_mono [OF only_promotion]) blast+
qed

lemma ignored_call: "bindE (attempt (perform c answer)) (\<lambda>_. ret ()) h = (Inr (), h @ [c])"
  by (simp add: bindE_def attempt_def perform_def ret_def)

lemma bindE_after: "m h = (Inr x, h') \<Longrightarrow> bindE m f h = f x h'"
  by (simp add: bindE_def)

section \<open>Properties\<close>

text \<open>
  C21. Progress is kept until everything succeeded: a registration run that fails has not
  deleted the state file (nor any other file), and one that succeeds deletes it as its very
  last call. Whatever happens, the only file written is the state file.
\<close>

theorem registration_keeps_progress:
  "\<exists>cs. list_all (writes path (\<lambda>_. True)) cs
     \<and> ((\<exists>err. RegisterNode W unmarshal s ti hostURL ftdcURL ftdc command given path h = (Inl err, h @ cs))
        \<or> RegisterNode W unmarshal s ti hostURL ftdcURL ftdc command given path h =
            (Inr (), h @ cs @ [Remove_File path]))"
proof (cases "TeeProxyId W ti")
  case (Inl err)
  then show ?thesis
    by (intro exI [of _ "[]"]) (simp add: RegisterNode_def bindE_def lift_result_def)
next
  case (Inr ids)
  obtain teeID proxyID where ids: "ids = (teeID, proxyID)" by (cases ids)
  let ?m = "bindE (loadState W unmarshal path) (\<lambda>st.
      register_steps W s ti hostURL ftdcURL ftdc command given path teeID proxyID st)"
  have "only (writes path (\<lambda>_. True)) ?m"
    unfolding loadState_def
    by (intro only_rules only_register_steps only_perform only_read_answer) simp_all
  then obtain cs where cs: "snd (?m h) = h @ cs" "list_all (writes path (\<lambda>_. True)) cs"
    unfolding only_def by blast
  have "RegisterNode W unmarshal s ti hostURL ftdcURL ftdc command given path h =
      bindE ?m (\<lambda>_. bindE (attempt (perform (Remove_File path) (\<lambda>h. remove_file W h path)))
        (\<lambda>_. ret ())) h"
    by (simp add: RegisterNode_def Inr ids bindE_assoc lift_result_def bindE_def [of "\<lambda>h. (Inr _, h)"])
  also have "\<dots> = (case ?m h of (Inl err, h') \<Rightarrow> (Inl err, h') | (Inr _, h') \<Rightarrow> (Inr (), h' @ [Remove_File path]))"
    by (simp add: bindE_def [of ?m] ignored_call split: prod.split sum.split)
  finally show ?thesis using cs by (cases "?m h"; cases "fst (?m h)") (auto split: sum.splits)
qed

text \<open>
  Resuming repeats nothing: when the state file records the steps \<open>r\<close>, \<open>R\<close> and \<open>a\<close> as
  completed, every transaction a run still sends is the promotion, nothing is written, and
  the result it waits for is that of the recorded instruction.
\<close>

theorem resumed_run_only_promotes:
  assumes "str_contains (CompletedSteps st) ''r''" and "str_contains (CompletedSteps st) ''R''"
    and "str_contains (CompletedSteps st) ''a''"
    and "str_contains command ''a''"
  shows "\<exists>pauses cs. register_steps W s ti hostURL ftdcURL ftdc command given path teeID proxyID st h =
      promotion_step W s command ftdcURL (InstructionID st) (h @ pauses)
    \<and> list_all (\<lambda>c. c = Sleep 1) pauses
    \<and> snd (promotion_step W s command ftdcURL (InstructionID st) (h @ pauses)) = h @ pauses @ cs
    \<and> list_all (sends is_promotion) cs"
proof -
  have step: "\<exists>n i. attest_step W path command stp action (st, a) h' =
      (Inr (st, i), h' @ replicate n (Sleep 1))"
    if "str_contains (CompletedSteps st) stp" for stp action a h'
    using that
    by (cases "str_contains command stp")
      (auto simp: attest_step_def sleep_def bindE_def perform_def ret_def
        intro: exI [of _ "0 :: nat"] exI [of _ "1 :: nat"])
  obtain n1 i1 where r: "attest_step W path command ''r'' (attestation_for W s hostURL teeID proxyID ti) (st, 0) h =
      (Inr (st, i1), h @ replicate n1 (Sleep 1))"
    using step [OF assms(1)] by blast
  obtain n2 i2 where R: "attest_step W path command ''R'' (RequestTeeAttestation W s teeID) (st, i1)
      (h @ replicate n1 (Sleep 1)) =
      (Inr (st, i2), (h @ replicate n1 (Sleep 1)) @ replicate n2 (Sleep 1))"
    using step [OF assms(2)] by blast
  let ?pauses = "replicate n1 (Sleep 1) @ replicate n2 (Sleep 1) @ [Sleep 1]"
  have eq: "register_steps W s ti hostURL ftdcURL ftdc command given path teeID proxyID st h =
      promotion_step W s command ftdcURL (InstructionID st) (h @ ?pauses)"
    unfolding register_steps_def
    by (subst bindE_after, rule r, subst bindE_after, rule R)
      (simp add: assms(3,4) availability_step_def sleep_def bindE_def perform_def ret_def)
  obtain cs where "snd (promotion_step W s command ftdcURL (InstructionID st) (h @ ?pauses)) =
      (h @ ?pauses) @ cs" "list_all (sends is_promotion) cs"
    using only_promotion unfolding only_def by blast
  moreover have "list_all (\<lambda>c. c = Sleep 1) ?pauses" by (auto simp: list_all_iff)
  ultimately show ?thesis using eq by (metis append_assoc)
qed

section \<open>The gate before the availability check\<close>

text \<open>
  The history ends with a gate that passed: the reward epoch could not be read, or the
  proxy's info could not, or the two agree.
\<close>

definition gate_passed :: "outside \<Rightarrow> string \<Rightarrow> history \<Rightarrow> bool" where
  "gate_passed W u h \<longleftrightarrow>
     (\<exists>h0. let h1 = h0 @ [Query Q_Reward_Epoch] in
        (case reward_epoch_at W h0 of
           Inr (Some e) \<Rightarrow> h = h1 @ [Http_Get (u @ ''/info'')] \<and>
             (case fst (TeeInfo W u h1) of
                Inr ti \<Rightarrow> policyInSync (of_int e) (ti_LastSigningPolicyID ti)
              | Inl _ \<Rightarrow> True)
         | _ \<Rightarrow> h = h1))"

definition gated :: "outside \<Rightarrow> string \<Rightarrow> history \<Rightarrow> call \<Rightarrow> bool" where
  "gated W u h c \<longleftrightarrow> (\<exists>from v x. c = Send from v x \<and> is_availability x) \<longrightarrow> gate_passed W u h"

lemma TeeInfo_history: "snd (TeeInfo W u h) = h @ [Http_Get (u @ ''/info'')]"
  by (simp add: TeeInfo_def http_get_io_def run_perform run_simps split: sum.split prod.split)

lemma policy_passed:
  assumes "CheckFTDCProxyPolicyConsistency W u h = (Inr (), h')"
  shows "gate_passed W u h'"
proof -
  let ?h = "h @ [Query Q_Reward_Epoch]"
  have "TeeInfo W u ?h = (fst (TeeInfo W u ?h), ?h @ [Http_Get (u @ ''/info'')])"
    by (simp add: prod_eq_iff TeeInfo_history)
  with assms show ?thesis
    unfolding gate_passed_def Let_def CheckFTDCProxyPolicyConsistency_def
    by (intro exI [of _ h])
      (auto simp: run_simps run_attempt_any perform_def split: sum.splits option.splits if_splits)
qed

lemma gated_other: "harmless c \<or> (\<exists>p b. c = Write_File p b) \<or> (\<exists>p. c = Remove_File p) \<Longrightarrow> gated W u h c"
  by (auto simp: gated_def)

lemma gated_writes: "writes path P c \<Longrightarrow> (\<And>x. P x \<Longrightarrow> \<not> is_availability x) \<Longrightarrow> gated W u h c"
  by (auto simp: gated_def writes_def sends_def)

lemma gated_sends: "sends P c \<Longrightarrow> (\<And>x. P x \<Longrightarrow> \<not> is_availability x) \<Longrightarrow> gated W u h c"
  by (auto simp: gated_def sends_def)

lemma follows_request:
  "follows (gate_passed W u) (gated W u) (RequestFTDCAvailabilityCheck W s t e i)"
proof -
  have rest: "follows (\<lambda>_. True) (gated W u) m" if "only harmless m" for m :: "(call, hash) io"
    by (rule follows_only [OF that]) (simp add: gated_other)
  show ?thesis
    unfolding RequestFTDCAvailabilityCheck_def Let_def submit_def
    by (intro follows_lift_bind follows_bind follows_perform rest only_rules only_diag
        only_mono [OF only_CheckTx]) (simp_all add: gated_def)
qed

lemma follows_availability: "follows A (gated W u) (availability_step W s path c u f t g sa)"
proof -
  have pause: "follows A' (gated W u) (bindE (sleep 1) (\<lambda>_. ret i))" for A' and i :: hash
    by (rule follows_only [where Q = harmless]) (auto simp: gated_other sleep_def intro!: only_rules only_perform)
  have save: "follows A' (gated W u) (save_or_warn W path st)" for A' st
    by (rule follows_only [OF only_save [where P = "\<lambda>_. False"]]) (erule gated_writes, simp)
  have gate: "follows A' (gated W u) (CheckFTDCProxyPolicyConsistency W u)" for A'
    by (rule follows_only [OF only_policy]) (auto simp: gated_other)
  show ?thesis
    unfolding availability_step_def
    by (intro follows_rules pause
        follows_bind_post [OF gate, where B = "\<lambda>_. gate_passed W u"] follows_bind follows_request save)
      (auto simp: policy_passed)
qed

lemma follows_register_steps:
  "follows (\<lambda>_. True) (gated W fu) (register_steps W s ti u fu ft c g path t p st)"
proof -
  have na: "is_attestation x \<Longrightarrow> \<not> is_availability x" "is_registration x \<Longrightarrow> \<not> is_availability x"
    "is_promotion x \<Longrightarrow> \<not> is_availability x" for x
    by (cases x; simp)+
  have att: "follows A (gated W fu) (attest_step W path c step action sa)"
    if "only (sends P) action" "\<And>x. P x \<Longrightarrow> \<not> is_availability x" for A P step action sa
    by (rule follows_only [OF only_attest_step [OF that(1)]], erule gated_writes, erule that(2))
  have promote: "follows A (gated W fu) (promotion_step W s c fu i)" for A i
    by (rule follows_only [OF only_promotion], erule gated_sends, erule na(3))
  show ?thesis unfolding register_steps_def
    by (intro follows_bind follows_availability promote att [OF only_attestation_for]
        att [OF only_RequestTeeAttestation]) (auto dest: na)
qed

text \<open>
  C22. Fail fast: in every run of the registration command, whatever the outside answers and
  wherever it stops, an availability check is requested on chain only directly after the
  signing-policy gate passed: either the reward epoch or the proxy's info could not be read
  there, or they were found in sync. A confirmed mismatch is never followed by the request.
\<close>

theorem availability_check_is_gated:
  "\<exists>cs. snd (RegisterNode W unmarshal s ti hostURL ftdcURL ftdc command given path h) = h @ cs
     \<and> justified (gated W ftdcURL) h cs"
proof -
  have load: "follows A (gated W ftdcURL) (loadState W unmarshal path)" for A
    unfolding loadState_def
    by (rule follows_only [where Q = harmless]) (auto simp: gated_other intro!: only_rules only_perform)
  have remove: "follows A (gated W ftdcURL)
      (bindE (attempt (perform (Remove_File path) (\<lambda>h. remove_file W h path))) (\<lambda>_. ret ()))" for A
    by (intro follows_bind follows_rules follows_perform) (simp add: gated_other)
  have "follows (\<lambda>_. True) (gated W ftdcURL)
      (RegisterNode W unmarshal s ti hostURL ftdcURL ftdc command given path)"
    unfolding RegisterNode_def
    by (intro follows_lift_bind follows_prod follows_bind load remove follows_register_steps)
  then show ?thesis by (rule follows_run)
qed

definition demo_resumed :: registrationState where
  "demo_resumed = \<lparr>CompletedSteps = ''rRa'', TeeAttestInstructionID = 21, InstructionID = 23\<rparr>"

lemma resumed_run_only_promotes_witness:
  "\<exists>pauses. register_steps demo_outside \<lparr>su_Prv = 2, su_Addresses = no_addresses\<rparr> demo_info ''u'' ''f'' 3
       ''rRap'' '''' ''state'' 4 5 demo_resumed [] =
     promotion_step demo_outside \<lparr>su_Prv = 2, su_Addresses = no_addresses\<rparr> ''rRap'' ''f'' 23 pauses
     \<and> list_all (\<lambda>c. c = Sleep 1) pauses"
  using resumed_run_only_promotes [of demo_resumed "''rRap''" demo_outside
      "\<lparr>su_Prv = 2, su_Addresses = no_addresses\<rparr>" demo_info "''u''" "''f''" 3 "''''" "''state''" 4 5 "[]"]
  by (auto simp: demo_resumed_def)

end
