(* ===== verification/Machines.thy ===== *)
theory Machines
  imports Registration_Props
begin

text \<open>
  The commands that pause TEE machines: \<^verbatim>\<open>tools/cmd/reconcile-tee\<close>, which pauses the machines
  whose keys died with an old container, and \<^verbatim>\<open>tools/cmd/pause-tee\<close>. A command returns its
  exit code; a failed run is a fatal error, exit code 1.
\<close>

section \<open>reconcile-tee\<close>

definition statusProduction :: nat where
  "statusProduction = 2"

definition pause_machine :: "outside \<Rightarrow> tool_support \<Rightarrow> address \<Rightarrow> (call, unit) io" where
  "pause_machine W s i =
     bindE (lift_result (transactor W (su_Prv s))) (\<lambda>_.
     bindE (submit_or W (key_address W (su_Prv s)) 0 (Tx_Pause i) (\<lambda>err. err)) (\<lambda>txhash.
     bindE (CheckTx W txhash) (\<lambda>_. ret ())))"

fun pause_stale :: "outside \<Rightarrow> tool_support \<Rightarrow> address \<Rightarrow> address list \<Rightarrow> nat \<Rightarrow> (call, nat) io" where
  "pause_stale W s liveID [] stale = ret stale"
| "pause_stale W s liveID (i # is) stale =
     (if i = liveID then pause_stale W s liveID is stale
      else bindE (attempt (perform (Query (Q_Machine_Owner i)) (\<lambda>h. machine_owner_at W h i))) (\<lambda>owner.
        case owner of
          Inl _ \<Rightarrow> pause_stale W s liveID is stale
        | Inr o' \<Rightarrow>
            if o' \<noteq> key_address W (su_Prv s) then pause_stale W s liveID is stale
            else bindE (pause_machine W s i) (\<lambda>_. pause_stale W s liveID is (stale + 1))))"

definition reconcile_main :: "outside \<Rightarrow> tool_support result \<Rightarrow> string \<Rightarrow> (call, nat) io" where
  "reconcile_main W support proxyURL =
     bindE (lift_result support) (\<lambda>s.
     bindE (TeeInfo W proxyURL) (\<lambda>teeInfo.
     bindE (lift_result (TeeProxyId W teeInfo)) (\<lambda>(liveID, _).
     bindE (attempt (perform (Query (Q_Machine_Status liveID)) (\<lambda>h. machine_status_at W h liveID))) (\<lambda>liveStatus.
       if liveStatus \<noteq> Inr statusProduction then ret 3
       else bindE (perform (Query (Q_Active_Machines (uint (ti_ExtensionID teeInfo))))
                (\<lambda>h. active_machines_at W h (uint (ti_ExtensionID teeInfo)))) (\<lambda>active.
            bindE (pause_stale W s liveID active 0) (\<lambda>_. ret 0))))))"

section \<open>pause-tee\<close>

definition pause_one :: "outside \<Rightarrow> tool_support \<Rightarrow> string \<Rightarrow> (call, unit) io" where
  "pause_one W s raw =
     (let teeID = str_to_address W raw in
      bindE (perform (Query (Q_Machine_Status teeID)) (\<lambda>h. machine_status_at W h teeID)) (\<lambda>status.
        if status \<noteq> 2 then ret ()
        else bindE (pause_machine W s teeID) (\<lambda>_.
             bindE (perform (Query (Q_Machine_Status teeID)) (\<lambda>h. machine_status_at W h teeID)) (\<lambda>_.
             ret ()))))"

definition pause_tee_main :: "outside \<Rightarrow> tool_support result \<Rightarrow> string list \<Rightarrow> (call, nat) io" where
  "pause_tee_main W support args =
     (if args = [] then ret 2
      else bindE (lift_result support) (\<lambda>s.
           bindE (for_each (pause_one W s) args) (\<lambda>_. ret 0)))"

section \<open>Which pauses are justified\<close>

lemma follows_submit_or: "(\<And>h. A h \<Longrightarrow> P h (Send from v t)) \<Longrightarrow> follows A P (submit_or W from v t m)"
  unfolding submit_or_def submit_def by (intro follows_bind follows_perform follows_rules) simp_all

lemma follows_CheckTx: "(\<And>h c. harmless c \<Longrightarrow> P h c) \<Longrightarrow> follows A P (CheckTx W t)"
  by (rule follows_only [OF only_CheckTx]) simp

lemma follows_pause_machine:
  "(\<And>h. A h \<Longrightarrow> P h (Send (key_address W (su_Prv s)) 0 (Tx_Pause i))) \<Longrightarrow>
     (\<And>h c. harmless c \<Longrightarrow> P h c) \<Longrightarrow> follows A P (pause_machine W s i)"
  unfolding pause_machine_def
  by (intro follows_lift_bind follows_bind follows_submit_or follows_CheckTx follows_rules) simp_all

text \<open>
  A pause of a machine that is active on the extension, is not the live one, and that the
  chain has just named us the owner of.
\<close>

definition own_stale_pause ::
  "outside \<Rightarrow> tool_support \<Rightarrow> address \<Rightarrow> address list \<Rightarrow> history \<Rightarrow> call \<Rightarrow> bool" where
  "own_stale_pause W s liveID active h c \<longleftrightarrow>
     harmless c \<or>
     (\<exists>i h0. c = Send (key_address W (su_Prv s)) 0 (Tx_Pause i)
        \<and> i \<in> set active \<and> i \<noteq> liveID
        \<and> h = h0 @ [Query (Q_Machine_Owner i)] \<and> machine_owner_at W h0 i = Inr (key_address W (su_Prv s)))"

lemma follows_pause_stale:
  "set is \<subseteq> set active \<Longrightarrow>
     follows (\<lambda>_. True) (own_stale_pause W s liveID active) (pause_stale W s liveID is n)"
proof (induction "is" arbitrary: n)
  case (Cons i "is")
  then have ih: "follows A (own_stale_pause W s liveID active) (pause_stale W s liveID is n)" for n A
    by (simp add: follows_weaken)
  show ?case
  proof (cases "i = liveID")
    case False
    have "follows (\<lambda>h'. \<exists>h. True \<and> Inr (machine_owner_at W h i) = Inr owner
            \<and> h' = h @ [Query (Q_Machine_Owner i)]) (own_stale_pause W s liveID active)
        (case owner of
           Inl _ \<Rightarrow> pause_stale W s liveID is n
         | Inr o' \<Rightarrow>
             if o' \<noteq> key_address W (su_Prv s) then pause_stale W s liveID is n
             else bindE (pause_machine W s i) (\<lambda>_. pause_stale W s liveID is (n + 1)))" for owner
      using Cons.prems False
      by (intro follows_rules ih follows_bind follows_pause_machine) (auto simp: own_stale_pause_def)
    then have "follows (\<lambda>_. True) (own_stale_pause W s liveID active) (pause_stale W s liveID (i # is) n)"
      using False unfolding pause_stale.simps attempt_perform
      by (simp only: if_False) (rule follows_perform_bind, simp_all add: own_stale_pause_def)
    then show ?thesis .
  qed (simp add: ih)
qed (auto intro: follows_rules)

text \<open>
  C36. \<^verbatim>\<open>reconcile-tee\<close> touches only our own stale machines: unless the chain reports the live
  key as PRODUCTION it exits with code 3 after one query and sends nothing; otherwise every
  transaction pauses a machine that the chain lists as active, that is not the live one, and
  directly follows the query in which the chain named us its owner.
\<close>

theorem reconcile_pauses_only_own_stale:
  assumes "TeeInfo W url h = (Inr ti, h1)" and "TeeProxyId W ti = Inr (liveID, proxyID)"
  shows "if machine_status_at W h1 liveID \<noteq> Inr statusProduction
    then reconcile_main W (Inr s) url h = (Inr 3, h1 @ [Query (Q_Machine_Status liveID)])
    else case active_machines_at W (h1 @ [Query (Q_Machine_Status liveID)]) (uint (ti_ExtensionID ti)) of
        Inl err \<Rightarrow> fst (reconcile_main W (Inr s) url h) = Inl err
      | Inr active \<Rightarrow> \<exists>cs. snd (reconcile_main W (Inr s) url h) = h1 @ cs
          \<and> justified (own_stale_pause W s liveID active) h1 cs"
proof -
  let ?h2 = "h1 @ [Query (Q_Machine_Status liveID)]"
  let ?e = "uint (ti_ExtensionID ti)"
  have main: "reconcile_main W (Inr s) url h =
      (if machine_status_at W h1 liveID \<noteq> Inr statusProduction then (Inr 3, ?h2)
       else bindE (perform (Query (Q_Active_Machines ?e)) (\<lambda>h. active_machines_at W h ?e)) (\<lambda>active.
            bindE (pause_stale W s liveID active 0) (\<lambda>_. ret 0)) ?h2)"
    using assms by (simp add: reconcile_main_def bindE_def lift_result_def attempt_def perform_def ret_def)
  show ?thesis
  proof (cases "active_machines_at W ?h2 ?e")
    case (Inl err)
    then show ?thesis by (simp add: main bindE_def perform_def)
  next
    case (Inr active)
    have "follows (\<lambda>_. True) (own_stale_pause W s liveID active)
        (bindE (pause_stale W s liveID active 0) (\<lambda>_. ret (0 :: nat)))"
      by (intro follows_bind follows_pause_stale order_refl follows_rules)
    then obtain cs where "snd (bindE (pause_stale W s liveID active 0) (\<lambda>_. ret (0 :: nat))
        (?h2 @ [Query (Q_Active_Machines ?e)])) = (?h2 @ [Query (Q_Active_Machines ?e)]) @ cs"
      "justified (own_stale_pause W s liveID active) (?h2 @ [Query (Q_Active_Machines ?e)]) cs"
      using follows_run by blast
    then show ?thesis using Inr
      by (auto simp: main run_perform own_stale_pause_def
          intro!: exI [of _ "[Query (Q_Machine_Status liveID), Query (Q_Active_Machines ?e)] @ cs"])
  qed
qed

text \<open>A pause of a named machine that the chain has just reported as PRODUCTION.\<close>

definition production_pause :: "outside \<Rightarrow> tool_support \<Rightarrow> string list \<Rightarrow> history \<Rightarrow> call \<Rightarrow> bool" where
  "production_pause W s args h c \<longleftrightarrow>
     harmless c \<or>
     (\<exists>raw h0. raw \<in> set args \<and> c = Send (key_address W (su_Prv s)) 0 (Tx_Pause (str_to_address W raw))
        \<and> h = h0 @ [Query (Q_Machine_Status (str_to_address W raw))]
        \<and> machine_status_at W h0 (str_to_address W raw) = Inr statusProduction)"

lemma follows_pause_one:
  "raw \<in> set args \<Longrightarrow> follows (\<lambda>_. True) (production_pause W s args) (pause_one W s raw)"
  unfolding pause_one_def Let_def
  by (intro follows_perform_bind follows_rules follows_bind follows_pause_machine follows_perform)
    (auto simp: production_pause_def statusProduction_def)

text \<open>
  \<^verbatim>\<open>pause-tee\<close> pauses only machines it was given, each right after the chain reported it in
  PRODUCTION; without arguments it makes no call and exits with code 2.
\<close>

theorem pause_tee_only_production:
  "if args = [] then pause_tee_main W (Inr s) args h = (Inr 2, h)
   else \<exists>cs. snd (pause_tee_main W (Inr s) args h) = h @ cs
     \<and> justified (production_pause W s args) h cs"
proof -
  have "follows (\<lambda>_. True) (production_pause W s args)
      (bindE (for_each (pause_one W s) args) (\<lambda>_. ret (0 :: nat)))"
    by (intro follows_bind follows_for_each follows_pause_one follows_rules)
  from follows_run [OF this, of h] show ?thesis
    by (simp add: pause_tee_main_def run_simps)
qed

lemma reconcile_pauses_only_own_stale_witness:
  "\<exists>cs. snd (reconcile_main demo_outside (Inr \<lparr>su_Prv = 2, su_Addresses = no_addresses\<rparr>) ''u'' []) =
       [Http_Get ''u/info''] @ cs
     \<and> justified (own_stale_pause demo_outside \<lparr>su_Prv = 2, su_Addresses = no_addresses\<rparr> 11 [11, 15])
         [Http_Get ''u/info''] cs"
proof -
  have t: "TeeInfo demo_outside ''u'' [] = (Inr demo_info, [Http_Get ''u/info''])"
    by (simp add: demo_TeeInfo)
  have i: "TeeProxyId demo_outside demo_info = Inr (11, 11)" by (simp add: TeeProxyId_def)
  show ?thesis
    using reconcile_pauses_only_own_stale [OF t i, of "\<lparr>su_Prv = 2, su_Addresses = no_addresses\<rparr>"]
    by (simp add: statusProduction_def)
qed

end
