(* ===== verification/Setup_Extension.thy ===== *)
theory Setup_Extension
  imports Machines
begin

text \<open>
  Setting up an extension (\<^verbatim>\<open>tools/pkg/fccutils/extension.go\<close>): register it, allow the
  deployer as machine owner and as wallet project owner, and add the EVM key type; every
  permission is queried first.
\<close>

section \<open>The single operations\<close>

definition supervised ::
  "outside \<Rightarrow> tool_support \<Rightarrow> tx \<Rightarrow> (string \<Rightarrow> string) \<Rightarrow> (string \<Rightarrow> string) \<Rightarrow> (call, receipt) io" where
  "supervised W s t refused mined_err =
     bindE (submit_or W (key_address W (su_Prv s)) 0 t refused) (\<lambda>txhash.
       relabel mined_err (CheckTx W txhash))"

text \<open>The identifier of the registered extension; \<^term>\<open>None\<close> is a nil \<^verbatim>\<open>ExtensionId\<close>.\<close>

definition registerExtension ::
  "outside \<Rightarrow> tool_support \<Rightarrow> address \<Rightarrow> address \<Rightarrow> (call, int option) io" where
  "registerExtension W s instructionsSender stateVerifier =
     bindE (supervised W s (Tx_Register_Extension stateVerifier instructionsSender)
              (\<lambda>err. ''TeeExtensionRegistry.Register failed: '' @ err)
              (\<lambda>err. ''Register transaction failed: '' @ err)) (\<lambda>receipt.
       if length (rc_Logs receipt) < 2
       then throw (''expected at least 2 logs from Register() transaction, got '' @
              show_nat (length (rc_Logs receipt)) @ '' '' @ [CHR 0xE2, CHR 0x80, CHR 0x94] @
              '' the registry contract may have changed or be behind a proxy'')
       else bindE (relabel (\<lambda>err. ''failed to parse TeeExtensionRegistered event: '' @ err)
                     (lift_result (parse_extension_registered W (rc_Logs receipt ! 0)))) (\<lambda>i.
            bindE (relabel (\<lambda>err. ''failed to parse TeeExtensionContractsSet event: '' @ err)
                     (lift_result (parse_contracts_set W (rc_Logs receipt ! 1)))) (\<lambda>_.
            ret i)))"

definition allowTeeMachineOwners ::
  "outside \<Rightarrow> tool_support \<Rightarrow> int \<Rightarrow> address list \<Rightarrow> (call, unit) io" where
  "allowTeeMachineOwners W s extensionId owners =
     bindE (supervised W s (Tx_Add_Machine_Owners extensionId owners)
              (\<lambda>err. ''AddAllowedTeeMachineOwners failed: '' @ err)
              (\<lambda>err. ''AddAllowedTeeMachineOwners transaction failed: '' @ err)) (\<lambda>receipt.
       if rc_Logs receipt = []
       then throw (''no logs in AddAllowedTeeMachineOwners transaction '' @
              [CHR 0xE2, CHR 0x80, CHR 0x94] @ '' unexpected'')
       else relabel (\<lambda>err. ''failed to parse AllowedTeeMachineOwnersAdded event: '' @ err)
              (lift_result (parse_machine_owners_added W (rc_Logs receipt ! 0))))"

definition allowTeeProjectManagerOwners ::
  "outside \<Rightarrow> tool_support \<Rightarrow> int \<Rightarrow> address list \<Rightarrow> (call, unit) io" where
  "allowTeeProjectManagerOwners W s extensionId owners =
     bindE (supervised W s (Tx_Add_Project_Owners extensionId owners)
              (\<lambda>err. ''AddAllowedTeeWalletProjectOwners failed: '' @ err)
              (\<lambda>err. ''AddAllowedTeeWalletProjectOwners transaction failed: '' @ err)) (\<lambda>receipt.
       if rc_Logs receipt = []
       then throw (''no logs in AddAllowedTeeWalletProjectOwners transaction '' @
              [CHR 0xE2, CHR 0x80, CHR 0x94] @ '' unexpected'')
       else relabel (\<lambda>err. ''failed to parse AllowedTeeWalletProjectOwnersAdded event: '' @ err)
              (lift_result (parse_project_owners_added W (rc_Logs receipt ! 0))))"

definition addSupportedKeyTypesTx :: "outside \<Rightarrow> tool_support \<Rightarrow> int \<Rightarrow> hash list \<Rightarrow> (call, unit) io" where
  "addSupportedKeyTypesTx W s extensionId keyTypesBytes32 =
     bindE (supervised W s (Tx_Add_Key_Types extensionId keyTypesBytes32)
              (\<lambda>err. err) (\<lambda>err. err)) (\<lambda>_. ret ())"

definition AddSupportedKeyTypes :: "outside \<Rightarrow> tool_support \<Rightarrow> int \<Rightarrow> hash list \<Rightarrow> (call, unit) io" where
  "AddSupportedKeyTypes W s extensionId keyTypes =
     bindE (lift_result (transactor W (su_Prv s))) (\<lambda>_.
     addSupportedKeyTypesTx W s extensionId (HashArrayToBytes32Array keyTypes))"

definition IsKeyTypeSupported :: "outside \<Rightarrow> int \<Rightarrow> hash \<Rightarrow> (call, bool) io" where
  "IsKeyTypeSupported W extensionId keyType =
     perform (Query (Q_Key_Type extensionId keyType))
       (\<lambda>h. key_type_supported_at W h extensionId keyType)"

section \<open>SetupExtension\<close>

text \<open>
  The four steps on a known identifier. A nil identifier makes the next binding call panic,
  which is an error of the run here.
\<close>

definition owner_step :: "outside \<Rightarrow> tool_support \<Rightarrow> int \<Rightarrow> (call, unit) io" where
  "owner_step W s i =
     (let me = key_address W (su_Prv s) in
      bindE (relabel (\<lambda>err. ''failed checking TEE machine owner status: '' @ err)
               (perform (Query (Q_Machine_Owner_Allowed i me)) (\<lambda>h. machine_owner_allowed_at W h i me))) (\<lambda>already.
        if already then ret ()
        else relabel (\<lambda>err. ''failed adding TEE machine owners (extension exists as ID '' @ show_int i @
                 '' but owners not set): '' @ err) (allowTeeMachineOwners W s i [me])))"

definition project_owner_step :: "outside \<Rightarrow> tool_support \<Rightarrow> int \<Rightarrow> (call, unit) io" where
  "project_owner_step W s i =
     (let me = key_address W (su_Prv s) in
      bindE (relabel (\<lambda>err. ''failed checking wallet project owner status: '' @ err)
               (perform (Query (Q_Project_Owner_Allowed i me)) (\<lambda>h. project_owner_allowed_at W h i me))) (\<lambda>already.
        if already then ret ()
        else relabel (\<lambda>err. ''failed adding wallet project owners (extension exists as ID '' @
                 show_int i @ '' but owners not set): '' @ err) (allowTeeProjectManagerOwners W s i [me])))"

definition key_type_step :: "outside \<Rightarrow> tool_support \<Rightarrow> int \<Rightarrow> (call, unit) io" where
  "key_type_step W s i =
     bindE (IsKeyTypeSupported W i (evm_key_type W)) (\<lambda>supported.
       if supported then ret () else AddSupportedKeyTypes W s i [evm_key_type W])"

definition SetupExtension ::
  "outside \<Rightarrow> tool_support \<Rightarrow> address \<Rightarrow> address \<Rightarrow> (call, int) io" where
  "SetupExtension W s instructionsSender stateVerifier =
     bindE (lift_result (transactor W (su_Prv s))) (\<lambda>_.
     bindE (registerExtension W s instructionsSender stateVerifier) (\<lambda>registered.
       case registered of
         None \<Rightarrow> throw ''nil extension id''
       | Some i \<Rightarrow>
           bindE (owner_step W s i) (\<lambda>_.
           bindE (project_owner_step W s i) (\<lambda>_.
           bindE (key_type_step W s i) (\<lambda>_. ret i)))))"

section \<open>Granting what is missing\<close>

lemma HashArray_id [simp]: "HashArrayToBytes32Array hs = hs"
  by (simp add: HashArrayToBytes32Array_def map_nth)

lemma relabel_id [simp]: "relabel (\<lambda>err. err) m = m"
  by (rule ext) (simp add: relabel_def split: prod.split sum.split)

lemma relabelled_Inr: "(case x of Inl err \<Rightarrow> Inl (f err) | Inr y \<Rightarrow> Inr y) = Inr z \<longleftrightarrow> x = Inr z"
  by (cases x) auto

lemma follows_supervised:
  "(\<And>h. A h \<Longrightarrow> P h (Send (key_address W (su_Prv s)) 0 t)) \<Longrightarrow>
     (\<And>h c. harmless c \<Longrightarrow> P h c) \<Longrightarrow> follows A P (supervised W s t f g)"
  unfolding supervised_def
  by (intro follows_bind follows_submit_or follows_rules follows_CheckTx) simp_all

text \<open>
  The contract of a permission: a query of the chain, and an operation that sends one
  transaction and otherwise only looks. The client asks first and grants only on a denial.
\<close>

locale permission =
  fixes ask :: call and answer :: "history \<Rightarrow> bool result"
    and grant :: "(call, unit) io" and t :: call
  assumes ask_harmless: "harmless ask"
    and grant_sends: "(\<And>h. A h \<Longrightarrow> P h t) \<Longrightarrow> (\<And>h c. harmless c \<Longrightarrow> P h c) \<Longrightarrow> follows A P grant"
begin

lemma grants_if_denied:
  assumes "\<And>h c. harmless c \<Longrightarrow> P h c" and "\<And>h. answer h = Inr False \<Longrightarrow> P (h @ [ask]) t"
  shows "follows A P (bindE (relabel f (perform ask answer))
      (\<lambda>already. if already then ret () else relabel g grant))"
  unfolding relabel_perform
proof (rule follows_perform_bind)
  fix already
  show "follows (\<lambda>h'. \<exists>h. A h \<and> (case answer h of Inl err \<Rightarrow> Inl (f err) | Inr x \<Rightarrow> Inr x) = Inr already
          \<and> h' = h @ [ask]) P (if already then ret () else relabel g grant)"
    by (intro follows_rules grant_sends) (auto simp: assms relabelled_Inr)
qed (simp add: assms ask_harmless)

end

text \<open>The three permissions of a setup.\<close>

interpretation machine_owner: permission
  "Query (Q_Machine_Owner_Allowed i (key_address W (su_Prv s)))"
  "\<lambda>h. machine_owner_allowed_at W h i (key_address W (su_Prv s))"
  "allowTeeMachineOwners W s i [key_address W (su_Prv s)]"
  "Send (key_address W (su_Prv s)) 0 (Tx_Add_Machine_Owners i [key_address W (su_Prv s)])"
  for W s i
  by unfold_locales
    (auto simp: allowTeeMachineOwners_def intro!: follows_bind follows_supervised follows_rules)

interpretation project_owner: permission
  "Query (Q_Project_Owner_Allowed i (key_address W (su_Prv s)))"
  "\<lambda>h. project_owner_allowed_at W h i (key_address W (su_Prv s))"
  "allowTeeProjectManagerOwners W s i [key_address W (su_Prv s)]"
  "Send (key_address W (su_Prv s)) 0 (Tx_Add_Project_Owners i [key_address W (su_Prv s)])"
  for W s i
  by unfold_locales
    (auto simp: allowTeeProjectManagerOwners_def intro!: follows_bind follows_supervised follows_rules)

interpretation evm_key: permission
  "Query (Q_Key_Type i (evm_key_type W))"
  "\<lambda>h. key_type_supported_at W h i (evm_key_type W)"
  "AddSupportedKeyTypes W s i [evm_key_type W]"
  "Send (key_address W (su_Prv s)) 0 (Tx_Add_Key_Types i [evm_key_type W])"
  for W s i
  by unfold_locales
    (auto simp: AddSupportedKeyTypes_def addSupportedKeyTypesTx_def
      intro!: follows_bind follows_supervised follows_rules)

section \<open>Properties\<close>

text \<open>What a setup may send: the registration, and a permission the chain has just denied.\<close>

definition setup_call ::
  "outside \<Rightarrow> tool_support \<Rightarrow> address \<Rightarrow> address \<Rightarrow> history \<Rightarrow> call \<Rightarrow> bool" where
  "setup_call W s sender verifier h c \<longleftrightarrow>
     (let me = key_address W (su_Prv s) in
      harmless c
      \<or> c = Send me 0 (Tx_Register_Extension verifier sender)
      \<or> (\<exists>i h0. c = Send me 0 (Tx_Add_Machine_Owners i [me])
           \<and> h = h0 @ [Query (Q_Machine_Owner_Allowed i me)]
           \<and> machine_owner_allowed_at W h0 i me = Inr False)
      \<or> (\<exists>i h0. c = Send me 0 (Tx_Add_Project_Owners i [me])
           \<and> h = h0 @ [Query (Q_Project_Owner_Allowed i me)]
           \<and> project_owner_allowed_at W h0 i me = Inr False)
      \<or> (\<exists>i h0. c = Send me 0 (Tx_Add_Key_Types i [evm_key_type W])
           \<and> h = h0 @ [Query (Q_Key_Type i (evm_key_type W))]
           \<and> key_type_supported_at W h0 i (evm_key_type W) = Inr False))"

lemma setup_harmless [simp]: "harmless c \<Longrightarrow> setup_call W s a b h c"
  by (simp add: setup_call_def Let_def)

lemma follows_registerExtension: "follows A (setup_call W s a b) (registerExtension W s a b)"
  unfolding registerExtension_def
  by (intro follows_bind follows_rules follows_supervised) (simp_all add: setup_call_def Let_def)

lemma follows_owner_step: "follows A (setup_call W s a b) (owner_step W s i)"
  unfolding owner_step_def Let_def
  by (rule machine_owner.grants_if_denied) (simp_all add: setup_call_def Let_def)

lemma follows_project_owner_step: "follows A (setup_call W s a b) (project_owner_step W s i)"
  unfolding project_owner_step_def Let_def
  by (rule project_owner.grants_if_denied) (simp_all add: setup_call_def Let_def)

lemma follows_key_type_step: "follows A (setup_call W s a b) (key_type_step W s i)"
  using evm_key.grants_if_denied [where P = "setup_call W s a b" and f = "\<lambda>err. err"
      and g = "\<lambda>err. err" and W = W and i = i and A = A and s = s]
  by (simp add: key_type_step_def IsKeyTypeSupported_def setup_call_def Let_def cong: if_cong)

text \<open>
  C37. Setting up an extension sends nothing superfluous: besides the registration with the
  given contracts, it grants machine ownership, project ownership and the EVM key type only
  to the deployer and the EVM type themselves, and each only directly after the chain
  answered that this very permission is missing.
\<close>

theorem setup_grants_only_missing:
  "\<exists>cs. snd (SetupExtension W s sender verifier h) = h @ cs
     \<and> justified (setup_call W s sender verifier) h cs"
proof -
  have "follows (\<lambda>_. True) (setup_call W s sender verifier) (SetupExtension W s sender verifier)"
    unfolding SetupExtension_def
    by (intro follows_rules follows_bind follows_registerExtension follows_owner_step
        follows_project_owner_step follows_key_type_step)
  then show ?thesis by (rule follows_run)
qed

end
