(* ===== verification/Extension_Cmds.thy ===== *)
theory Extension_Cmds
  imports Setup_Extension Check_Props
begin

text \<open>
  The commands \<^verbatim>\<open>tools/cmd/register-extension\<close> and \<^verbatim>\<open>tools/cmd/allow-tee-version\<close>: what they
  send, and that the identifier the first one prints is one the deployment checks read back.
\<close>

section \<open>register-extension\<close>

fun hex_len :: "nat \<Rightarrow> nat" where
  "hex_len n = (if n < 16 then 1 else Suc (hex_len (n div 16)))"

declare hex_len.simps [simp del]

text \<open>\<^verbatim>\<open>%064x\<close> of a big integer: padded to 64 places, the sign taking one of them.\<close>

definition format_064x :: "int \<Rightarrow> string" where
  "format_064x i =
     (if i < 0 then ''-'' @ hex_pad (max 63 (hex_len (nat (- i)))) (nat (- i))
      else hex_pad (max 64 (hex_len (nat i))) (nat i))"

definition register_extension_main ::
  "outside \<Rightarrow> world \<Rightarrow> chain_client \<Rightarrow> tool_support result \<Rightarrow> string \<Rightarrow> (call, string) io" where
  "register_extension_main W w client support instructionSender =
     (if instructionSender = '''' then throw ''--instructionSender flag is required''
      else bindE (lift_result support) (\<lambda>s.
        let sender = str_to_address W instructionSender in
        case AddressHasCode w (Some client) sender ''InstructionSender'' of
          Some err \<Rightarrow> throw err
        | None \<Rightarrow>
            bindE (SetupExtension W s sender zero_address) (\<lambda>extensionID.
            ret (''0x'' @ format_064x extensionID))))"

section \<open>allow-tee-version\<close>

text \<open>The owner key, here with one leading \<^verbatim>\<open>0x\<close> or \<^verbatim>\<open>0X\<close> removed.\<close>

definition version_key :: "outside \<Rightarrow> tool_support \<Rightarrow> private_key result" where
  "version_key W s =
     (let raw = os_env W ''EXTENSION_OWNER_KEY'' in
      if raw \<noteq> ''''
      then hex_to_key W
             (if has_prefix raw ''0x'' \<or> has_prefix raw ''0X'' then drop 2 raw else raw)
      else Inr (su_Prv s))"

definition allow_version_main ::
  "outside \<Rightarrow> (nat \<Rightarrow> bool) \<Rightarrow> tool_support result \<Rightarrow> string \<Rightarrow> string \<Rightarrow> (call, unit) io" where
  "allow_version_main W isprint support proxyURL version =
     bindE (lift_result support) (\<lambda>s.
     bindE (TeeInfo W proxyURL) (\<lambda>ti.
     bindE (lift_result (version_key W s)) (\<lambda>privKey.
     bindE (lift_result (TeeProxyId W ti)) (\<lambda>_.
     let e = uint (ti_ExtensionID ti) in
     bindE (perform (Query (Q_Version_Supported e (ti_CodeHash ti) (ti_Platform ti)))
              (\<lambda>h. version_supported_at W h e (ti_CodeHash ti) (ti_Platform ti))) (\<lambda>supported.
       if supported then ret ()
       else bindE (attempt (AddTeeVersion W isprint privKey e (ti_CodeHash ti) (ti_Platform ti) version))
              (\<lambda>added.
                case added of
                  Inr _ \<Rightarrow> ret ()
                | Inl err \<Rightarrow> if str_contains err ''VersionAlreadyExists'' then ret () else throw err))))))"

section \<open>Lemmas\<close>

lemma hex_len_le: "n < 16 ^ k \<Longrightarrow> 0 < k \<Longrightarrow> hex_len n \<le> k"
proof (induction k arbitrary: n)
  case (Suc k)
  show ?case
  proof (cases "n < 16")
    case True
    then show ?thesis by (simp add: hex_len.simps [of n])
  next
    case False
    then have "0 < k" using Suc.prems by (cases k) auto
    moreover have "n div 16 < 16 ^ k"
      using Suc.prems by (simp add: div_less_iff_less_mult mult.commute)
    ultimately show ?thesis using Suc.IH False by (simp add: hex_len.simps [of n])
  qed
qed simp

lemma format_id:
  "0 \<le> i \<Longrightarrow> i < 2 ^ 256 \<Longrightarrow> format_064x i = hex_pad 64 (nat i)"
  using hex_len_le [of "nat i" 64] by (simp add: format_064x_def nat_less_iff max_def)

text \<open>What \<^verbatim>\<open>allow-tee-version\<close> may send.\<close>

definition version_call ::
  "outside \<Rightarrow> (nat \<Rightarrow> bool) \<Rightarrow> private_key \<Rightarrow> tee_info \<Rightarrow> string \<Rightarrow> call \<Rightarrow> bool" where
  "version_call W isprint k ti version c \<longleftrightarrow>
     harmless c \<or>
     (\<exists>vb. StringToBytes32 isprint version = Inr vb
        \<and> c = Send (key_address W k) 0
            (Tx_Add_Version (uint (ti_ExtensionID ti)) vb (ti_CodeHash ti) [ti_Platform ti]))"

lemma only_AddTeeVersion:
  "only (version_call W isprint k ti version)
     (AddTeeVersion W isprint k (uint (ti_ExtensionID ti)) (ti_CodeHash ti) (ti_Platform ti) version)"
  unfolding AddTeeVersion_def
  by (intro only_lift_bind only_rules only_submit_or only_mono [OF only_CheckTx])
    (auto simp: version_call_def)

section \<open>Properties\<close>

text \<open>
  \<^verbatim>\<open>allow-tee-version\<close> is idempotent and precise: if the chain already supports the TEE's
  code hash and platform, it sends nothing and succeeds; otherwise every transaction it sends
  adds the version of exactly the extension, code hash and platform the proxy reports, with
  the version text padded to 32 bytes, and a refusal that says the version exists is success.
\<close>

theorem allow_version_idempotent:
  assumes "TeeInfo W url h = (Inr ti, h1)" and "version_key W s = Inr k" and "TeeProxyId W ti = Inr ids"
  defines "q \<equiv> Query (Q_Version_Supported (uint (ti_ExtensionID ti)) (ti_CodeHash ti) (ti_Platform ti))"
  shows "case version_supported_at W h1 (uint (ti_ExtensionID ti)) (ti_CodeHash ti) (ti_Platform ti) of
      Inl err \<Rightarrow> allow_version_main W p (Inr s) url version h = (Inl err, h1 @ [q])
    | Inr True \<Rightarrow> allow_version_main W p (Inr s) url version h = (Inr (), h1 @ [q])
    | Inr False \<Rightarrow>
        (\<exists>cs. snd (allow_version_main W p (Inr s) url version h) = h1 @ [q] @ cs
           \<and> list_all (version_call W p k ti version) cs)
        \<and> \<not> (\<exists>err. fst (allow_version_main W p (Inr s) url version h) = Inl err
               \<and> str_contains err ''VersionAlreadyExists'')"
proof -
  let ?e = "uint (ti_ExtensionID ti)"
  let ?add = "AddTeeVersion W p k ?e (ti_CodeHash ti) (ti_Platform ti) version"
  have main: "allow_version_main W p (Inr s) url version h =
      (case version_supported_at W h1 ?e (ti_CodeHash ti) (ti_Platform ti) of
         Inl err \<Rightarrow> (Inl err, h1 @ [q])
       | Inr supported \<Rightarrow>
           if supported then (Inr (), h1 @ [q])
           else (case fst (?add (h1 @ [q])) of
               Inr _ \<Rightarrow> Inr ()
             | Inl err \<Rightarrow> if str_contains err ''VersionAlreadyExists'' then Inr () else Inl err,
             snd (?add (h1 @ [q]))))"
    using assms(1)
    by (simp add: allow_version_main_def run_simps run_attempt_any assms(2,3) q_def Let_def
        bindE_def [of "TeeInfo W url"] split: sum.split)
  obtain cs where "snd (?add (h1 @ [q])) = (h1 @ [q]) @ cs" "list_all (version_call W p k ti version) cs"
    using only_AddTeeVersion unfolding only_def by blast
  then show ?thesis
    by (auto simp: main split: sum.split bool.split if_splits)
qed

lemma allow_version_idempotent_witness:
  "\<exists>cs. snd (allow_version_main demo_outside (\<lambda>_. True) (Inr \<lparr>su_Prv = 2, su_Addresses = no_addresses\<rparr>) ''u'' ''v1'' []) =
     [Http_Get ''u/info'', Query (Q_Version_Supported 3 5 6)] @ cs
     \<and> list_all (version_call demo_outside (\<lambda>_. True) 2 demo_info ''v1'') cs"
proof -
  have t: "TeeInfo demo_outside ''u'' [] = (Inr demo_info, [Http_Get ''u/info''])"
    by (simp add: demo_TeeInfo)
  have k: "version_key demo_outside \<lparr>su_Prv = 2, su_Addresses = no_addresses\<rparr> = Inr 2"
    by (simp add: version_key_def)
  have i: "TeeProxyId demo_outside demo_info = Inr (11, 11)" by (simp add: TeeProxyId_def)
  show ?thesis
    using allow_version_idempotent [OF t k i, of "\<lambda>_. True" "''v1''"]
    by (simp add: demo_info_def demo_outside_def)
qed

text \<open>
  The identifier \<^verbatim>\<open>register-extension\<close> prints is well formed for the deployment checks and
  is read back by them: for every identifier of a successful setup that fits in 256 bits, the
  line printed matches the pattern that the environment checks demand of \<^verbatim>\<open>EXTENSION_ID\<close>, and
  its digits denote the identifier.
\<close>

theorem printed_extension_id_reads_back:
  assumes "SetupExtension W s (str_to_address W sender) zero_address h = (Inr i, h')"
    and "sender \<noteq> ''''" and "code_at client (str_to_address W sender) = Inr code" and "code \<noteq> []"
    and "0 \<le> i" and "i < 2 ^ 256"
  shows "\<exists>line. register_extension_main W w client (Inr s) sender h = (Inr line, h')
    \<and> extensionIDRegex line \<and> int (read_hex (drop 2 line)) = i"
proof -
  have "register_extension_main W w client (Inr s) sender h = (Inr (''0x'' @ hex_pad 64 (nat i)), h')"
    using assms by (simp add: register_extension_main_def AddressHasCode_def Let_def run_simps
        bindE_def [of "SetupExtension _ _ _ _"] format_id)
  moreover have "extensionIDRegex (''0x'' @ hex_pad 64 (nat i))"
    unfolding extensionIDRegex_def by (intro hex_of_length_0x hex_pad_is_hex length_hex_pad)
  moreover have "int (read_hex (drop 2 (''0x'' @ hex_pad 64 (nat i)))) = i"
    using assms(5,6) read_hex_pad [of "nat i" 64] by (simp add: nat_less_iff)
  ultimately show ?thesis by blast
qed

lemma demo_setup:
  "\<exists>h'. SetupExtension demo_outside s a b h = (Inr 4, h')"
proof -
  have mined: "CheckTx demo_outside t h = (Inr \<lparr>rc_Status = 1, rc_Logs = [[], []], rc_TxHash = 31\<rparr>, h @ [Wait_Mined t])" for t h
    by (simp add: CheckTx_def bindE_def relabel_def perform_def ret_def)
  have sup: "supervised demo_outside s t f g h =
      (Inr \<lparr>rc_Status = 1, rc_Logs = [[], []], rc_TxHash = 31\<rparr>, h @ [Send (of_nat (su_Prv s)) 0 t, Wait_Mined 31])" for t f g h
    by (simp add: supervised_def submit_or_def submit_def bindE_def relabel_def perform_def ret_def mined)
  have log: "relabel f (lift_result (Inr x)) h = (Inr x, h)" for f x and h :: history
    by (simp add: relabel_def lift_result_def)
  have reg: "\<exists>h'. registerExtension demo_outside s a b h = (Inr (Some 4), h')" for h
    by (simp add: registerExtension_def bindE_def sup log ret_def)
  have own: "\<exists>h'. owner_step demo_outside s i h = (Inr (), h')" for i h
    by (simp add: owner_step_def allowTeeMachineOwners_def Let_def bindE_def sup relabel_def lift_result_def perform_def ret_def)
  have prj: "\<exists>h'. project_owner_step demo_outside s i h = (Inr (), h')" for i h
    by (simp add: project_owner_step_def allowTeeProjectManagerOwners_def Let_def bindE_def sup relabel_def lift_result_def perform_def ret_def)
  have key: "\<exists>h'. key_type_step demo_outside s i h = (Inr (), h')" for i h
    by (simp add: key_type_step_def IsKeyTypeSupported_def AddSupportedKeyTypes_def
        addSupportedKeyTypesTx_def bindE_def sup perform_def lift_result_def ret_def)
  obtain h1 h2 h3 h4 where "registerExtension demo_outside s a b h = (Inr (Some 4), h1)"
    "owner_step demo_outside s 4 h1 = (Inr (), h2)" "project_owner_step demo_outside s 4 h2 = (Inr (), h3)"
    "key_type_step demo_outside s 4 h3 = (Inr (), h4)"
    using reg own prj key by blast
  then show ?thesis by (simp add: SetupExtension_def run_lift bindE_def [of "registerExtension _ _ _ _"]
        bindE_def [of "owner_step _ _ _"] bindE_def [of "project_owner_step _ _ _"]
        bindE_def [of "key_type_step _ _ _"] ret_def)
qed

lemma printed_extension_id_reads_back_witness:
  "\<exists>line h'. register_extension_main demo_outside demo_world
       \<lparr>code_at = (\<lambda>_. Inr [CHR ''c'']), balance_at = (\<lambda>_. Inr 0), chain_id = Inr 1\<rparr>
       (Inr \<lparr>su_Prv = 2, su_Addresses = no_addresses\<rparr>) ''0x12'' [] = (Inr line, h')
     \<and> extensionIDRegex line \<and> int (read_hex (drop 2 line)) = 4"
proof -
  obtain h' where s: "SetupExtension demo_outside \<lparr>su_Prv = 2, su_Addresses = no_addresses\<rparr>
      (str_to_address demo_outside ''0x12'') zero_address [] = (Inr 4, h')"
    using demo_setup by blast
  show ?thesis
    using printed_extension_id_reads_back [OF s, of
        "\<lparr>code_at = (\<lambda>_. Inr [CHR ''c'']), balance_at = (\<lambda>_. Inr 0), chain_id = Inr 1\<rparr>"
        "[CHR ''c'']" demo_world] by auto
qed

end
