(* ===== verification/Auction_Net.thy ===== *)
theory Auction_Net
  imports Registration_Props Auction_Types
begin

text \<open>
  What the end-to-end tool and the audit tools use of other code, beside the
  \<^term>\<open>outside\<close> of the registration tools: the generated binding of the auction contract, the
  ABI package, ECIES, key generation, and reads of the chain. Nothing here is defined; the
  fields are parameters of the definitions that use them.
\<close>

section \<open>Parameters\<close>

text \<open>
  An action response as \<^verbatim>\<open>tee-node\<close> answers it; only its result and the signature are read.
\<close>

record action_response =
  ap_Result :: ActionResult
  ap_Signature :: bytes

text \<open>
  \<open>method_id\<close> is the selector of a method with these input types. \<open>set_extension_id_calldata\<close>
  is \<^term>\<open>None\<close> when the binding's ABI does not parse. \<open>deployed_address\<close> is the address the
  binding computes for a deployment transaction.
\<close>

record auction_net =
  bind_auction :: "address \<Rightarrow> unit result"
  deployed_address :: "hash \<Rightarrow> address"
  set_extension_id_calldata :: "bytes result option"
  parse_auction_created :: "bytes \<Rightarrow> int result"
  erc20_abi :: "unit result"
  demo_asset_abi :: "unit result"
  transfer_topic :: hash
  log_topics :: "bytes \<Rightarrow> hash list"
  method_id :: "string \<Rightarrow> string list \<Rightarrow> bytes"
  pack_strings :: "string list \<Rightarrow> bytes result"
  pack_address :: "address \<Rightarrow> bytes result"
  unpack_address :: "bytes \<Rightarrow> address result"
  unpack_uint8 :: "bytes \<Rightarrow> (8 word) result"
  unpack_uint256 :: "bytes \<Rightarrow> int result"
  sign_native :: "private_key \<Rightarrow> tx \<Rightarrow> unit result"
  address_hex :: "address \<Rightarrow> string"
  parse_machine_key :: "public_key \<Rightarrow> public_key result"
  pack_bid_payload :: "abi_type \<Rightarrow> BidPayload \<Rightarrow> bytes result"
  unpack_auction_result :: "abi_type list \<Rightarrow> bytes \<Rightarrow> (address \<times> int \<times> address \<times> int) result"
  response_of :: "bytes \<Rightarrow> action_response"
  unmarshal_accepted :: "bytes \<Rightarrow> bool result"
  generate_key :: "history \<Rightarrow> private_key result"
  random_salt :: "history \<Rightarrow> hash result"
  ecies_encrypt :: "history \<Rightarrow> public_key \<Rightarrow> bytes \<Rightarrow> bytes result"
  chain_head_at :: "history \<Rightarrow> u64 result"
  token_balance_at :: "history \<Rightarrow> address \<Rightarrow> address \<Rightarrow> int list result"
  nft_owner_at :: "history \<Rightarrow> address \<Rightarrow> int \<Rightarrow> address list result"
  pending_nonce_at :: "history \<Rightarrow> address \<Rightarrow> u64 result"
  gas_price_at :: "history \<Rightarrow> int result"

definition em_dash :: string where
  "em_dash = [CHR 0xE2, CHR 0x80, CHR 0x94]"

section \<open>Printing and waiting\<close>

definition println :: "string \<Rightarrow> (call, unit) io" where
  "println s = perform (Print s) (\<lambda>_. Inr ())"

text \<open>\<^verbatim>\<open>bind.WaitMined\<close>, its error passed on under a label.\<close>

definition mined :: "outside \<Rightarrow> (string \<Rightarrow> string) \<Rightarrow> hash \<Rightarrow> (call, receipt) io" where
  "mined W message txhash = relabel message (perform (Wait_Mined txhash) (\<lambda>h. wait_mined W h txhash))"

definition waitOK :: "outside \<Rightarrow> hash \<Rightarrow> string \<Rightarrow> (call, unit) io" where
  "waitOK W txhash label =
     bindE (mined W (\<lambda>err. ''failed waiting for '' @ label @ '' transaction: '' @ err) txhash) (\<lambda>receipt.
       if rc_Status receipt \<noteq> 1 then throw (label @ '' transaction failed'') else ret ())"

text \<open>The first log that parses.\<close>

fun first_parsed :: "(bytes \<Rightarrow> 'a result) \<Rightarrow> bytes list \<Rightarrow> 'a option" where
  "first_parsed parse [] = None"
| "first_parsed parse (lg # logs) =
     (case parse lg of Inr x \<Rightarrow> Some x | Inl _ \<Rightarrow> first_parsed parse logs)"

section \<open>Lemmas\<close>

lemma first_parsed_Some:
  "first_parsed parse logs = Some x \<longleftrightarrow>
     (\<exists>before lg after. logs = before @ lg # after \<and> parse lg = Inr x
        \<and> list_all (\<lambda>l. \<exists>err. parse l = Inl err) before)"
proof (induction logs)
  case (Cons l logs)
  show ?case
  proof (cases "parse l")
    case (Inl err)
    have "(\<exists>before lg after. l # logs = before @ lg # after \<and> parse lg = Inr x
          \<and> list_all (\<lambda>l. \<exists>err. parse l = Inl err) before) \<longleftrightarrow>
        (\<exists>before lg after. logs = before @ lg # after \<and> parse lg = Inr x
          \<and> list_all (\<lambda>l. \<exists>err. parse l = Inl err) before)" (is "?L \<longleftrightarrow> ?R")
    proof
      assume ?L
      then obtain b lg a where b: "l # logs = b @ lg # a" "parse lg = Inr x"
        "list_all (\<lambda>l. \<exists>err. parse l = Inl err) b" by blast
      then show ?R using Inl by (cases b) auto
    next
      assume ?R
      then obtain b lg a where "logs = b @ lg # a" "parse lg = Inr x"
        "list_all (\<lambda>l. \<exists>err. parse l = Inl err) b" by blast
      then show ?L using Inl by (intro exI [of _ "l # b"] exI [of _ lg] exI [of _ a]) simp
    qed
    then show ?thesis using Cons Inl by simp
  next
    case (Inr y)
    have "(\<exists>before lg after. l # logs = before @ lg # after \<and> parse lg = Inr x
          \<and> list_all (\<lambda>l. \<exists>err. parse l = Inl err) before) \<longleftrightarrow> y = x"
      (is "?L \<longleftrightarrow> _")
    proof
      assume ?L
      then obtain b lg a where b: "l # logs = b @ lg # a" "parse lg = Inr x"
        "list_all (\<lambda>l. \<exists>err. parse l = Inl err) b" by blast
      then show "y = x" using Inr by (cases b) auto
    next
      assume "y = x"
      then show ?L using Inr by (simp add: exI [of _ "[]"])
    qed
    then show ?thesis using Inr by auto
  qed
qed simp

lemma run_relabel_perform [run_simps]:
  "bindE (relabel f (perform c answer)) g h =
     (case answer h of Inl err \<Rightarrow> (Inl (f err), h @ [c]) | Inr x \<Rightarrow> g x (h @ [c]))"
  by (simp add: relabel_perform run_perform split: sum.split)

lemma run_relabel_lift [run_simps]:
  "bindE (relabel f (lift_result r)) g h = (case r of Inl err \<Rightarrow> (Inl (f err), h) | Inr x \<Rightarrow> g x h)"
  by (simp add: bindE_def relabel_def lift_result_def split: sum.split)

lemma run_mined [run_simps]:
  "bindE (mined W f t) g h =
     (case wait_mined W h t of Inl err \<Rightarrow> (Inl (f err), h @ [Wait_Mined t])
      | Inr r \<Rightarrow> g r (h @ [Wait_Mined t]))"
  by (simp add: mined_def run_relabel_perform)

lemma run_submit_or [run_simps]:
  "bindE (submit_or W from v t f) g h =
     (case send_tx W h from v t of Inl e \<Rightarrow> (Inl (f (err_Text e)), h @ [Send from v t])
      | Inr x \<Rightarrow> g x (h @ [Send from v t]))"
  by (simp add: submit_or_def submit_def bindE_assoc run_perform run_throw split: sum.split)

lemma run_submit [run_simps]:
  "bindE (submit W from v t) g h = g (send_tx W h from v t) (h @ [Send from v t])"
  by (simp add: submit_def run_perform)

lemma waitOK_run:
  "waitOK W t label h =
     ((case wait_mined W h t of
         Inl err \<Rightarrow> Inl (''failed waiting for '' @ label @ '' transaction: '' @ err)
       | Inr r \<Rightarrow> if rc_Status r = 1 then Inr () else Inl (label @ '' transaction failed'')),
      h @ [Wait_Mined t])"
  by (simp add: waitOK_def run_mined run_throw run_ret split: sum.split)

lemma run_waitOK [run_simps]:
  "bindE (waitOK W t label) g h =
     (case wait_mined W h t of
        Inl err \<Rightarrow> (Inl (''failed waiting for '' @ label @ '' transaction: '' @ err), h @ [Wait_Mined t])
      | Inr r \<Rightarrow> if rc_Status r = 1 then g () (h @ [Wait_Mined t])
          else (Inl (label @ '' transaction failed''), h @ [Wait_Mined t]))"
  by (simp add: waitOK_run bindE_def [of "waitOK W t label"] split: sum.split)

lemma run_println: "println s h = (Inr (), h @ [Print s])"
  by (simp add: println_def perform_def)

lemma only_println: "only harmless (println s)"
  unfolding println_def by (rule only_perform) simp

lemma only_mined: "(\<And>t. P (Wait_Mined t)) \<Longrightarrow> only P (mined W f t)"
  unfolding mined_def by (intro only_rules only_perform)

lemma only_waitOK: "(\<And>t. P (Wait_Mined t)) \<Longrightarrow> only P (waitOK W t label)"
  unfolding waitOK_def by (intro only_rules only_mined)

end
