(* ===== verification/Token_Utils.thy ===== *)
theory Token_Utils
  imports Auction_Net
begin

text \<open>
  The token helpers of the tools: ERC-20 transactions and balances (\<^verbatim>\<open>tools/pkg/utils/erc20.go\<close>),
  finding the FXRP token through the contract registry (\<^verbatim>\<open>fxrp.go\<close>), and the demo NFT
  (\<^verbatim>\<open>nft.go\<close>).
\<close>

section \<open>ERC-20\<close>

text \<open>
  \<^verbatim>\<open>Approve\<close> and \<^verbatim>\<open>TransferToken\<close> differ in the method, its label and the gas limit, which
  the transaction carries.
\<close>

definition token_tx ::
  "auction_net \<Rightarrow> outside \<Rightarrow> tool_support \<Rightarrow> tx \<Rightarrow> string \<Rightarrow> (call, unit) io" where
  "token_tx K W s t label =
     bindE (relabel (\<lambda>err. ''erc20 bind: '' @ err) (lift_result (erc20_abi K))) (\<lambda>_.
     bindE (relabel (\<lambda>err. ''transactor: '' @ err) (lift_result (transactor W (su_Prv s)))) (\<lambda>_.
     bindE (submit_or W (key_address W (su_Prv s)) 0 t (\<lambda>err. label @ '': '' @ err)) (\<lambda>txhash.
     bindE (mined W (\<lambda>err. ''wait '' @ label @ '': '' @ err) txhash) (\<lambda>receipt.
       if rc_Status receipt \<noteq> 1
       then throw (label @ '' failed with status '' @ show_nat (unat (rc_Status receipt)))
       else ret ()))))"

definition Approve ::
  "auction_net \<Rightarrow> outside \<Rightarrow> tool_support \<Rightarrow> address \<Rightarrow> address \<Rightarrow> int \<Rightarrow> (call, unit) io" where
  "Approve K W s token spender amount =
     token_tx K W s (Tx_Token_Approve token spender amount) ''approve''"

definition TransferToken ::
  "auction_net \<Rightarrow> outside \<Rightarrow> tool_support \<Rightarrow> address \<Rightarrow> address \<Rightarrow> int \<Rightarrow> (call, unit) io" where
  "TransferToken K W s token to amount =
     token_tx K W s (Tx_Token_Transfer token to amount 200000) ''transfer''"

definition TokenBalance ::
  "auction_net \<Rightarrow> address \<Rightarrow> address \<Rightarrow> (call, int) io" where
  "TokenBalance K token account =
     bindE (relabel (\<lambda>err. ''erc20 bind: '' @ err) (lift_result (erc20_abi K))) (\<lambda>_.
     bindE (relabel (\<lambda>err. ''balanceOf: '' @ err)
              (perform (Query (Q_Token_Balance token account))
                 (\<lambda>h. token_balance_at K h token account))) (\<lambda>out.
       case out of [balance] \<Rightarrow> ret balance | _ \<Rightarrow> throw ''balanceOf: unexpected output''))"

section \<open>FXRP\<close>

definition FlareContractRegistry :: address where
  "FlareContractRegistry = 0xaD67FE66660Fb8dFE9d6b1b4240d8650e30F6019"

text \<open>\<^verbatim>\<open>client.CallContract\<close> with neither sender nor value.\<close>

definition eth_call :: "outside \<Rightarrow> address \<Rightarrow> bytes \<Rightarrow> (call, bytes) io" where
  "eth_call W to data =
     (let msg = \<lparr>msg_From = 0, msg_To = Some to, msg_Value = 0, msg_Data = data\<rparr> in
      perform (Call_Contract msg)
        (\<lambda>h. case call_contract W h msg of Inl e \<Rightarrow> Inl (err_Text e) | Inr out \<Rightarrow> Inr out))"

definition callForAddress ::
  "auction_net \<Rightarrow> outside \<Rightarrow> address \<Rightarrow> string \<Rightarrow> string list \<Rightarrow> (call, address) io" where
  "callForAddress K W to method strArg =
     (let inputs = (if 0 < length strArg then [''string''] else []);
          args = (if 0 < length strArg then [hd strArg] else []) in
      bindE (lift_result (pack_strings K args)) (\<lambda>packedArgs.
      bindE (eth_call W to (method_id K method inputs @ packedArgs)) (\<lambda>out.
      lift_result (unpack_address K out))))"

definition tokenDecimals :: "auction_net \<Rightarrow> outside \<Rightarrow> address \<Rightarrow> (call, 8 word) io" where
  "tokenDecimals K W token =
     bindE (eth_call W token (method_id K ''decimals'' [])) (\<lambda>out.
     lift_result (unpack_uint8 K out))"

definition ResolveFXRP :: "auction_net \<Rightarrow> outside \<Rightarrow> (call, address \<times> 8 word) io" where
  "ResolveFXRP K W =
     bindE (relabel (\<lambda>err. ''resolve AssetManagerFXRP: '' @ err)
              (callForAddress K W FlareContractRegistry ''getContractAddressByName''
                 [''AssetManagerFXRP''])) (\<lambda>assetManager.
     if assetManager = 0
     then throw (''AssetManagerFXRP not found in FlareContractRegistry '' @ em_dash @
            '' is FXRP deployed on this chain?'')
     else
       bindE (relabel (\<lambda>err. ''AssetManager.fAsset(): '' @ err)
                (callForAddress K W assetManager ''fAsset'' [])) (\<lambda>token.
       bindE (relabel (\<lambda>err. ''FXRP decimals(): '' @ err) (tokenDecimals K W token)) (\<lambda>decimals.
       ret (token, decimals))))"

definition TokenBalanceOf ::
  "auction_net \<Rightarrow> outside \<Rightarrow> address \<Rightarrow> address \<Rightarrow> (call, int) io" where
  "TokenBalanceOf K W token account =
     bindE (lift_result (pack_address K account)) (\<lambda>packedArgs.
     bindE (eth_call W token (method_id K ''balanceOf'' [''address''] @ packedArgs)) (\<lambda>out.
     lift_result (unpack_uint256 K out)))"

section \<open>The demo NFT\<close>

text \<open>The token of the first \<^verbatim>\<open>Transfer\<close> event: four topics, the first its identifier.\<close>

fun minted_token :: "auction_net \<Rightarrow> bytes list \<Rightarrow> int option" where
  "minted_token K [] = None"
| "minted_token K (lg # logs) =
     (if length (log_topics K lg) = 4 \<and> log_topics K lg ! 0 = transfer_topic K
      then Some (uint (log_topics K lg ! 3))
      else minted_token K logs)"

definition MintDemoAsset ::
  "auction_net \<Rightarrow> outside \<Rightarrow> tool_support \<Rightarrow> address \<Rightarrow> address \<Rightarrow> (call, int) io" where
  "MintDemoAsset K W s asset to =
     bindE (relabel (\<lambda>err. ''demo asset bind: '' @ err) (lift_result (demo_asset_abi K))) (\<lambda>_.
     bindE (relabel (\<lambda>err. ''transactor: '' @ err) (lift_result (transactor W (su_Prv s)))) (\<lambda>_.
     bindE (submit_or W (key_address W (su_Prv s)) 0 (Tx_Nft_Mint asset to)
              (\<lambda>err. ''mint: '' @ err)) (\<lambda>txhash.
     bindE (mined W (\<lambda>err. ''wait mint: '' @ err) txhash) (\<lambda>receipt.
       if rc_Status receipt \<noteq> 1 then throw ''mint transaction failed''
       else case minted_token K (rc_Logs receipt) of
           Some i \<Rightarrow> ret i
         | None \<Rightarrow> throw ''Transfer event not found in mint receipt''))))"

definition ApproveNFT ::
  "auction_net \<Rightarrow> outside \<Rightarrow> tool_support \<Rightarrow> address \<Rightarrow> address \<Rightarrow> int \<Rightarrow> (call, unit) io" where
  "ApproveNFT K W s asset spender tokenId =
     bindE (relabel (\<lambda>err. ''demo asset bind: '' @ err) (lift_result (demo_asset_abi K))) (\<lambda>_.
     bindE (relabel (\<lambda>err. ''transactor: '' @ err) (lift_result (transactor W (su_Prv s)))) (\<lambda>_.
     bindE (submit_or W (key_address W (su_Prv s)) 0 (Tx_Nft_Approve asset spender tokenId)
              (\<lambda>err. ''approve nft: '' @ err)) (\<lambda>txhash.
     waitOK W txhash ''approve nft'')))"

definition NFTOwner :: "auction_net \<Rightarrow> address \<Rightarrow> int \<Rightarrow> (call, address) io" where
  "NFTOwner K asset tokenId =
     bindE (relabel (\<lambda>err. ''demo asset bind: '' @ err) (lift_result (demo_asset_abi K))) (\<lambda>_.
     bindE (relabel (\<lambda>err. ''ownerOf: '' @ err)
              (perform (Query (Q_Nft_Owner asset tokenId)) (\<lambda>h. nft_owner_at K h asset tokenId))) (\<lambda>out.
       case out of [owner] \<Rightarrow> ret owner | _ \<Rightarrow> throw ''ownerOf: unexpected output''))"

section \<open>What a successful call shows\<close>

lemma token_tx_ok:
  "token_tx K W s t label h = (Inr (), h') \<Longrightarrow>
     h' = h @ [Send (key_address W (su_Prv s)) 0 t, Wait_Mined (projr (send_tx W h (key_address W (su_Prv s)) 0 t))]"
  by (auto simp: token_tx_def run_simps split: sum.splits if_splits)

lemma TokenBalance_ok:
  "TokenBalance K token account h = (Inr b, h') \<Longrightarrow>
     token_balance_at K h token account = Inr [b] \<and> h' = h @ [Query (Q_Token_Balance token account)]"
  by (auto simp: TokenBalance_def run_simps split: sum.splits list.splits)

lemma NFTOwner_ok:
  "NFTOwner K asset i h = (Inr a, h') \<Longrightarrow>
     nft_owner_at K h asset i = Inr [a] \<and> h' = h @ [Query (Q_Nft_Owner asset i)]"
  by (auto simp: NFTOwner_def run_simps split: sum.splits list.splits)

lemma minted_token_Some:
  "minted_token K logs = Some i \<Longrightarrow>
     \<exists>lg \<in> set logs. length (log_topics K lg) = 4 \<and> log_topics K lg ! 0 = transfer_topic K
       \<and> i = uint (log_topics K lg ! 3)"
  by (induction logs) (auto split: if_splits)

end
