(* ===== verification/Instructions.thy ===== *)
theory Instructions
  imports Token_Utils
begin

text \<open>
  The calls of the auction contract (\<^verbatim>\<open>tools/pkg/utils/instructions.go\<close>): deploying it,
  setting its extension and TEE address, creating an auction, and the two TEE instructions
  with the identifier found in the receipt.
\<close>

section \<open>Binding and sending\<close>

definition InstructionFeeWei :: int where
  "InstructionFeeWei = 1000000"

definition LotKindERC721 :: "8 word" where
  "LotKindERC721 = 0"

definition LotKindERC20 :: "8 word" where
  "LotKindERC20 = 1"

text \<open>
  Every operation first binds the contract, then makes a transactor, and then sends: the
  first lines of each function. The label is the method the error names.
\<close>

definition contract_tx ::
  "auction_net \<Rightarrow> outside \<Rightarrow> tool_support \<Rightarrow> address \<Rightarrow> int \<Rightarrow> tx \<Rightarrow> string \<Rightarrow> (call, hash) io" where
  "contract_tx K W s contract value t label =
     bindE (relabel (\<lambda>err. ''failed to bind contract: '' @ err)
              (lift_result (bind_auction K contract))) (\<lambda>_.
     bindE (relabel (\<lambda>err. ''failed to create transactor: '' @ err)
              (lift_result (transactor W (su_Prv s)))) (\<lambda>_.
     submit_or W (key_address W (su_Prv s)) value t
       (\<lambda>err. ''failed to call '' @ label @ '': '' @ err)))"

section \<open>Setting up the contract\<close>

definition DeployInstructionSender ::
  "auction_net \<Rightarrow> outside \<Rightarrow> tool_support \<Rightarrow> (call, address) io" where
  "DeployInstructionSender K W s =
     bindE (relabel (\<lambda>err. ''failed to create transactor: '' @ err)
              (lift_result (transactor W (su_Prv s)))) (\<lambda>_.
     bindE (submit_or W (key_address W (su_Prv s)) 0
              (Tx_Deploy_Auction (su_FlareTeeManager s) (su_FlareTeeManager s))
              (\<lambda>err. ''failed to deploy contract: '' @ err)) (\<lambda>txhash.
     bindE (mined W (\<lambda>err. ''deployment tx not mined within 2 minutes (tx: '' @
                hash_text W txhash @ ''): '' @ err) txhash) (\<lambda>receipt.
       if rc_Status receipt \<noteq> 1 then throw ''contract deployment failed''
       else ret (deployed_address K txhash))))"

text \<open>The call is simulated when its calldata can be packed.\<close>

definition simulate_set_extension_id ::
  "auction_net \<Rightarrow> outside \<Rightarrow> tool_support \<Rightarrow> address \<Rightarrow> (call, string) io" where
  "simulate_set_extension_id K W s contract =
     (case set_extension_id_calldata K of
        Some (Inr callData) \<Rightarrow>
          SimulateAndDecodeRevert W \<lparr>msg_From = key_address W (su_Prv s), msg_To = Some contract,
             msg_Value = 0, msg_Data = callData\<rparr>
      | _ \<Rightarrow> ret '''')"

definition SetExtensionId ::
  "auction_net \<Rightarrow> outside \<Rightarrow> tool_support \<Rightarrow> address \<Rightarrow> (call, unit) io" where
  "SetExtensionId K W s contract =
     bindE (relabel (\<lambda>err. ''failed to bind contract: '' @ err)
              (lift_result (bind_auction K contract))) (\<lambda>_.
     bindE (relabel (\<lambda>err. ''failed to create transactor: '' @ err)
              (lift_result (transactor W (su_Prv s)))) (\<lambda>_.
     bindE (submit W (key_address W (su_Prv s)) 0 (Tx_Set_Extension_Id contract)) (\<lambda>answer.
       case answer of
         Inl e \<Rightarrow>
           (let reason = DecodeRevertReason W (Some e) in
            bindE (if reason = '''' then simulate_set_extension_id K W s contract else ret reason)
              (\<lambda>reason.
                if reason \<noteq> ''''
                then throw (''failed to call setExtensionId: '' @ err_Text e @ '' (revert reason: '' @
                       reason @ '')'')
                else throw (''failed to call setExtensionId: '' @ err_Text e)))
       | Inr txhash \<Rightarrow>
           bindE (mined W (\<lambda>err. ''failed waiting for transaction: '' @ err) txhash) (\<lambda>receipt.
             if rc_Status receipt \<noteq> 1
             then bindE (simulate_set_extension_id K W s contract) (\<lambda>reason.
                    if reason \<noteq> ''''
                    then throw (''setExtensionId transaction failed (revert reason: '' @ reason @ '')'')
                    else throw ''setExtensionId transaction failed'')
             else ret ()))))"

definition SetTeeAddress ::
  "auction_net \<Rightarrow> outside \<Rightarrow> tool_support \<Rightarrow> address \<Rightarrow> address \<Rightarrow> (call, unit) io" where
  "SetTeeAddress K W s contract teeAddress =
     bindE (contract_tx K W s contract 0 (Tx_Set_Tee_Address contract teeAddress) ''setTeeAddress'') (\<lambda>txhash.
     waitOK W txhash ''setTeeAddress'')"

section \<open>Auctions\<close>

definition CreateAuction ::
  "auction_net \<Rightarrow> outside \<Rightarrow> tool_support \<Rightarrow> address \<Rightarrow> lot_terms \<Rightarrow> (call, int) io" where
  "CreateAuction K W s contract lot =
     bindE (contract_tx K W s contract 0 (Tx_Create_Auction contract lot) ''createAuction'') (\<lambda>txhash.
     bindE (mined W (\<lambda>err. ''failed waiting for transaction: '' @ err) txhash) (\<lambda>receipt.
       if rc_Status receipt \<noteq> 1 then throw ''createAuction transaction failed''
       else case first_parsed (parse_auction_created K) (rc_Logs receipt) of
           Some auctionId \<Rightarrow> ret auctionId
         | None \<Rightarrow> throw ''AuctionCreated event not found in receipt''))"

definition instructionFromTx :: "outside \<Rightarrow> hash \<Rightarrow> string \<Rightarrow> (call, hash \<times> hash) io" where
  "instructionFromTx W txhash label =
     bindE (mined W (\<lambda>err. ''failed waiting for '' @ label @ '' transaction: '' @ err) txhash) (\<lambda>receipt.
       if rc_Status receipt \<noteq> 1 then throw (label @ '' transaction failed'')
       else case first_parsed (parse_instructions_sent W) (rc_Logs receipt) of
           Some instructionId \<Rightarrow> ret (instructionId, rc_TxHash receipt)
         | None \<Rightarrow> throw (''TeeInstructionsSent event not found in '' @ label @ '' receipt''))"

definition PlaceBid ::
  "auction_net \<Rightarrow> outside \<Rightarrow> tool_support \<Rightarrow> address \<Rightarrow> int \<Rightarrow> bytes \<Rightarrow> (call, hash \<times> hash) io" where
  "PlaceBid K W s contract auctionId ciphertext =
     bindE (contract_tx K W s contract InstructionFeeWei (Tx_Place_Bid contract auctionId ciphertext)
              ''placeBid'') (\<lambda>txhash.
     instructionFromTx W txhash ''placeBid'')"

definition CloseAuction ::
  "auction_net \<Rightarrow> outside \<Rightarrow> tool_support \<Rightarrow> address \<Rightarrow> int \<Rightarrow> (call, hash \<times> hash) io" where
  "CloseAuction K W s contract auctionId =
     bindE (contract_tx K W s contract InstructionFeeWei (Tx_Close_Auction contract auctionId)
              ''closeAuction'') (\<lambda>txhash.
     instructionFromTx W txhash ''closeAuction'')"

definition Settle ::
  "auction_net \<Rightarrow> outside \<Rightarrow> tool_support \<Rightarrow> address \<Rightarrow> bytes \<Rightarrow> hash \<Rightarrow> string \<Rightarrow> 8 word \<Rightarrow> bytes
     \<Rightarrow> (call, hash) io" where
  "Settle K W s contract resultData actionId submissionTag status sig =
     bindE (contract_tx K W s contract 0
              (Tx_Settle contract resultData actionId submissionTag status sig) ''settle'') (\<lambda>txhash.
     bindE (waitOK W txhash ''settle'') (\<lambda>_. ret txhash))"

definition SendNative ::
  "auction_net \<Rightarrow> outside \<Rightarrow> tool_support \<Rightarrow> address \<Rightarrow> int \<Rightarrow> (call, unit) io" where
  "SendNative K W s to amountWei =
     (let from = key_address W (su_Prv s) in
      bindE (relabel (\<lambda>err. ''failed to fetch nonce: '' @ err)
               (perform (Query (Q_Pending_Nonce from)) (\<lambda>h. pending_nonce_at K h from))) (\<lambda>nonce.
      bindE (relabel (\<lambda>err. ''failed to fetch gas price: '' @ err)
               (perform (Query Q_Gas_Price) (\<lambda>h. gas_price_at K h))) (\<lambda>gasPrice.
      let t = Tx_Native nonce to 21000 gasPrice in
      bindE (relabel (\<lambda>err. ''failed to sign transfer: '' @ err)
               (lift_result (sign_native K (su_Prv s) t))) (\<lambda>_.
      bindE (submit_or W from amountWei t (\<lambda>err. ''failed to send transfer: '' @ err)) (\<lambda>txhash.
      waitOK W txhash ''native transfer'')))))"

section \<open>Lemmas\<close>

lemma run_contract_tx [run_simps]:
  "bindE (contract_tx K W s c v t label) g h =
     (case bind_auction K c of Inl err \<Rightarrow> (Inl (''failed to bind contract: '' @ err), h)
      | Inr _ \<Rightarrow> (case transactor W (su_Prv s) of
          Inl err \<Rightarrow> (Inl (''failed to create transactor: '' @ err), h)
        | Inr _ \<Rightarrow> (case send_tx W h (key_address W (su_Prv s)) v t of
            Inl e \<Rightarrow> (Inl (''failed to call '' @ label @ '': '' @ err_Text e),
                      h @ [Send (key_address W (su_Prv s)) v t])
          | Inr x \<Rightarrow> g x (h @ [Send (key_address W (su_Prv s)) v t]))))"
  by (simp add: contract_tx_def bindE_assoc run_simps split: sum.split)

text \<open>What a run returns when an instruction was sent, mined and found in the receipt.\<close>

definition instructed ::
  "outside \<Rightarrow> history \<Rightarrow> address \<Rightarrow> tx \<Rightarrow> hash \<Rightarrow> hash \<Rightarrow> history \<Rightarrow> bool" where
  "instructed W h from t instructionId txHash h' \<longleftrightarrow>
     (\<exists>txhash receipt before lg after.
        send_tx W h from 1000000 t = Inr txhash
      \<and> wait_mined W (h @ [Send from 1000000 t]) txhash = Inr receipt
      \<and> rc_Status receipt = 1 \<and> rc_TxHash receipt = txHash
      \<and> rc_Logs receipt = before @ lg # after
      \<and> parse_instructions_sent W lg = Inr instructionId
      \<and> list_all (\<lambda>l. \<exists>err. parse_instructions_sent W l = Inl err) before
      \<and> h' = h @ [Send from 1000000 t, Wait_Mined txhash])"

lemma instructed_first:
  "instructed W h from t i txHash h' \<longleftrightarrow>
     (\<exists>txhash receipt.
        send_tx W h from 1000000 t = Inr txhash
      \<and> wait_mined W (h @ [Send from 1000000 t]) txhash = Inr receipt
      \<and> rc_Status receipt = 1 \<and> rc_TxHash receipt = txHash
      \<and> first_parsed (parse_instructions_sent W) (rc_Logs receipt) = Some i
      \<and> h' = h @ [Send from 1000000 t, Wait_Mined txhash])"
  unfolding instructed_def first_parsed_Some by blast

lemma instruction_sent:
  "bindE (contract_tx K W s contract InstructionFeeWei t label) (\<lambda>x. instructionFromTx W x label) h
      = (Inr (i, txHash), h')
   \<longleftrightarrow> (\<exists>u v. bind_auction K contract = Inr u \<and> transactor W (su_Prv s) = Inr v)
      \<and> instructed W h (key_address W (su_Prv s)) t i txHash h'"
  unfolding instructed_first InstructionFeeWei_def instructionFromTx_def
  by (auto simp: run_simps split: sum.split option.split)

section \<open>Properties\<close>

text \<open>
  C25. Placing a bid or closing an auction returns an instruction identifier exactly when one
  transaction with the fee of 1000000 wei was sent from the support key, it was mined with
  status 1, and some log of its receipt parses as \<^verbatim>\<open>TeeInstructionsSent\<close>: the identifier is
  that of the first such log, the hash that of the receipt, and nothing else is sent.
\<close>

theorem instruction_from_receipt:
  "(PlaceBid K W s contract auctionId ciphertext h = (Inr (i, txHash), h')
    \<longleftrightarrow> bind_auction K contract = Inr () \<and> transactor W (su_Prv s) = Inr ()
      \<and> instructed W h (key_address W (su_Prv s)) (Tx_Place_Bid contract auctionId ciphertext) i txHash h')
   \<and> (CloseAuction K W s contract auctionId h = (Inr (i, txHash), h')
    \<longleftrightarrow> bind_auction K contract = Inr () \<and> transactor W (su_Prv s) = Inr ()
      \<and> instructed W h (key_address W (su_Prv s)) (Tx_Close_Auction contract auctionId) i txHash h')"
  unfolding PlaceBid_def CloseAuction_def instruction_sent by auto

end
