(* ===== verification/Ecies.thy ===== *)
theory Ecies
  imports Auction_Net
begin

text \<open>
  The keys of the TEE as the tools use them (\<^verbatim>\<open>tools/pkg/fccutils/ecies.go\<close>): the public key
  bids are encrypted under, and the address results are signed with.
\<close>

text \<open>The machine data's key is read, the signing address is that of the info's own key.\<close>

definition TeeECIESPublicKey :: "auction_net \<Rightarrow> outside \<Rightarrow> string \<Rightarrow> (call, public_key) io" where
  "TeeECIESPublicKey K W proxyURL =
     bindE (relabel (\<lambda>err. ''fetch TEE info: '' @ err) (TeeInfo W proxyURL)) (\<lambda>teeInfo.
     relabel (\<lambda>err. ''parse TEE public key: '' @ err)
       (lift_result (parse_machine_key K (ti_MachineKey teeInfo))))"

definition EncryptForTee :: "auction_net \<Rightarrow> public_key \<Rightarrow> bytes \<Rightarrow> (call, bytes) io" where
  "EncryptForTee K pub plaintext =
     relabel (\<lambda>err. ''ECIES encrypt: '' @ err) (perform Random (\<lambda>h. ecies_encrypt K h pub plaintext))"

definition TeeSigningAddress :: "outside \<Rightarrow> string \<Rightarrow> (call, address) io" where
  "TeeSigningAddress W proxyURL =
     bindE (relabel (\<lambda>err. ''fetch TEE info: '' @ err) (TeeInfo W proxyURL)) (\<lambda>teeInfo.
     bindE (relabel (\<lambda>err. ''parse TEE public key: '' @ err)
              (lift_result (parse_pub_key W (ti_PublicKey teeInfo)))) (\<lambda>pubKey.
     ret (pub_to_address W pubKey)))"

end
