(* ===== verification/Support_Setup.thy ===== *)
theory Support_Setup
  imports Chain_Access
begin

text \<open>
  How the tools get their key and their addresses (\<^verbatim>\<open>DefaultSupport\<close>, \<^verbatim>\<open>DefaultPrivateKey\<close>,
  \<^verbatim>\<open>NewSupport\<close>, \<^verbatim>\<open>ParseAddresses\<close> and \<^verbatim>\<open>fieldMap\<close> in \<^verbatim>\<open>tools/pkg/support/support.go\<close>,
  \<^verbatim>\<open>ReadAddresses\<close> in \<^verbatim>\<open>tools/pkg/configs/configs.go\<close>).
\<close>

section \<open>Addresses\<close>

record RawContract =
  rw_Name :: string
  rw_ContractName :: string
  rw_Address :: string

text \<open>
  What the setup uses of other code: the environment once \<^verbatim>\<open>godotenv.Load\<close> has run, the key
  of \<^verbatim>\<open>configs.PrvWithFunds\<close>, the two JSON decoders, dialling the node, binding a contract,
  and the chain identifier.
\<close>

record setup_lib =
  loaded_env :: "string \<Rightarrow> string"
  dev_key :: private_key
  unmarshal_addresses :: "bytes \<Rightarrow> Addresses result"
  unmarshal_raw :: "bytes \<Rightarrow> RawContract list result"
  dial_node :: "string \<Rightarrow> unit result"
  bind_contract :: "string \<Rightarrow> address \<Rightarrow> unit result"
  node_chain_id :: "int result"

definition file_text :: "string \<Rightarrow> read_answer \<Rightarrow> bytes result" where
  "file_text path answer =
     (case answer of
        File_Missing \<Rightarrow> Inl (''open '' @ path @ '': no such file or directory'')
      | File_Error err \<Rightarrow> Inl err
      | File_Bytes b \<Rightarrow> Inr b)"

definition os_ReadFile :: "outside \<Rightarrow> string \<Rightarrow> (call, bytes) io" where
  "os_ReadFile W path = perform (Read_File path) (\<lambda>h. file_text path (read_file W h path))"

definition ReadAddresses :: "outside \<Rightarrow> setup_lib \<Rightarrow> string \<Rightarrow> (call, Addresses) io" where
  "ReadAddresses W L path = bindE (os_ReadFile W path) (\<lambda>b. lift_result (unmarshal_addresses L b))"

text \<open>
  \<^verbatim>\<open>fieldMap\<close> walks over the fields of the structure: name, JSON tag, and the pointer, which
  here is the field itself. Every field has the type \<^verbatim>\<open>common.Address\<close>.
\<close>

datatype addr_field = FlareSystemManager_field | Fdc2Hub_field | FlareTeeManager_field

definition struct_fields :: "(string \<times> string \<times> addr_field) list" where
  "struct_fields =
     [(''FlareSystemManager'', ''FlareSystemsManager'', FlareSystemManager_field),
      (''Fdc2Hub'', ''Fdc2Hub'', Fdc2Hub_field),
      (''FlareTeeManager'', ''FlareTeeManager'', FlareTeeManager_field)]"

definition field_key :: "string \<Rightarrow> string \<Rightarrow> string" where
  "field_key name tag = (if tag = '''' \<or> tag = ''-'' then name else tag)"

definition fieldMap :: "string \<rightharpoonup> addr_field" where
  "fieldMap = foldl (\<lambda>out (name, tag, fv). out(field_key name tag \<mapsto> fv)) (\<lambda>_. None) struct_fields"

definition set_address :: "addr_field \<Rightarrow> address \<Rightarrow> Addresses \<Rightarrow> Addresses" where
  "set_address f a addrs =
     (case f of
        FlareSystemManager_field \<Rightarrow> addrs\<lparr>ad_FlareSystemManager := a\<rparr>
      | Fdc2Hub_field \<Rightarrow> addrs\<lparr>ad_Fdc2Hub := a\<rparr>
      | FlareTeeManager_field \<Rightarrow> addrs\<lparr>ad_FlareTeeManager := a\<rparr>)"

fun store_addresses :: "outside \<Rightarrow> RawContract list \<Rightarrow> Addresses \<Rightarrow> Addresses" where
  "store_addresses W [] addrs = addrs"
| "store_addresses W (c # raw) addrs =
     store_addresses W raw
       (case fieldMap (rw_Name c) of
          Some dest \<Rightarrow> set_address dest (str_to_address W (rw_Address c)) addrs
        | None \<Rightarrow> addrs)"

definition ParseAddresses :: "outside \<Rightarrow> setup_lib \<Rightarrow> string \<Rightarrow> (call, Addresses) io" where
  "ParseAddresses W L path =
     bindE (os_ReadFile W path) (\<lambda>b.
     bindE (lift_result (unmarshal_raw L b)) (\<lambda>raw.
     ret (store_addresses W raw no_addresses)))"

section \<open>The support structure\<close>

definition DefaultPrivateKey :: "outside \<Rightarrow> setup_lib \<Rightarrow> private_key result" where
  "DefaultPrivateKey W L =
     (let raw = loaded_env L ''DEPLOYMENT_PRIVATE_KEY'' in
      if raw = '''' then Inr (dev_key L)
      else hex_to_key W
             (if has_prefix raw ''0x'' \<or> has_prefix raw ''0X'' then drop 2 raw else raw))"

text \<open>The bindings in the order they are made; every TEE facet is bound to the diamond.\<close>

definition bindings :: "Addresses \<Rightarrow> (string \<times> address) list" where
  "bindings addresses =
     (let diamond = ad_FlareTeeManager addresses in
      [(''MachineManager'', diamond), (''WalletManager'', diamond), (''WalletKeyManager'', diamond),
       (''WalletProjectManager'', diamond), (''FlareSystemsManager'', ad_FlareSystemManager addresses),
       (''Fdc2Hub'', ad_Fdc2Hub addresses), (''Verification'', diamond), (''ExtensionManager'', diamond),
       (''OwnerAllowlist'', diamond), (''ExtensionGovernance'', diamond)])"

fun bind_all :: "setup_lib \<Rightarrow> (string \<times> address) list \<Rightarrow> unit result" where
  "bind_all L [] = Inr ()"
| "bind_all L ((contract, addr) # rest) =
     (case bind_contract L contract addr of Inl err \<Rightarrow> Inl err | Inr _ \<Rightarrow> bind_all L rest)"

definition NewSupport :: "setup_lib \<Rightarrow> private_key \<Rightarrow> Addresses \<Rightarrow> tool_support result" where
  "NewSupport L prv addresses =
     (case bind_all L (bindings addresses) of
        Inl err \<Rightarrow> Inl err
      | Inr _ \<Rightarrow>
          (case node_chain_id L of
             Inl err \<Rightarrow> Inl err
           | Inr _ \<Rightarrow> Inr \<lparr>su_Prv = prv, su_Addresses = addresses\<rparr>))"

definition DefaultSupport :: "outside \<Rightarrow> setup_lib \<Rightarrow> string \<Rightarrow> string \<Rightarrow> (call, tool_support) io" where
  "DefaultSupport W L path chainNodeURL =
     bindE (attempt (ReadAddresses W L path)) (\<lambda>first.
     bindE (case first of Inr addr \<Rightarrow> ret addr | Inl _ \<Rightarrow> ParseAddresses W L path) (\<lambda>addr.
     bindE (lift_result (dial_node L chainNodeURL)) (\<lambda>_.
     bindE (lift_result (DefaultPrivateKey W L)) (\<lambda>privKey.
     lift_result (NewSupport L privKey addr)))))"

section \<open>Lemmas\<close>

lemma fieldMap_keys:
  "fieldMap = [''FlareSystemsManager'' \<mapsto> FlareSystemManager_field, ''Fdc2Hub'' \<mapsto> Fdc2Hub_field,
     ''FlareTeeManager'' \<mapsto> FlareTeeManager_field]"
  by (simp add: fieldMap_def struct_fields_def field_key_def)

text \<open>The address of the last entry with a name, or a default.\<close>

definition last_named :: "outside \<Rightarrow> RawContract list \<Rightarrow> string \<Rightarrow> address \<Rightarrow> address" where
  "last_named W raw key dflt =
     (case filter (\<lambda>c. rw_Name c = key) raw of
        [] \<Rightarrow> dflt
      | cs \<Rightarrow> str_to_address W (rw_Address (last cs)))"

lemma last_named_Nil [simp]: "last_named W [] key d = d"
  by (simp add: last_named_def)

lemma last_named_Cons [simp]:
  "last_named W (c # raw) key d =
     last_named W raw key (if rw_Name c = key then str_to_address W (rw_Address c) else d)"
  by (simp add: last_named_def split: list.split)

lemma store_addresses_last:
  "store_addresses W raw addrs =
     \<lparr>ad_FlareSystemManager = last_named W raw ''FlareSystemsManager'' (ad_FlareSystemManager addrs),
      ad_Fdc2Hub = last_named W raw ''Fdc2Hub'' (ad_Fdc2Hub addrs),
      ad_FlareTeeManager = last_named W raw ''FlareTeeManager'' (ad_FlareTeeManager addrs)\<rparr>"
  by (induction raw arbitrary: addrs) (simp_all add: fieldMap_keys set_address_def)

section \<open>Properties\<close>

text \<open>What follows once the addresses are known.\<close>

definition finish_support :: "outside \<Rightarrow> setup_lib \<Rightarrow> string \<Rightarrow> Addresses \<Rightarrow> tool_support result" where
  "finish_support W L chainNodeURL addr =
     (case dial_node L chainNodeURL of
        Inl err \<Rightarrow> Inl err
      | Inr _ \<Rightarrow>
          (case DefaultPrivateKey W L of
             Inl err \<Rightarrow> Inl err
           | Inr privKey \<Rightarrow> NewSupport L privKey addr))"

definition listed_addresses :: "outside \<Rightarrow> RawContract list \<Rightarrow> Addresses" where
  "listed_addresses W raw =
     \<lparr>ad_FlareSystemManager = last_named W raw ''FlareSystemsManager'' 0,
      ad_Fdc2Hub = last_named W raw ''Fdc2Hub'' 0,
      ad_FlareTeeManager = last_named W raw ''FlareTeeManager'' 0\<rparr>"

definition fallback_support ::
  "outside \<Rightarrow> setup_lib \<Rightarrow> string \<Rightarrow> string \<Rightarrow> read_answer \<Rightarrow> tool_support result" where
  "fallback_support W L path chainNodeURL answer =
     (case file_text path answer of
        Inl err \<Rightarrow> Inl err
      | Inr b \<Rightarrow>
          (case unmarshal_raw L b of
             Inl err \<Rightarrow> Inl err
           | Inr raw \<Rightarrow> finish_support W L chainNodeURL (listed_addresses W raw)))"

text \<open>
  Loading the addresses file: a file that decodes as an object of addresses is used as it
  is; otherwise it is read again and must decode as a list of deployed contracts, and each of
  the three addresses is that of the last contract listed under its JSON name (zero when
  there is none), entries with other names being ignored. The error reported is that of the
  second attempt. Nothing but the file is touched.
\<close>

theorem default_support_addresses:
  "DefaultSupport W L path url h =
     (case file_text path (read_file W h path) of
        Inr b \<Rightarrow>
          (case unmarshal_addresses L b of
             Inr addr \<Rightarrow> (finish_support W L url addr, h @ [Read_File path])
           | Inl _ \<Rightarrow> (fallback_support W L path url (read_file W (h @ [Read_File path]) path),
               h @ [Read_File path, Read_File path]))
      | Inl _ \<Rightarrow> (fallback_support W L path url (read_file W (h @ [Read_File path]) path),
          h @ [Read_File path, Read_File path]))"
proof -
  have finish: "bindE (lift_result (dial_node L url)) (\<lambda>_.
      bindE (lift_result (DefaultPrivateKey W L)) (\<lambda>privKey. lift_result (NewSupport L privKey addr)))
      = lift_result (finish_support W L url addr)" for addr
    by (rule ext) (simp add: finish_support_def run_simps split: sum.split)
  have parse: "bindE (ParseAddresses W L path) (\<lambda>addr. lift_result (finish_support W L url addr)) h'
      = (fallback_support W L path url (read_file W h' path), h' @ [Read_File path])" for h'
    by (simp add: ParseAddresses_def os_ReadFile_def bindE_assoc run_simps fallback_support_def
        listed_addresses_def store_addresses_last no_addresses_def split: sum.split)
  show ?thesis unfolding DefaultSupport_def finish
    by (simp add: ReadAddresses_def os_ReadFile_def run_attempt_any run_simps parse split: sum.split)
qed

end
