(* ===== verification/Run_Test.thy ===== *)
theory Run_Test
  imports Instructions Ecies Support_Setup
begin

text \<open>
  The end-to-end command \<^verbatim>\<open>tools/cmd/run-test\<close>, from its flags to the settled auction. A
  fatal error ends the run with its text; the wait for the bidding deadline has no bound in
  the source, so that a run may fail to return, which is \<^term>\<open>None\<close>.
\<close>

section \<open>Flags and environment\<close>

text \<open>The numbers are 64-bit signed integers; \<^term>\<open>sint\<close> is \<^verbatim>\<open>big.NewInt\<close>.\<close>

record test_flags =
  tf_Addresses :: string
  tf_ChainURL :: string
  tf_ProxyURL :: string
  tf_InstructionSender :: string
  tf_Bid :: "64 word"
  tf_LosingBid :: "64 word"
  tf_Reserve :: "64 word"
  tf_BiddingSeconds :: "64 word"

text \<open>The layouts are declared again by this command; they are the wire format it asserts.\<close>

definition bidPayloadArgs :: abi_type where
  "bidPayloadArgs =
     ABI_Tuple [(''auctionId'', ''uint256''), (''contractAddr'', ''address''),
                (''bidder'', ''address''), (''amountWei'', ''uint256''), (''salt'', ''bytes32'')]"

definition auctionResultArgs :: "abi_type list" where
  "auctionResultArgs =
     [ABI_Elem ''address'', ABI_Elem ''uint256'', ABI_Elem ''address'', ABI_Elem ''uint256'']"

text \<open>
  \<^verbatim>\<open>strings.EqualFold\<close> with \<^verbatim>\<open>"FXRP"\<close>: none of its letters folds to a character outside
  ASCII.
\<close>

definition ascii_upper :: "char \<Rightarrow> char" where
  "ascii_upper c =
     (if 97 \<le> (of_char c :: nat) \<and> of_char c \<le> (122 :: nat) then char_of (of_char c - 32 :: nat) else c)"

definition is_FXRP :: "string \<Rightarrow> bool" where
  "is_FXRP s \<longleftrightarrow> map ascii_upper s = ''FXRP''"

definition pay_token :: "auction_net \<Rightarrow> outside \<Rightarrow> setup_lib \<Rightarrow> (call, address) io" where
  "pay_token K W L =
     (let payTokenHex = loaded_env L ''PAY_TOKEN'' in
      if payTokenHex = '''' \<or> is_FXRP payTokenHex
      then bindE (relabel (\<lambda>err. ''resolve FXRP (set PAY_TOKEN to an ERC-20 address to override): '' @ err)
                    (ResolveFXRP K W)) (\<lambda>(token, decimals). ret token)
      else ret (str_to_address W payTokenHex))"

definition demo_asset_and_funds ::
  "auction_net \<Rightarrow> outside \<Rightarrow> setup_lib \<Rightarrow> address \<Rightarrow> address \<Rightarrow> 64 word \<Rightarrow> (call, address) io" where
  "demo_asset_and_funds K W L payToken deployer bidWei =
     (let demoAssetHex = loaded_env L ''DEMO_ASSET'' in
      if demoAssetHex = ''''
      then throw (''DEMO_ASSET env var not set '' @ em_dash @
             '' deploy contracts/DemoAsset721.sol and set its address (the deployer must own it)'')
      else
        bindE (relabel (\<lambda>err. ''pay-token balanceOf(deployer): '' @ err)
                 (TokenBalanceOf K W payToken deployer)) (\<lambda>balance.
        if balance < sint bidWei
        then throw (''deployer holds '' @ show_int balance @ '' pay-token units but the winning bid is '' @
               show_int (sint bidWei) @ '' '' @ em_dash @
               '' top up before running (FXRP faucet for Coston2)'')
        else ret (str_to_address W demoAssetHex)))"

section \<open>Preparing the contract and the second bidder\<close>

definition already_set :: "string \<Rightarrow> bool" where
  "already_set err \<longleftrightarrow> str_contains err ''already set'' \<or> str_contains err ''Extension ID already set''"

definition set_extension_id_step ::
  "auction_net \<Rightarrow> outside \<Rightarrow> tool_support \<Rightarrow> address \<Rightarrow> (call, unit) io" where
  "set_extension_id_step K W s contract =
     bindE (attempt (SetExtensionId K W s contract)) (\<lambda>r.
       case r of
         Inr _ \<Rightarrow> ret ()
       | Inl err \<Rightarrow>
           if already_set err then ret ()
           else throw (''setExtensionId failed '' @ em_dash @
                  '' is the extension registered? Check that pre-build.sh completed successfully. Error: ''
                  @ err))"

definition configure_contract ::
  "auction_net \<Rightarrow> outside \<Rightarrow> tool_support \<Rightarrow> address \<Rightarrow> string \<Rightarrow> (call, unit) io" where
  "configure_contract K W s contract proxyURL =
     bindE (set_extension_id_step K W s contract) (\<lambda>_.
     bindE (relabel (\<lambda>err. ''fetch TEE signing address: '' @ err) (TeeSigningAddress W proxyURL)) (\<lambda>teeAddress.
     SetTeeAddress K W s contract teeAddress))"

definition second_bidder ::
  "auction_net \<Rightarrow> outside \<Rightarrow> setup_lib \<Rightarrow> tool_support \<Rightarrow> (call, tool_support) io" where
  "second_bidder K W L s =
     bindE (perform Random (generate_key K)) (\<lambda>bidder2Prv.
     bindE (relabel (\<lambda>err. ''fund second bidder: '' @ err)
              (SendNative K W s (key_address W bidder2Prv) 3000000000000000000)) (\<lambda>_.
     lift_result (NewSupport L bidder2Prv (su_Addresses s))))"

section \<open>The auction\<close>

text \<open>The time of the chain's latest block.\<close>

definition chain_head :: "auction_net \<Rightarrow> (call, u64) io" where
  "chain_head K =
     relabel (\<lambda>err. ''fetch chain head: '' @ err) (perform (Query Q_Chain_Head) (chain_head_at K))"

text \<open>\<^verbatim>\<open>head.Time + uint64(biddingSeconds)\<close> wraps around.\<close>

definition auction_deadline :: "u64 \<Rightarrow> 64 word \<Rightarrow> u64" where
  "auction_deadline head_time biddingSeconds = head_time + biddingSeconds"

text \<open>Deadline, lot and auction, once the lot is in escrow.\<close>

definition open_auction ::
  "auction_net \<Rightarrow> outside \<Rightarrow> tool_support \<Rightarrow> tool_support \<Rightarrow> test_flags \<Rightarrow> address \<Rightarrow> address \<Rightarrow> address
     \<Rightarrow> (call, u64 \<times> int \<times> int) io" where
  "open_auction K W s s2 fl contract payToken demoAsset =
     bindE (chain_head K) (\<lambda>head_time.
     let deadline = auction_deadline head_time (tf_BiddingSeconds fl);
         bidder2 = key_address W (su_Prv s2) in
     bindE (relabel (\<lambda>err. ''mint demo asset: '' @ err) (MintDemoAsset K W s demoAsset bidder2)) (\<lambda>lotTokenId.
     bindE (relabel (\<lambda>err. ''approve lot: '' @ err) (ApproveNFT K W s2 demoAsset contract lotTokenId)) (\<lambda>_.
     bindE (CreateAuction K W s2 contract
              \<lparr>lt_Lot = ''Sealed-auction e2e test lot (escrowed NFT)'', lt_Kind = LotKindERC721,
               lt_Token = demoAsset, lt_TokenId = lotTokenId, lt_Amount = 0, lt_PayToken = payToken,
               lt_Deadline = deadline, lt_Reserve = sint (tf_Reserve fl)\<rparr>) (\<lambda>auctionId.
     bindE (NFTOwner K demoAsset lotTokenId) (\<lambda>lotHolder.
     if lotHolder \<noteq> contract
     then throw (''expected the lot to be escrowed by '' @ address_hex K contract @
            '', but it is held by '' @ address_hex K lotHolder)
     else ret (deadline, lotTokenId, auctionId))))))"

section \<open>The sealed bids\<close>

definition bid_payload :: "int \<Rightarrow> address \<Rightarrow> address \<Rightarrow> 64 word \<Rightarrow> hash \<Rightarrow> BidPayload" where
  "bid_payload auctionId contract bidder amount salt =
     \<lparr>bp_AuctionId = Some auctionId, bp_ContractAddr = contract, bp_Bidder = bidder,
      bp_AmountWei = Some (sint amount), bp_Salt = salt\<rparr>"

definition sealBid ::
  "auction_net \<Rightarrow> public_key \<Rightarrow> address \<Rightarrow> int \<Rightarrow> address \<Rightarrow> 64 word \<Rightarrow> (call, bytes) io" where
  "sealBid K teePub contract auctionId bidder amount =
     bindE (perform Random (random_salt K)) (\<lambda>salt.
     bindE (lift_result (pack_bid_payload K bidPayloadArgs
              (bid_payload auctionId contract bidder amount salt))) (\<lambda>plaintext.
     EncryptForTee K teePub plaintext))"

definition judge_bid :: "auction_net \<Rightarrow> string \<Rightarrow> ActionResult \<Rightarrow> unit result" where
  "judge_bid K label res =
     (if res_Status res \<noteq> 1 then Inl (label @ '' failed: '' @ res_Log res)
      else case unmarshal_accepted K (res_Data res) of
          Inr True \<Rightarrow> Inr ()
        | _ \<Rightarrow> Inl (label @ '': expected {'' @ dquote @ ''accepted'' @ dquote @ '':true}, got '' @
                 res_Data res))"

definition checkAccepted ::
  "auction_net \<Rightarrow> outside \<Rightarrow> string \<Rightarrow> string \<Rightarrow> hash \<Rightarrow> (call, unit) io" where
  "checkAccepted K W proxyURL label instructionId =
     bindE (ActionResult_io W proxyURL instructionId) (\<lambda>body.
     lift_result (judge_bid K label (ap_Result (response_of K body))))"

definition place_bids ::
  "auction_net \<Rightarrow> outside \<Rightarrow> tool_support \<Rightarrow> tool_support \<Rightarrow> test_flags \<Rightarrow> address \<Rightarrow> int
     \<Rightarrow> (call, hash \<times> hash) io" where
  "place_bids K W s s2 fl contract auctionId =
     bindE (relabel (\<lambda>err. ''fetch TEE ECIES key: '' @ err) (TeeECIESPublicKey K W (tf_ProxyURL fl))) (\<lambda>teePub.
     bindE (sealBid K teePub contract auctionId (key_address W (su_Prv s2)) (tf_LosingBid fl)) (\<lambda>losing.
     bindE (PlaceBid K W s2 contract auctionId losing) (\<lambda>(losingInstructionId, losingTx).
     bindE (sealBid K teePub contract auctionId (key_address W (su_Prv s)) (tf_Bid fl)) (\<lambda>winning.
     bindE (PlaceBid K W s contract auctionId winning) (\<lambda>(winningInstructionId, winningTx).
     bindE (perform (Sleep 5) (\<lambda>_. Inr ())) (\<lambda>_.
     bindE (checkAccepted K W (tf_ProxyURL fl) ''PLACE_BID (losing)'' losingInstructionId) (\<lambda>_.
     bindE (checkAccepted K W (tf_ProxyURL fl) ''PLACE_BID (winning)'' winningInstructionId) (\<lambda>_.
     ret (losingTx, winningTx)))))))))"

section \<open>Waiting for the deadline\<close>

text \<open>
  The loop asks for the chain's time until it has reached the deadline, sleeping two seconds
  in between; nothing bounds it.
\<close>

partial_function (option) await_deadline ::
  "auction_net \<Rightarrow> u64 \<Rightarrow> history \<Rightarrow> (unit result \<times> history) option" where
  "await_deadline K deadline h =
     (case chain_head K h of
        (Inl err, h') \<Rightarrow> Some (Inl err, h')
      | (Inr head_time, h') \<Rightarrow>
          if deadline \<le> head_time then Some (Inr (), h')
          else await_deadline K deadline (h' @ [Sleep 2]))"

declare await_deadline.simps [code]

section \<open>Closing and settling\<close>

text \<open>What the run expects of the TEE's answer: winner and clearing price.\<close>

definition judge_close ::
  "auction_net \<Rightarrow> address \<Rightarrow> 64 word \<Rightarrow> ActionResult \<Rightarrow> (address \<times> int) result" where
  "judge_close K deployer bidWei res =
     (if res_Status res \<noteq> 1 then Inl (''CLOSE_AUCTION failed: '' @ res_Log res)
      else case unpack_auction_result K auctionResultArgs (res_Data res) of
          Inl err \<Rightarrow> Inl (''decode auction result: '' @ err)
        | Inr (contractAddr, auctionId, winner, clearingPrice) \<Rightarrow>
            if winner \<noteq> deployer
            then Inl (''expected winner '' @ address_hex K deployer @ '', got '' @ address_hex K winner)
            else if clearingPrice \<noteq> sint bidWei
            then Inl (''expected clearing price '' @ show_int (sint bidWei) @ '', got '' @
                   show_int clearingPrice)
            else Inr (winner, clearingPrice))"

definition close_and_judge ::
  "auction_net \<Rightarrow> outside \<Rightarrow> tool_support \<Rightarrow> test_flags \<Rightarrow> address \<Rightarrow> int
     \<Rightarrow> (call, action_response \<times> address \<times> int) io" where
  "close_and_judge K W s fl contract auctionId =
     bindE (CloseAuction K W s contract auctionId) (\<lambda>(closeInstructionId, closeTx).
     bindE (perform (Sleep 5) (\<lambda>_. Inr ())) (\<lambda>_.
     bindE (ActionResult_io W (tf_ProxyURL fl) closeInstructionId) (\<lambda>body.
     bindE (lift_result (judge_close K (key_address W (su_Prv s)) (tf_Bid fl)
              (ap_Result (response_of K body)))) (\<lambda>(winner, clearingPrice).
     ret (response_of K body, winner, clearingPrice)))))"

definition settle_and_check ::
  "auction_net \<Rightarrow> outside \<Rightarrow> tool_support \<Rightarrow> tool_support \<Rightarrow> address \<Rightarrow> address \<Rightarrow> address \<Rightarrow> int
     \<Rightarrow> action_response \<Rightarrow> address \<Rightarrow> int \<Rightarrow> (call, hash) io" where
  "settle_and_check K W s s2 contract payToken demoAsset lotTokenId response winner clearingPrice =
     (let res = ap_Result response; bidder2 = key_address W (su_Prv s2) in
      bindE (Approve K W s payToken contract clearingPrice) (\<lambda>_.
      bindE (Settle K W s contract (res_Data res) (res_ID res) (res_SubmissionTag res) (res_Status res)
               (ap_Signature response)) (\<lambda>settleTx.
      bindE (TokenBalance K payToken bidder2) (\<lambda>sellerBalance.
      if sellerBalance \<noteq> clearingPrice
      then throw (''expected seller to hold the clearing price '' @ show_int clearingPrice @
             '', got '' @ show_int sellerBalance)
      else
        bindE (NFTOwner K demoAsset lotTokenId) (\<lambda>lotHolder.
        if lotHolder \<noteq> winner
        then throw (''expected the lot to be owned by the winner '' @ address_hex K winner @
               '', got '' @ address_hex K lotHolder)
        else
          bindE (relabel (\<lambda>err. ''refund pay tokens from ephemeral seller: '' @ err)
                   (TransferToken K W s2 payToken (key_address W (su_Prv s)) sellerBalance)) (\<lambda>_.
          ret settleTx))))))"

section \<open>The whole run\<close>

text \<open>What the phases before the wait leave for those after it.\<close>

record test_run =
  tr_Support :: tool_support
  tr_Seller :: tool_support
  tr_PayToken :: address
  tr_DemoAsset :: address
  tr_Deadline :: u64
  tr_LotTokenId :: int
  tr_AuctionId :: int
  tr_LosingTx :: hash
  tr_WinningTx :: hash

definition before_deadline ::
  "auction_net \<Rightarrow> outside \<Rightarrow> setup_lib \<Rightarrow> test_flags \<Rightarrow> (call, test_run) io" where
  "before_deadline K W L fl =
     (let contract = str_to_address W (tf_InstructionSender fl) in
      bindE (DefaultSupport W L (tf_Addresses fl) (tf_ChainURL fl)) (\<lambda>s.
      bindE (pay_token K W L) (\<lambda>payToken.
      bindE (demo_asset_and_funds K W L payToken (key_address W (su_Prv s)) (tf_Bid fl)) (\<lambda>demoAsset.
      bindE (configure_contract K W s contract (tf_ProxyURL fl)) (\<lambda>_.
      bindE (second_bidder K W L s) (\<lambda>s2.
      bindE (open_auction K W s s2 fl contract payToken demoAsset) (\<lambda>(deadline, lotTokenId, auctionId).
      bindE (place_bids K W s s2 fl contract auctionId) (\<lambda>(losingTx, winningTx).
      ret \<lparr>tr_Support = s, tr_Seller = s2, tr_PayToken = payToken, tr_DemoAsset = demoAsset,
           tr_Deadline = deadline, tr_LotTokenId = lotTokenId, tr_AuctionId = auctionId,
           tr_LosingTx = losingTx, tr_WinningTx = winningTx\<rparr>))))))))"

definition after_deadline ::
  "auction_net \<Rightarrow> outside \<Rightarrow> test_flags \<Rightarrow> test_run \<Rightarrow> (call, hash) io" where
  "after_deadline K W fl r =
     (let contract = str_to_address W (tf_InstructionSender fl) in
      bindE (close_and_judge K W (tr_Support r) fl contract (tr_AuctionId r))
        (\<lambda>(response, winner, clearingPrice).
      settle_and_check K W (tr_Support r) (tr_Seller r) contract (tr_PayToken r) (tr_DemoAsset r)
        (tr_LotTokenId r) response winner clearingPrice))"

text \<open>The summary line: the auction and the three transactions.\<close>

definition run_test_main ::
  "auction_net \<Rightarrow> outside \<Rightarrow> setup_lib \<Rightarrow> test_flags \<Rightarrow> history
     \<Rightarrow> ((int \<times> hash \<times> hash \<times> hash) result \<times> history) option" where
  "run_test_main K W L fl h =
     (case before_deadline K W L fl h of
        (Inl err, h1) \<Rightarrow> Some (Inl err, h1)
      | (Inr r, h1) \<Rightarrow>
          (case await_deadline K (tr_Deadline r) h1 of
             None \<Rightarrow> None
           | Some (Inl err, h2) \<Rightarrow> Some (Inl err, h2)
           | Some (Inr _, h2) \<Rightarrow>
               Some (bindE (after_deadline K W fl r) (\<lambda>settleTx.
                 ret (tr_AuctionId r, tr_LosingTx r, tr_WinningTx r, settleTx)) h2)))"

end
