(* ===== verification/Run_Test_Props.thy ===== *)
theory Run_Test_Props
  imports Run_Test Handlers
begin

text \<open>
  Properties of the end-to-end command: when its wait for the bidding deadline returns, what
  a passed run has established on the chain, which refusals it tolerates, and that what it
  expects of the TEE is what the extension answers.
\<close>

section \<open>The wait\<close>

text \<open>The calls of \<open>n\<close> rounds that found bidding still open.\<close>

definition polls :: "nat \<Rightarrow> history" where
  "polls n = concat (replicate n [Query Q_Chain_Head, Sleep 2])"

lemma polls_0 [simp]: "polls 0 = []"
  by (simp add: polls_def)

lemma polls_Suc: "polls (Suc n) = [Query Q_Chain_Head, Sleep 2] @ polls n"
  by (simp add: polls_def)

definition still_open :: "auction_net \<Rightarrow> u64 \<Rightarrow> history \<Rightarrow> nat \<Rightarrow> bool" where
  "still_open K deadline h n \<longleftrightarrow> (\<exists>t. chain_head_at K (h @ polls n) = Inr t \<and> t < deadline)"

lemma still_open_Suc:
  "still_open K d (h @ [Query Q_Chain_Head, Sleep 2]) n \<longleftrightarrow> still_open K d h (Suc n)"
  by (simp add: still_open_def polls_Suc)

lemma chain_head_run:
  "chain_head K h =
     (case chain_head_at K h of Inl err \<Rightarrow> Inl (''fetch chain head: '' @ err) | Inr t \<Rightarrow> Inr t,
      h @ [Query Q_Chain_Head])"
  by (simp add: chain_head_def relabel_def perform_def split: sum.split)

lemma await_step:
  "await_deadline K d h =
     (case chain_head_at K h of
        Inl err \<Rightarrow> Some (Inl (''fetch chain head: '' @ err), h @ [Query Q_Chain_Head])
      | Inr t \<Rightarrow> if d \<le> t then Some (Inr (), h @ [Query Q_Chain_Head])
          else await_deadline K d (h @ [Query Q_Chain_Head, Sleep 2]))"
  by (subst await_deadline.simps) (simp add: chain_head_run split: sum.split)

lemma await_open:
  "still_open K d h 0 \<Longrightarrow> await_deadline K d h = await_deadline K d (h @ [Query Q_Chain_Head, Sleep 2])"
  by (subst await_step) (auto simp: still_open_def)

lemma await_rounds:
  "(\<And>j. j < n \<Longrightarrow> still_open K d h j) \<Longrightarrow> await_deadline K d h = await_deadline K d (h @ polls n)"
proof (induction n arbitrary: h)
  case (Suc n)
  have "await_deadline K d h = await_deadline K d (h @ [Query Q_Chain_Head, Sleep 2])"
    using Suc.prems [of 0] by (simp add: await_open)
  also have "\<dots> = await_deadline K d ((h @ [Query Q_Chain_Head, Sleep 2]) @ polls n)"
    by (rule Suc.IH) (simp only: still_open_Suc Suc.prems Suc_less_eq)
  finally show ?case by (simp add: polls_Suc)
qed simp

lemma await_returned:
  "await_deadline K d h = Some r \<Longrightarrow> \<exists>n. \<not> still_open K d h n"
proof (induction rule: await_deadline.raw_induct [rotated, consumes 1, case_names round])
  case (round await K d h r)
  show ?case
  proof (cases "still_open K d h 0")
    case True
    then have "await K d (h @ [Query Q_Chain_Head, Sleep 2]) = Some r"
      using round(2) by (auto simp: still_open_def chain_head_run not_le [symmetric] simp del: not_le)
    then show ?thesis using round(1) still_open_Suc by blast
  qed blast
qed

text \<open>
  C38. The wait for the deadline returns exactly when some round does not find bidding still
  open: it hangs if and only if the chain, asked again and again, always answers with a time
  before the deadline.
\<close>

theorem wait_returns_iff:
  "(\<exists>r. await_deadline K deadline h = Some r) \<longleftrightarrow> (\<exists>n. \<not> still_open K deadline h n)"
proof
  assume "\<exists>n. \<not> still_open K deadline h n"
  then obtain n where "\<not> still_open K deadline h n" by blast
  define k where "k = (LEAST n. \<not> still_open K deadline h n)"
  have "\<not> still_open K deadline h k" unfolding k_def by (rule LeastI) fact
  moreover have "await_deadline K deadline h = await_deadline K deadline (h @ polls k)"
    by (rule await_rounds) (use not_less_Least in \<open>auto simp: k_def\<close>)
  ultimately show "\<exists>r. await_deadline K deadline h = Some r"
    by (auto simp: await_step [of K deadline "h @ polls k"] still_open_def not_less split: sum.splits)
qed (blast dest: await_returned)

text \<open>
  C24. If the chain's time advances by at least one second per round, the wait ends without an
  error after at most as many rounds as there were seconds left.
\<close>

theorem wait_ends_when_time_advances:
  assumes "\<And>n. \<exists>t. chain_head_at K (h @ polls n) = Inr t \<and> min (unat deadline) (now + n) \<le> unat t"
  shows "\<exists>n \<le> unat deadline - now.
     await_deadline K deadline h = Some (Inr (), h @ polls n @ [Query Q_Chain_Head])"
proof -
  let ?open = "\<lambda>n. still_open K deadline h n"
  have "\<not> ?open (unat deadline - now)"
    using assms [of "unat deadline - now"] by (auto simp: still_open_def word_less_nat_alt)
  then have ex: "\<exists>n. \<not> ?open n" by blast
  define k where "k = (LEAST n. \<not> ?open n)"
  have k: "\<not> ?open k" unfolding k_def using ex by (rule LeastI_ex)
  have le: "k \<le> unat deadline - now" unfolding k_def by (rule Least_le) fact
  have "await_deadline K deadline h = await_deadline K deadline (h @ polls k)"
    by (rule await_rounds) (use not_less_Least in \<open>auto simp: k_def\<close>)
  moreover obtain t where "chain_head_at K (h @ polls k) = Inr t" using assms by blast
  moreover from this k have "deadline \<le> t" by (simp add: still_open_def not_less)
  ultimately have "await_deadline K deadline h = Some (Inr (), h @ polls k @ [Query Q_Chain_Head])"
    by (simp add: await_step [of K deadline "h @ polls k"])
  with le show ?thesis by blast
qed

section \<open>The deadline\<close>

lemma await_outcome:
  "await_deadline K d h = Some r \<Longrightarrow>
     (\<exists>cs. snd r = h @ cs @ [Query Q_Chain_Head] \<and> list_all harmless cs
        \<and> (fst r = Inr () \<longrightarrow> (\<exists>t. chain_head_at K (h @ cs) = Inr t \<and> d \<le> t)))"
proof (induction rule: await_deadline.raw_induct [rotated, consumes 1, case_names round])
  case (round await K d h r)
  show ?case
  proof (cases "still_open K d h 0")
    case True
    then have "await K d (h @ [Query Q_Chain_Head, Sleep 2]) = Some r"
      using round(2) by (auto simp: still_open_def chain_head_run not_le [symmetric] simp del: not_le)
    from round(1) [OF this] obtain cs where
      "snd r = (h @ [Query Q_Chain_Head, Sleep 2]) @ cs @ [Query Q_Chain_Head]" "list_all harmless cs"
      "fst r = Inr () \<longrightarrow> (\<exists>t. chain_head_at K ((h @ [Query Q_Chain_Head, Sleep 2]) @ cs) = Inr t \<and> d \<le> t)"
      by blast
    then show ?thesis by (intro exI [of _ "[Query Q_Chain_Head, Sleep 2] @ cs"]) simp
  next
    case False
    then show ?thesis using round(2)
      by (intro exI [of _ "[]"])
        (auto simp: still_open_def chain_head_run not_less
          split: sum.splits if_splits)
  qed
qed

lemma await_reached:
  assumes "await_deadline K d h = Some (Inr (), h')"
  obtains cs t where "h' = h @ cs @ [Query Q_Chain_Head]" "list_all harmless cs"
    "chain_head_at K (h @ cs) = Inr t" "d \<le> t"
  using await_outcome [OF assms] by auto

lemma deadline_value:
  "uint (auction_deadline now seconds) = (uint now + sint seconds) mod 2 ^ 64"
proof -
  have "uint (auction_deadline now seconds) = (uint now + uint seconds) mod 2 ^ 64"
    by (simp add: auction_deadline_def uint_word_ariths(1))
  also have "\<dots> = (uint now + sint seconds) mod 2 ^ 64"
    by (simp add: uint_sint take_bit_eq_mod mod_add_right_eq)
  finally show ?thesis .
qed

text \<open>
  C39. The deadline is the chain's time plus the seconds, modulo 64 bits. A number of seconds
  that is not negative and does not overflow is really waited for: when the wait has ended
  without an error, the last block seen is at least that many seconds after the first.
\<close>

theorem waits_the_bidding_time:
  assumes "0 \<le> sint seconds" and "int (unat now) + sint seconds < 2 ^ 64"
    and "await_deadline K (auction_deadline now seconds) h = Some (Inr (), h')"
  shows "int (unat (auction_deadline now seconds)) = int (unat now) + sint seconds
    \<and> (\<exists>h1 t. h' = h1 @ [Query Q_Chain_Head] \<and> chain_head_at K h1 = Inr t
          \<and> int (unat now) + sint seconds \<le> int (unat t))"
proof -
  have d: "uint (auction_deadline now seconds) = uint now + sint seconds"
    using assms(1,2) by (simp add: deadline_value)
  from await_reached [OF assms(3)] obtain cs t where
    "h' = h @ cs @ [Query Q_Chain_Head]" "chain_head_at K (h @ cs) = Inr t"
    "auction_deadline now seconds \<le> t" by metis
  moreover from this(3) have "uint (auction_deadline now seconds) \<le> uint t"
    by (simp add: word_le_def)
  ultimately show ?thesis using d by (intro conjI exI [of _ "h @ cs"] exI [of _ t]) auto
qed

section \<open>What the phases send\<close>

lemma only_mined_sends: "only (sends P) (mined W f t)"
  by (rule only_mined) simp

lemma only_waitOK_sends: "only (sends P) (waitOK W t label)"
  by (rule only_waitOK) simp

lemma only_contract_tx: "P t \<Longrightarrow> only (sends P) (contract_tx K W s c v t label)"
  unfolding contract_tx_def by (intro only_rules only_submit_or) simp

lemma only_token_tx: "P t \<Longrightarrow> only (sends P) (token_tx K W s t label)"
  unfolding token_tx_def by (intro only_rules only_submit_or only_mined_sends) simp

lemma only_eth_call: "only (sends P) (eth_call W to data)"
  unfolding eth_call_def Let_def by (rule only_perform) simp

lemma only_callForAddress: "only (sends P) (callForAddress K W to m args)"
  unfolding callForAddress_def Let_def by (intro only_rules only_eth_call)

lemma only_pay_token: "only (sends P) (pay_token K W L)"
  unfolding pay_token_def ResolveFXRP_def tokenDecimals_def Let_def
  by (intro only_rules only_callForAddress only_eth_call)

lemma only_funds: "only (sends P) (demo_asset_and_funds K W L p d b)"
  unfolding demo_asset_and_funds_def TokenBalanceOf_def Let_def
  by (intro only_rules only_eth_call)

lemma only_simulate_id: "only (sends P) (simulate_set_extension_id K W s c)"
  unfolding simulate_set_extension_id_def
  by (intro only_rules only_mono [OF only_Simulate]) simp

lemma only_TeeInfo_sends: "only (sends P) (TeeInfo W u)"
  by (rule only_mono [OF only_TeeInfo]) auto

lemma only_ActionResult_sends: "only (sends P) (ActionResult_io W u i)"
  by (rule only_mono [OF only_ActionResult]) auto

fun is_close :: "tx \<Rightarrow> bool" where
  "is_close (Tx_Close_Auction _ _) = True"
| "is_close _ = False"

abbreviation not_closing :: "call \<Rightarrow> bool" where
  "not_closing \<equiv> sends (\<lambda>t. \<not> is_close t)"

lemma only_configure: "only not_closing (configure_contract K W s c u)"
  unfolding configure_contract_def set_extension_id_step_def SetExtensionId_def SetTeeAddress_def
    TeeSigningAddress_def Let_def
  by (intro only_rules only_submit only_simulate_id only_mined_sends only_TeeInfo_sends
      only_contract_tx only_waitOK_sends) simp_all

lemma only_second_bidder: "only not_closing (second_bidder K W L s)"
  unfolding second_bidder_def SendNative_def Let_def
  by (intro only_rules only_perform only_submit_or only_waitOK_sends) simp_all

lemma only_open_auction: "only not_closing (open_auction K W s s2 fl c p d)"
  unfolding open_auction_def chain_head_def MintDemoAsset_def ApproveNFT_def CreateAuction_def
    NFTOwner_def Let_def
  by (intro only_rules only_perform only_submit_or only_contract_tx only_mined_sends
      only_waitOK_sends) simp_all

lemma only_sealBid: "only (sends P) (sealBid K q c i b a)"
  unfolding sealBid_def EncryptForTee_def by (intro only_rules only_perform) simp_all

lemma only_instructionFromTx: "only (sends P) (instructionFromTx W t label)"
  unfolding instructionFromTx_def by (intro only_rules only_mined_sends)

lemma only_place_bids: "only not_closing (place_bids K W s s2 fl c i)"
  unfolding place_bids_def PlaceBid_def checkAccepted_def TeeECIESPublicKey_def
  by (intro only_rules only_perform only_TeeInfo_sends only_sealBid only_contract_tx
      only_instructionFromTx only_ActionResult_sends) simp_all

lemma only_os_ReadFile: "only (sends P) (os_ReadFile W path)"
  unfolding os_ReadFile_def by (rule only_perform) simp

lemma only_DefaultSupport: "only (sends P) (DefaultSupport W L path url)"
  unfolding DefaultSupport_def ReadAddresses_def ParseAddresses_def
  by (intro only_rules only_os_ReadFile)

lemma only_before_deadline: "only not_closing (before_deadline K W L fl)"
  unfolding before_deadline_def Let_def
  by (intro only_rules only_DefaultSupport only_pay_token only_funds only_configure
      only_second_bidder only_open_auction only_place_bids)

lemma only_settle: "only not_closing (settle_and_check K W s s2 c p d i r w a)"
  unfolding settle_and_check_def Approve_def Settle_def TokenBalance_def NFTOwner_def
    TransferToken_def Let_def
  by (intro only_rules only_token_tx only_contract_tx only_waitOK_sends only_perform) simp_all

lemma only_grows: "only P m \<Longrightarrow> m h = (r, h') \<Longrightarrow> \<exists>cs. h' = h @ cs \<and> list_all P cs"
  unfolding only_def by (metis snd_conv)

section \<open>What the phases establish\<close>

lemma open_auction_ok:
  assumes "open_auction K W s s2 fl contract p asset h = (Inr (deadline, token, aid), h')"
  shows "(\<exists>lot. Send (key_address W (su_Prv s2)) 0 (Tx_Create_Auction contract lot) \<in> set h'
            \<and> lt_Deadline lot = deadline)
       \<and> (\<exists>h0. h' = h0 @ [Query (Q_Nft_Owner asset token)] \<and> nft_owner_at K h0 asset token = Inr [contract])"
proof -
  obtain h1 h2 lot t where
    create: "CreateAuction K W s2 contract lot h1 = (Inr aid, h2)" "lt_Deadline lot = deadline"
    and owner: "NFTOwner K asset token h2 = (Inr contract, h')"
    using assms by (auto simp: open_auction_def Let_def succeeded split: if_splits)
  have "Send (key_address W (su_Prv s2)) 0 (Tx_Create_Auction contract lot) \<in> set h2"
    using create(1) by (auto simp: CreateAuction_def run_simps split: sum.splits if_splits option.splits)
  then show ?thesis using NFTOwner_ok [OF owner] create(2) by auto
qed


lemma before_deadline_ok:
  assumes "before_deadline K W L fl h = (Inr r, h')"
  defines "contract \<equiv> str_to_address W (tf_InstructionSender fl)"
  shows "(\<exists>lot. Send (key_address W (su_Prv (tr_Seller r))) 0 (Tx_Create_Auction contract lot) \<in> set h'
            \<and> lt_Deadline lot = tr_Deadline r)
       \<and> (\<exists>h0 later. h' = h0 @ Query (Q_Nft_Owner (tr_DemoAsset r) (tr_LotTokenId r)) # later
            \<and> nft_owner_at K h0 (tr_DemoAsset r) (tr_LotTokenId r) = Inr [contract])"
proof -
  obtain s s2 p asset d token aid x y h1 h2 where
    run: "open_auction K W s s2 fl contract p asset h1 = (Inr (d, token, aid), h2)"
      "place_bids K W s s2 fl contract aid h2 = (Inr (x, y), h')"
    and r: "tr_Seller r = s2" "tr_DemoAsset r = asset" "tr_LotTokenId r = token" "tr_Deadline r = d"
    using assms(1) by (auto simp: before_deadline_def contract_def Let_def succeeded)
  obtain cs where "h' = h2 @ cs" using only_grows [OF only_place_bids run(2)] by blast
  moreover obtain lot h0 where
    "Send (key_address W (su_Prv s2)) 0 (Tx_Create_Auction contract lot) \<in> set h2" "lt_Deadline lot = d"
    "h2 = h0 @ [Query (Q_Nft_Owner asset token)]" "nft_owner_at K h0 asset token = Inr [contract]"
    using open_auction_ok [OF run(1)] by blast
  ultimately show ?thesis unfolding r
    by (intro conjI exI [of _ lot] exI [of _ h0] exI [of _ cs]) auto
qed

lemma judge_close_ok:
  "judge_close K deployer bid res = Inr (winner, price) \<Longrightarrow>
     winner = deployer \<and> price = sint bid \<and> res_Status res = 1"
  by (auto simp: judge_close_def split: if_splits sum.splits)

lemma close_and_judge_ok:
  "close_and_judge K W s fl contract aid h = (Inr (response, winner, price), h') \<Longrightarrow>
     judge_close K (key_address W (su_Prv s)) (tf_Bid fl) (ap_Result response) = Inr (winner, price)"
  by (auto simp: close_and_judge_def succeeded)

lemma token_tx_sent:
  "token_tx K W s t label h = (Inr (), h') \<Longrightarrow>
     \<exists>x. h' = h @ [Send (key_address W (su_Prv s)) 0 t, Wait_Mined x]"
  by (auto simp: token_tx_def run_simps split: sum.splits if_splits)

lemma Settle_ok:
  "Settle K W s contract d i tag st sig h = (Inr x, h') \<Longrightarrow>
     (let send = Send (key_address W (su_Prv s)) 0 (Tx_Settle contract d i tag st sig) in
      h' = h @ [send, Wait_Mined x]
      \<and> (\<exists>receipt. wait_mined W (h @ [send]) x = Inr receipt \<and> rc_Status receipt = 1))"
  by (auto simp: Settle_def run_simps Let_def split: sum.splits if_splits)

text \<open>
  The end of a passed run: the settlement is mined, then the seller holds the price, then the
  winner holds the lot, and last the price is refunded.
\<close>

definition settled ::
  "auction_net \<Rightarrow> outside \<Rightarrow> address \<Rightarrow> address \<Rightarrow> address \<Rightarrow> action_response \<Rightarrow> address \<Rightarrow> address
     \<Rightarrow> int \<Rightarrow> int \<Rightarrow> hash \<Rightarrow> history \<Rightarrow> bool" where
  "settled K W contract deployer seller response payToken asset token price settleTx h' \<longleftrightarrow>
     (\<exists>before refundTx receipt.
        let res = ap_Result response;
            send = Send deployer 0 (Tx_Settle contract (res_Data res) (res_ID res)
                     (res_SubmissionTag res) (res_Status res) (ap_Signature response));
            done = before @ [send, Wait_Mined settleTx];
            paid = Query (Q_Token_Balance payToken seller);
            handed = Query (Q_Nft_Owner asset token)
        in wait_mined W (before @ [send]) settleTx = Inr receipt \<and> rc_Status receipt = 1
         \<and> token_balance_at K done payToken seller = Inr [price]
         \<and> nft_owner_at K (done @ [paid]) asset token = Inr [deployer]
         \<and> h' = done @ [paid, handed,
             Send seller 0 (Tx_Token_Transfer payToken deployer price 200000), Wait_Mined refundTx])"

lemma settle_and_check_ok:
  assumes "settle_and_check K W s s2 contract p asset token response
      (key_address W (su_Prv s)) price h = (Inr tx, h')"
  shows "settled K W contract (key_address W (su_Prv s)) (key_address W (su_Prv s2)) response
      p asset token price tx h'"
proof -
  let ?res = "ap_Result response"
  obtain h1 h2 h3 h4 where run:
    "Settle K W s contract (res_Data ?res) (res_ID ?res) (res_SubmissionTag ?res) (res_Status ?res)
       (ap_Signature response) h1 = (Inr tx, h2)"
    "TokenBalance K p (key_address W (su_Prv s2)) h2 = (Inr price, h3)"
    "NFTOwner K asset token h3 = (Inr (key_address W (su_Prv s)), h4)"
    "TransferToken K W s2 p (key_address W (su_Prv s)) price h4 = (Inr (), h')"
    using assms by (auto simp: settle_and_check_def Let_def succeeded split: if_splits)
  obtain x where x: "h' = h4 @ [Send (key_address W (su_Prv s2)) 0
      (Tx_Token_Transfer p (key_address W (su_Prv s)) price 200000), Wait_Mined x]"
    using token_tx_sent run(4) unfolding TransferToken_def by blast
  from Settle_ok [OF run(1)] TokenBalance_ok [OF run(2)] NFTOwner_ok [OF run(3)] x
  show ?thesis unfolding settled_def Let_def
    by (intro exI [of _ h1] exI [of _ x]) auto
qed

section \<open>Properties\<close>

text \<open>
  C11. A run that passes has settled the auction it created: at some point the lot was held by
  the auction contract; the TEE's answer to CLOSE_AUCTION had status 1 and named the deployer
  and the winning bid; exactly this signed answer was sent to \<^verbatim>\<open>settle\<close> and mined with status
  1; directly afterwards the seller's balance was the clearing price and the deployer owned
  the lot; and the last transaction refunds the price to the deployer.
\<close>

theorem passed_run_settled:
  assumes "run_test_main K W L fl h = Some (Inr (aid, losingTx, winningTx, settleTx), h')"
  shows "\<exists>deployer seller payToken asset token response h0 later.
     (let contract = str_to_address W (tf_InstructionSender fl); price = sint (tf_Bid fl) in
      h' = h0 @ Query (Q_Nft_Owner asset token) # later
      \<and> nft_owner_at K h0 asset token = Inr [contract]
      \<and> judge_close K deployer (tf_Bid fl) (ap_Result response) = Inr (deployer, price)
      \<and> settled K W contract deployer seller response payToken asset token price settleTx h')"
proof -
  let ?c = "str_to_address W (tf_InstructionSender fl)"
  obtain r h1 h2 where run: "before_deadline K W L fl h = (Inr r, h1)"
    "await_deadline K (tr_Deadline r) h1 = Some (Inr (), h2)"
    "after_deadline K W fl r h2 = (Inr settleTx, h')"
    using assms by (auto simp: run_test_main_def succeeded split: prod.splits sum.splits option.splits)
  obtain response winner price h3 where close:
    "close_and_judge K W (tr_Support r) fl ?c (tr_AuctionId r) h2 = (Inr (response, winner, price), h3)"
    "settle_and_check K W (tr_Support r) (tr_Seller r) ?c (tr_PayToken r) (tr_DemoAsset r)
       (tr_LotTokenId r) response winner price h3 = (Inr settleTx, h')"
    using run(3) by (auto simp: after_deadline_def Let_def succeeded)
  note judged = close_and_judge_ok [OF close(1)]
  note is_deployer = judge_close_ok [OF judged]
  obtain h0 later where escrow:
    "h1 = h0 @ Query (Q_Nft_Owner (tr_DemoAsset r) (tr_LotTokenId r)) # later"
    "nft_owner_at K h0 (tr_DemoAsset r) (tr_LotTokenId r) = Inr [?c]"
    using before_deadline_ok [OF run(1)] by blast
  obtain cs where "h2 = h1 @ cs" using await_outcome [OF run(2)] by auto
  moreover have "only (\<lambda>_. True) (after_deadline K W fl r)"
    unfolding after_deadline_def close_and_judge_def CloseAuction_def Let_def
    by (intro only_rules only_mono [OF only_settle] only_mono [OF only_contract_tx [where P = "\<lambda>_. True"]]
        only_mono [OF only_instructionFromTx [where P = "\<lambda>_. True"]] only_perform
        only_mono [OF only_ActionResult]) simp_all
  from only_grows [OF this run(3)] obtain ds where "h' = h2 @ ds" by blast
  ultimately have "h' = h0 @ Query (Q_Nft_Owner (tr_DemoAsset r) (tr_LotTokenId r)) # later @ cs @ ds"
    using escrow(1) by simp
  moreover have "settled K W ?c (key_address W (su_Prv (tr_Support r))) (key_address W (su_Prv (tr_Seller r)))
      response (tr_PayToken r) (tr_DemoAsset r) (tr_LotTokenId r) (sint (tf_Bid fl)) settleTx h'"
    using close(2) is_deployer by (intro settle_and_check_ok [where h = h3]) simp
  ultimately show ?thesis using escrow(2) judged is_deployer unfolding Let_def by blast
qed


text \<open>
  Closing is justified by a look at the chain just before: it has reached the deadline that an
  auction created earlier in the run has.
\<close>

definition bidding_over :: "auction_net \<Rightarrow> address \<Rightarrow> history \<Rightarrow> bool" where
  "bidding_over K contract h \<longleftrightarrow>
     (\<exists>h0 now seller lot.
        h = h0 @ [Query Q_Chain_Head] \<and> chain_head_at K h0 = Inr now
      \<and> Send seller 0 (Tx_Create_Auction contract lot) \<in> set h0 \<and> lt_Deadline lot \<le> now)"

definition close_justified :: "auction_net \<Rightarrow> address \<Rightarrow> history \<Rightarrow> call \<Rightarrow> bool" where
  "close_justified K contract h c \<longleftrightarrow> not_closing c \<or> bidding_over K contract h"

lemma follows_not_closing: "only not_closing m \<Longrightarrow> follows A (close_justified K c) m"
  by (erule follows_only) (simp add: close_justified_def)

lemma harmless_justified: "list_all harmless cs \<Longrightarrow> justified (close_justified K c) g cs"
  by (induction cs arbitrary: g) (simp_all add: close_justified_def)

lemma follows_close_and_judge:
  "follows (bidding_over K c) (close_justified K c) (close_and_judge K W s fl c' i)"
proof -
  have sent: "follows (bidding_over K c) (close_justified K c)
      (contract_tx K W s c' v (Tx_Close_Auction c' i) label)" for v label
    unfolding contract_tx_def relabel_def [symmetric]
    by (auto simp: follows_def close_justified_def submit_or_def submit_def io_defs
        split: sum.splits prod.splits)
  have rest: "follows A (close_justified K c) (instructionFromTx W t label)"
    "follows A (close_justified K c) (ActionResult_io W u x)"
    "follows A (close_justified K c) (perform (Sleep 5) (\<lambda>_. Inr ()) :: (call, unit) io)"
    for A t label u x
    by (intro follows_not_closing only_instructionFromTx only_ActionResult_sends only_perform; simp)+
  show ?thesis
    unfolding close_and_judge_def CloseAuction_def
    by (intro follows_bind follows_rules sent rest)
qed

lemma follows_after_deadline:
  "follows (bidding_over K (str_to_address W (tf_InstructionSender fl)))
     (close_justified K (str_to_address W (tf_InstructionSender fl)))
     (bindE (after_deadline K W fl r) (\<lambda>x. ret (f x)))"
  unfolding after_deadline_def Let_def bindE_assoc
  by (intro follows_bind follows_rules follows_close_and_judge follows_not_closing [OF only_settle])

lemma waited_until_over:
  assumes "Send seller 0 (Tx_Create_Auction c lot) \<in> set h1" and "lt_Deadline lot = deadline"
    and "await_deadline K deadline h1 = Some (w, h2)"
  shows "\<exists>ds. h2 = h1 @ ds \<and> justified (close_justified K c) h1 ds \<and> (w = Inr () \<longrightarrow> bidding_over K c h2)"
proof -
  from await_outcome [OF assms(3)] obtain ds where ds:
    "h2 = h1 @ ds @ [Query Q_Chain_Head]" "list_all harmless ds"
    "w = Inr () \<longrightarrow> (\<exists>t. chain_head_at K (h1 @ ds) = Inr t \<and> deadline \<le> t)"
    by auto
  have "justified (close_justified K c) h1 (ds @ [Query Q_Chain_Head])"
    using ds(2) by (intro harmless_justified) simp
  moreover have "bidding_over K c h2" if ok: "w = Inr ()"
  proof -
    from ds ok obtain t where "chain_head_at K (h1 @ ds) = Inr t" "deadline \<le> t" by auto
    then show ?thesis using assms(1,2) ds(1) unfolding bidding_over_def
      by (intro exI [of _ "h1 @ ds"] exI [of _ t] exI [of _ lot] exI) auto
  qed
  ultimately show ?thesis using ds(1) by blast
qed

text \<open>
  C16. CLOSE_AUCTION is never sent too early: in every run that returns, passed or not, each
  call is one that does not close an auction, or comes directly after the chain reported a time
  that has reached the deadline of an auction created earlier on this contract.
\<close>

theorem close_only_after_deadline:
  assumes "run_test_main K W L fl h = Some (r, h')"
  shows "\<exists>cs. h' = h @ cs
     \<and> justified (close_justified K (str_to_address W (tf_InstructionSender fl))) h cs"
proof -
  let ?P = "close_justified K (str_to_address W (tf_InstructionSender fl))"
  obtain r1 h1 where b: "before_deadline K W L fl h = (r1, h1)" by fastforce
  from follows_run [OF follows_not_closing [OF only_before_deadline]] b obtain cs where
    cs: "h1 = h @ cs" "justified ?P h cs" by (metis snd_conv)
  show ?thesis
  proof (cases r1)
    case (Inl err)
    then show ?thesis using assms b cs by (auto simp: run_test_main_def)
  next
    case (Inr run)
    then obtain w h2 where w: "await_deadline K (tr_Deadline run) h1 = Some (w, h2)"
      using assms b by (auto simp: run_test_main_def split: option.splits)
    obtain lot where "lt_Deadline lot = tr_Deadline run" "Send (key_address W (su_Prv (tr_Seller run))) 0
        (Tx_Create_Auction (str_to_address W (tf_InstructionSender fl)) lot) \<in> set h1"
      using before_deadline_ok [of K W L fl h run h1] b Inr by blast
    from waited_until_over [OF this(2,1) w] obtain ds where ds: "h2 = h1 @ ds" "justified ?P h1 ds"
      "w = Inr () \<longrightarrow> bidding_over K (str_to_address W (tf_InstructionSender fl)) h2" by blast
    show ?thesis
    proof (cases w)
      case w_err: (Inl err)
      then show ?thesis using assms b w Inr cs ds
        by (auto simp: run_test_main_def intro!: exI [of _ "cs @ ds"])
    next
      case w_ok: (Inr u)
      then obtain es where es: "justified ?P h2 es"
        "snd (bindE (after_deadline K W fl run)
          (\<lambda>settleTx. ret (tr_AuctionId run, tr_LosingTx run, tr_WinningTx run, settleTx)) h2) = h2 @ es"
        using follows_after_deadline [of K W fl run
          "\<lambda>x. (tr_AuctionId run, tr_LosingTx run, tr_WinningTx run, x)"] ds(3)
        by (auto simp: follows_def)
      then have "h' = h2 @ es" using assms b w Inr w_ok by (auto simp: run_test_main_def)
      then show ?thesis using cs ds es(1) by (intro exI [of _ "cs @ ds @ es"]) simp
    qed
  qed
qed

section \<open>Tolerated refusals\<close>

lemma str_contains_append: "str_contains s x \<Longrightarrow> str_contains (a @ s @ b) x"
  unfolding str_contains_sublist by (meson sublist_append_leftI sublist_append_rightI sublist_order.order.trans)

lemma already_set_append: "str_contains s ''already set'' \<Longrightarrow> already_set (a @ s @ b)"
  unfolding already_set_def by (blast dest: str_contains_append)

text \<open>
  A contract that is already configured does not stop the run: when the node refuses
  \<^verbatim>\<open>setExtensionId\<close> and the refusal's text or its decoded revert reason says \<^verbatim>\<open>already set\<close>, the
  step succeeds after that one refused transaction and, at most, a simulation of it.
\<close>

theorem already_set_tolerated:
  assumes "bind_auction K contract = Inr ()" and "transactor W (su_Prv s) = Inr ()"
    and "send_tx W h (key_address W (su_Prv s)) 0 (Tx_Set_Extension_Id contract) = Inl e"
    and "str_contains (err_Text e) ''already set'' \<or>
         str_contains (DecodeRevertReason W (Some e)) ''already set''"
  shows "\<exists>cs. set_extension_id_step K W s contract h =
       (Inr (), h @ Send (key_address W (su_Prv s)) 0 (Tx_Set_Extension_Id contract) # cs)
     \<and> list_all diagnostic cs"
proof -
  let ?send = "Send (key_address W (su_Prv s)) 0 (Tx_Set_Extension_Id contract)"
  let ?decoded = "DecodeRevertReason W (Some e)"
  define look where "look = (if ?decoded = '''' then simulate_set_extension_id K W s contract else ret ?decoded)"
  obtain r h' where look: "look (h @ [?send]) = (r, h')" by fastforce
  have "only diagnostic look"
    unfolding look_def simulate_set_extension_id_def by (intro only_rules only_Simulate)
  from only_grows [OF this look] obtain cs where cs: "h' = (h @ [?send]) @ cs" "list_all diagnostic cs" by blast
  have total: "\<exists>reason. r = Inr reason"
    using look unfolding look_def simulate_set_extension_id_def SimulateAndDecodeRevert_def Let_def
    by (auto simp: io_defs split: if_splits option.splits sum.splits)
  then obtain reason where r: "r = Inr reason" by blast
  have reason: "?decoded = '''' \<or> reason = ?decoded"
    using look r by (auto simp: look_def ret_def split: if_splits)
  let ?err = "if reason \<noteq> ''''
      then ''failed to call setExtensionId: '' @ err_Text e @ '' (revert reason: '' @ reason @ '')''
      else ''failed to call setExtensionId: '' @ err_Text e"
  have "SetExtensionId K W s contract h = (Inl ?err, h')"
    using look r assms(1-3)
    by (simp add: SetExtensionId_def run_simps look_def [symmetric] Let_def bindE_def [of look])
  moreover have "already_set ?err"
  proof (cases "str_contains (err_Text e) ''already set''")
    case True
    from already_set_append [OF True, of "''failed to call setExtensionId: ''" "''''"]
      already_set_append [OF True, of "''failed to call setExtensionId: ''" "'' (revert reason: '' @ reason @ '')''"]
    show ?thesis by simp
  next
    case False
    then have contained: "str_contains ?decoded ''already set''" using assms(4) by blast
    then have "?decoded \<noteq> ''''" by (auto simp: str_contains_sublist)
    with reason contained have "reason \<noteq> ''''" "str_contains reason ''already set''" by simp_all
    then show ?thesis
      using already_set_append [of reason
          "''failed to call setExtensionId: '' @ err_Text e @ '' (revert reason: ''" "'')''"] by simp
  qed
  ultimately show ?thesis using cs
    by (simp add: set_extension_id_step_def run_attempt_any ret_def)
qed


section \<open>The expectation and the extension\<close>

text \<open>
  An instruction brings the sealed payload to the extension: its envelope names the auction
  and the bidder of the payload, the TEE can decrypt the ciphertext, and the plaintext decodes
  under the layout the command packed it with.
\<close>

definition bid_delivered ::
  "lib \<Rightarrow> (bytes \<Rightarrow> bytes result) \<Rightarrow> DataFixed \<Rightarrow> int \<Rightarrow> BidPayload \<Rightarrow> bool" where
  "bid_delivered L decrypt df aid payload \<longleftrightarrow>
     df_OriginalMessage df \<noteq> [] \<and>
     (\<exists>ciphertext plaintext.
        decode_place_bid L PlaceBidMessageArg (df_OriginalMessage df) =
          Inr \<lparr>pbm_AuctionId = Some aid, pbm_Bidder = bp_Bidder payload, pbm_Ciphertext = ciphertext\<rparr>
      \<and> ciphertext \<noteq> [] \<and> decrypt ciphertext = Inr plaintext
      \<and> decode_bid_payload L bidPayloadArgs plaintext = Inr payload)"

lemma delivered_bid_accepted:
  assumes "bid_delivered L decrypt df aid (bid_payload aid contract bidder amount salt)"
    and "\<not> is_closed e (show_int aid)" and "0 < sint amount"
  shows "processPlaceBid L decrypt e a df =
      (accepted a df, placeBid_store e (show_int aid) df (bid_payload aid contract bidder amount salt))"
proof -
  have same: "bidPayloadArgs = BidPayloadArg"
    by (simp add: bidPayloadArgs_def BidPayloadArg_def)
  show ?thesis using assms
    by (auto simp: bid_delivered_def same bid_payload_def processPlaceBid_def placeBid_precheck_def
        placeBid_open_def)
qed

lemma accepted_judged:
  "unmarshal_accepted K (marshal_PlaceBidResponse \<lparr>Accepted = True\<rparr>) = Inr True \<Longrightarrow>
     judge_bid K label (accepted a df) = Inr ()"
  by (simp add: judge_bid_def accepted_def buildResult_def)

text \<open>The close instruction carries the auction's terms.\<close>

definition close_delivered :: "lib \<Rightarrow> DataFixed \<Rightarrow> int \<Rightarrow> address \<Rightarrow> int \<Rightarrow> bool" where
  "close_delivered L df aid contract reserve \<longleftrightarrow>
     df_OriginalMessage df \<noteq> [] \<and>
     (\<exists>deadline. decode_close L CloseMessageArg (df_OriginalMessage df) =
        Inr \<lparr>cm_AuctionId = Some aid, cm_ContractAddr = contract, cm_ReservePrice = Some reserve,
             cm_Deadline = deadline\<rparr>)"

text \<open>
  C12. What the command expects is what the extension answers: on an open auction without bids,
  the two sealed bids it sends are both judged accepted, and if the winning amount is higher
  than the losing one and at least the reserve, the answer to its CLOSE_AUCTION is judged to
  name the deployer and the winning amount.
\<close>

theorem run_test_expects_extension_answers:
  assumes "bids_of e (show_int aid) = []" and "\<not> is_closed e (show_int aid)"
    and "bid_delivered L decrypt df1 aid (bid_payload aid contract seller losing salt1)"
    and "bid_delivered L decrypt df2 aid (bid_payload aid contract deployer winning salt2)"
    and "close_delivered L df3 aid contract reserve"
    and "0 < sint losing" and "sint losing < sint winning" and "reserve \<le> sint winning"
    and "unmarshal_accepted K (marshal_PlaceBidResponse \<lparr>Accepted = True\<rparr>) = Inr True"
    and "pack_result L AuctionResultArgs contract aid deployer (sint winning) = Inr encoded"
    and "unpack_auction_result K auctionResultArgs encoded = Inr (contract, aid, deployer, sint winning)"
  shows "\<exists>r1 e1 r2 e2 r3 e3. processPlaceBid L decrypt e a1 df1 = (r1, e1)
     \<and> processPlaceBid L decrypt e1 a2 df2 = (r2, e2)
     \<and> processCloseAuction L e2 a3 df3 = (Some r3, e3)
     \<and> judge_bid K label1 r1 = Inr () \<and> judge_bid K label2 r2 = Inr ()
     \<and> judge_close K deployer winning r3 = Inr (deployer, sint winning)"
proof -
  let ?k = "show_int aid"
  let ?p1 = "bid_payload aid contract seller losing salt1"
  let ?p2 = "bid_payload aid contract deployer winning salt2"
  let ?e1 = "placeBid_store e ?k df1 ?p1"
  let ?e2 = "placeBid_store ?e1 ?k df2 ?p2"
  have open1: "\<not> is_closed ?e1 ?k" using assms(2) by (simp add: placeBid_store_def Let_def is_closed_def)
  have stored: "bids_of ?e2 ?k = [new_bid (seq e + 1) df1 ?p1, new_bid (seq e + 2) df2 ?p2]"
    using assms(1) by (simp add: bids_of_store) (simp add: placeBid_store_def Let_def add.commute)
  obtain d where msg: "decode_close L CloseMessageArg (df_OriginalMessage df3) =
      Inr \<lparr>cm_AuctionId = Some aid, cm_ContractAddr = contract, cm_ReservePrice = Some reserve,
           cm_Deadline = d\<rparr>" "df_OriginalMessage df3 \<noteq> []"
    using assms(5) by (auto simp: close_delivered_def)
  have won: "pickWinner (bids_of ?e2 ?k) contract (Some reserve) = Some (deployer, sint winning, True)"
    using assms(6-8) unfolding stored by (simp add: pickWinner_def new_bid_def bid_payload_def skipped_def better_def)
  have close: "processCloseAuction L ?e2 a3 df3 =
      (Some (buildResult a3 df3 encoded 1 None), mark_closed ?e2 ?k)"
    using won msg assms(10) by (simp add: processCloseAuction_def close_result_def)
  have "judge_close K deployer winning (buildResult a3 df3 encoded 1 None) = Inr (deployer, sint winning)"
    using assms(11) by (simp add: judge_close_def buildResult_def)
  with delivered_bid_accepted [OF assms(3,2,6), of a1] close accepted_judged [OF assms(9)]
    delivered_bid_accepted [OF assms(4) open1, of a2] assms(6,7)
  show ?thesis by auto
qed


section \<open>A concrete run\<close>

text \<open>
  Parameters at which the command passes: a chain whose time grows with the calls made, on
  which the lot changes hands at the settlement. They stand for nothing in the program.
\<close>

fun is_settlement :: "call \<Rightarrow> bool" where
  "is_settlement (Send _ _ (Tx_Settle _ _ _ _ _ _)) = True"
| "is_settlement _ = False"

definition demo_result :: ActionResult where
  "demo_result = \<lparr>res_ID = 0, res_SubmissionTag = ''t'', res_Version = [], res_OPType = 0,
     res_OPCommand = 0, res_Data = ''d'', res_Status = 1, res_Log = ''ok''\<rparr>"

definition demo_net :: auction_net where
  "demo_net = \<lparr>bind_auction = (\<lambda>_. Inr ()), deployed_address = (\<lambda>_. 5),
     set_extension_id_calldata = None, parse_auction_created = (\<lambda>_. Inr 8), erc20_abi = Inr (),
     demo_asset_abi = Inr (), transfer_topic = 9, log_topics = (\<lambda>_. [9, 0, 0, 17]),
     method_id = (\<lambda>_ _. []), pack_strings = (\<lambda>_. Inr []), pack_address = (\<lambda>_. Inr []),
     unpack_address = (\<lambda>_. Inr 40), unpack_uint8 = (\<lambda>_. Inr 6), unpack_uint256 = (\<lambda>_. Inr 5000000),
     sign_native = (\<lambda>_ _. Inr ()), address_hex = (\<lambda>_. ''0x''), parse_machine_key = (\<lambda>p. Inr p),
     pack_bid_payload = (\<lambda>_ _. Inr []), unpack_auction_result = (\<lambda>_ _. Inr (12, 8, 2, 3000000)),
     response_of = (\<lambda>_. \<lparr>ap_Result = demo_result, ap_Signature = []\<rparr>),
     unmarshal_accepted = (\<lambda>_. Inr True), generate_key = (\<lambda>_. Inr 3), random_salt = (\<lambda>_. Inr 0),
     ecies_encrypt = (\<lambda>_ _ b. Inr (CHR ''e'' # b)), chain_head_at = (\<lambda>h. Inr (10 * of_nat (length h))),
     token_balance_at = (\<lambda>_ _ _. Inr [3000000]),
     nft_owner_at = (\<lambda>h _ _. Inr [if list_ex is_settlement h then 2 else 12]),
     pending_nonce_at = (\<lambda>_ _. Inr 0), gas_price_at = (\<lambda>_. Inr 1)\<rparr>"

definition demo_chain :: outside where
  "demo_chain = demo_outside\<lparr>read_file := (\<lambda>_ _. File_Bytes [])\<rparr>"

definition demo_setup_lib :: setup_lib where
  "demo_setup_lib = \<lparr>loaded_env = (\<lambda>v. if v = ''DEMO_ASSET'' then ''0xa'' else ''''), dev_key = 2,
     unmarshal_addresses = (\<lambda>_. Inr no_addresses), unmarshal_raw = (\<lambda>_. Inr []),
     dial_node = (\<lambda>_. Inr ()), bind_contract = (\<lambda>_ _. Inr ()), node_chain_id = Inr 1\<rparr>"

definition demo_flags :: test_flags where
  "demo_flags = \<lparr>tf_Addresses = ''a'', tf_ChainURL = ''c'', tf_ProxyURL = ''p'',
     tf_InstructionSender = ''s'', tf_Bid = 3000000, tf_LosingBid = 2000000, tf_Reserve = 1000000,
     tf_BiddingSeconds = 60\<rparr>"

lemma demo_run:
  "map_option fst (run_test_main demo_net demo_chain demo_setup_lib demo_flags []) =
     Some (Inr (8, 31, 31, 31))"
  by code_simp

lemma passed_run_settled_witness:
  "\<exists>h' deployer seller payToken asset token response.
     run_test_main demo_net demo_chain demo_setup_lib demo_flags [] = Some (Inr (8, 31, 31, 31), h')
     \<and> judge_close demo_net deployer 3000000 (ap_Result response) = Inr (deployer, 3000000)
     \<and> settled demo_net demo_chain 12 deployer seller response payToken asset token 3000000 31 h'"
proof -
  obtain h' where run:
    "run_test_main demo_net demo_chain demo_setup_lib demo_flags [] = Some (Inr (8, 31, 31, 31), h')"
    using demo_run by (auto simp: map_option_case split: option.splits)
  have "str_to_address demo_chain (tf_InstructionSender demo_flags) = 12"
    "tf_Bid demo_flags = 3000000" "sint (3000000 :: 64 word) = 3000000"
    by (simp_all add: demo_chain_def demo_outside_def demo_flags_def)
  with passed_run_settled [OF run] run show ?thesis unfolding Let_def by metis
qed

lemma close_only_after_deadline_witness:
  "\<exists>h' cs. run_test_main demo_net demo_chain demo_setup_lib demo_flags [] = Some (Inr (8, 31, 31, 31), h')
     \<and> h' = cs \<and> justified (close_justified demo_net 12) [] cs"
proof -
  obtain h' where run:
    "run_test_main demo_net demo_chain demo_setup_lib demo_flags [] = Some (Inr (8, 31, 31, 31), h')"
    using demo_run by (auto simp: map_option_case split: option.splits)
  have "str_to_address demo_chain (tf_InstructionSender demo_flags) = 12"
    by (simp add: demo_chain_def demo_outside_def)
  with close_only_after_deadline [OF run] run show ?thesis by auto
qed

lemma wait_ends_when_time_advances_witness:
  "\<exists>n \<le> 60. await_deadline
       (demo_net\<lparr>chain_head_at := (\<lambda>h. Inr (of_nat (min 1000 (40 + 5 * length h))))\<rparr>) 100 [] =
     Some (Inr (), polls n @ [Query Q_Chain_Head])"
proof -
  have len: "length (polls n) = 2 * n" for n
    by (induction n) (simp_all add: polls_Suc)
  have "min 100 (40 + n) \<le> 40 + 10 * n" for n :: nat by linarith
  then have "\<exists>t. chain_head_at (demo_net\<lparr>chain_head_at := (\<lambda>h. Inr (of_nat (min 1000 (40 + 5 * length h))))\<rparr>)
        ([] @ polls n) = Inr t \<and> min (unat (100 :: u64)) (40 + n) \<le> unat t" for n
    by (simp add: len unat_of_nat take_bit_nat_eq_self)
  from wait_ends_when_time_advances [OF this] show ?thesis by simp
qed

lemma waits_the_bidding_time_witness:
  "\<exists>h1 t. await_deadline demo_net (auction_deadline 0 60) (replicate 8 Random) =
       Some (Inr (), h1 @ [Query Q_Chain_Head])
     \<and> chain_head_at demo_net h1 = Inr t \<and> 60 \<le> int (unat t)"
proof -
  have "await_deadline demo_net (auction_deadline 0 60) (replicate 8 Random) =
      Some (Inr (), replicate 8 Random @ [Query Q_Chain_Head])"
    by code_simp
  from waits_the_bidding_time [OF _ _ this] show ?thesis
    using \<open>await_deadline _ _ _ = _\<close> by auto
qed

lemma already_set_tolerated_witness:
  "\<exists>cs. set_extension_id_step demo_net
       (demo_chain\<lparr>send_tx := (\<lambda>_ _ _ _. Inl \<lparr>err_Text = ''Extension ID already set'', err_Data = No_Data\<rparr>)\<rparr>)
       \<lparr>su_Prv = 2, su_Addresses = no_addresses\<rparr> 12 [] =
     (Inr (), Send 2 0 (Tx_Set_Extension_Id 12) # cs)"
  using already_set_tolerated [of demo_net 12
      "demo_chain\<lparr>send_tx := (\<lambda>_ _ _ _. Inl \<lparr>err_Text = ''Extension ID already set'', err_Data = No_Data\<rparr>)\<rparr>"
      "\<lparr>su_Prv = 2, su_Addresses = no_addresses\<rparr>" "[]"]
  by (auto simp: demo_net_def demo_chain_def demo_outside_def)


lemma run_test_expects_extension_answers_witness:
  "\<exists>r1 e1 r2 e2 r3 e3.
     processPlaceBid demo_lib Inr New (demo_action [])
       (demo_df [CHR 0x09, CHR ''b'', CHR 0x09, CHR ''c'', CHR ''b'', CHR ''A'']) = (r1, e1)
   \<and> processPlaceBid demo_lib Inr e1 (demo_action [])
       (demo_df [CHR 0x09, CHR ''d'', CHR 0x09, CHR ''c'', CHR ''d'', CHR ''B'']) = (r2, e2)
   \<and> processCloseAuction demo_lib e2 (demo_action []) (demo_df [CHR 0x09, CHR ''c'', CHR ''1'']) = (Some r3, e3)
   \<and> judge_close (demo_net\<lparr>unpack_auction_result := (\<lambda>_ _. Inr (99, 9, 100, 66))\<rparr>) 100 66 r3 = Inr (100, 66)"
proof -
  let ?K = "demo_net\<lparr>unpack_auction_result := (\<lambda>_ _. Inr (99, 9, 100, 66))\<rparr>"
  have bids: "bid_delivered demo_lib Inr
        (demo_df [CHR 0x09, CHR ''b'', CHR 0x09, CHR ''c'', CHR ''b'', CHR ''A'']) 9 (bid_payload 9 99 98 65 0)"
    "bid_delivered demo_lib Inr
        (demo_df [CHR 0x09, CHR ''d'', CHR 0x09, CHR ''c'', CHR ''d'', CHR ''B'']) 9 (bid_payload 9 99 100 66 0)"
    by (simp_all add: bid_delivered_def demo_lib_def demo_df_def bid_payload_def)
  have close: "close_delivered demo_lib (demo_df [CHR 0x09, CHR ''c'', CHR ''1'']) 9 99 49"
    by (simp add: close_delivered_def demo_lib_def demo_df_def)
  have start: "bids_of New (show_int 9) = []" "\<not> is_closed New (show_int 9)"
    by (simp_all add: bids_of_def is_closed_def New_def)
  have net: "unmarshal_accepted ?K (marshal_PlaceBidResponse \<lparr>Accepted = True\<rparr>) = Inr True"
    "unpack_auction_result ?K auctionResultArgs (show_int 9 @ '','' @ show_int 100 @ '','' @ show_int 66) =
      Inr (99, 9, 100, sint (66 :: 64 word))"
    by (simp_all add: demo_net_def)
  have "\<exists>r1 e1 r2 e2 r3 e3.
     processPlaceBid demo_lib Inr New (demo_action [])
       (demo_df [CHR 0x09, CHR ''b'', CHR 0x09, CHR ''c'', CHR ''b'', CHR ''A'']) = (r1, e1)
   \<and> processPlaceBid demo_lib Inr e1 (demo_action [])
       (demo_df [CHR 0x09, CHR ''d'', CHR 0x09, CHR ''c'', CHR ''d'', CHR ''B'']) = (r2, e2)
   \<and> processCloseAuction demo_lib e2 (demo_action []) (demo_df [CHR 0x09, CHR ''c'', CHR ''1'']) = (Some r3, e3)
   \<and> judge_bid ?K '''' r1 = Inr () \<and> judge_bid ?K '''' r2 = Inr ()
   \<and> judge_close ?K 100 66 r3 = Inr (100, sint (66 :: 64 word))"
    by (rule run_test_expects_extension_answers [OF start bids close _ _ _ net(1) _ net(2)])
      (simp_all add: demo_lib_def)
  then show ?thesis by auto
qed

end
