(* ===== verification/Inspection.thy ===== *)
theory Inspection
  imports Auction_Net Diag Support_Setup
begin

text \<open>
  The two inspection commands, \<^verbatim>\<open>tools/cmd/audit-deploy\<close> and \<^verbatim>\<open>tools/cmd/query-tee\<close>: what
  they read, print and survive. Printing is a call of the run; an error of the run is an exit
  with status 1, and a failed read is a printed line. Empty lines are left out.
\<close>

section \<open>Parameters\<close>

text \<open>
  The contract views the commands read, beside those of the tools' \<^term>\<open>outside\<close>: 32-byte
  values as bytes, addresses with the URL of their proxy.
\<close>

record audit_net =
  chain_id_at :: "history \<Rightarrow> int result"
  block_number_at :: "history \<Rightarrow> u64 result"
  code_bytes_at :: "history \<Rightarrow> address \<Rightarrow> bytes result"
  platforms_at :: "history \<Rightarrow> bytes list result"
  next_extension_id_at :: "history \<Rightarrow> int result"
  extension_owner_at :: "history \<Rightarrow> int \<Rightarrow> address result"
  code_hashes_at :: "history \<Rightarrow> int \<Rightarrow> bytes list result"
  key_types_at :: "history \<Rightarrow> int \<Rightarrow> bytes list result"
  extension_abi :: "unit result"
  pack_add_version :: "int \<Rightarrow> bytes \<Rightarrow> hash \<Rightarrow> hash \<Rightarrow> bytes result"
  active_urls_at :: "history \<Rightarrow> int \<Rightarrow> (address list \<times> string list) result"
  tee_record_at :: "history \<Rightarrow> address \<Rightarrow> (address \<times> address \<times> string) result"
  extension_of_at :: "history \<Rightarrow> address \<Rightarrow> int result"
  status_change_at :: "history \<Rightarrow> address \<Rightarrow> int result"
  policy_of_at :: "history \<Rightarrow> address \<Rightarrow> nat result"

text \<open>A read whose failure the command handles itself.\<close>

definition look :: "query \<Rightarrow> (history \<Rightarrow> 'a result) \<Rightarrow> (call, 'a result) io" where
  "look q answer = perform (Query q) (\<lambda>h. Inr (answer h))"

section \<open>Text of 32 bytes\<close>

text \<open>The loop steps over trailing zero bytes.\<close>

definition bytes32ToString :: "bytes \<Rightarrow> string" where
  "bytes32ToString b = trim_space (rev (dropWhile (\<lambda>c. c = CHR 0x00) (rev b)))"

text \<open>\<^verbatim>\<open>%-25s\<close> of an ASCII text, and \<^verbatim>\<open>common.Hash.Hex\<close>.\<close>

definition pad_right :: "nat \<Rightarrow> string \<Rightarrow> string" where
  "pad_right n s = s @ replicate (n - length s) (CHR '' '')"

definition hex32 :: "bytes \<Rightarrow> string" where
  "hex32 b = ''0x'' @ hex_encode b"

section \<open>audit-deploy\<close>

record audit_flags =
  au_Addresses :: string
  au_Rpc :: string
  au_Ext :: "64 word"
  au_CodeHash :: string
  au_Platform :: string
  au_From :: string
  au_Version :: string

definition audit_status :: "address \<Rightarrow> bytes result \<Rightarrow> string" where
  "audit_status a answer =
     (case answer of
        Inl err \<Rightarrow> ''ERROR '' @ err
      | Inr code \<Rightarrow>
          if a = 0 then ''ZERO ADDRESS''
          else if code = [] then ''NO CODE''
          else ''ok ('' @ show_nat (length code) @ '' bytes)'')"

definition audit_address ::
  "auction_net \<Rightarrow> audit_net \<Rightarrow> string \<times> address \<Rightarrow> (call, unit) io" where
  "audit_address K A e =
     (case e of (name, a) \<Rightarrow>
        bindE (look (Q_Code a) (\<lambda>h. code_bytes_at A h a)) (\<lambda>answer.
        println (''  '' @ pad_right 25 name @ '' '' @ address_hex K a @ ''   '' @ audit_status a answer)))"

text \<open>The lines of a list of 32-byte values, with their text where \<open>named\<close>.\<close>

definition print_values :: "(nat \<Rightarrow> bool) \<Rightarrow> bool \<Rightarrow> string \<Rightarrow> bytes list \<Rightarrow> (call, unit) io" where
  "print_values isprint named title bs =
     bindE (println (''  '' @ title @ '' ('' @ show_nat (length bs) @ ''):'')) (\<lambda>_.
     for_each (\<lambda>b. println (''    '' @ hex32 b @
         (if named then ''   '' @ go_quote isprint (bytes32ToString b) else ''''))) bs)"

definition audit_registry ::
  "auction_net \<Rightarrow> audit_net \<Rightarrow> (nat \<Rightarrow> bool) \<Rightarrow> address \<Rightarrow> (call, unit) io" where
  "audit_registry K A isprint diamond =
     bindE (look (Q_Extensions ''getSystemSupportedPlatforms'' None) (platforms_at A)) (\<lambda>plats.
     bindE (println (''=== ExtensionManager facet @ FlareTeeManager '' @ address_hex K diamond @ '' ==='')) (\<lambda>_.
     bindE (case plats of
              Inl perr \<Rightarrow> println (''  getSystemSupportedPlatforms ERROR: '' @ perr)
            | Inr ps \<Rightarrow> print_values isprint True ''systemSupportedPlatforms'' ps) (\<lambda>_.
     bindE (look (Q_Extensions ''nextPublicExtensionId'' None) (next_extension_id_at A)) (\<lambda>cnt.
       case cnt of
         Inr n \<Rightarrow> println (''  nextPublicExtensionId: '' @ show_int n)
       | Inl _ \<Rightarrow> ret ()))))"

definition audit_extension ::
  "auction_net \<Rightarrow> audit_net \<Rightarrow> (nat \<Rightarrow> bool) \<Rightarrow> int \<Rightarrow> (call, unit) io" where
  "audit_extension K A isprint eid =
     bindE (println (''=== Extension id='' @ show_int eid @ '' ==='')) (\<lambda>_.
     bindE (look (Q_Extensions ''getExtensionOwner'' (Some eid)) (\<lambda>h. extension_owner_at A h eid)) (\<lambda>owner.
     bindE (println (case owner of
              Inl err \<Rightarrow> ''  getExtensionOwner ERROR: '' @ err
            | Inr a \<Rightarrow> ''  owner: '' @ address_hex K a)) (\<lambda>_.
     bindE (look (Q_Extensions ''getSupportedCodeHashes'' (Some eid)) (\<lambda>h. code_hashes_at A h eid)) (\<lambda>ch.
     bindE (case ch of
              Inl err \<Rightarrow> println (''  getSupportedCodeHashes ERROR: '' @ err)
            | Inr hs \<Rightarrow> print_values isprint False ''supportedCodeHashes'' hs) (\<lambda>_.
     bindE (look (Q_Extensions ''getSupportedKeyTypes'' (Some eid)) (\<lambda>h. key_types_at A h eid)) (\<lambda>kt.
       case kt of
         Inr ks \<Rightarrow> print_values isprint True ''supportedKeyTypes'' ks
       | Inl _ \<Rightarrow> ret ()))))))"

text \<open>The replay: the contracts are searched in their own order, the text is a finding.\<close>

definition audit_sources :: "string list" where
  "audit_sources = [''ExtensionManager'', ''MachineManager'', ''Verification'']"

definition replay_finding :: "outside \<Rightarrow> rpc_error \<Rightarrow> diag_finding" where
  "replay_finding W callErr =
     (let revertData = ExtractRevertData W (Some callErr);
          selector = take 4 revertData;
          by_selector = (case match_in_abis W audit_sources revertData of
              Some f \<Rightarrow> f | None \<Rightarrow> Unknown_Selector selector revertData) in
      if length revertData < 4 then No_Revert_Data (err_Text callErr)
      else if selector = error_string_selector
      then (case unpack_revert W revertData of Inr reason \<Rightarrow> Revert_String reason | Inl _ \<Rightarrow> by_selector)
      else by_selector)"

definition replay_text :: "(nat \<Rightarrow> bool) \<Rightarrow> bytes \<Rightarrow> diag_finding \<Rightarrow> string" where
  "replay_text isprint revertData f =
     (case f of
        No_Abi err \<Rightarrow> ''  load ABI: '' @ err
      | No_Calldata err \<Rightarrow> ''  pack: '' @ err
      | Call_Succeeded \<Rightarrow> ''  eth_call succeeded '' @ em_dash @ '' tx-time-only revert (gas/state race?)''
      | No_Revert_Data err \<Rightarrow> ''  no/short revert data: '' @ err
      | Data_Too_Short _ \<Rightarrow> ''  no/short revert data: ''
      | Revert_String reason \<Rightarrow> ''  revert reason (string): '' @ go_quote isprint reason
      | Custom_Error src errName (Inl err) \<Rightarrow> ''  revert -> '' @ src @ ''.'' @ errName @
          '' (unpack failed: '' @ err @ '') data=0x'' @ hex_encode revertData
      | Custom_Error src errName (Inr args) \<Rightarrow> ''  revert -> '' @ src @ ''.'' @ errName @ args
      | Unknown_Selector selector full \<Rightarrow> ''  revert with unknown selector 0x'' @ hex_encode selector @
          '' (full: 0x'' @ hex_encode full @ '')'')"

definition replayAddTeeVersion ::
  "outside \<Rightarrow> audit_net \<Rightarrow> (nat \<Rightarrow> bool) \<Rightarrow> address \<Rightarrow> address \<Rightarrow> int \<Rightarrow> string \<Rightarrow> hash \<Rightarrow> hash
     \<Rightarrow> (call, unit) io" where
  "replayAddTeeVersion W A isprint to from extID version codeHash platform =
     (case extension_abi A of
        Inl err \<Rightarrow> println (replay_text isprint [] (No_Abi err))
      | Inr _ \<Rightarrow>
          (case StringToBytes32 isprint version of
             Inl verr \<Rightarrow> println (''  version: '' @ verr)
           | Inr versionBytes \<Rightarrow>
               (case pack_add_version A extID versionBytes codeHash platform of
                  Inl err \<Rightarrow> println (replay_text isprint [] (No_Calldata err))
                | Inr calldata \<Rightarrow>
                    (let msg = \<lparr>msg_From = from, msg_To = Some to, msg_Value = 0, msg_Data = calldata\<rparr> in
                     bindE (perform (Call_Contract msg) (\<lambda>h. Inr (call_contract W h msg))) (\<lambda>answer.
                       case answer of
                         Inr _ \<Rightarrow> println (replay_text isprint [] Call_Succeeded)
                       | Inl callErr \<Rightarrow>
                           println (replay_text isprint (ExtractRevertData W (Some callErr))
                             (replay_finding W callErr)))))))"

definition audit_chain :: "audit_net \<Rightarrow> (call, unit) io" where
  "audit_chain A =
     bindE (relabel (\<lambda>err. ''chainId: '' @ err) (perform (Query Q_Chain_Id) (chain_id_at A))) (\<lambda>chainID.
     bindE (look Q_Block_Number (block_number_at A)) (\<lambda>bn.
     println (''Chain ID: '' @ show_int chainID @ ''   block: '' @
       show_nat (case bn of Inl _ \<Rightarrow> 0 | Inr n \<Rightarrow> unat n))))"

text \<open>\<^verbatim>\<open>*extID >= 0\<close> on the signed flag.\<close>

definition audit_details ::
  "outside \<Rightarrow> auction_net \<Rightarrow> audit_net \<Rightarrow> (nat \<Rightarrow> bool) \<Rightarrow> audit_flags \<Rightarrow> address \<Rightarrow> (call, unit) io" where
  "audit_details W K A isprint fl diamond =
     bindE (audit_registry K A isprint diamond) (\<lambda>_.
     bindE (if 0 \<le> sint (au_Ext fl) then audit_extension K A isprint (sint (au_Ext fl)) else ret ()) (\<lambda>_.
     if au_CodeHash fl \<noteq> '''' \<and> au_Platform fl \<noteq> '''' \<and> 0 \<le> sint (au_Ext fl)
     then bindE (println ''=== addTeeVersion eth_call replay (decoding revert) ==='') (\<lambda>_.
       replayAddTeeVersion W A isprint diamond (str_to_address W (au_From fl)) (sint (au_Ext fl))
         (au_Version fl) (str_to_hash W (au_CodeHash fl)) (str_to_hash W (au_Platform fl)))
     else ret ()))"

text \<open>The report, once the chain is known to answer.\<close>

definition audit_report ::
  "outside \<Rightarrow> setup_lib \<Rightarrow> auction_net \<Rightarrow> audit_net \<Rightarrow> (nat \<Rightarrow> bool) \<Rightarrow> audit_flags \<Rightarrow> Addresses
     \<Rightarrow> (call, unit) io" where
  "audit_report W L K A isprint fl addr =
     bindE (for_each (audit_address K A)
              [(''FlareTeeManager'', ad_FlareTeeManager addr),
               (''FlareSystemsManager'', ad_FlareSystemManager addr),
               (''Fdc2Hub'', ad_Fdc2Hub addr)]) (\<lambda>_.
     if ad_FlareTeeManager addr = 0 then ret ()
     else case bind_contract L ''ExtensionManager'' (ad_FlareTeeManager addr) of
         Inl err \<Rightarrow> println (''bind ExtensionManager: '' @ err)
       | Inr _ \<Rightarrow> audit_details W K A isprint fl (ad_FlareTeeManager addr))"

definition audit_main ::
  "outside \<Rightarrow> setup_lib \<Rightarrow> auction_net \<Rightarrow> audit_net \<Rightarrow> (nat \<Rightarrow> bool) \<Rightarrow> audit_flags \<Rightarrow> (call, unit) io" where
  "audit_main W L K A isprint fl =
     bindE (relabel (\<lambda>err. ''parse addresses: '' @ err) (ParseAddresses W L (au_Addresses fl))) (\<lambda>addr.
     bindE (relabel (\<lambda>err. ''dial: '' @ err) (lift_result (dial_node L (au_Rpc fl)))) (\<lambda>_.
     bindE (audit_chain A) (\<lambda>_. audit_report W L K A isprint fl addr)))"

section \<open>query-tee\<close>

text \<open>A missing URL makes the Go code panic.\<close>

fun print_machines :: "auction_net \<Rightarrow> (nat \<Rightarrow> bool) \<Rightarrow> nat \<Rightarrow> address list \<Rightarrow> string list \<Rightarrow> (call, unit) io" where
  "print_machines K isprint i [] urls = ret ()"
| "print_machines K isprint i (m # ids) [] = throw ''index out of range''"
| "print_machines K isprint i (m # ids) (u # urls) =
     bindE (println (''  '' @ show_nat i @ '': '' @ address_hex K m @ '' url='' @ go_quote isprint u)) (\<lambda>_.
     print_machines K isprint (Suc i) ids urls)"

definition list_active ::
  "auction_net \<Rightarrow> audit_net \<Rightarrow> (nat \<Rightarrow> bool) \<Rightarrow> int \<Rightarrow> (call, unit) io" where
  "list_active K A isprint ext =
     bindE (println (''=== Active TEEs for extensionId='' @ show_int ext @ '' ==='')) (\<lambda>_.
     bindE (look (Q_Active_Machines ext) (\<lambda>h. active_urls_at A h ext)) (\<lambda>out.
       case out of
         Inl err \<Rightarrow> println (''getActiveTeeMachines ERROR: '' @ err)
       | Inr (ids, urls) \<Rightarrow>
           bindE (print_machines K isprint 0 ids urls) (\<lambda>_.
           if ids = [] then println ''  (none)'' else ret ())))"

text \<open>One read of a machine and the line it prints.\<close>

definition show_read :: "string \<Rightarrow> query \<Rightarrow> (history \<Rightarrow> 'a result) \<Rightarrow> ('a \<Rightarrow> string) \<Rightarrow> (call, unit) io" where
  "show_read method q answer render =
     bindE (look q answer) (\<lambda>r.
     println (case r of
         Inl err \<Rightarrow> ''  '' @ method @ '' ERROR: '' @ err
       | Inr x \<Rightarrow> ''  '' @ method @ '': '' @ render x))"

definition query_record ::
  "auction_net \<Rightarrow> audit_net \<Rightarrow> (nat \<Rightarrow> bool) \<Rightarrow> address \<Rightarrow> (call, unit) io" where
  "query_record K A isprint i =
     bindE (look (Q_Tee_Machine i) (\<lambda>h. tee_record_at A h i)) (\<lambda>r.
       case r of
         Inl err \<Rightarrow> println (''  getTeeMachine ERROR: '' @ err)
       | Inr (teeId, proxyId, url) \<Rightarrow>
           bindE (println (''  getTeeMachine: teeId='' @ address_hex K teeId @ '' teeProxyId='' @
                    address_hex K proxyId @ '' url='' @ go_quote isprint url)) (\<lambda>_.
           if teeId = 0 then println ''  -> EMPTY/UNREGISTERED'' else ret ()))"

definition query_machine ::
  "outside \<Rightarrow> auction_net \<Rightarrow> audit_net \<Rightarrow> (nat \<Rightarrow> bool) \<Rightarrow> string \<Rightarrow> (call, unit) io" where
  "query_machine W K A isprint raw =
     (let i = str_to_address W raw in
      bindE (println (''=== TEE '' @ address_hex K i @ '' ==='')) (\<lambda>_.
      bindE (query_record K A isprint i) (\<lambda>_.
      bindE (show_read ''getTeeMachineStatus'' (Q_Machine_Status i) (\<lambda>h. machine_status_at W h i) show_nat) (\<lambda>_.
      bindE (show_read ''getTeeMachineOwner'' (Q_Machine_Owner i) (\<lambda>h. machine_owner_at W h i) (address_hex K)) (\<lambda>_.
      bindE (show_read ''getExtensionId'' (Q_Machine ''getExtensionId'' i) (\<lambda>h. extension_of_at A h i) show_int) (\<lambda>_.
      bindE (show_read ''getLastStatusChangeTs'' (Q_Machine ''getLastStatusChangeTs'' i)
               (\<lambda>h. status_change_at A h i) show_int) (\<lambda>_.
      show_read ''getInitialSigningPolicyId'' (Q_Machine ''getInitialSigningPolicyId'' i)
        (\<lambda>h. policy_of_at A h i) show_nat)))))))"

definition query_main ::
  "outside \<Rightarrow> setup_lib \<Rightarrow> auction_net \<Rightarrow> audit_net \<Rightarrow> (nat \<Rightarrow> bool) \<Rightarrow> string \<Rightarrow> string \<Rightarrow> 64 word
     \<Rightarrow> string list \<Rightarrow> (call, unit) io" where
  "query_main W L K A isprint rpc reg listExt args =
     bindE (relabel (\<lambda>err. ''dial: '' @ err) (lift_result (dial_node L rpc))) (\<lambda>_.
     bindE (relabel (\<lambda>err. ''bind: '' @ err)
              (lift_result (bind_contract L ''MachineManager'' (str_to_address W reg)))) (\<lambda>_.
     bindE (if 0 \<le> sint listExt then list_active K A isprint (sint listExt) else ret ()) (\<lambda>_.
     for_each (query_machine W K A isprint) args)))"

section \<open>Commands that go on\<close>

lemma run_relabel:
  "bindE (relabel f m) g h =
     (case m h of (Inl err, h') \<Rightarrow> (Inl (f err), h') | (Inr x, h') \<Rightarrow> g x h')"
  by (simp add: bindE_def relabel_def split: prod.split sum.split)


text \<open>\<open>goes_on m\<close>: whatever the outside answers, \<open>m\<close> ends without an error.\<close>

definition goes_on :: "(call, 'a) io \<Rightarrow> bool" where
  "goes_on m \<longleftrightarrow> (\<forall>h. \<exists>x. fst (m h) = Inr x)"

named_theorems goes_on_rules \<open>commands that survive every answer\<close>

lemma goes_on_ret [goes_on_rules]: "goes_on (ret x)"
  by (simp add: goes_on_def ret_def)

lemma goes_on_println [goes_on_rules]: "goes_on (println s)"
  by (simp add: goes_on_def println_def perform_def)

lemma goes_on_look [goes_on_rules]: "goes_on (look q answer)"
  by (simp add: goes_on_def look_def perform_def)

lemma goes_on_bind [goes_on_rules]: "goes_on m \<Longrightarrow> (\<And>x. goes_on (f x)) \<Longrightarrow> goes_on (bindE m f)"
  unfolding goes_on_def bindE_def by (auto split: prod.split sum.split) (metis fst_conv sum.distinct(1))+

lemma goes_on_if [goes_on_rules]: "goes_on m \<Longrightarrow> goes_on n \<Longrightarrow> goes_on (if b then m else n)"
  by simp

lemma goes_on_sum [goes_on_rules]:
  "(\<And>a. goes_on (f a)) \<Longrightarrow> (\<And>b. goes_on (g b)) \<Longrightarrow> goes_on (case x of Inl a \<Rightarrow> f a | Inr b \<Rightarrow> g b)"
  by (cases x) auto

lemma goes_on_prod [goes_on_rules]: "(\<And>a b. goes_on (f a b)) \<Longrightarrow> goes_on (case x of (a, b) \<Rightarrow> f a b)"
  by (cases x) auto

lemma goes_on_for_each [goes_on_rules]: "(\<And>x. goes_on (f x)) \<Longrightarrow> goes_on (for_each f xs)"
  by (induction xs) (auto intro: goes_on_rules)

lemma goes_on_call: "goes_on (perform c (\<lambda>h. Inr (answer h)))"
  by (simp add: goes_on_def perform_def)

lemma goes_on_lift: "goes_on (lift_result (Inr x))"
  by (simp add: goes_on_def lift_result_def)

lemma goes_on_outcome:
  "goes_on m \<Longrightarrow> (\<exists>err. fst (bindE p (\<lambda>x. m) h) = Inl err) \<longleftrightarrow> (\<exists>err. fst (p h) = Inl err)"
  unfolding goes_on_def bindE_def by (auto split: prod.split sum.split) (metis sum.distinct(1))

lemma goes_on_audit_details: "goes_on (audit_details W K A isprint fl d)"
  unfolding audit_details_def audit_registry_def audit_extension_def print_values_def
    replayAddTeeVersion_def Let_def
  by (intro goes_on_rules goes_on_call)

lemma goes_on_audit_address: "goes_on (audit_address K A e)"
  unfolding audit_address_def by (intro goes_on_rules)

lemma goes_on_query_machine: "goes_on (query_machine W K A isprint raw)"
  unfolding query_machine_def query_record_def show_read_def Let_def by (intro goes_on_rules)

section \<open>What the commands call\<close>

lemma only_look: "only harmless (look q answer)"
  unfolding look_def by (rule only_perform) simp

lemma only_replay: "only harmless (replayAddTeeVersion W A isprint t f e v c p)"
  unfolding replayAddTeeVersion_def Let_def
  by (intro only_rules only_println only_perform) simp

lemma only_audit_details: "only harmless (audit_details W K A isprint fl d)"
  unfolding audit_details_def audit_registry_def audit_extension_def print_values_def
  by (intro only_rules only_println only_look only_replay)

lemma only_print_machines: "only harmless (print_machines K isprint i ids urls)"
  by (induction K isprint i ids urls rule: print_machines.induct) (auto intro!: only_rules only_println)

section \<open>Properties\<close>

text \<open>
  Inspecting changes nothing: whatever the chain answers, \<^verbatim>\<open>audit-deploy\<close> and
  \<^verbatim>\<open>query-tee\<close> only read files, query the chain, simulate calls and print.
\<close>

theorem inspection_is_read_only:
  "(\<exists>cs. snd (audit_main W L K A isprint fl h) = h @ cs \<and> list_all harmless cs)
   \<and> (\<exists>cs. snd (query_main W L K A isprint rpc reg listExt args h) = h @ cs \<and> list_all harmless cs)"
proof -
  have "only harmless (audit_main W L K A isprint fl)"
    unfolding audit_main_def audit_report_def ParseAddresses_def os_ReadFile_def audit_chain_def audit_address_def
    by (intro only_rules only_perform only_println only_look only_audit_details) simp_all
  moreover have "only harmless (query_main W L K A isprint rpc reg listExt args)"
    unfolding query_main_def list_active_def query_machine_def query_record_def show_read_def Let_def
    by (intro only_rules only_println only_look only_print_machines)
  ultimately show ?thesis by (simp add: only_def)
qed

text \<open>
  \<^verbatim>\<open>audit-deploy\<close> exits with an error exactly when the addresses cannot be read, the node
  cannot be dialled, or the chain identifier cannot be fetched; every later failure, of any
  read of the chain or of the replay, is reported and the audit goes on to its end.
\<close>

theorem audit_exits_only_at_setup:
  "(\<exists>err. fst (audit_main W L K A isprint fl h) = Inl err) \<longleftrightarrow>
     (\<exists>err. fst (ParseAddresses W L (au_Addresses fl) h) = Inl err)
   \<or> (\<exists>err. dial_node L (au_Rpc fl) = Inl err)
   \<or> (\<exists>err. chain_id_at A (snd (ParseAddresses W L (au_Addresses fl) h)) = Inl err)"
proof -
  have rest: "goes_on (audit_report W L K A isprint fl addr)" for addr
    unfolding audit_report_def by (intro goes_on_rules goes_on_audit_address goes_on_audit_details)
  have chain: "(\<exists>err. fst (audit_chain A h') = Inl err) \<longleftrightarrow> (\<exists>err. chain_id_at A h' = Inl err)" for h'
    by (simp add: audit_chain_def look_def run_relabel_perform run_perform run_println split: sum.split)
  obtain r h1 where p: "ParseAddresses W L (au_Addresses fl) h = (r, h1)" by fastforce
  show ?thesis
  proof (cases r)
    case (Inl err)
    then show ?thesis using p by (simp add: audit_main_def run_relabel)
  next
    case (Inr addr)
    then have "fst (audit_main W L K A isprint fl h) =
        (case dial_node L (au_Rpc fl) of
           Inl err \<Rightarrow> Inl (''dial: '' @ err)
         | Inr _ \<Rightarrow> fst (bindE (audit_chain A) (\<lambda>_. audit_report W L K A isprint fl addr) h1))"
      using p by (simp add: audit_main_def run_relabel run_result split: sum.split)
    then show ?thesis using p Inr goes_on_outcome [OF rest [of addr], of "audit_chain A" h1] chain [of h1]
      by (auto split: sum.splits)
  qed
qed

text \<open>
  A version text survives its 32-byte form: when \<^verbatim>\<open>StringToBytes32\<close> accepts a text that
  neither starts nor ends with a blank or a byte outside printable ASCII, the result has 32
  bytes and \<^verbatim>\<open>bytes32ToString\<close> gives back the text.
\<close>

theorem version_text_reads_back:
  assumes "StringToBytes32 isprint v = Inr b" and "v = [] \<or> graphic (hd v) \<and> graphic (last v)"
  shows "length b = 32 \<and> bytes32ToString b = v"
proof -
  have b: "b = v @ replicate (32 - length v) (CHR 0x00)" "length v \<le> 32"
    using assms(1) by (auto simp: StringToBytes32_def split: if_splits)
  have "dropWhile (\<lambda>c. c = CHR 0x00) (replicate n (CHR 0x00) @ rev v) = rev v" for n
    using assms(2) by (induction n) (cases v rule: rev_cases, auto simp: graphic_def)
  then have "bytes32ToString b = trim_space v" by (simp add: bytes32ToString_def b(1))
  with b trim_space_ends [OF assms(2)] show ?thesis by simp
qed

lemma version_text_reads_back_witness:
  "bytes32ToString (''v0.1.0'' @ replicate 26 (CHR 0x00)) = ''v0.1.0''"
  using version_text_reads_back [of "\<lambda>_. True" "''v0.1.0''" "''v0.1.0'' @ replicate 26 (CHR 0x00)"]
  by (simp add: StringToBytes32_def graphic_def)

end
