(* ===== verification/Deploy_Cmds.thy ===== *)
theory Deploy_Cmds
  imports Instructions Support_Setup Checks
begin

text \<open>
  The commands that deploy and start: \<^verbatim>\<open>tools/cmd/deploy-contract\<close>, \<^verbatim>\<open>go/cmd/start-tee\<close>,
  \<^verbatim>\<open>tools/cmd/start-proxy\<close> and the ports of \<^verbatim>\<open>go/cmd/docker\<close>, as sequential programs; whether
  the extension's server could bind its port is an input. The processes around them, with
  their goroutines and signals, are in \<^verbatim>\<open>Service_Life\<close>.
\<close>

section \<open>deploy-contract\<close>

text \<open>The checks before a deployment, in order: the first error ends the command.\<close>

definition preflight ::
  "outside \<Rightarrow> world \<Rightarrow> chain_client \<Rightarrow> tool_support \<Rightarrow> unit result" where
  "preflight W w client s =
     (case AddressNotZero w (su_FlareTeeManager s) ''FlareTeeManager'' of
        Some err \<Rightarrow> Inl err
      | None \<Rightarrow>
          (case AddressHasCode w (Some client) (su_FlareTeeManager s) ''FlareTeeManager'' of
             Some err \<Rightarrow> Inl err
           | None \<Rightarrow>
               (case KeyHasFunds w (Some client) (key_address W (su_Prv s)) MinDeployBalance of
                  Some err \<Rightarrow> Inl err
                | None \<Rightarrow> Inr ())))"

text \<open>The results of creating directories and writing the file are ignored.\<close>

definition write_address ::
  "auction_net \<Rightarrow> outside \<Rightarrow> string \<Rightarrow> address \<Rightarrow> (call, unit) io" where
  "write_address K W outFile a =
     (if outFile = '''' then ret ()
      else bindE (perform (Make_Parents outFile) (\<lambda>_. Inr ())) (\<lambda>_.
        bindE (attempt (perform (Write_File outFile (address_hex K a))
          (\<lambda>h. write_file W h outFile (address_hex K a)))) (\<lambda>_. ret ())))"

definition deploy_main ::
  "auction_net \<Rightarrow> outside \<Rightarrow> setup_lib \<Rightarrow> world \<Rightarrow> chain_client \<Rightarrow> string \<Rightarrow> string \<Rightarrow> string \<Rightarrow> bool
     \<Rightarrow> (call, unit) io" where
  "deploy_main K W L w client path url outFile preflightOnly =
     bindE (DefaultSupport W L path url) (\<lambda>s.
     bindE (lift_result (preflight W w client s)) (\<lambda>_.
     if preflightOnly then ret ()
     else
       bindE (DeployInstructionSender K W s) (\<lambda>a.
       bindE (write_address K W outFile a) (\<lambda>_.
       println (address_hex K a)))))"

section \<open>start-tee\<close>

definition ExtConfigurationPort :: int where
  "ExtConfigurationPort = 5501"

definition ExtProxyInternalPort :: int where
  "ExtProxyInternalPort = 6663"

definition default_owner_key :: string where
  "default_owner_key = ''804b01a8c27a65cc694a867be76edae3ccce7a7161cda1f67a8349df696d2207''"

text \<open>
  The environment is part of the state. \<open>load\<close> stands for \<^verbatim>\<open>godotenv.Load\<close> on one file, which
  leaves the environment alone when it fails; without an argument it loads \<^verbatim>\<open>.env\<close>.
\<close>

type_synonym env_loader = "string \<Rightarrow> (string \<Rightarrow> string) \<Rightarrow> (string \<Rightarrow> string) result"

definition loadEnv ::
  "env_loader \<Rightarrow> string \<Rightarrow> (string \<Rightarrow> string) \<Rightarrow> (call, string \<Rightarrow> string) io" where
  "loadEnv load rootEnv env =
     (case load rootEnv env of
        Inr env1 \<Rightarrow> ret env1
      | Inl _ \<Rightarrow>
          (case load ''.env'' env of
             Inr env1 \<Rightarrow> ret env1
           | Inl err \<Rightarrow>
               bindE (println (''Warning: Error loading .env file: '' @ err)) (\<lambda>_. ret env)))"

text \<open>The address returned is that of the variable as it was read at the start.\<close>

definition deployment_key :: "outside \<Rightarrow> (string \<Rightarrow> string) \<Rightarrow> private_key result" where
  "deployment_key W env =
     (let privKeyString = env ''DEPLOYMENT_PRIVATE_KEY'' in
      if privKeyString = ''''
      then (case hex_to_key W default_owner_key of
              Inl _ \<Rightarrow> Inl ''cannot parse default private key''
            | Inr k \<Rightarrow> Inr k)
      else (case hex_to_key W
                  (if has_prefix privKeyString ''0x'' \<or> has_prefix privKeyString ''0X''
                   then drop 2 privKeyString else privKeyString) of
              Inl err \<Rightarrow> Inl (''Error: '' @ err)
            | Inr k \<Rightarrow> Inr k))"

definition setOwnerAddress ::
  "auction_net \<Rightarrow> outside \<Rightarrow> (string \<Rightarrow> string) \<Rightarrow> (address \<times> (string \<Rightarrow> string)) result" where
  "setOwnerAddress K W env =
     (let owner = env ''INITIAL_OWNER'' in
      if owner = ''''
      then (case deployment_key W env of
              Inl err \<Rightarrow> Inl err
            | Inr k \<Rightarrow> Inr (str_to_address W owner,
                env(''INITIAL_OWNER'' := address_hex K (key_address W k))))
      else Inr (str_to_address W owner, env))"

definition setProxyURL :: "outside \<Rightarrow> int \<Rightarrow> int \<Rightarrow> (call, unit) io" where
  "setProxyURL W configurationPort proxyPort =
     bindE (lift_result (marshal_proxy_request W (''http://localhost:'' @ show_int proxyPort))) (\<lambda>body.
     let url = ''http://localhost:'' @ show_int configurationPort @ ''/proxy'' in
     bindE (perform (Http_Post url body) (\<lambda>h. post_url W h url body)) (\<lambda>status.
       if status \<noteq> 200 then throw (''unexpected status code: '' @ show_nat status) else ret ()))"

definition runExtension :: "outside \<Rightarrow> string option \<Rightarrow> (call, unit) io" where
  "runExtension W bind_error =
     (case bind_error of
        Some err \<Rightarrow> throw (''extension server failed to start: '' @ err)
      | None \<Rightarrow> relabel (\<lambda>err. ''Error: '' @ err) (setProxyURL W ExtConfigurationPort ExtProxyInternalPort))"

text \<open>The result is the environment the node starts with; \<open>rootEnv\<close> is the path of the project's.\<close>

definition start_tee_main ::
  "auction_net \<Rightarrow> outside \<Rightarrow> env_loader \<Rightarrow> string \<Rightarrow> (string \<Rightarrow> string) \<Rightarrow> string \<Rightarrow> string option
     \<Rightarrow> (call, string \<Rightarrow> string) io" where
  "start_tee_main K W load rootEnv env extensionID bind_error =
     bindE (loadEnv load rootEnv env) (\<lambda>env0.
     bindE (lift_result (setOwnerAddress K W env0)) (\<lambda>(a, env1).
     let env2 = (if extensionID \<noteq> '''' then env1(''EXTENSION_ID'' := extensionID) else env1) in
     bindE (runExtension W bind_error) (\<lambda>_. ret env2)))"

section \<open>start-proxy\<close>

text \<open>\<open>root\<close> is the cleaned path \<^verbatim>\<open>projectRoot()\<close>, \<open>exists\<close> the outcome of \<^verbatim>\<open>os.Stat\<close>.\<close>

definition findProxyConfig :: "(string \<Rightarrow> string) \<Rightarrow> string \<Rightarrow> (string \<Rightarrow> bool) \<Rightarrow> string" where
  "findProxyConfig env root exists =
     (if env ''PROXY_CONFIG'' \<noteq> '''' then env ''PROXY_CONFIG''
      else let candidate = root @ ''/config/proxy/extension_proxy.toml'' in
        if exists candidate then candidate else ''./config/proxy/extension_proxy.toml'')"

text \<open>\<open>external_port\<close> stands for \<^verbatim>\<open>proxyConfig.Read\<close> and the field that is used of it.\<close>

definition logProxyAndTeeIds ::
  "outside \<Rightarrow> (string \<Rightarrow> string result) \<Rightarrow> string \<Rightarrow> (call, address \<times> address) io" where
  "logProxyAndTeeIds W external_port configFile =
     bindE (relabel (\<lambda>err. ''failed to read proxy config: '' @ err)
              (lift_result (external_port configFile))) (\<lambda>port.
     relabel (\<lambda>err. ''failed to extract teeID and proxyID: '' @ err)
       (GetTeeProxyID W (''http://localhost:'' @ port)))"

definition loadProxyEnv ::
  "env_loader \<Rightarrow> string \<Rightarrow> (string \<Rightarrow> string) \<Rightarrow> (call, string \<Rightarrow> string) io" where
  "loadProxyEnv load root env = loadEnv load (root @ ''/.env'') env"

text \<open>
  \<open>init\<close> stands for the proxy that \<^verbatim>\<open>initProxy.Init\<close> starts. That its identity cannot be read is
  only logged; the command then runs until a signal.
\<close>

definition start_proxy_main ::
  "outside \<Rightarrow> env_loader \<Rightarrow> string \<Rightarrow> (string \<Rightarrow> bool) \<Rightarrow> (string \<Rightarrow> string result)
     \<Rightarrow> (string \<Rightarrow> (call, unit) io) \<Rightarrow> (string \<Rightarrow> string) \<Rightarrow> (call, unit) io" where
  "start_proxy_main W load root exists external_port init env =
     bindE (loadProxyEnv load root env) (\<lambda>env1.
     let proxyConfigFile = findProxyConfig env1 root exists in
     bindE (init proxyConfigFile) (\<lambda>_.
     bindE (attempt (logProxyAndTeeIds W external_port proxyConfigFile)) (\<lambda>_. ret ())))"

section \<open>docker\<close>

definition intEnv :: "(string \<Rightarrow> string) \<Rightarrow> string \<Rightarrow> int \<Rightarrow> int" where
  "intEnv env key fallback = (case atoi (env key) of Some v \<Rightarrow> v | None \<Rightarrow> fallback)"

text \<open>Why the combined process ends: a server error at the start or later, or a signal.\<close>

datatype docker_event = Signal | Server_Error string

definition docker_main :: "string option \<Rightarrow> docker_event \<Rightarrow> unit result" where
  "docker_main bind_error ev =
     (case bind_error of
        Some err \<Rightarrow> Inl (''extension server failed to start: '' @ err)
      | None \<Rightarrow>
          (case ev of
             Signal \<Rightarrow> Inr ()
           | Server_Error err \<Rightarrow> Inl (''extension server error: '' @ err)))"

section \<open>Properties\<close>

text \<open>
  What \<^verbatim>\<open>deploy-contract\<close> may do to the chain and the file system: one deployment, by a
  deployer with enough funds, pointing both registries at a contract with code; and the
  output file.
\<close>

definition deploy_call ::
  "outside \<Rightarrow> chain_client \<Rightarrow> string \<Rightarrow> call \<Rightarrow> bool" where
  "deploy_call W client outFile c \<longleftrightarrow>
     harmless c
   \<or> (\<exists>s code balance.
        c = Send (key_address W (su_Prv s)) 0 (Tx_Deploy_Auction (su_FlareTeeManager s) (su_FlareTeeManager s))
      \<and> su_FlareTeeManager s \<noteq> 0
      \<and> code_at client (su_FlareTeeManager s) = Inr code \<and> code \<noteq> []
      \<and> balance_at client (key_address W (su_Prv s)) = Inr balance \<and> 10000000000000000 \<le> balance)
   \<or> c = Make_Parents outFile \<or> (\<exists>b. c = Write_File outFile b)"

lemma deploy_call_harmless [simp]: "harmless c \<Longrightarrow> deploy_call W client f c"
  by (simp add: deploy_call_def)

lemma preflight_ok:
  "preflight W w client s = Inr u \<Longrightarrow>
     su_FlareTeeManager s \<noteq> 0
     \<and> (\<exists>code. code_at client (su_FlareTeeManager s) = Inr code \<and> code \<noteq> [])
     \<and> (\<exists>balance. balance_at client (key_address W (su_Prv s)) = Inr balance
          \<and> 10000000000000000 \<le> balance)"
  by (auto simp: preflight_def AddressNotZero_def AddressHasCode_def KeyHasFunds_def MinDeployBalance_def
      split: option.splits sum.splits if_splits)

lemma only_setup: "only harmless (DefaultSupport W L path url)"
  unfolding DefaultSupport_def ReadAddresses_def ParseAddresses_def os_ReadFile_def
  by (intro only_rules only_perform) simp_all

text \<open>
  C40. \<^verbatim>\<open>deploy-contract\<close> deploys only after its checks: it sends nothing but the deployment of
  the auction contract on a registry that is not the zero address and has code, by a deployer
  that holds the minimum balance; with \<^verbatim>\<open>-preflight-only\<close> it sends and writes nothing.
\<close>

theorem deploy_only_after_preflight:
  "\<exists>cs. snd (deploy_main K W L w client path url outFile preflightOnly h) = h @ cs
     \<and> list_all (if preflightOnly then harmless else deploy_call W client outFile) cs"
proof -
  have dep: "only (deploy_call W client outFile) (DeployInstructionSender K W s)"
    if "preflight W w client s = Inr u" for s u
    unfolding DeployInstructionSender_def
    by (intro only_rules only_submit_or only_mined) (use preflight_ok [OF that] in \<open>auto simp: deploy_call_def\<close>)
  have out: "only (deploy_call W client outFile) (write_address K W outFile a)" for a
    unfolding write_address_def by (intro only_rules only_perform) (simp_all add: deploy_call_def)
  have "only (if preflightOnly then harmless else deploy_call W client outFile)
      (deploy_main K W L w client path url outFile preflightOnly)"
    unfolding deploy_main_def
    by (cases preflightOnly)
      (auto intro!: only_rules only_mono [OF only_setup] only_lift_bind dep out
        only_mono [OF only_println])
  then show ?thesis by (simp add: only_def)
qed

lemma loadEnv_result:
  "\<exists>h'. loadEnv load rootEnv env h = (Inr (case load rootEnv env of Inr e \<Rightarrow> e
     | Inl _ \<Rightarrow> (case load ''.env'' env of Inr e \<Rightarrow> e | Inl _ \<Rightarrow> env)), h')"
  by (simp add: loadEnv_def println_def io_defs split: sum.split)

text \<open>
  \<^verbatim>\<open>start-tee\<close> decides the owner after the \<^verbatim>\<open>.env\<close> file: when it comes up, the node has the owner
  of the loaded environment if that names one, else the address of the deployment key, and the
  extension id of the flag if that was given; nothing else of the loaded environment changed.
\<close>

theorem start_tee_environment:
  assumes "fst (start_tee_main K W load rootEnv env extensionID bind_error h) = Inr env'"
  defines "env0 \<equiv> (case load rootEnv env of Inr e \<Rightarrow> e
    | Inl _ \<Rightarrow> (case load ''.env'' env of Inr e \<Rightarrow> e | Inl _ \<Rightarrow> env))"
  shows "bind_error = None
    \<and> (if env0 ''INITIAL_OWNER'' \<noteq> '''' then env' ''INITIAL_OWNER'' = env0 ''INITIAL_OWNER''
       else \<exists>k. deployment_key W env0 = Inr k
          \<and> env' ''INITIAL_OWNER'' = address_hex K (key_address W k))
    \<and> env' ''EXTENSION_ID'' = (if extensionID \<noteq> '''' then extensionID else env0 ''EXTENSION_ID'')
    \<and> (\<forall>v. v \<noteq> ''INITIAL_OWNER'' \<longrightarrow> v \<noteq> ''EXTENSION_ID'' \<longrightarrow> env' v = env0 v)"
proof -
  obtain h' where run: "start_tee_main K W load rootEnv env extensionID bind_error h = (Inr env', h')"
    using assms(1) by (cases "start_tee_main K W load rootEnv env extensionID bind_error h") auto
  obtain h1 where "loadEnv load rootEnv env h = (Inr env0, h1)"
    using loadEnv_result unfolding env0_def by blast
  with run obtain a env1 h2 where owner: "setOwnerAddress K W env0 = Inr (a, env1)"
    and "runExtension W bind_error h1 = (Inr (), h2)"
    and env': "env' = (if extensionID \<noteq> '''' then env1(''EXTENSION_ID'' := extensionID) else env1)"
    by (auto simp: start_tee_main_def succeeded Let_def)
  then have "bind_error = None" by (auto simp: runExtension_def succeeded split: option.splits)
  with owner env' show ?thesis
    by (auto simp: setOwnerAddress_def Let_def split: sum.splits if_splits)
qed

text \<open>Failing to read the identities never ends \<^verbatim>\<open>start-proxy\<close>: only the proxy itself can.\<close>

theorem start_proxy_ends_with_proxy:
  "fst (start_proxy_main W load root exists external_port init env h) =
     fst (bindE (loadProxyEnv load root env) (\<lambda>env1. init (findProxyConfig env1 root exists)) h)"
  by (simp add: start_proxy_main_def loadProxyEnv_def bindE_def attempt_def ret_def Let_def
      split: prod.split sum.split)

text \<open>
  The owner that \<^verbatim>\<open>start-tee\<close> sets by default is the tools' deployer: without
  \<^verbatim>\<open>INITIAL_OWNER\<close>, and on the same environment and default key, it stores the address of the
  key \<^verbatim>\<open>DefaultPrivateKey\<close> chooses. The address it returns, which its caller ignores, is that
  of the empty text.
\<close>

theorem default_owner_is_deployer:
  assumes "env ''INITIAL_OWNER'' = ''''" and "loaded_env L = env"
    and "hex_to_key W default_owner_key = Inr (dev_key L)" and "DefaultPrivateKey W L = Inr k"
  shows "setOwnerAddress K W env =
     Inr (str_to_address W '''', env(''INITIAL_OWNER'' := address_hex K (key_address W k)))"
  using assms by (auto simp: setOwnerAddress_def deployment_key_def DefaultPrivateKey_def Let_def
      split: if_splits)

lemma default_owner_is_deployer_witness:
  "\<forall>K. setOwnerAddress K demo_outside (\<lambda>v. if v = ''DEPLOYMENT_PRIVATE_KEY'' then ''0xab'' else '''') =
     Inr (12, (\<lambda>v. if v = ''DEPLOYMENT_PRIVATE_KEY'' then ''0xab'' else '''')
       (''INITIAL_OWNER'' := address_hex K 2))"
  using default_owner_is_deployer [of "\<lambda>v. if v = ''DEPLOYMENT_PRIVATE_KEY'' then ''0xab'' else ''''"
      "\<lparr>loaded_env = (\<lambda>v. if v = ''DEPLOYMENT_PRIVATE_KEY'' then ''0xab'' else ''''), dev_key = 2,
        unmarshal_addresses = (\<lambda>_. Inr no_addresses), unmarshal_raw = (\<lambda>_. Inr []),
        dial_node = (\<lambda>_. Inr ()), bind_contract = (\<lambda>_ _. Inr ()), node_chain_id = Inr 1\<rparr>"
      demo_outside 2]
  by (simp add: demo_outside_def DefaultPrivateKey_def)

end
