(* ===== verification/Service_Life.thy ===== *)
theory Service_Life
  imports Deploy_Cmds
begin

text \<open>
  The processes that run the extension: its own entry point (\<^verbatim>\<open>go/cmd/main.go\<close>), and the two
  that start it in a goroutine (\<^verbatim>\<open>go/pkg/server\<close>) beside the TEE node, \<^verbatim>\<open>go/cmd/docker\<close> and
  \<^verbatim>\<open>go/cmd/start-tee\<close>. A process is a state machine over its goroutines; every step needs the
  process to be running. \<^verbatim>\<open>ListenAndServe\<close> blocks until it fails or \<^verbatim>\<open>Shutdown\<close> was called, and
  then returns at once; \<^verbatim>\<open>Shutdown\<close> waits for the requests that are being handled.
\<close>

section \<open>The entry point\<close>

definition ErrServerClosed :: string where
  "ErrServerClosed = ''http: Server closed''"

datatype main_state = Main_Starting | Main_Serving | Main_Returned string

datatype closer_state = Closer_Waiting | Closer_Draining

record entry_process =
  ep_main :: main_state
  ep_closer :: closer_state
  ep_signal :: bool
  ep_active :: nat
  ep_exit :: "nat option"

definition entry_start :: entry_process where
  "entry_start = \<lparr>ep_main = Main_Starting, ep_closer = Closer_Waiting, ep_signal = False,
     ep_active = 0, ep_exit = None\<rparr>"

text \<open>How \<^verbatim>\<open>main\<close> ends when \<^verbatim>\<open>ListenAndServe\<close> has returned an error, which it always does.\<close>

definition entry_status :: "string \<Rightarrow> nat" where
  "entry_status err = (if err \<noteq> ErrServerClosed then 1 else 0)"

text \<open>
  \<open>timeouts\<close> says whether the time limit of the shutdown may pass. The channel of signals holds
  one; the goroutine that reads it shuts the server down and exits.
\<close>

inductive entry_step :: "bool \<Rightarrow> entry_process \<Rightarrow> entry_process \<Rightarrow> bool" for timeouts where
  notified: "ep_exit p = None \<Longrightarrow> entry_step timeouts p (p\<lparr>ep_signal := True\<rparr>)"
| shutdown: "ep_exit p = None \<Longrightarrow> ep_closer p = Closer_Waiting \<Longrightarrow> ep_signal p \<Longrightarrow>
    entry_step timeouts p (p\<lparr>ep_closer := Closer_Draining, ep_signal := False\<rparr>)"
| drained: "ep_exit p = None \<Longrightarrow> ep_closer p = Closer_Draining \<Longrightarrow> ep_active p = 0 \<Longrightarrow>
    entry_step timeouts p (p\<lparr>ep_exit := Some 0\<rparr>)"
| timed_out: "timeouts \<Longrightarrow> ep_exit p = None \<Longrightarrow> ep_closer p = Closer_Draining \<Longrightarrow>
    entry_step timeouts p (p\<lparr>ep_exit := Some 0\<rparr>)"
| listens: "ep_exit p = None \<Longrightarrow> ep_main p = Main_Starting \<Longrightarrow> ep_closer p = Closer_Waiting \<Longrightarrow>
    entry_step timeouts p (p\<lparr>ep_main := Main_Serving\<rparr>)"
| accepted: "ep_exit p = None \<Longrightarrow> ep_main p = Main_Serving \<Longrightarrow> ep_closer p = Closer_Waiting \<Longrightarrow>
    entry_step timeouts p (p\<lparr>ep_active := ep_active p + 1\<rparr>)"
| handled: "ep_exit p = None \<Longrightarrow> 0 < ep_active p \<Longrightarrow>
    entry_step timeouts p (p\<lparr>ep_active := ep_active p - 1\<rparr>)"
| fails: "ep_exit p = None \<Longrightarrow> ep_main p = Main_Starting \<or> ep_main p = Main_Serving \<Longrightarrow>
    err \<noteq> ErrServerClosed \<Longrightarrow> entry_step timeouts p (p\<lparr>ep_main := Main_Returned err\<rparr>)"
| closed: "ep_exit p = None \<Longrightarrow> ep_main p = Main_Starting \<or> ep_main p = Main_Serving \<Longrightarrow>
    ep_closer p = Closer_Draining \<Longrightarrow>
    entry_step timeouts p (p\<lparr>ep_main := Main_Returned ErrServerClosed\<rparr>)"
| ends: "ep_exit p = None \<Longrightarrow> ep_main p = Main_Returned err \<Longrightarrow>
    entry_step timeouts p (p\<lparr>ep_exit := Some (entry_status err)\<rparr>)"

inductive entry_reachable :: "bool \<Rightarrow> entry_process \<Rightarrow> bool" for timeouts where
  start: "entry_reachable timeouts entry_start"
| step: "entry_reachable timeouts p \<Longrightarrow> entry_step timeouts p p' \<Longrightarrow> entry_reachable timeouts p'"

definition entry_ok :: "entry_process \<Rightarrow> bool" where
  "entry_ok p \<longleftrightarrow>
     (ep_main p = Main_Returned ErrServerClosed \<longrightarrow> ep_closer p = Closer_Draining)
   \<and> (\<forall>c. ep_exit p = Some c \<longrightarrow> c = 0 \<and> ep_closer p = Closer_Draining
        \<or> c = 1 \<and> (\<exists>err. err \<noteq> ErrServerClosed \<and> ep_main p = Main_Returned err))"

lemma entry_ok_step: "entry_step timeouts p p' \<Longrightarrow> entry_ok p \<Longrightarrow> entry_ok p'"
  by (induction rule: entry_step.induct) (auto simp: entry_ok_def entry_status_def)

text \<open>
  The entry point exits with 1 exactly when listening or serving failed, and with 0 only after
  a signal started the shutdown.
\<close>

theorem entry_exit_codes:
  assumes "entry_reachable timeouts p" and "ep_exit p = Some c"
  shows "c = 0 \<and> ep_closer p = Closer_Draining
     \<or> c = 1 \<and> (\<exists>err. err \<noteq> ErrServerClosed \<and> ep_main p = Main_Returned err)"
proof -
  have "entry_ok p" using assms(1)
    by (induction rule: entry_reachable.induct)
      (blast intro: entry_ok_step | simp add: entry_ok_def entry_start_def)+
  then show ?thesis using assms(2) by (simp add: entry_ok_def)
qed

definition serving :: "nat \<Rightarrow> entry_process" where
  "serving n = entry_start\<lparr>ep_main := Main_Serving, ep_active := n\<rparr>"

lemma serving_reachable: "entry_reachable timeouts (serving n)"
proof (induction n)
  case 0
  have "entry_step timeouts entry_start (entry_start\<lparr>ep_main := Main_Serving\<rparr>)"
    by (rule entry_step.listens) (simp_all add: entry_start_def)
  then show ?case using entry_reachable.start entry_reachable.step
    by (fastforce simp: serving_def entry_start_def)
next
  case (Suc n)
  have "entry_step timeouts (serving n) ((serving n)\<lparr>ep_active := ep_active (serving n) + 1\<rparr>)"
    by (rule entry_step.accepted) (simp_all add: serving_def entry_start_def)
  with Suc show ?case by (auto simp: serving_def intro: entry_reachable.step)
qed

text \<open>
  C27. The shutdown is not graceful: \<^verbatim>\<open>ListenAndServe\<close> returns as soon as the shutdown begins,
  \<^verbatim>\<open>main\<close> returns with it, and the process exits with 0 while any number of requests is still
  being handled, although the time limit of the shutdown has not passed.
\<close>

theorem shutdown_drops_requests:
  "\<exists>p. entry_reachable False p \<and> ep_exit p = Some 0 \<and> ep_active p = n"
proof -
  let ?p = "serving n"
  let ?p1 = "?p\<lparr>ep_signal := True\<rparr>"
  let ?p2 = "?p1\<lparr>ep_closer := Closer_Draining, ep_signal := False\<rparr>"
  let ?p3 = "?p2\<lparr>ep_main := Main_Returned ErrServerClosed\<rparr>"
  have "entry_reachable False ?p1"
    by (rule entry_reachable.step [OF serving_reachable entry_step.notified])
      (simp add: serving_def entry_start_def)
  then have "entry_reachable False ?p2"
    by (rule entry_reachable.step [OF _ entry_step.shutdown]) (simp_all add: serving_def entry_start_def)
  then have "entry_reachable False ?p3"
    by (rule entry_reachable.step [OF _ entry_step.closed]) (simp_all add: serving_def entry_start_def)
  then have "entry_reachable False (?p3\<lparr>ep_exit := Some (entry_status ErrServerClosed)\<rparr>)"
    by (rule entry_reachable.step [OF _ entry_step.ends]) (simp_all add: serving_def entry_start_def)
  then show ?thesis
    by (intro exI conjI) (assumption, simp_all add: serving_def entry_status_def)
qed

section \<open>The extension's server in a goroutine\<close>

text \<open>
  \<^verbatim>\<open>StartExtension\<close>: the server and the channel its failure is sent to, which holds one error.
  What the starting process does is in \<open>sv_phase\<close>; the pause before the first look at the
  channel is the phase \<open>Settling\<close>, which may last for any number of steps of the server.
\<close>

datatype server_state = Server_Running | Server_Ended string

datatype phase = Settling | Configuring | Running

datatype ending = Stopped | Fatal string | Killed

record service =
  sv_server :: server_state
  sv_errors :: "string list"
  sv_phase :: phase
  sv_signal :: bool
  sv_ending :: "ending option"

definition StartExtension :: service where
  "StartExtension = \<lparr>sv_server = Server_Running, sv_errors = [], sv_phase = Settling,
     sv_signal = False, sv_ending = None\<rparr>"

text \<open>The goroutine's part: \<^verbatim>\<open>ListenAndServe\<close> returns an error, which is sent.\<close>

inductive server_step :: "service \<Rightarrow> service \<Rightarrow> bool" where
  "sv_ending v = None \<Longrightarrow> sv_server v = Server_Running \<Longrightarrow>
     server_step v (v\<lparr>sv_server := Server_Ended err, sv_errors := sv_errors v @ [err]\<rparr>)"

text \<open>
  The docker process looks at the channel after the pause, then waits for a signal or an error.
  Signals are only caught from then on; an earlier one kills the process.
\<close>

inductive docker_step :: "service \<Rightarrow> service \<Rightarrow> bool" where
  server: "server_step v v' \<Longrightarrow> docker_step v v'"
| killed: "sv_ending v = None \<Longrightarrow> sv_phase v = Settling \<Longrightarrow> docker_step v (v\<lparr>sv_ending := Some Killed\<rparr>)"
| early: "sv_ending v = None \<Longrightarrow> sv_phase v = Settling \<Longrightarrow> sv_errors v = err # errs \<Longrightarrow>
    docker_step v (v\<lparr>sv_ending := Some (Fatal (''extension server failed to start: '' @ err))\<rparr>)"
| settled: "sv_ending v = None \<Longrightarrow> sv_phase v = Settling \<Longrightarrow> sv_errors v = [] \<Longrightarrow>
    docker_step v (v\<lparr>sv_phase := Running\<rparr>)"
| notified: "sv_ending v = None \<Longrightarrow> sv_phase v = Running \<Longrightarrow> docker_step v (v\<lparr>sv_signal := True\<rparr>)"
| signalled: "sv_ending v = None \<Longrightarrow> sv_phase v = Running \<Longrightarrow> sv_signal v \<Longrightarrow>
    docker_step v (v\<lparr>sv_ending := Some Stopped\<rparr>)"
| failed: "sv_ending v = None \<Longrightarrow> sv_phase v = Running \<Longrightarrow> sv_errors v = err # errs \<Longrightarrow>
    docker_step v (v\<lparr>sv_ending := Some (Fatal (''extension server error: '' @ err))\<rparr>)"

text \<open>
  \<^verbatim>\<open>start-tee\<close> catches signals from the start, looks at the channel once, configures the node's
  proxy (\<open>runExtension\<close>), and then only waits for a signal.
\<close>

inductive start_tee_step :: "outside \<Rightarrow> service \<Rightarrow> service \<Rightarrow> bool" for W where
  server: "server_step v v' \<Longrightarrow> start_tee_step W v v'"
| notified: "sv_ending v = None \<Longrightarrow> start_tee_step W v (v\<lparr>sv_signal := True\<rparr>)"
| early: "sv_ending v = None \<Longrightarrow> sv_phase v = Settling \<Longrightarrow> sv_errors v = err # errs \<Longrightarrow>
    fst (runExtension W (Some err) h) = Inl m \<Longrightarrow> start_tee_step W v (v\<lparr>sv_ending := Some (Fatal m)\<rparr>)"
| settled: "sv_ending v = None \<Longrightarrow> sv_phase v = Settling \<Longrightarrow> sv_errors v = [] \<Longrightarrow>
    start_tee_step W v (v\<lparr>sv_phase := Configuring\<rparr>)"
| refused: "sv_ending v = None \<Longrightarrow> sv_phase v = Configuring \<Longrightarrow> fst (runExtension W None h) = Inl m \<Longrightarrow>
    start_tee_step W v (v\<lparr>sv_ending := Some (Fatal m)\<rparr>)"
| configured: "sv_ending v = None \<Longrightarrow> sv_phase v = Configuring \<Longrightarrow> fst (runExtension W None h) = Inr () \<Longrightarrow>
    start_tee_step W v (v\<lparr>sv_phase := Running\<rparr>)"
| signalled: "sv_ending v = None \<Longrightarrow> sv_phase v = Running \<Longrightarrow> sv_signal v \<Longrightarrow>
    start_tee_step W v (v\<lparr>sv_ending := Some Stopped\<rparr>)"

inductive_cases start_tee_cases: "start_tee_step W v v'"
inductive_cases server_cases: "server_step v v'"

section \<open>A server that dies\<close>

definition service_ok :: "service \<Rightarrow> bool" where
  "service_ok v \<longleftrightarrow>
     sv_errors v = (case sv_server v of Server_Running \<Rightarrow> [] | Server_Ended err \<Rightarrow> [err])"

lemma server_step_ok: "server_step v v' \<Longrightarrow> service_ok v \<Longrightarrow> service_ok v'"
  by (induction rule: server_step.induct) (auto simp: service_ok_def)

lemma docker_step_ok: "docker_step v v' \<Longrightarrow> service_ok v \<Longrightarrow> service_ok v'"
proof (induction rule: docker_step.induct)
  case (server v v')
  then show ?case by (rule server_step_ok)
qed (simp_all add: service_ok_def)

inductive docker_reachable :: "service \<Rightarrow> bool" where
  start: "docker_reachable StartExtension"
| step: "docker_reachable v \<Longrightarrow> docker_step v v' \<Longrightarrow> docker_reachable v'"

inductive start_tee_reachable :: "outside \<Rightarrow> service \<Rightarrow> bool" for W where
  start: "start_tee_reachable W StartExtension"
| step: "start_tee_reachable W v \<Longrightarrow> start_tee_step W v v' \<Longrightarrow> start_tee_reachable W v'"

lemma docker_ok: "docker_reachable v \<Longrightarrow> service_ok v"
proof (induction rule: docker_reachable.induct)
  case start
  show ?case by (simp add: service_ok_def StartExtension_def docker_main_def)
next
  case (step v v')
  then show ?case using docker_step_ok by blast
qed

text \<open>
  The docker process does not outlive its server: it only fails with the server's error, and
  whenever the server has ended while the process runs, it can end with that error.
\<close>

theorem docker_notices_dead_server:
  assumes "docker_reachable v"
  shows "(\<forall>m. sv_ending v = Some (Fatal m) \<longrightarrow> (\<exists>err. sv_server v = Server_Ended err
      \<and> (m = ''extension server failed to start: '' @ err \<or> m = ''extension server error: '' @ err)))
    \<and> (\<forall>err. sv_server v = Server_Ended err \<longrightarrow> sv_ending v = None \<longrightarrow> sv_phase v = Running \<longrightarrow>
        (\<exists>v'. docker_step v v' \<and> sv_ending v' = Some (Fatal (''extension server error: '' @ err))))"
proof -
  have ok: "\<forall>m. sv_ending v = Some (Fatal m) \<longrightarrow> (\<exists>err. sv_server v = Server_Ended err
      \<and> (m = ''extension server failed to start: '' @ err \<or> m = ''extension server error: '' @ err))"
    using assms
  proof (induction rule: docker_reachable.induct)
    case (step v v')
    have "sv_errors v = (case sv_server v of Server_Running \<Rightarrow> [] | Server_Ended err \<Rightarrow> [err])"
      using docker_ok [OF step(1)] by (simp add: service_ok_def)
    with step(2,3) show ?case
      by (cases rule: docker_step.cases) (auto elim!: server_cases split: server_state.splits)
  qed (simp add: StartExtension_def)
  have errs: "sv_errors v = [err]" if "sv_server v = Server_Ended err" for err
    using docker_ok [OF assms] that by (simp add: service_ok_def)
  have "\<exists>v'. docker_step v v' \<and> sv_ending v' = Some (Fatal (''extension server error: '' @ err))"
    if "sv_server v = Server_Ended err" "sv_ending v = None" "sv_phase v = Running" for err
    using docker_step.failed [OF that(2,3) errs [OF that(1)]] by fastforce
  with ok show ?thesis by blast
qed

text \<open>
  \<^verbatim>\<open>start-tee\<close> does: a failure of the server after the one look at the channel is never
  noticed. The process then goes on, and the only thing that can happen is a signal.
\<close>

theorem start_tee_outlives_server:
  assumes "fst (runExtension W None h) = Inr ()"
  shows "\<exists>v. start_tee_reachable W v \<and> sv_server v = Server_Ended err \<and> sv_errors v = [err]
    \<and> sv_ending v = None \<and> (\<forall>v'. start_tee_step W v v' \<longrightarrow> v' = v\<lparr>sv_signal := True\<rparr>)"
proof -
  let ?v1 = "StartExtension\<lparr>sv_phase := Configuring\<rparr>"
  let ?v2 = "?v1\<lparr>sv_phase := Running\<rparr>"
  let ?v3 = "?v2\<lparr>sv_server := Server_Ended err, sv_errors := sv_errors ?v2 @ [err]\<rparr>"
  have "start_tee_reachable W ?v1"
    by (rule start_tee_reachable.step [OF start_tee_reachable.start start_tee_step.settled])
      (simp_all add: StartExtension_def)
  then have "start_tee_reachable W ?v2"
    by (rule start_tee_reachable.step [OF _ start_tee_step.configured [OF _ _ assms]])
      (simp_all add: StartExtension_def)
  then have "start_tee_reachable W ?v3"
    by (rule start_tee_reachable.step [OF _ start_tee_step.server [OF server_step.intros]])
      (simp_all add: StartExtension_def)
  moreover have "v' = ?v3\<lparr>sv_signal := True\<rparr>" if "start_tee_step W ?v3 v'" for v'
    using that by (auto elim!: start_tee_cases server_cases simp: StartExtension_def)
  ultimately show ?thesis by (intro exI [of _ ?v3]) (simp add: StartExtension_def)
qed

end
