(* ===== verification/Sale_Contract.thy ===== *)
theory Sale_Contract
  imports Go_Text
begin

text \<open>
  The auction contract (\<^verbatim>\<open>contracts/InstructionSender.sol\<close>, contract \<^verbatim>\<open>SealedAuction\<close>) that the
  extension answers to: the lot in escrow, the state of each auction, and the settlement with
  a TEE-signed result. A transaction is a function from the contract's storage and the rest of
  the chain to a revert reason or the next storage. Token and registry contracts, the
  precompiles and the ABI coder are parameters; the events are kept as a log.

  External calls do not come back into the contract here; \<^verbatim>\<open>Reentry\<close> has the same operations with
  every call that is not a view followed by any reaction, and shows that they are these when
  nothing reacts.
\<close>

section \<open>Storage\<close>

type_synonym u256 = "256 word"

datatype auction_state = State_None | State_Open | State_Closing | State_Settled | State_Cancelled

datatype lot_kind = Lot_ERC721 | Lot_ERC20

record auction =
  au_seller :: address
  au_lot :: string
  au_lotKind :: lot_kind
  au_lotToken :: address
  au_lotTokenId :: u256
  au_lotAmount :: u256
  au_payToken :: address
  au_deadline :: u64
  au_reservePrice :: u256
  au_state :: auction_state
  au_winner :: address
  au_clearingPrice :: u256
  au_bidCount :: u256

datatype event =
    AuctionCreated nat address address u64 u256 string
  | LotEscrowed nat lot_kind address u256 u256
  | LotReleased nat address
  | BidPlaced nat address bytes hash
  | AuctionClosing nat hash
  | AuctionSettled nat address u256
  | AuctionCancelled nat
  | TeeAddressSet address

text \<open>The type \<open>'w\<close> is the rest of the chain: tokens and registries.\<close>

record 'w sale =
  sa_extensionId :: u256
  sa_owner :: address
  sa_teeAddress :: address
  sa_auctions :: "auction list"
  sa_bidCommitments :: "bytes list"
  sa_entered :: u256
  sa_events :: "event list"
  sa_chain :: 'w

text \<open>The context of a transaction; \<open>cx_this\<close> is the contract's own address.\<close>

record context_info =
  cx_sender :: address
  cx_value :: u256
  cx_timestamp :: nat
  cx_this :: address
  cx_chainId :: bytes

text \<open>
  The contracts and functions called. A call that reverts is \<^term>\<open>None\<close>; the boolean is an
  ERC-20 call's result. \<open>keccak\<close> and \<open>ecrecover\<close> are the EVM's, the encoders Solidity's.
\<close>

record 'w callees =
  nft_transferFrom :: "'w \<Rightarrow> address \<Rightarrow> address \<Rightarrow> address \<Rightarrow> address \<Rightarrow> u256 \<Rightarrow> 'w option"
  nft_ownerOf :: "'w \<Rightarrow> address \<Rightarrow> u256 \<Rightarrow> address option"
  erc20_transferFrom :: "'w \<Rightarrow> address \<Rightarrow> address \<Rightarrow> address \<Rightarrow> address \<Rightarrow> u256 \<Rightarrow> (bool \<times> 'w) option"
  erc20_transfer :: "'w \<Rightarrow> address \<Rightarrow> address \<Rightarrow> address \<Rightarrow> u256 \<Rightarrow> (bool \<times> 'w) option"
  erc20_balanceOf :: "'w \<Rightarrow> address \<Rightarrow> address \<Rightarrow> u256 option"
  nextPublicExtensionId :: "'w \<Rightarrow> u256 option"
  instructionsSenderOf :: "'w \<Rightarrow> nat \<Rightarrow> address option"
  getRandomTeeIds :: "'w \<Rightarrow> u256 \<Rightarrow> nat \<Rightarrow> address list option"
  sendInstructions :: "'w \<Rightarrow> u256 \<Rightarrow> address list \<Rightarrow> string \<Rightarrow> string \<Rightarrow> bytes \<Rightarrow> address \<Rightarrow> (hash \<times> 'w) option"
  keccak :: "bytes \<Rightarrow> bytes"
  ecrecover :: "bytes \<Rightarrow> nat \<Rightarrow> bytes \<Rightarrow> bytes \<Rightarrow> address"
  encode_bid_message :: "nat \<Rightarrow> address \<Rightarrow> bytes \<Rightarrow> bytes"
  encode_close_message :: "nat \<Rightarrow> address \<Rightarrow> u256 \<Rightarrow> u64 \<Rightarrow> bytes"
  encode_commitment :: "nat \<Rightarrow> address \<Rightarrow> bytes \<Rightarrow> bytes"
  decode_result :: "bytes \<Rightarrow> (address \<times> u256 \<times> address \<times> u256) option"

section \<open>Reverting\<close>

definition require :: "bool \<Rightarrow> string \<Rightarrow> unit result" where
  "require c reason = (if c then Inr () else Inl reason)"

definition and_then :: "'a result \<Rightarrow> ('a \<Rightarrow> 'b result) \<Rightarrow> 'b result" where
  "and_then m f = (case m of Inl err \<Rightarrow> Inl err | Inr x \<Rightarrow> f x)"

text \<open>A call whose revert is passed on; its reason is the callee's and not modelled.\<close>

definition called :: "'a option \<Rightarrow> 'a result" where
  "called r = (case r of None \<Rightarrow> Inl ''call reverted'' | Some x \<Rightarrow> Inr x)"

definition nonReentrant :: "('w sale \<Rightarrow> ('a \<times> 'w sale) result) \<Rightarrow> 'w sale \<Rightarrow> ('a \<times> 'w sale) result" where
  "nonReentrant f s =
     and_then (require (sa_entered s = 0) ''reentrant'') (\<lambda>_.
     and_then (f (s\<lparr>sa_entered := 1\<rparr>)) (\<lambda>(x, s'). Inr (x, s'\<lparr>sa_entered := 0\<rparr>)))"

definition emit :: "event \<Rightarrow> 'w sale \<Rightarrow> 'w sale" where
  "emit e s = s\<lparr>sa_events := sa_events s @ [e]\<rparr>"

definition update_auction :: "nat \<Rightarrow> (auction \<Rightarrow> auction) \<Rightarrow> 'w sale \<Rightarrow> 'w sale" where
  "update_auction i f s = s\<lparr>sa_auctions := (sa_auctions s)[i := f (sa_auctions s ! i)]\<rparr>"

definition getAuction :: "u256 \<Rightarrow> 'w sale \<Rightarrow> (nat \<times> auction) result" where
  "getAuction auctionId s =
     and_then (require (unat auctionId < length (sa_auctions s)) ''no such auction'') (\<lambda>_.
     Inr (unat auctionId, sa_auctions s ! unat auctionId))"

section \<open>Setup\<close>

text \<open>
  The constructor. The registries' addresses are immutable; the calls to them are the
  callees' functions, so the storage does not keep them.
\<close>

definition deploy_sale ::
  "('w \<Rightarrow> address \<Rightarrow> bool) \<Rightarrow> context_info \<Rightarrow> address \<Rightarrow> address \<Rightarrow> 'w \<Rightarrow> 'w sale result" where
  "deploy_sale hasCode x extensionRegistry machineRegistry w =
     and_then (require (extensionRegistry \<noteq> 0) ''TeeExtensionRegistry cannot be zero address'') (\<lambda>_.
     and_then (require (machineRegistry \<noteq> 0) ''TeeMachineRegistry cannot be zero address'') (\<lambda>_.
     and_then (require (hasCode w extensionRegistry) ''TeeExtensionRegistry has no code'') (\<lambda>_.
     and_then (require (hasCode w machineRegistry) ''TeeMachineRegistry has no code'') (\<lambda>_.
     Inr \<lparr>sa_extensionId = 0, sa_owner = cx_sender x, sa_teeAddress = 0, sa_auctions = [],
          sa_bidCommitments = [], sa_entered = 0, sa_events = [], sa_chain = w\<rparr>))))"

definition FIRST_PUBLIC_EXTENSION_ID :: nat where
  "FIRST_PUBLIC_EXTENSION_ID = 65536"

fun find_extension :: "'w callees \<Rightarrow> 'w \<Rightarrow> address \<Rightarrow> nat list \<Rightarrow> nat option result" where
  "find_extension C w me [] = Inr None"
| "find_extension C w me (i # is) =
     (case instructionsSenderOf C w i of
        None \<Rightarrow> Inl ''call reverted''
      | Some a \<Rightarrow> if a = me then Inr (Some i) else find_extension C w me is)"

definition setExtensionId :: "'w callees \<Rightarrow> context_info \<Rightarrow> 'w sale \<Rightarrow> (unit \<times> 'w sale) result" where
  "setExtensionId C x s =
     and_then (require (sa_extensionId s = 0) ''Extension ID already set.'') (\<lambda>_.
     and_then (called (nextPublicExtensionId C (sa_chain s))) (\<lambda>c.
     and_then (find_extension C (sa_chain s) (cx_this x) [FIRST_PUBLIC_EXTENSION_ID ..< unat c]) (\<lambda>found.
       case found of
         Some i \<Rightarrow> Inr ((), s\<lparr>sa_extensionId := of_nat i\<rparr>)
       | None \<Rightarrow> Inl ''Extension ID not found.'')))"

definition setTeeAddress :: "context_info \<Rightarrow> address \<Rightarrow> 'w sale \<Rightarrow> (unit \<times> 'w sale) result" where
  "setTeeAddress x a s =
     and_then (require (cx_sender x = sa_owner s) ''not owner'') (\<lambda>_.
     and_then (require (a \<noteq> 0) ''zero TEE address'') (\<lambda>_.
     Inr ((), emit (TeeAddressSet a) (s\<lparr>sa_teeAddress := a\<rparr>))))"

section \<open>Escrow\<close>

definition pullLot ::
  "'w callees \<Rightarrow> context_info \<Rightarrow> lot_kind \<Rightarrow> address \<Rightarrow> u256 \<Rightarrow> u256 \<Rightarrow> 'w \<Rightarrow> (u256 \<times> 'w) result" where
  "pullLot C x kind token tokenId amount w =
     (case kind of
        Lot_ERC721 \<Rightarrow>
          and_then (called (nft_transferFrom C w token (cx_this x) (cx_sender x) (cx_this x) tokenId)) (\<lambda>w1.
          and_then (called (nft_ownerOf C w1 token tokenId)) (\<lambda>holder.
          and_then (require (holder = cx_this x) ''lot escrow failed'') (\<lambda>_. Inr (1, w1))))
      | Lot_ERC20 \<Rightarrow>
          and_then (require (0 < amount) ''zero lot amount'') (\<lambda>_.
          and_then (called (erc20_balanceOf C w token (cx_this x))) (\<lambda>before.
          and_then (called (erc20_transferFrom C w token (cx_this x) (cx_sender x) (cx_this x) amount)) (\<lambda>(ok, w1).
          and_then (require ok ''lot escrow failed'') (\<lambda>_.
          and_then (called (erc20_balanceOf C w1 token (cx_this x))) (\<lambda>after.
          and_then (require (before \<le> after) ''arithmetic underflow'') (\<lambda>_.
          and_then (require (0 < after - before) ''lot escrow failed'') (\<lambda>_.
          Inr (after - before, w1)))))))))"

definition releaseLot ::
  "'w callees \<Rightarrow> context_info \<Rightarrow> nat \<Rightarrow> auction \<Rightarrow> address \<Rightarrow> 'w sale \<Rightarrow> (unit \<times> 'w sale) result" where
  "releaseLot C x i a to s =
     and_then
       (case au_lotKind a of
          Lot_ERC721 \<Rightarrow>
            called (nft_transferFrom C (sa_chain s) (au_lotToken a) (cx_this x) (cx_this x) to (au_lotTokenId a))
        | Lot_ERC20 \<Rightarrow>
            and_then (called (erc20_transfer C (sa_chain s) (au_lotToken a) (cx_this x) to (au_lotAmount a)))
              (\<lambda>(ok, w). and_then (require ok ''lot release failed'') (\<lambda>_. Inr w)))
       (\<lambda>w. Inr ((), emit (LotReleased i to) (s\<lparr>sa_chain := w\<rparr>)))"

section \<open>The life of an auction\<close>

definition createAuction ::
  "'w callees \<Rightarrow> context_info \<Rightarrow> string \<Rightarrow> lot_kind \<Rightarrow> address \<Rightarrow> u256 \<Rightarrow> u256 \<Rightarrow> address \<Rightarrow> u64 \<Rightarrow> u256
     \<Rightarrow> 'w sale \<Rightarrow> (nat \<times> 'w sale) result" where
  "createAuction C x lot kind token tokenId amount payToken deadline reserve =
     nonReentrant (\<lambda>s.
       and_then (require (payToken \<noteq> 0) ''zero pay token'') (\<lambda>_.
       and_then (require (token \<noteq> 0) ''zero lot token'') (\<lambda>_.
       and_then (require (cx_timestamp x < unat deadline) ''deadline in the past'') (\<lambda>_.
       and_then (require (0 < length lot) ''lot required'') (\<lambda>_.
       and_then (pullLot C x kind token tokenId amount (sa_chain s)) (\<lambda>(escrowed, w).
       let i = length (sa_auctions s);
           a = \<lparr>au_seller = cx_sender x, au_lot = lot, au_lotKind = kind, au_lotToken = token,
                au_lotTokenId = tokenId, au_lotAmount = escrowed, au_payToken = payToken,
                au_deadline = deadline, au_reservePrice = reserve, au_state = State_Open,
                au_winner = 0, au_clearingPrice = 0, au_bidCount = 0\<rparr> in
       Inr (i, emit (LotEscrowed i kind token tokenId escrowed)
                 (emit (AuctionCreated i (cx_sender x) payToken deadline reserve lot)
                   (s\<lparr>sa_auctions := sa_auctions s @ [a], sa_chain := w\<rparr>)))))))))"

text \<open>A \<^verbatim>\<open>bytes32\<close> constant of a text.\<close>

definition bytes32 :: "string \<Rightarrow> bytes" where
  "bytes32 t = t @ replicate (32 - length t) (CHR 0x00)"

definition OP_TYPE_AUCTION :: bytes where
  "OP_TYPE_AUCTION = bytes32 ''AUCTION''"

definition OP_COMMAND_PLACE_BID :: bytes where
  "OP_COMMAND_PLACE_BID = bytes32 ''PLACE_BID''"

definition OP_COMMAND_CLOSE_AUCTION :: bytes where
  "OP_COMMAND_CLOSE_AUCTION = bytes32 ''CLOSE_AUCTION''"

definition sendInstruction ::
  "'w callees \<Rightarrow> context_info \<Rightarrow> string \<Rightarrow> bytes \<Rightarrow> 'w sale \<Rightarrow> (hash \<times> 'w sale) result" where
  "sendInstruction C x command message s =
     and_then (require (sa_extensionId s \<noteq> 0) ''Extension ID is not set.'') (\<lambda>_.
     and_then (called (getRandomTeeIds C (sa_chain s) (sa_extensionId s) 1)) (\<lambda>teeIds.
     and_then (called (sendInstructions C (sa_chain s) (cx_value x) teeIds OP_TYPE_AUCTION command
                 message (cx_sender x))) (\<lambda>(instructionId, w).
     Inr (instructionId, s\<lparr>sa_chain := w\<rparr>))))"

definition placeBid ::
  "'w callees \<Rightarrow> context_info \<Rightarrow> u256 \<Rightarrow> bytes \<Rightarrow> 'w sale \<Rightarrow> (unit \<times> 'w sale) result" where
  "placeBid C x auctionId ciphertext s =
     and_then (getAuction auctionId s) (\<lambda>(i, a).
     and_then (require (au_state a = State_Open) ''auction not open'') (\<lambda>_.
     and_then (require (cx_timestamp x < unat (au_deadline a)) ''bidding closed'') (\<lambda>_.
     and_then (require (0 < length ciphertext) ''empty ciphertext'') (\<lambda>_.
     and_then (sendInstruction C x OP_COMMAND_PLACE_BID (encode_bid_message C i (cx_sender x) ciphertext) s)
       (\<lambda>(instructionId, s1).
     let commitment = keccak C (encode_commitment C i (cx_sender x) (keccak C ciphertext)) in
     and_then (require (au_bidCount a \<noteq> - 1) ''arithmetic overflow'') (\<lambda>_.
     Inr ((), emit (BidPlaced i (cx_sender x) commitment instructionId)
       (update_auction i (\<lambda>a. a\<lparr>au_bidCount := au_bidCount a + 1\<rparr>)
         (s1\<lparr>sa_bidCommitments := commitment # sa_bidCommitments s1\<rparr>)))))))))"

definition closeAuction ::
  "'w callees \<Rightarrow> context_info \<Rightarrow> u256 \<Rightarrow> 'w sale \<Rightarrow> (unit \<times> 'w sale) result" where
  "closeAuction C x auctionId s =
     and_then (getAuction auctionId s) (\<lambda>(i, a).
     and_then (require (au_state a = State_Open \<or> au_state a = State_Closing) ''auction not closable'') (\<lambda>_.
     and_then (require (unat (au_deadline a) \<le> cx_timestamp x) ''bidding still open'') (\<lambda>_.
     let s1 = update_auction i (\<lambda>a. a\<lparr>au_state := State_Closing\<rparr>) s in
     and_then (sendInstruction C x OP_COMMAND_CLOSE_AUCTION
                 (encode_close_message C i (cx_this x) (au_reservePrice a) (au_deadline a)) s1)
       (\<lambda>(instructionId, s2). Inr ((), emit (AuctionClosing i instructionId) s2)))))"

definition cancelAuction ::
  "'w callees \<Rightarrow> context_info \<Rightarrow> u256 \<Rightarrow> 'w sale \<Rightarrow> (unit \<times> 'w sale) result" where
  "cancelAuction C x auctionId =
     nonReentrant (\<lambda>s.
       and_then (getAuction auctionId s) (\<lambda>(i, a).
       and_then (require (cx_sender x = au_seller a) ''not seller'') (\<lambda>_.
       and_then (require (au_state a = State_Open) ''auction not open'') (\<lambda>_.
       and_then (require (au_bidCount a = 0) ''bids exist'') (\<lambda>_.
       and_then (releaseLot C x i a (au_seller a)
                   (update_auction i (\<lambda>a. a\<lparr>au_state := State_Cancelled\<rparr>) s)) (\<lambda>(_, s1).
       Inr ((), emit (AuctionCancelled i) s1)))))))"

section \<open>Settlement\<close>

definition TEE_ACTION_RESULT_PREFIX :: bytes where
  "TEE_ACTION_RESULT_PREFIX = bytes32 ''TEE_ACTION_RESULT''"

definition ethSigned :: "'w callees \<Rightarrow> bytes \<Rightarrow> bytes" where
  "ethSigned C h = keccak C (CHR 0x19 # ''Ethereum Signed Message:'' @ [CHR 0x0A] @ ''32'' @ h)"

definition recover :: "'w callees \<Rightarrow> bytes \<Rightarrow> bytes \<Rightarrow> address result" where
  "recover C digest sig =
     and_then (require (length sig = 65) ''bad signature length'') (\<lambda>_.
     let r = take 32 sig; s = take 32 (drop 32 sig); v0 = of_char (sig ! 64) :: nat;
         v = (if v0 < 27 then v0 + 27 else v0) in
     and_then (require (v = 27 \<or> v = 28) ''bad signature v'') (\<lambda>_.
     let signer = ecrecover C digest v r s in
     and_then (require (signer \<noteq> 0) ''invalid signature'') (\<lambda>_. Inr signer)))"

text \<open>The digest the TEE signs, from the fields of its action result.\<close>

definition result_digest ::
  "'w callees \<Rightarrow> bytes \<Rightarrow> bytes \<Rightarrow> bytes \<Rightarrow> string \<Rightarrow> 8 word \<Rightarrow> bytes" where
  "result_digest C chainId resultData actionId tag status =
     (let resultHash = keccak C (keccak C resultData @ actionId @ keccak C tag @ [char_of (unat status)]);
          payloadHash = keccak C (TEE_ACTION_RESULT_PREFIX @ chainId @ resultHash)
      in ethSigned C payloadHash)"

definition settle ::
  "'w callees \<Rightarrow> context_info \<Rightarrow> bytes \<Rightarrow> bytes \<Rightarrow> string \<Rightarrow> 8 word \<Rightarrow> bytes \<Rightarrow> 'w sale
     \<Rightarrow> (unit \<times> 'w sale) result" where
  "settle C x resultData actionId tag status sig =
     nonReentrant (\<lambda>s.
       and_then (require (sa_teeAddress s \<noteq> 0) ''TEE address not set'') (\<lambda>_.
       and_then (require (status = 1) ''TEE reported failure'') (\<lambda>_.
       and_then (recover C (result_digest C (cx_chainId x) resultData actionId tag status) sig) (\<lambda>signer.
       and_then (require (signer = sa_teeAddress s) ''bad TEE signature'') (\<lambda>_.
       and_then (called (decode_result C resultData)) (\<lambda>(contractAddr, auctionId, winner, clearingPrice).
       and_then (require (contractAddr = cx_this x) ''result not for this contract'') (\<lambda>_.
       and_then (getAuction auctionId s) (\<lambda>(i, a).
       and_then (require (au_state a = State_Closing) ''auction not closing'') (\<lambda>_.
       if winner = 0
       then and_then (releaseLot C x i a (au_seller a)
                        (update_auction i (\<lambda>a. a\<lparr>au_state := State_Cancelled\<rparr>) s)) (\<lambda>(_, s1).
              Inr ((), emit (AuctionCancelled i) s1))
       else
         and_then (require (au_reservePrice a \<le> clearingPrice) ''below reserve'') (\<lambda>_.
         let s1 = update_auction i (\<lambda>a. a\<lparr>au_state := State_Settled, au_winner := winner,
                     au_clearingPrice := clearingPrice\<rparr>) s in
         and_then (called (erc20_transferFrom C (sa_chain s1) (au_payToken a) (cx_this x) winner
                     (au_seller a) clearingPrice)) (\<lambda>(ok, w).
         and_then (require ok ''payment failed'') (\<lambda>_.
         and_then (releaseLot C x i a winner (s1\<lparr>sa_chain := w\<rparr>)) (\<lambda>(_, s2).
         Inr ((), emit (AuctionSettled i winner clearingPrice) s2))))))))))))))"

end
