(* ===== verification/Sale_Props.thy ===== *)
theory Sale_Props
  imports Sale_Contract Sealed_Book
begin

text \<open>
  Properties of the auction contract: the life of an auction as a step relation over its
  transactions, the escrow, and the agreement of a settlement with the bids the extension
  accepted.
\<close>

section \<open>Transactions that did not revert\<close>

lemma and_then_Inr: "and_then m f = Inr y \<longleftrightarrow> (\<exists>x. m = Inr x \<and> f x = Inr y)"
  by (cases m) (auto simp: and_then_def)

lemma require_Inr: "require c reason = Inr u \<longleftrightarrow> c"
  by (simp add: require_def)

lemma called_Inr: "called r = Inr x \<longleftrightarrow> r = Some x"
  by (cases r) (auto simp: called_def)

lemmas committed = and_then_Inr require_Inr called_Inr Let_def

lemma getAuction_ok:
  "getAuction i s = Inr (j, a) \<longleftrightarrow> j = unat i \<and> j < length (sa_auctions s) \<and> a = sa_auctions s ! j"
  by (auto simp: getAuction_def committed)

text \<open>A release changes the rest of the chain and adds its event.\<close>

lemma releaseLot_ok:
  "releaseLot C x i a to s = Inr (u, s') \<Longrightarrow> \<exists>w. s' = emit (LotReleased i to) (s\<lparr>sa_chain := w\<rparr>)"
  by (auto simp: releaseLot_def committed split: lot_kind.splits)

lemma releaseLot_chain:
  "releaseLot C x i a to s = Inr (u, s') \<Longrightarrow>
     (case au_lotKind a of
        Lot_ERC721 \<Rightarrow> nft_transferFrom C (sa_chain s) (au_lotToken a) (cx_this x) (cx_this x) to
          (au_lotTokenId a) = Some (sa_chain s')
      | Lot_ERC20 \<Rightarrow> erc20_transfer C (sa_chain s) (au_lotToken a) (cx_this x) to
          (au_lotAmount a) = Some (True, sa_chain s'))"
  by (auto simp: releaseLot_def committed emit_def split: lot_kind.splits)

lemma nonReentrant_ok:
  "nonReentrant f s = Inr (y, s') \<Longrightarrow>
     sa_entered s = 0 \<and> (\<exists>s1. f (s\<lparr>sa_entered := 1\<rparr>) = Inr (y, s1) \<and> s' = s1\<lparr>sa_entered := 0\<rparr>)"
  by (auto simp: nonReentrant_def committed)

lemma emit_select [simp]:
  "sa_auctions (emit e s) = sa_auctions s" "sa_events (emit e s) = sa_events s @ [e]"
  "sa_entered (emit e s) = sa_entered s" "sa_chain (emit e s) = sa_chain s"
  by (simp_all add: emit_def)

lemma update_select [simp]:
  "sa_auctions (update_auction i f s) = (sa_auctions s)[i := f (sa_auctions s ! i)]"
  "sa_events (update_auction i f s) = sa_events s" "sa_chain (update_auction i f s) = sa_chain s"
  "sa_entered (update_auction i f s) = sa_entered s"
  by (simp_all add: update_auction_def)

lemma sendInstruction_ok:
  "sendInstruction C x c m s = Inr (i, s') \<Longrightarrow> \<exists>w. s' = s\<lparr>sa_chain := w\<rparr>"
  by (auto simp: sendInstruction_def committed)

section \<open>The life of an auction\<close>

text \<open>
  What can happen to one auction, with the receivers of its lot: it counts a bid, starts
  closing, is withdrawn by its seller before any bid, ends without a sale, or is sold.
\<close>

inductive life_step :: "auction \<Rightarrow> address list \<Rightarrow> auction \<Rightarrow> bool" where
  bid: "au_state a = State_Open \<Longrightarrow> au_bidCount a \<noteq> - 1 \<Longrightarrow> life_step a [] (a\<lparr>au_bidCount := au_bidCount a + 1\<rparr>)"
| closing: "au_state a = State_Open \<or> au_state a = State_Closing \<Longrightarrow>
    life_step a [] (a\<lparr>au_state := State_Closing\<rparr>)"
| withdrawn: "au_state a = State_Open \<Longrightarrow> au_bidCount a = 0 \<Longrightarrow>
    life_step a [au_seller a] (a\<lparr>au_state := State_Cancelled\<rparr>)"
| unsold: "au_state a = State_Closing \<Longrightarrow> life_step a [au_seller a] (a\<lparr>au_state := State_Cancelled\<rparr>)"
| sold: "au_state a = State_Closing \<Longrightarrow> winner \<noteq> 0 \<Longrightarrow> au_reservePrice a \<le> price \<Longrightarrow>
    life_step a [winner] (a\<lparr>au_state := State_Settled, au_winner := winner, au_clearingPrice := price\<rparr>)"

fun released_to :: "nat \<Rightarrow> event \<Rightarrow> address list" where
  "released_to i (LotReleased j to) = (if j = i then [to] else [])"
| "released_to i _ = []"

definition releases :: "nat \<Rightarrow> event list \<Rightarrow> address list" where
  "releases i es = concat (map (released_to i) es)"

lemma releases_simps [simp]:
  "releases i [] = []" "releases i (e # es) = released_to i e @ releases i es"
  "releases i (es @ fs) = releases i es @ releases i fs"
  by (simp_all add: releases_def)

text \<open>A transaction opens an auction, moves one auction along its life, or leaves them all.\<close>

definition lives :: "'w sale \<Rightarrow> 'w sale \<Rightarrow> bool" where
  "lives s s' \<longleftrightarrow>
     (\<exists>i tos a'. i < length (sa_auctions s) \<and> life_step (sa_auctions s ! i) tos a'
        \<and> sa_auctions s' = (sa_auctions s)[i := a']
        \<and> (\<forall>j. releases j (sa_events s') = releases j (sa_events s) @ (if j = i then tos else [])))"

definition opens :: "'w sale \<Rightarrow> 'w sale \<Rightarrow> bool" where
  "opens s s' \<longleftrightarrow>
     (\<exists>a. au_state a = State_Open \<and> au_winner a = 0 \<and> sa_auctions s' = sa_auctions s @ [a]
        \<and> (\<forall>j. releases j (sa_events s') = releases j (sa_events s)))"

definition leaves :: "'w sale \<Rightarrow> 'w sale \<Rightarrow> bool" where
  "leaves s s' \<longleftrightarrow> sa_auctions s' = sa_auctions s
     \<and> (\<forall>j. releases j (sa_events s') = releases j (sa_events s))"

lemma livesI:
  "i < length (sa_auctions s) \<Longrightarrow> life_step (sa_auctions s ! i) tos a' \<Longrightarrow>
   sa_auctions s' = (sa_auctions s)[i := a'] \<Longrightarrow>
   (\<And>j. releases j (sa_events s') = releases j (sa_events s) @ (if j = i then tos else [])) \<Longrightarrow> lives s s'"
  unfolding lives_def by blast

lemma createAuction_opens:
  "createAuction C x lot k t ti am pt d r s = Inr (y, s') \<Longrightarrow> opens s s'"
  unfolding createAuction_def opens_def
  by (drule nonReentrant_ok) (auto simp: committed)

lemma placeBid_lives: "placeBid C x i ct s = Inr (y, s') \<Longrightarrow> lives s s'"
  unfolding placeBid_def
  by (auto simp: committed getAuction_ok dest!: sendInstruction_ok intro!: livesI life_step.bid)

lemma closeAuction_lives: "closeAuction C x i s = Inr (y, s') \<Longrightarrow> lives s s'"
  unfolding closeAuction_def
  by (auto simp: committed getAuction_ok dest!: sendInstruction_ok intro!: livesI life_step.closing)

lemma cancelAuction_lives: "cancelAuction C x i s = Inr (y, s') \<Longrightarrow> lives s s'"
  unfolding cancelAuction_def
  by (drule nonReentrant_ok)
    (auto simp: committed getAuction_ok dest!: releaseLot_ok intro!: livesI life_step.withdrawn)

text \<open>
  A settlement that went through: what it checked, and the auctions, the events and, for a
  sale, the token calls it made.
\<close>

definition cleared :: "auction \<Rightarrow> address \<Rightarrow> u256 \<Rightarrow> auction" where
  "cleared a winner price =
     (if winner = 0 then a\<lparr>au_state := State_Cancelled\<rparr>
      else a\<lparr>au_state := State_Settled, au_winner := winner, au_clearingPrice := price\<rparr>)"

definition swap_events :: "nat \<Rightarrow> auction \<Rightarrow> address \<Rightarrow> u256 \<Rightarrow> event list" where
  "swap_events i a winner price =
     (if winner = 0 then [LotReleased i (au_seller a), AuctionCancelled i]
      else [LotReleased i winner, AuctionSettled i winner price])"

lemma settle_authorised:
  assumes "settle C x rd aid tag st sig s = Inr (y, s')"
  shows "sa_teeAddress s \<noteq> 0 \<and> st = 1 \<and>
    recover C (result_digest C (cx_chainId x) rd aid tag st) sig = Inr (sa_teeAddress s)"
  using assms unfolding settle_def by (auto dest!: nonReentrant_ok simp: committed)

lemma settle_effect:
  assumes "settle C x rd aid tag st sig s = Inr (y, s')"
    and "decode_result C rd = Some (c, k, winner, price)"
  shows "c = cx_this x \<and> unat k < length (sa_auctions s) \<and>
    au_state (sa_auctions s ! unat k) = State_Closing \<and>
    (winner \<noteq> 0 \<longrightarrow> au_reservePrice (sa_auctions s ! unat k) \<le> price) \<and>
    sa_auctions s' = (sa_auctions s)[unat k := cleared (sa_auctions s ! unat k) winner price] \<and>
    sa_events s' = sa_events s @ swap_events (unat k) (sa_auctions s ! unat k) winner price"
  using assms unfolding settle_def cleared_def swap_events_def
  by (auto dest!: nonReentrant_ok releaseLot_ok simp: committed getAuction_ok split: if_splits)

lemma settle_decodes:
  assumes "settle C x rd aid tag st sig s = Inr (y, s')"
  obtains c k winner price where "decode_result C rd = Some (c, k, winner, price)"
  using assms unfolding settle_def by (auto dest!: nonReentrant_ok simp: committed)

lemma settle_lives:
  assumes "settle C x rd aid tag st sig s = Inr (y, s')"
  shows "lives s s'"
proof -
  obtain c k winner price where d: "decode_result C rd = Some (c, k, winner, price)"
    using assms by (rule settle_decodes)
  let ?a = "sa_auctions s ! unat k"
  from settle_effect [OF assms d] have "life_step ?a [if winner = 0 then au_seller ?a else winner]
      (cleared ?a winner price)"
    by (auto simp: cleared_def intro: life_step.unsold life_step.sold)
  with settle_effect [OF assms d] show ?thesis
    by (auto simp: swap_events_def intro!: livesI)
qed

lemma setExtensionId_leaves: "setExtensionId C x s = Inr (y, s') \<Longrightarrow> leaves s s'"
  by (auto simp: setExtensionId_def leaves_def committed split: option.splits)

lemma setTeeAddress_leaves: "setTeeAddress x a s = Inr (y, s') \<Longrightarrow> leaves s s'"
  by (auto simp: setTeeAddress_def leaves_def committed)

section \<open>Every history of transactions\<close>

text \<open>
  The transactions of the contract, from any sender at any time; between them the rest of
  the chain moves as it likes. A transaction that reverts leaves the storage as it was.
\<close>

inductive sale_step :: "'w callees \<Rightarrow> 'w sale \<Rightarrow> 'w sale \<Rightarrow> bool" for C where
  "setExtensionId C x s = Inr (y, s') \<Longrightarrow> sale_step C s s'"
| "setTeeAddress x t s = Inr (y, s') \<Longrightarrow> sale_step C s s'"
| "createAuction C x lot k t ti am pt d r s = Inr (i, s') \<Longrightarrow> sale_step C s s'"
| "placeBid C x i ct s = Inr (y, s') \<Longrightarrow> sale_step C s s'"
| "closeAuction C x i s = Inr (y, s') \<Longrightarrow> sale_step C s s'"
| "cancelAuction C x i s = Inr (y, s') \<Longrightarrow> sale_step C s s'"
| "settle C x rd aid tag st sig s = Inr (y, s') \<Longrightarrow> sale_step C s s'"
| "sale_step C s (s\<lparr>sa_chain := w\<rparr>)"

inductive sale_reachable :: "'w callees \<Rightarrow> 'w sale \<Rightarrow> bool" for C where
  deployed: "deploy_sale hasCode x er mr w = Inr s \<Longrightarrow> sale_reachable C s"
| transacted: "sale_reachable C s \<Longrightarrow> sale_step C s s' \<Longrightarrow> sale_reachable C s'"

lemma sale_step_kinds: "sale_step C s s' \<Longrightarrow> opens s s' \<or> lives s s' \<or> leaves s s'"
  by (induction rule: sale_step.induct)
    (auto dest: setExtensionId_leaves setTeeAddress_leaves createAuction_opens placeBid_lives
      closeAuction_lives cancelAuction_lives settle_lives, simp add: leaves_def)

text \<open>Who has received the lot of an auction in a given state.\<close>

definition lot_went_to :: "auction \<Rightarrow> address list" where
  "lot_went_to a = (case au_state a of
     State_Settled \<Rightarrow> [au_winner a] | State_Cancelled \<Rightarrow> [au_seller a] | _ \<Rightarrow> [])"

definition auction_ok :: "auction \<Rightarrow> bool" where
  "auction_ok a \<longleftrightarrow> au_state a \<noteq> State_None \<and>
     (au_state a = State_Settled \<longrightarrow> au_winner a \<noteq> 0 \<and> au_reservePrice a \<le> au_clearingPrice a)"

text \<open>The ledger of one auction; for a number not given out yet, nothing is released.\<close>

definition escrow_ok :: "'w sale \<Rightarrow> nat \<Rightarrow> bool" where
  "escrow_ok s i \<longleftrightarrow>
     (if i < length (sa_auctions s)
      then auction_ok (sa_auctions s ! i)
         \<and> releases i (sa_events s) = lot_went_to (sa_auctions s ! i)
      else releases i (sa_events s) = [])"

lemma life_step_ok:
  "life_step a tos a' \<Longrightarrow> lot_went_to a = [] \<and> lot_went_to a' = tos \<and> auction_ok a'"
  by (induction rule: life_step.induct) (auto simp: lot_went_to_def auction_ok_def)

lemma opened_ok: "au_state a = State_Open \<Longrightarrow> auction_ok a \<and> lot_went_to a = []"
  by (simp add: auction_ok_def lot_went_to_def)

lemma opens_ok: "opens s s' \<Longrightarrow> escrow_ok s i \<Longrightarrow> escrow_ok s' i"
  unfolding opens_def escrow_ok_def
  by (auto simp: nth_append less_Suc_eq opened_ok split: if_splits)

lemma lives_ok: "lives s s' \<Longrightarrow> escrow_ok s i \<Longrightarrow> escrow_ok s' i"
  unfolding lives_def escrow_ok_def
  by (elim exE conjE, drule life_step_ok) (auto simp: nth_list_update split: if_splits)

lemma leaves_ok: "leaves s s' \<Longrightarrow> escrow_ok s i \<Longrightarrow> escrow_ok s' i"
  by (simp add: leaves_def escrow_ok_def)

lemma deployed_ok: "deploy_sale hasCode x er mr w = Inr s \<Longrightarrow> escrow_ok s i"
  by (auto simp: deploy_sale_def escrow_ok_def committed)

lemma reachable_escrow_ok: "sale_reachable C s \<Longrightarrow> escrow_ok s i"
  by (induction rule: sale_reachable.induct)
    (auto dest!: sale_step_kinds intro: deployed_ok opens_ok lives_ok leaves_ok)

text \<open>
  The lot of an auction leaves the escrow at most once, and to the right party: in every
  state the contract can reach, an open or closing auction has released nothing, a settled
  one has released its lot once, to the recorded winner and at a recorded price not below the
  reserve, and a cancelled one once, back to its seller.
\<close>

theorem lot_released_once:
  assumes "sale_reachable C s" and "i < length (sa_auctions s)"
  shows "case au_state (sa_auctions s ! i) of
      State_None \<Rightarrow> False
    | State_Open \<Rightarrow> releases i (sa_events s) = []
    | State_Closing \<Rightarrow> releases i (sa_events s) = []
    | State_Settled \<Rightarrow> releases i (sa_events s) = [au_winner (sa_auctions s ! i)]
        \<and> au_winner (sa_auctions s ! i) \<noteq> 0
        \<and> au_reservePrice (sa_auctions s ! i) \<le> au_clearingPrice (sa_auctions s ! i)
    | State_Cancelled \<Rightarrow> releases i (sa_events s) = [au_seller (sa_auctions s ! i)]"
  using reachable_escrow_ok [OF assms(1), of i] assms(2)
  by (cases "au_state (sa_auctions s ! i)")
    (simp_all add: escrow_ok_def auction_ok_def lot_went_to_def)

section \<open>What a transaction cannot change\<close>

lemma life_step_keeps:
  "life_step a tos a' \<Longrightarrow>
     au_state a \<notin> {State_Settled, State_Cancelled}
     \<and> (au_seller a', au_lot a', au_lotKind a', au_lotToken a', au_lotTokenId a', au_lotAmount a') =
       (au_seller a, au_lot a, au_lotKind a, au_lotToken a, au_lotTokenId a, au_lotAmount a)
     \<and> (au_payToken a', au_deadline a', au_reservePrice a') = (au_payToken a, au_deadline a, au_reservePrice a)"
  by (induction rule: life_step.induct) auto

text \<open>
  The terms of an auction never change, and one that has ended stays as it is. So the reserve
  a CLOSE_AUCTION message carries is still the auction's when its result is settled.
\<close>

theorem auction_terms_fixed:
  assumes "sale_step C s s'" and "i < length (sa_auctions s)"
  shows "let a = sa_auctions s ! i; a' = sa_auctions s' ! i in
      i < length (sa_auctions s')
    \<and> (au_seller a', au_lot a', au_lotKind a', au_lotToken a', au_lotTokenId a', au_lotAmount a') =
      (au_seller a, au_lot a, au_lotKind a, au_lotToken a, au_lotTokenId a, au_lotAmount a)
    \<and> (au_payToken a', au_deadline a', au_reservePrice a') = (au_payToken a, au_deadline a, au_reservePrice a)
    \<and> (au_state a \<in> {State_Settled, State_Cancelled} \<longrightarrow> a' = a)"
  using sale_step_kinds [OF assms(1)] assms(2) unfolding opens_def lives_def leaves_def
  by (elim disjE exE conjE) (auto simp: Let_def nth_append nth_list_update dest!: life_step_keeps)

section \<open>Settlement and the extension\<close>

text \<open>
  C18. A sale is one swap: if a settlement with a winner goes through, the price moved from
  the winner to the seller in the auction's pay token and, after that payment, the escrowed
  lot moved from the contract to the winner; both token calls succeeded.
\<close>

theorem settlement_is_swap:
  assumes "settle C x rd aid tag st sig s = Inr (u, s')"
    and "decode_result C rd = Some (c, k, winner, price)" and "winner \<noteq> 0"
  shows "let a = sa_auctions s ! unat k in \<exists>w1.
      erc20_transferFrom C (sa_chain s) (au_payToken a) (cx_this x) winner (au_seller a) price =
        Some (True, w1)
    \<and> (case au_lotKind a of
        Lot_ERC721 \<Rightarrow> nft_transferFrom C w1 (au_lotToken a) (cx_this x) (cx_this x) winner (au_lotTokenId a) =
          Some (sa_chain s')
      | Lot_ERC20 \<Rightarrow> erc20_transfer C w1 (au_lotToken a) (cx_this x) winner (au_lotAmount a) =
          Some (True, sa_chain s'))"
  using assms unfolding settle_def
  by (auto dest!: nonReentrant_ok releaseLot_chain simp: committed getAuction_ok
      split: if_splits lot_kind.splits)

text \<open>
  An answer of the extension: to a PLACE_BID, or to a CLOSE_AUCTION whose message, when it
  names this contract, carries the terms of one of its auctions.
\<close>

definition close_terms :: "lib \<Rightarrow> address \<Rightarrow> auction list \<Rightarrow> DataFixed \<Rightarrow> bool" where
  "close_terms L this aus df \<longleftrightarrow>
     (\<forall>req. decode_close L CloseMessageArg (df_OriginalMessage df) = Inr req \<longrightarrow>
        cm_ContractAddr req = this \<longrightarrow>
        (\<exists>i < length aus. cm_AuctionId req = Some (int i)
           \<and> cm_ReservePrice req = Some (uint (au_reservePrice (aus ! i)))))"

definition tee_answer ::
  "lib \<Rightarrow> address \<Rightarrow> auction list \<Rightarrow> ((bytes \<Rightarrow> bytes result) \<times> Action) list \<Rightarrow> bytes \<Rightarrow> 8 word \<Rightarrow> bool"
  where
  "tee_answer L this aus h data status \<longleftrightarrow>
     (\<exists>a df ar. res_Data ar = data \<and> res_Status ar = status \<and>
        ((\<exists>decrypt. fst (processPlaceBid L decrypt (serve L New h) a df) = ar) \<or>
         (close_terms L this aus df \<and> fst (processCloseAuction L (serve L New h) a df) = Some ar)))"

lemma accepted_short: "length (res_Data (accepted a df)) < 128"
  by (simp add: accepted_def buildResult_def marshal_PlaceBidResponse_def)

lemma bid_answer_short:
  "res_Status (fst (processPlaceBid L decrypt e a df)) = 1 \<Longrightarrow>
     length (res_Data (fst (processPlaceBid L decrypt e a df))) < 128"
  using accepted_short [of a df]
  by (cases rule: processPlaceBid_cases [of L decrypt e a df]) auto

text \<open>An answer of status 1 to a CLOSE_AUCTION packs the outcome of the book.\<close>

lemma close_answer:
  assumes "fst (processCloseAuction L (serve L New h) a df) = Some ar" and "res_Status ar = 1"
    and "length h < 2 ^ 64 - 1"
  obtains req :: CloseMessage and aid winner price found where
    "decode_close L CloseMessageArg (df_OriginalMessage df) = Inr req" "cm_AuctionId req = Some aid"
    "df_OriginalMessage df \<noteq> []"
    "book_outcome (book_run L empty_book h) aid (cm_ContractAddr req)
       (reserve_or_zero (cm_ReservePrice req)) = (winner, price, found)"
    "pack_result L AuctionResultArgs (cm_ContractAddr req) aid winner price = Inr (res_Data ar)"
proof (cases rule: processCloseAuction_cases [of L "serve L New h" a df])
  case (rejected m)
  with assms show ?thesis by auto
next
  case (closed req aid)
  obtain winner price found where b: "book_outcome (book_run L empty_book h) aid
      (cm_ContractAddr req) (reserve_or_zero (cm_ReservePrice req)) = (winner, price, found)"
    by (metis prod_cases3)
  have "pack_result L AuctionResultArgs (cm_ContractAddr req) aid winner price = Inr (res_Data ar)"
    using assms(1,2) closed(1) b served_winner [OF assms(3), of L aid]
    by (auto simp: close_result_def buildResult_def split: sum.splits)
  with b closed(2-) that show ?thesis by blast
qed

text \<open>An answer of status 1 of at least four words is a packed close result.\<close>

lemma tee_answer_close:
  assumes "tee_answer L this aus h data 1" and "\<not> length data < 128" and "length h < 2 ^ 64 - 1"
  obtains req :: CloseMessage and aid winner price found where
    "cm_ContractAddr req = this \<longrightarrow> (\<exists>i < length aus. aid = int i
       \<and> cm_ReservePrice req = Some (uint (au_reservePrice (aus ! i))))"
    "book_outcome (book_run L empty_book h) aid (cm_ContractAddr req)
       (reserve_or_zero (cm_ReservePrice req)) = (winner, price, found)"
    "pack_result L AuctionResultArgs (cm_ContractAddr req) aid winner price = Inr data"
proof -
  from assms(1,2) obtain a df ar where ar: "res_Data ar = data" "res_Status ar = 1"
    and terms: "close_terms L this aus df"
    and close: "fst (processCloseAuction L (serve L New h) a df) = Some ar"
    unfolding tee_answer_def using bid_answer_short by metis
  from close ar(2) assms(3) show ?thesis
  proof (rule close_answer)
    fix req :: CloseMessage and aid winner price found
    assume "decode_close L CloseMessageArg (df_OriginalMessage df) = Inr req"
      "cm_AuctionId req = Some aid"
      "book_outcome (book_run L empty_book h) aid (cm_ContractAddr req)
         (reserve_or_zero (cm_ReservePrice req)) = (winner, price, found)"
      "pack_result L AuctionResultArgs (cm_ContractAddr req) aid winner price = Inr (res_Data ar)"
    with terms ar(1) that [of req aid winner price found] show ?thesis
      by (auto simp: close_terms_def)
  qed
qed

text \<open>
  C5. What the contract settles is what the sealed book says. If a settlement goes through
  and its signature is the machine's on an answer of the extension, then there is a history
  the machine served and an auction such that the contract records exactly the outcome the
  book of that history gives for the auction at the contract's own reserve: the winner and
  the price if there is one, the cancellation otherwise. The hypotheses: the signature is on
  an answer of a machine that served one of the histories \<open>H\<close>, one instruction at a time
  and at most 2^64 - 2 of them; the ABI coder's round trip, which wraps integers to 256 bits, and its refusal
  of data of less than four words.
\<close>

theorem settlement_follows_book:
  assumes settled: "settle C x rd aid tag st sig s = Inr (u, s')"
    and signed: "recover C (result_digest C (cx_chainId x) rd aid tag st) sig = Inr (sa_teeAddress s) \<Longrightarrow>
      \<exists>h \<in> H. tee_answer L (cx_this x) (sa_auctions s) h rd st"
    and served: "\<And>h. h \<in> H \<Longrightarrow> length h < 2 ^ 64 - 1"
    and coder: "\<And>c i w p d. pack_result L AuctionResultArgs c i w p = Inr d \<Longrightarrow>
      decode_result C d = Some (c, word_of_int i, w, word_of_int p)"
    and short: "\<And>d. length d < 128 \<Longrightarrow> decode_result C d = None"
    and few: "length (sa_auctions s) \<le> 2 ^ 256"
  shows "\<exists>h \<in> H. \<exists>i < length (sa_auctions s). \<exists>winner price found. let a = sa_auctions s ! i in
      au_state a = State_Closing
    \<and> book_outcome (book_run L empty_book h) (int i) (cx_this x) (uint (au_reservePrice a)) =
        (winner, price, found)
    \<and> sa_auctions s' = (sa_auctions s)[i := cleared a winner (word_of_int price)]
    \<and> sa_events s' = sa_events s @ swap_events i a winner (word_of_int price)"
proof -
  obtain c k w p where d: "decode_result C rd = Some (c, k, w, p)"
    using settled by (rule settle_decodes)
  note eff = settle_effect [OF settled d]
  have "st = 1" and long: "\<not> length rd < 128"
    using settle_authorised [OF settled] short [of rd] d by auto
  then obtain h where h: "h \<in> H" "tee_answer L (cx_this x) (sa_auctions s) h rd 1"
    using settle_authorised [OF settled] signed by auto
  obtain req :: CloseMessage and aid winner price found where
    terms: "cm_ContractAddr req = cx_this x \<longrightarrow> (\<exists>i < length (sa_auctions s). aid = int i
       \<and> cm_ReservePrice req = Some (uint (au_reservePrice (sa_auctions s ! i))))"
    and book: "book_outcome (book_run L empty_book h) aid (cm_ContractAddr req)
       (reserve_or_zero (cm_ReservePrice req)) = (winner, price, found)"
    and packed: "pack_result L AuctionResultArgs (cm_ContractAddr req) aid winner price = Inr rd"
    using h(2) long served [OF h(1)] by (rule tee_answer_close)
  from coder [OF packed] d have dec: "c = cm_ContractAddr req" "k = word_of_int aid" "w = winner"
    "p = word_of_int price" by simp_all
  with eff terms obtain i where i: "i < length (sa_auctions s)" "aid = int i"
    "cm_ReservePrice req = Some (uint (au_reservePrice (sa_auctions s ! i)))" by auto
  have "unat k = i" using dec(2) i(1,2) few by (simp add: unat_of_nat take_bit_nat_eq_self)
  with eff dec i book h(1) show ?thesis
    by (auto simp: Let_def reserve_or_zero_def intro!: bexI [of _ h] exI [of _ i])
qed

section \<open>A concrete sale\<close>

text \<open>
  A chain on which every call succeeds, a contract at address 5 owned by 1, a machine at
  address 6, and a history of one bid of 90 by 7 on auction 0, whose reserve is 60. They
  stand for nothing in the program.
\<close>

definition demo_data :: bytes where
  "demo_data = replicate 128 (CHR ''r'')"

definition demo_callees :: "unit callees" where
  "demo_callees =
     \<lparr>nft_transferFrom = (\<lambda>_ _ _ _ _ _. Some ()), nft_ownerOf = (\<lambda>_ _ _. Some 5),
      erc20_transferFrom = (\<lambda>_ _ _ _ _ _. Some (True, ())), erc20_transfer = (\<lambda>_ _ _ _ _. Some (True, ())),
      erc20_balanceOf = (\<lambda>_ _ _. Some 0), nextPublicExtensionId = (\<lambda>_. Some 65537),
      instructionsSenderOf = (\<lambda>_ _. Some 5), getRandomTeeIds = (\<lambda>_ _ _. Some [6]),
      sendInstructions = (\<lambda>_ _ _ _ _ _ _. Some (8, ())), keccak = (\<lambda>_. ''h''), ecrecover = (\<lambda>_ _ _ _. 6),
      encode_bid_message = (\<lambda>_ _ _. []), encode_close_message = (\<lambda>_ _ _ _. []),
      encode_commitment = (\<lambda>_ _ _. []),
      decode_result = (\<lambda>d. if d = demo_data then Some (5, 0, 7, 90) else None)\<rparr>"

definition demo_context :: "address \<Rightarrow> nat \<Rightarrow> context_info" where
  "demo_context from time = \<lparr>cx_sender = from, cx_value = 0, cx_timestamp = time, cx_this = 5, cx_chainId = []\<rparr>"

definition after_ok :: "('a \<times> 'w sale) result \<Rightarrow> 'w sale" where
  "after_ok r = snd (projr r)"

definition demo_sale :: "unit sale" where
  "demo_sale = projr (deploy_sale (\<lambda>_ _. True) (demo_context 1 0) 2 3 ())"

definition demo_named :: "unit sale" where
  "demo_named = after_ok (setTeeAddress (demo_context 1 0) 6 demo_sale)"

definition demo_set :: "unit sale" where
  "demo_set = after_ok (setExtensionId demo_callees (demo_context 1 0) demo_named)"

definition demo_offered :: "unit sale" where
  "demo_offered = after_ok (createAuction demo_callees (demo_context 4 10) ''lot'' Lot_ERC721 20 21 0 22 100 60 demo_set)"

definition demo_ending :: "unit sale" where
  "demo_ending = after_ok (closeAuction demo_callees (demo_context 9 100) 0 demo_offered)"

definition demo_settle :: "(unit \<times> unit sale) result" where
  "demo_settle = settle demo_callees (demo_context 9 120) demo_data [] ''submit'' 1
     (replicate 64 (CHR ''s'') @ [CHR 0x1B]) demo_ending"

definition demo_sold :: "unit sale" where
  "demo_sold = after_ok demo_settle"

lemma demo_callees_fields:
  "nft_transferFrom demo_callees w t me f to i = Some ()" "nft_ownerOf demo_callees w t i = Some 5"
  "erc20_transferFrom demo_callees w t me f to n = Some (True, ())"
  "nextPublicExtensionId demo_callees w = Some 65537" "instructionsSenderOf demo_callees w j = Some 5"
  "getRandomTeeIds demo_callees w k j = Some [6]"
  "sendInstructions demo_callees w v ts op cm m from = Some (8, ())"
  "ecrecover demo_callees d b r b2 = 6"
  "decode_result demo_callees demo_data = Some (5, 0, 7, 90)"
  by (simp_all add: demo_callees_def)

lemmas demo_sale_defs = demo_callees_fields demo_context_def after_ok_def and_then_def require_def
  called_def nonReentrant_def getAuction_def update_auction_def emit_def

lemma demo_deployed: "deploy_sale (\<lambda>_ _. True) (demo_context 1 0) 2 3 () = Inr demo_sale"
  by (simp add: demo_sale_def deploy_sale_def demo_sale_defs)

lemma demo_sale_named: "setTeeAddress (demo_context 1 0) 6 demo_sale = Inr ((), demo_named)"
  by (simp add: demo_named_def demo_sale_def deploy_sale_def setTeeAddress_def demo_sale_defs)

lemma demo_named_value: "demo_named = \<lparr>sa_extensionId = 0, sa_owner = 1, sa_teeAddress = 6,
    sa_auctions = [], sa_bidCommitments = [], sa_entered = 0, sa_events = [TeeAddressSet 6], sa_chain = ()\<rparr>"
  by (simp add: demo_named_def demo_sale_def deploy_sale_def setTeeAddress_def demo_sale_defs)

lemma demo_sale_set: "setExtensionId demo_callees (demo_context 1 0) demo_named = Inr ((), demo_set)"
  "demo_set = demo_named\<lparr>sa_extensionId := 65536\<rparr>"
  by (simp_all add: demo_set_def demo_named_value setExtensionId_def FIRST_PUBLIC_EXTENSION_ID_def
      demo_sale_defs)

lemma demo_sale_offered:
  "createAuction demo_callees (demo_context 4 10) ''lot'' Lot_ERC721 20 21 0 22 100 60 demo_set =
     Inr (0, demo_offered)"
  by (simp add: demo_offered_def demo_sale_set(2) demo_named_value createAuction_def pullLot_def
      demo_sale_defs)

definition demo_auction :: auction where
  "demo_auction = \<lparr>au_seller = 4, au_lot = ''lot'', au_lotKind = Lot_ERC721, au_lotToken = 20,
     au_lotTokenId = 21, au_lotAmount = 1, au_payToken = 22, au_deadline = 100, au_reservePrice = 60,
     au_state = State_Open, au_winner = 0, au_clearingPrice = 0, au_bidCount = 0\<rparr>"

lemma demo_offered_value: "demo_offered = demo_set\<lparr>sa_auctions := [demo_auction],
    sa_events := [TeeAddressSet 6, AuctionCreated 0 4 22 100 60 ''lot'', LotEscrowed 0 Lot_ERC721 20 21 1]\<rparr>"
  by (simp add: demo_offered_def demo_sale_set(2) demo_named_value createAuction_def pullLot_def
      demo_auction_def demo_sale_defs)

lemma demo_sale_ending:
  "closeAuction demo_callees (demo_context 9 100) 0 demo_offered = Inr ((), demo_ending)"
  "demo_ending = demo_offered\<lparr>sa_auctions := [demo_auction\<lparr>au_state := State_Closing\<rparr>],
     sa_events := sa_events demo_offered @ [AuctionClosing 0 8]\<rparr>"
  by (simp_all add: demo_ending_def demo_offered_value demo_sale_set(2) demo_named_value
      closeAuction_def sendInstruction_def demo_auction_def demo_sale_defs)

lemma demo_recovers: "recover demo_callees d (replicate 64 (CHR ''s'') @ [CHR 0x1B]) = Inr 6"
  by (simp add: recover_def demo_sale_defs nth_append)

lemma demo_sale_sold:
  "demo_settle = Inr ((), demo_sold)"
  "demo_sold = demo_ending\<lparr>sa_auctions := [demo_auction\<lparr>au_state := State_Settled, au_winner := 7,
     au_clearingPrice := 90\<rparr>], sa_events := sa_events demo_ending @ [LotReleased 0 7, AuctionSettled 0 7 90]\<rparr>"
  by (simp_all add: demo_sold_def demo_settle_def settle_def demo_recovers demo_sale_ending(2)
      demo_offered_value demo_sale_set(2) demo_named_value releaseLot_def demo_auction_def demo_sale_defs)

lemma demo_reachable: "sale_reachable demo_callees demo_sold"
  by (rule transacted [OF transacted [OF transacted [OF transacted [OF transacted
      [OF sale_reachable.deployed [OF demo_deployed] sale_step.intros(2) [OF demo_sale_named]]
      sale_step.intros(1) [OF demo_sale_set(1)]] sale_step.intros(3) [OF demo_sale_offered]]
      sale_step.intros(5) [OF demo_sale_ending(1)]]
      sale_step.intros(7) [OF demo_sale_sold(1) [unfolded demo_settle_def]]])

lemma lot_released_once_witness: "releases 0 (sa_events demo_sold) = [7]"
  using lot_released_once [OF demo_reachable, of 0] by (simp add: demo_sale_sold(2))

lemma settlement_is_swap_witness:
  "nft_transferFrom demo_callees () 20 5 5 7 21 = Some (sa_chain demo_sold)"
  using settlement_is_swap [OF demo_sale_sold(1) [unfolded demo_settle_def], of 5 0 7 90]
  by (simp add: demo_callees_def demo_context_def demo_sale_ending(2) demo_auction_def Let_def)

text \<open>The extension's side: its coder packs this one result.\<close>

definition demo_sale_lib :: lib where
  "demo_sale_lib = demo_lib\<lparr>pack_result := (\<lambda>_ c i w p.
     if c = 5 \<and> i = 0 \<and> w = 7 \<and> p = 90 then Inr demo_data else Inl ''other'')\<rparr>"

definition demo_history :: "((bytes \<Rightarrow> bytes result) \<times> Action) list" where
  "demo_history = [(Inr, demo_action [CHR ''B'', CHR 0x01, CHR 0x00, CHR 0x07,
     CHR 0x00, CHR 0x05, CHR 0x07, CHR 0x5A])]"

lemma demo_closing:
  "fst (processCloseAuction demo_sale_lib (serve demo_sale_lib New demo_history) (demo_action [])
     (demo_df [CHR 0x00, CHR 0x05, CHR 0x3C])) =
   Some (buildResult (demo_action []) (demo_df [CHR 0x00, CHR 0x05, CHR 0x3C]) demo_data 1 None)"
  by code_simp

lemma demo_terms:
  "close_terms demo_sale_lib 5 [demo_auction\<lparr>au_state := State_Closing\<rparr>]
     (demo_df [CHR 0x00, CHR 0x05, CHR 0x3C])"
  by (simp add: close_terms_def demo_sale_lib_def demo_lib_def demo_df_def demo_auction_def)

lemma demo_answer:
  "tee_answer demo_sale_lib 5 [demo_auction\<lparr>au_state := State_Closing\<rparr>] demo_history demo_data 1"
  unfolding tee_answer_def
  by (intro exI [of _ "demo_action []"] exI [of _ "demo_df [CHR 0x00, CHR 0x05, CHR 0x3C]"]
      exI [of _ "buildResult (demo_action []) (demo_df [CHR 0x00, CHR 0x05, CHR 0x3C]) demo_data 1 None"]
      conjI disjI2)
    (simp_all add: demo_closing demo_terms buildResult_def)

lemma demo_coder:
  "pack_result demo_sale_lib AuctionResultArgs c i w p = Inr d \<Longrightarrow>
     decode_result demo_callees d = Some (c, word_of_int i, w, word_of_int p)"
  by (simp add: demo_sale_lib_def demo_callees_fields split: if_splits)

lemma demo_short: "length d < 128 \<Longrightarrow> decode_result demo_callees d = None"
  by (auto simp: demo_callees_def demo_data_def)

lemma settlement_follows_book_witness:
  "\<exists>winner price found. book_outcome (book_run demo_sale_lib empty_book demo_history) 0 5 60 =
      (winner, price, found) \<and> sa_auctions demo_sold =
        [cleared (demo_auction\<lparr>au_state := State_Closing\<rparr>) winner (word_of_int price)]"
proof -
  have "\<exists>h \<in> {demo_history}. tee_answer demo_sale_lib (cx_this (demo_context 9 120))
      (sa_auctions demo_ending) h demo_data 1"
    using demo_answer by (simp add: demo_sale_ending(2) demo_context_def)
  then show ?thesis
    using settlement_follows_book [OF demo_sale_sold(1) [unfolded demo_settle_def], of "{demo_history}" demo_sale_lib,
        OF _ _ demo_coder demo_short]
    by (auto simp: demo_history_def demo_sale_ending(2) demo_context_def demo_auction_def Let_def)
qed

end
