(* ===== verification/Channel.thy ===== *)
theory Channel
  imports Sale_Props
begin

text \<open>
  The channel between the contract and the extension. A transaction of the contract is a value;
  it may queue instructions at the registry, which the TEE machines are handed as actions. The
  registry's queue and the coders on both ends are parameters with the laws stated here.
\<close>

section \<open>Transactions as values\<close>

datatype request =
    Set_Extension
  | Set_Tee address
  | Create string lot_kind address u256 u256 address u64 u256
  | Place u256 bytes
  | Close u256
  | Cancel u256
  | Settle bytes bytes string "8 word" bytes

definition outcome :: "('a \<times> 'w sale) result \<Rightarrow> 'w sale result" where
  "outcome r = (case r of Inl err \<Rightarrow> Inl err | Inr (_, s) \<Rightarrow> Inr s)"

fun transact :: "'w callees \<Rightarrow> context_info \<Rightarrow> request \<Rightarrow> 'w sale \<Rightarrow> 'w sale result" where
  "transact C x Set_Extension s = outcome (setExtensionId C x s)"
| "transact C x (Set_Tee t) s = outcome (setTeeAddress x t s)"
| "transact C x (Create lot k t i n p d r) s = outcome (createAuction C x lot k t i n p d r s)"
| "transact C x (Place i ct) s = outcome (placeBid C x i ct s)"
| "transact C x (Close i) s = outcome (closeAuction C x i s)"
| "transact C x (Cancel i) s = outcome (cancelAuction C x i s)"
| "transact C x (Settle rd aid tag st sig) s = outcome (settle C x rd aid tag st sig s)"

text \<open>The instructions of a transaction: operation command and message.\<close>

fun emitted :: "'w callees \<Rightarrow> context_info \<Rightarrow> request \<Rightarrow> 'w sale \<Rightarrow> (bytes \<times> bytes) list" where
  "emitted C x (Place i ct) s =
     [(Sale_Contract.OP_COMMAND_PLACE_BID, encode_bid_message C (unat i) (cx_sender x) ct)]"
| "emitted C x (Close i) s =
     (let a = sa_auctions s ! unat i in
      [(Sale_Contract.OP_COMMAND_CLOSE_AUCTION,
        encode_close_message C (unat i) (cx_this x) (au_reservePrice a) (au_deadline a))])"
| "emitted C x _ s = []"

lemma outcome_Inr: "outcome r = Inr s' \<longleftrightarrow> (\<exists>y. r = Inr (y, s'))"
  by (auto simp: outcome_def split: sum.splits)

lemma transact_step: "transact C x r s = Inr s' \<Longrightarrow> sale_step C s s'"
  by (cases r) (auto simp: outcome_Inr intro: sale_step.intros)

section \<open>The registry's queue\<close>

text \<open>
  What the contract relies on: an instruction is appended to the queue of instructions of the
  contract's extension, and token calls leave the queue alone.
\<close>

definition registry_laws :: "'w callees \<Rightarrow> ('w \<Rightarrow> (bytes \<times> bytes) list) \<Rightarrow> bool" where
  "registry_laws C sent \<longleftrightarrow>
     (\<forall>w v ids command m from h w'.
        sendInstructions C w v ids OP_TYPE_AUCTION command m from = Some (h, w') \<longrightarrow>
          sent w' = sent w @ [(command, m)])
   \<and> (\<forall>w t me from to i w'. nft_transferFrom C w t me from to i = Some w' \<longrightarrow> sent w' = sent w)
   \<and> (\<forall>w t me from to n b w'. erc20_transferFrom C w t me from to n = Some (b, w') \<longrightarrow> sent w' = sent w)
   \<and> (\<forall>w t me to n b w'. erc20_transfer C w t me to n = Some (b, w') \<longrightarrow> sent w' = sent w)"

lemma registry_simps:
  assumes "registry_laws C sent"
  shows "sendInstructions C w v ids OP_TYPE_AUCTION command m from = Some (h, w') \<Longrightarrow>
      sent w' = sent w @ [(command, m)]"
    and "nft_transferFrom C w t me from to i = Some w' \<Longrightarrow> sent w' = sent w"
    and "erc20_transferFrom C w t me from to n = Some (b, w') \<Longrightarrow> sent w' = sent w"
    and "erc20_transfer C w t me to n = Some (b, w') \<Longrightarrow> sent w' = sent w"
  using assms unfolding registry_laws_def by (elim conjE; metis)+

text \<open>
  The contract every transaction keeps with the queue: it appends exactly its own instructions.
  So what holds of every queued instruction is kept when it holds of the new ones.
\<close>

locale queueing =
  fixes C :: "'w callees" and sent :: "'w \<Rightarrow> (bytes \<times> bytes) list"
    and run :: "'w sale \<Rightarrow> ('a \<times> 'w sale) result" and emits :: "'w sale \<Rightarrow> (bytes \<times> bytes) list"
  assumes queued: "registry_laws C sent \<Longrightarrow> run s = Inr (y, s') \<Longrightarrow>
    sent (sa_chain s') = sent (sa_chain s) @ emits s"
begin

lemma outcome_queued:
  "registry_laws C sent \<Longrightarrow> outcome (run s) = Inr s' \<Longrightarrow>
     sent (sa_chain s') = sent (sa_chain s) @ emits s"
  by (auto simp: outcome_Inr queued)

end

lemma releaseLot_queue:
  assumes "registry_laws C sent" and "releaseLot C x i a to s = Inr (u, s')"
  shows "sent (sa_chain s') = sent (sa_chain s)"
  using releaseLot_chain [OF assms(2)] by (auto simp: registry_simps [OF assms(1)] split: lot_kind.splits)

lemma pullLot_queue:
  assumes "registry_laws C sent" and "pullLot C x k t i n w = Inr (y, w')"
  shows "sent w' = sent w"
  using assms(2) by (auto simp: pullLot_def committed registry_simps [OF assms(1)] split: lot_kind.splits)

lemma sendInstruction_queue:
  assumes "registry_laws C sent" and "sendInstruction C x command m s = Inr (h, s')"
  shows "sent (sa_chain s') = sent (sa_chain s) @ [(command, m)]"
  using assms(2) by (auto simp: sendInstruction_def committed registry_simps [OF assms(1)])

interpretation setting: queueing C sent "setExtensionId C x" "\<lambda>_. []" for C sent x
  by unfold_locales (auto simp: setExtensionId_def committed split: option.splits)

interpretation naming: queueing C sent "setTeeAddress x t" "\<lambda>_. []" for C sent x t
  by unfold_locales (auto simp: setTeeAddress_def committed)

interpretation creating: queueing C sent "createAuction C x lot k t i n p d r" "\<lambda>_. []"
  for C sent x lot k t i n p d r
  by unfold_locales
    (auto simp: createAuction_def committed dest!: nonReentrant_ok pullLot_queue [rotated, where sent = sent])

interpretation bidding: queueing C sent "placeBid C x i ct" "emitted C x (Place i ct)"
  for C sent x i ct
  by unfold_locales
    (auto simp: placeBid_def committed getAuction_ok dest!: sendInstruction_queue)

interpretation closing: queueing C sent "closeAuction C x i" "emitted C x (Close i)"
  for C sent x i
  by unfold_locales
    (auto simp: closeAuction_def committed getAuction_ok dest!: sendInstruction_queue)

interpretation cancelling: queueing C sent "cancelAuction C x i" "\<lambda>_. []" for C sent x i
  by unfold_locales
    (auto simp: cancelAuction_def committed dest!: nonReentrant_ok releaseLot_queue [rotated, where sent = sent])

interpretation settling: queueing C sent "settle C x rd aid tag st sig" "\<lambda>_. []"
  for C sent x rd aid tag st sig
  by unfold_locales
    (auto simp: settle_def committed registry_simps(3) split: if_splits
      dest!: nonReentrant_ok releaseLot_queue [rotated, where sent = sent])

lemma transact_queue:
  assumes "registry_laws C sent" and "transact C x r s = Inr s'"
  shows "sent (sa_chain s') = sent (sa_chain s) @ emitted C x r s"
  using assms
  by (cases r)
    (simp_all add: setting.outcome_queued naming.outcome_queued creating.outcome_queued
      bidding.outcome_queued closing.outcome_queued cancelling.outcome_queued
      settling.outcome_queued del: emitted.simps(1,2))

end
