(* ===== verification/Auction_System.thy ===== *)
theory Auction_System
  imports Channel
begin

text \<open>
  The contract and the extension together. The contract's transactions queue instructions; TEE
  machines serve queued instructions and answer; a settlement carries an answer of the machine
  whose address is registered. Between transactions the rest of the chain moves, and a machine
  that restarts loses its memory. The properties are about every reachable joint state.
\<close>

section \<open>Handing an instruction to a machine\<close>

text \<open>A \<^verbatim>\<open>bytes32\<close> as a hash, most significant byte first.\<close>

definition hash32 :: "bytes \<Rightarrow> hash" where
  "hash32 b = word_of_int (foldl (\<lambda>n c. 256 * n + of_char c) 0 b)"

text \<open>The action that a machine is handed for a queued instruction.\<close>

definition carries :: "lib \<Rightarrow> bytes \<times> bytes \<Rightarrow> Action \<Rightarrow> DataFixed \<Rightarrow> bool" where
  "carries L msg a df \<longleftrightarrow> parse_data_fixed L (act_Message a) = Inr df
     \<and> df_OPType df = hash32 OP_TYPE_AUCTION \<and> df_OPCommand df = hash32 (fst msg)
     \<and> df_OriginalMessage df = snd msg"

text \<open>
  What both sides rely on: \<^verbatim>\<open>ToHash\<close> pads a text as Solidity does, the two ABI coders agree,
  integers are wrapped to 256 bits when packed, and data of less than four words is refused.
\<close>

definition coder_laws :: "lib \<Rightarrow> 'w callees \<Rightarrow> address \<Rightarrow> bool" where
  "coder_laws L C me \<longleftrightarrow>
     to_hash L OPTypeAuction = hash32 OP_TYPE_AUCTION
   \<and> to_hash L OPCommandPlaceBid = hash32 OP_COMMAND_PLACE_BID
   \<and> to_hash L OPCommandCloseAuction = hash32 OP_COMMAND_CLOSE_AUCTION
   \<and> (\<forall>i b ct. i < 2 ^ 256 \<longrightarrow> decode_place_bid L PlaceBidMessageArg (encode_bid_message C i b ct) =
        Inr \<lparr>pbm_AuctionId = Some (int i), pbm_Bidder = b, pbm_Ciphertext = ct\<rparr>)
   \<and> (\<forall>i r d. i < 2 ^ 256 \<longrightarrow> decode_close L CloseMessageArg (encode_close_message C i me r d) =
        Inr \<lparr>cm_AuctionId = Some (int i), cm_ContractAddr = me, cm_ReservePrice = Some (uint r),
             cm_Deadline = d\<rparr>)
   \<and> (\<forall>c i w p d. pack_result L AuctionResultArgs c i w p = Inr d \<longrightarrow>
        decode_result C d = Some (c, word_of_int i, w, word_of_int p))
   \<and> (\<forall>d. length d < 128 \<longrightarrow> decode_result C d = None)"

lemma coder_simps:
  assumes "coder_laws L C me"
  shows "to_hash L OPTypeAuction = hash32 OP_TYPE_AUCTION"
    "to_hash L OPCommandPlaceBid = hash32 OP_COMMAND_PLACE_BID"
    "to_hash L OPCommandCloseAuction = hash32 OP_COMMAND_CLOSE_AUCTION"
    "i < 2 ^ 256 \<Longrightarrow> decode_place_bid L PlaceBidMessageArg (encode_bid_message C i b ct) =
       Inr \<lparr>pbm_AuctionId = Some (int i), pbm_Bidder = b, pbm_Ciphertext = ct\<rparr>"
    "i < 2 ^ 256 \<Longrightarrow> decode_close L CloseMessageArg (encode_close_message C i me r d) =
       Inr \<lparr>cm_AuctionId = Some (int i), cm_ContractAddr = me, cm_ReservePrice = Some (uint r),
            cm_Deadline = d\<rparr>"
  using assms by (simp_all add: coder_laws_def)

lemma hash32_commands: "hash32 OP_COMMAND_PLACE_BID \<noteq> hash32 OP_COMMAND_CLOSE_AUCTION"
  by code_simp

text \<open>The instructions about auction \<open>i\<close>.\<close>

definition bid_message :: "'w callees \<Rightarrow> nat \<Rightarrow> address \<Rightarrow> bytes \<Rightarrow> bytes \<times> bytes" where
  "bid_message C i b ct = (OP_COMMAND_PLACE_BID, encode_bid_message C i b ct)"

definition close_message :: "'w callees \<Rightarrow> address \<Rightarrow> nat \<Rightarrow> auction \<Rightarrow> bytes \<times> bytes" where
  "close_message C me i a =
     (OP_COMMAND_CLOSE_AUCTION, encode_close_message C i me (au_reservePrice a) (au_deadline a))"

lemma commands_differ [simp]: "OP_COMMAND_PLACE_BID \<noteq> OP_COMMAND_CLOSE_AUCTION"
  using hash32_commands by metis

lemma messages_differ: "bid_message C i b ct \<noteq> close_message C' me j a"
  by (simp add: bid_message_def close_message_def)

section \<open>What a machine signs\<close>

definition answer ::
  "lib \<Rightarrow> (bytes \<Rightarrow> bytes result) \<Rightarrow> Extension \<Rightarrow> Action \<Rightarrow> ActionResult option" where
  "answer L decrypt e a =
     (case parse_data_fixed L (act_Message a) of
        Inl _ \<Rightarrow> None
      | Inr df \<Rightarrow>
          if df_OPType df \<noteq> to_hash L OPTypeAuction then None
          else if df_OPCommand df = to_hash L OPCommandPlaceBid
          then Some (fst (processPlaceBid L decrypt e a df))
          else if df_OPCommand df = to_hash L OPCommandCloseAuction
          then fst (processCloseAuction L e a df)
          else None)"

lemma answer_processAction:
  "answer L decrypt e a = Some ar \<Longrightarrow>
     fst (processAction L decrypt e a) = Some (200, marshal_result L ar)"
  by (auto simp: answer_def processAction_def processAuction_def split_def Let_def
      split: sum.splits if_splits)

section \<open>The joint system\<close>

type_synonym handled = "((bytes \<Rightarrow> bytes result) \<times> Action) list"

text \<open>An answer, with the history the machine had served when it gave it, the answered action last.\<close>

type_synonym answers = "(handled \<times> bytes \<times> 8 word) list"

record 'w auction_system =
  as_sale :: "'w sale"
  as_served :: "address \<Rightarrow> handled"
  as_answers :: "address \<Rightarrow> answers"

definition add_answer :: "handled \<Rightarrow> ActionResult option \<Rightarrow> answers \<Rightarrow> answers" where
  "add_answer h r as = (case r of None \<Rightarrow> as | Some ar \<Rightarrow> as @ [(h, res_Data ar, res_Status ar)])"

text \<open>
  The key of a machine is fixed. What its node returns for a ciphertext while it serves an
  instruction is what the key decrypts it to, or an error.
\<close>

definition faithful :: "(bytes \<Rightarrow> bytes result) \<Rightarrow> (bytes \<Rightarrow> bytes result) \<Rightarrow> bool" where
  "faithful key decrypt \<longleftrightarrow> (\<forall>c v. decrypt c = Inr v \<longrightarrow> key c = Inr v)"

text \<open>
  \<open>D m\<close> is what the key of machine \<open>m\<close> decrypts to. \<open>ordered\<close> is the assumption that a machine
  serves the queue from its start, in order, and does not restart; without it, it may serve
  anything that is in the queue, repeatedly. A machine serves less than 2^64 - 1 instructions.
\<close>

inductive system_step ::
  "'w callees \<Rightarrow> lib \<Rightarrow> (address \<Rightarrow> bytes \<Rightarrow> bytes result) \<Rightarrow> ('w \<Rightarrow> (bytes \<times> bytes) list) \<Rightarrow> address \<Rightarrow> bool
     \<Rightarrow> 'w auction_system \<Rightarrow> 'w auction_system \<Rightarrow> bool"
  for C L D sent me ordered where
  transacted: "transact C x r (as_sale y) = Inr s' \<Longrightarrow> cx_this x = me \<Longrightarrow>
    (case r of Settle rd _ _ st _ \<Rightarrow> \<exists>h. (h, rd, st) \<in> set (as_answers y (sa_teeAddress (as_sale y)))
     | _ \<Rightarrow> True) \<Longrightarrow>
    system_step C L D sent me ordered y (y\<lparr>as_sale := s'\<rparr>)"
| elsewhere: "sent w = sent (sa_chain (as_sale y)) \<Longrightarrow>
    system_step C L D sent me ordered y (y\<lparr>as_sale := (as_sale y)\<lparr>sa_chain := w\<rparr>\<rparr>)"
| served: "j < length (sent (sa_chain (as_sale y))) \<Longrightarrow> (ordered \<Longrightarrow> j = length (as_served y m)) \<Longrightarrow>
    carries L (sent (sa_chain (as_sale y)) ! j) a df \<Longrightarrow> length (as_served y m) < 2 ^ 64 - 1 \<Longrightarrow>
    faithful (D m) decrypt \<Longrightarrow>
    system_step C L D sent me ordered y
      (y\<lparr>as_served := (as_served y)(m := as_served y m @ [(decrypt, a)]),
         as_answers := (as_answers y)(m := add_answer (as_served y m @ [(decrypt, a)])
           (answer L decrypt (serve L New (as_served y m)) a) (as_answers y m))\<rparr>)"
| restarted: "\<not> ordered \<Longrightarrow>
    system_step C L D sent me ordered y (y\<lparr>as_served := (as_served y)(m := [])\<rparr>)"

inductive system_reachable ::
  "'w callees \<Rightarrow> lib \<Rightarrow> (address \<Rightarrow> bytes \<Rightarrow> bytes result) \<Rightarrow> ('w \<Rightarrow> (bytes \<times> bytes) list) \<Rightarrow> address \<Rightarrow> bool
     \<Rightarrow> 'w auction_system \<Rightarrow> bool"
  for C L D sent me ordered where
  start: "deploy_sale hasCode x er mr w = Inr s \<Longrightarrow> sent w = [] \<Longrightarrow>
    system_reachable C L D sent me ordered
      \<lparr>as_sale = s, as_served = (\<lambda>_. []), as_answers = (\<lambda>_. [])\<rparr>"
| step: "system_reachable C L D sent me ordered y \<Longrightarrow> system_step C L D sent me ordered y y' \<Longrightarrow>
    system_reachable C L D sent me ordered y'"

text \<open>
  Machine \<open>m\<close>, which the contract was given as its TEE, answered after the history \<open>h\<close> with
  the result that names winner \<open>w\<close> and price \<open>p\<close> for auction \<open>i\<close> of this contract.
\<close>

definition named_winner ::
  "'w callees \<Rightarrow> address \<Rightarrow> 'w auction_system \<Rightarrow> address \<Rightarrow> handled \<Rightarrow> nat \<Rightarrow> address \<Rightarrow> u256 \<Rightarrow> bool" where
  "named_winner C me y m h i w p \<longleftrightarrow> TeeAddressSet m \<in> set (sa_events (as_sale y))
     \<and> (\<exists>rd. (h, rd, 1) \<in> set (as_answers y m) \<and> decode_result C rd = Some (me, of_nat i, w, p))"

text \<open>The contract's part of a joint run is a run of the contract.\<close>

lemma system_sale_step:
  "system_step C L D sent me ordered y y' \<Longrightarrow> sale_step C (as_sale y) (as_sale y') \<or> as_sale y' = as_sale y"
  by (induction rule: system_step.induct) (auto intro: transact_step sale_step.intros)

lemma system_sale_reachable: "system_reachable C L D sent me ordered y \<Longrightarrow> sale_reachable C (as_sale y)"
  by (induction rule: system_reachable.induct)
    (auto intro: sale_reachable.intros dest!: system_sale_step)

end
