(* ===== verification/Book_History.thy ===== *)
theory Book_History
  imports Sealed_Book
begin

text \<open>
  What the abstract book of a history contains: its outcome is the best competing entry, every
  entry was bid in the history, and a bid that no close of its auction precedes is in it.
\<close>

lemma outcome_best:
  assumes "book_outcome b aid c r = (w, p, True)"
  obtains x where "x \<in> set (bk_log b)" "competes aid c r x" "en_bidder x = w" "en_amount x = p"
    "\<And>z. z \<in> set (bk_log b) \<Longrightarrow> competes aid c r z \<Longrightarrow> en_amount z \<le> p"
proof -
  let ?cs = "filter (competes aid c r) (bk_log b)"
  obtain x xs where s: "sort_key price_time ?cs = x # xs" "en_bidder x = w" "en_amount x = p"
    using assms by (auto simp: book_outcome_def split: list.splits)
  have "set (sort_key price_time ?cs) = set ?cs" by simp
  then have "x \<in> set ?cs" using s(1) by auto
  moreover have "en_amount z \<le> p" if "z \<in> set (bk_log b)" "competes aid c r z" for z
  proof -
    have "price_time x \<le> price_time z" using that by (intro hd_sort_key_least [OF s(1)]) simp
    then show ?thesis using s(3) by (auto simp: price_time_def)
  qed
  ultimately show ?thesis using that s by auto
qed

lemma outcome_found: "book_outcome b aid c r = (w, p, f) \<Longrightarrow> w \<noteq> 0 \<Longrightarrow> f"
  by (auto simp: book_outcome_def split: list.splits)

lemma outcome_none:
  assumes "book_outcome b aid c r = (w, p, False)" and "x \<in> set (bk_log b)"
  shows "\<not> competes aid c r x"
proof -
  have "sort_key price_time (filter (competes aid c r) (bk_log b)) = []"
    using assms(1) by (auto simp: book_outcome_def split: list.splits)
  then show ?thesis using assms(2) by (auto simp: filter_empty_conv)
qed

text \<open>A bid action and a close action, as the specification reads them.\<close>

definition bids_as :: "lib \<Rightarrow> (bytes \<Rightarrow> bytes result) \<times> Action \<Rightarrow> entry \<Rightarrow> bool" where
  "bids_as L e x \<longleftrightarrow> (\<exists>df. parse_data_fixed L (act_Message (snd e)) = Inr df
     \<and> df_OPType df = to_hash L OPTypeAuction \<and> df_OPCommand df = to_hash L OPCommandPlaceBid
     \<and> authentic_bid L (fst e) df = Some x)"

definition closes_as :: "lib \<Rightarrow> (bytes \<Rightarrow> bytes result) \<times> Action \<Rightarrow> int \<Rightarrow> bool" where
  "closes_as L e aid \<longleftrightarrow> (\<exists>df. parse_data_fixed L (act_Message (snd e)) = Inr df
     \<and> df_OPType df = to_hash L OPTypeAuction \<and> df_OPCommand df = to_hash L OPCommandCloseAuction
     \<and> close_request L df = Some aid)"

lemma step_log:
  "x \<in> set (bk_log (book_step L (fst e) b (snd e))) \<Longrightarrow> x \<in> set (bk_log b) \<or> bids_as L e x"
  by (auto simp: book_step_def book_bid_def book_close_def bids_as_def
      split: sum.splits option.splits if_splits)

lemma step_log_mono: "set (bk_log b) \<subseteq> set (bk_log (book_step L decrypt b a))"
  by (auto simp: book_step_def book_bid_def book_close_def split: sum.splits option.splits)

lemma step_shut:
  "aid \<in> set (bk_shut (book_step L (fst e) b (snd e))) \<Longrightarrow> aid \<in> set (bk_shut b) \<or> closes_as L e aid"
  by (auto simp: book_step_def book_bid_def book_close_def closes_as_def
      split: sum.splits option.splits if_splits)

lemma step_bid:
  "bids_as L e x \<Longrightarrow> en_auction x \<notin> set (bk_shut b) \<Longrightarrow>
     x \<in> set (bk_log (book_step L (fst e) b (snd e)))"
  by (auto simp: bids_as_def book_step_def book_bid_def)

lemma run_log: "x \<in> set (bk_log (book_run L b h)) \<Longrightarrow> x \<in> set (bk_log b) \<or> (\<exists>e \<in> set h. bids_as L e x)"
proof (induction h arbitrary: b)
  case (Cons e h)
  then show ?case using step_log [of x L e b] by (cases e) fastforce
qed simp

lemma run_log_mono: "set (bk_log b) \<subseteq> set (bk_log (book_run L b h))"
proof (induction h arbitrary: b)
  case (Cons e h)
  then show ?case using step_log_mono by (cases e) fastforce
qed simp

text \<open>An authentic bid served before any close of its auction is in the log.\<close>

lemma run_complete:
  assumes "k < length h" and "bids_as L (h ! k) x" and "en_auction x \<notin> set (bk_shut b)"
    and "\<And>j. j < k \<Longrightarrow> \<not> closes_as L (h ! j) (en_auction x)"
  shows "x \<in> set (bk_log (book_run L b h))"
  using assms
proof (induction h arbitrary: b k)
  case (Cons e h)
  let ?b = "book_step L (fst e) b (snd e)"
  have run: "book_run L b (e # h) = book_run L ?b h" by (cases e) simp
  show ?case
  proof (cases k)
    case 0
    with Cons.prems step_bid [of L e x b] run_log_mono [of ?b L h] show ?thesis
      unfolding run by auto
  next
    case (Suc k')
    have "en_auction x \<notin> set (bk_shut ?b)"
      using Cons.prems(3) Cons.prems(4) [of 0] Suc step_shut [of "en_auction x" L e b] by auto
    moreover have "\<not> closes_as L (h ! j) (en_auction x)" if "j < k'" for j
      using Cons.prems(4) [of "Suc j"] that Suc by simp
    ultimately show ?thesis unfolding run using Cons.IH [of k' ?b] Cons.prems(1,2) Suc by simp
  qed
qed simp

end
