(* ===== verification/System_Props.thy ===== *)
theory System_Props
  imports Auction_System Book_History
begin

text \<open>
  Properties of the joint system, by rule induction over its steps: what is in the queue, what
  the machines have been handed and have answered, and so what a settled auction means.
\<close>

section \<open>What a transaction does to auctions and events\<close>

fun bid_event :: "nat \<Rightarrow> address \<Rightarrow> event \<Rightarrow> bool" where
  "bid_event i b (BidPlaced j a _ _) \<longleftrightarrow> j = i \<and> a = b"
| "bid_event i b _ \<longleftrightarrow> False"

definition placed :: "nat \<Rightarrow> address \<Rightarrow> event list \<Rightarrow> bool" where
  "placed i b es \<longleftrightarrow> (\<exists>e \<in> set es. bid_event i b e)"

lemma placed_append [simp]: "placed i b (es @ fs) \<longleftrightarrow> placed i b es \<or> placed i b fs"
  by (auto simp: placed_def)

lemma settle_new_events:
  "settle C x rd aid tag st sig s = Inr (y, s') \<Longrightarrow>
     \<exists>es. sa_events s' = sa_events s @ es \<and> \<not> placed i b es"
  by (rule settle_decodes, assumption, drule settle_effect, assumption)
    (auto simp: placed_def swap_events_def)

lemma transact_events:
  "transact C x r s = Inr s' \<Longrightarrow>
     \<exists>es. sa_events s' = sa_events s @ es
        \<and> (placed i b es \<longrightarrow> (\<exists>k ct. r = Place k ct \<and> i = unat k \<and> b = cx_sender x))"
  by (cases r)
    (auto simp: outcome_Inr setExtensionId_def setTeeAddress_def createAuction_def placeBid_def
      closeAuction_def cancelAuction_def committed getAuction_ok placed_def split: option.splits
      dest!: nonReentrant_ok releaseLot_ok sendInstruction_ok
      dest: settle_new_events [where i = i and b = b])

lemma place_ok:
  "transact C x (Place k ct) s = Inr s' \<Longrightarrow>
     unat k < length (sa_auctions s) \<and> au_state (sa_auctions s ! unat k) = State_Open
     \<and> placed (unat k) (cx_sender x) (sa_events s')"
  by (auto simp: outcome_Inr placeBid_def committed getAuction_ok placed_def dest!: sendInstruction_ok)

lemma close_ok:
  "transact C x (Close k) s = Inr s' \<Longrightarrow>
     unat k < length (sa_auctions s)
     \<and> au_state (sa_auctions s' ! unat k) = State_Closing"
  by (auto simp: outcome_Inr closeAuction_def committed getAuction_ok dest!: sendInstruction_ok)

text \<open>A transaction keeps the terms of the auctions there are, and opens none of them again.\<close>

definition later :: "auction \<Rightarrow> auction \<Rightarrow> bool" where
  "later a a' \<longleftrightarrow> au_reservePrice a' = au_reservePrice a \<and> au_deadline a' = au_deadline a
     \<and> (au_state a' = State_Open \<longrightarrow> au_state a = State_Open)
     \<and> (au_bidCount a \<noteq> 0 \<longrightarrow> au_bidCount a' \<noteq> 0)
     \<and> (au_state a = State_Settled \<or> au_state a = State_Cancelled \<longrightarrow> a' = a)"

lemma later_refl [simp]: "later a a"
  by (simp add: later_def)

lemma later_simps:
  "later a a' \<Longrightarrow> au_reservePrice a' = au_reservePrice a"
  "later a a' \<Longrightarrow> au_deadline a' = au_deadline a"
  "later a a' \<Longrightarrow> au_state a \<noteq> State_Open \<Longrightarrow> au_state a' \<noteq> State_Open"
  "later a a' \<Longrightarrow> au_bidCount a \<noteq> 0 \<Longrightarrow> au_bidCount a' \<noteq> 0"
  "later a a' \<Longrightarrow> au_state a \<in> {State_Settled, State_Cancelled} \<Longrightarrow> a' = a"
  unfolding later_def by blast+

lemma life_step_later: "life_step a tos a' \<Longrightarrow> later a a'"
  by (induction rule: life_step.induct) (auto simp: later_def eq_neg_iff_add_eq_0)

definition grown :: "'w sale \<Rightarrow> 'w sale \<Rightarrow> bool" where
  "grown s s' \<longleftrightarrow> (\<forall>i < length (sa_auctions s). i < length (sa_auctions s')
     \<and> later (sa_auctions s ! i) (sa_auctions s' ! i))"

lemma sale_step_grown: "sale_step C s s' \<Longrightarrow> grown s s'"
  unfolding grown_def
  by (drule sale_step_kinds, unfold opens_def lives_def leaves_def, elim disjE exE conjE) (simp_all add: nth_append nth_list_update life_step_later)

text \<open>Only a settlement settles; only a settlement or a cancellation cancels.\<close>

lemma transact_ended:
  assumes "transact C x r s = Inr s'" and "i < length (sa_auctions s')"
    and "au_state (sa_auctions s' ! i) = st" and "st = State_Settled \<or> st = State_Cancelled"
    and "case r of Settle _ _ _ _ _ \<Rightarrow> False | Cancel k \<Rightarrow> i \<noteq> unat k | _ \<Rightarrow> True"
  shows "i < length (sa_auctions s) \<and> au_state (sa_auctions s ! i) = st"
  using assms
  by (cases r)
    (auto simp: outcome_Inr setExtensionId_def setTeeAddress_def createAuction_def placeBid_def
      closeAuction_def cancelAuction_def committed getAuction_ok nth_list_update nth_append
      less_Suc_eq split: option.splits if_splits
      dest!: nonReentrant_ok releaseLot_ok sendInstruction_ok)

lemma cancel_ok:
  "transact C x (Cancel k) s = Inr s' \<Longrightarrow>
     unat k < length (sa_auctions s) \<and> au_bidCount (sa_auctions s ! unat k) = 0
     \<and> au_state (sa_auctions s' ! unat k) = State_Cancelled"
  by (auto simp: outcome_Inr cancelAuction_def committed getAuction_ok dest!: nonReentrant_ok releaseLot_ok)

lemma place_count:
  "transact C x (Place k ct) s = Inr s' \<Longrightarrow> au_bidCount (sa_auctions s' ! unat k) \<noteq> 0"
  by (auto simp: outcome_Inr placeBid_def committed getAuction_ok eq_neg_iff_add_eq_0
      dest!: sendInstruction_ok)

section \<open>The queue\<close>

text \<open>
  Every queued instruction is a bid placed on an auction or the close of one that is no longer
  open; a bid on an auction is never behind its close; every bid of the event log is queued.
\<close>

definition about :: "'w callees \<Rightarrow> address \<Rightarrow> 'w sale \<Rightarrow> bytes \<times> bytes \<Rightarrow> bool" where
  "about C me s msg \<longleftrightarrow> (\<exists>i < length (sa_auctions s). i < 2 ^ 256 \<and>
     ((\<exists>b ct. msg = bid_message C i b ct \<and> placed i b (sa_events s))
      \<or> (msg = close_message C me i (sa_auctions s ! i)
         \<and> au_state (sa_auctions s ! i) \<noteq> State_Open)))"

definition never_behind :: "'w callees \<Rightarrow> address \<Rightarrow> bytes \<times> bytes \<Rightarrow> bytes \<times> bytes \<Rightarrow> bool" where
  "never_behind C me m m' \<longleftrightarrow>
     (\<forall>i a b ct. i < 2 ^ 256 \<longrightarrow> m = close_message C me i a \<longrightarrow> m' \<noteq> bid_message C i b ct)"

definition queue_ok :: "'w callees \<Rightarrow> address \<Rightarrow> 'w sale \<Rightarrow> (bytes \<times> bytes) list \<Rightarrow> bool" where
  "queue_ok C me s q \<longleftrightarrow> (\<forall>msg \<in> set q. about C me s msg)
     \<and> sorted_wrt (never_behind C me) q
     \<and> (\<forall>i b. placed i b (sa_events s) \<longrightarrow> (\<exists>ct. bid_message C i b ct \<in> set q))"

lemma about_grown:
  "about C me s msg \<Longrightarrow> grown s s' \<Longrightarrow> sa_events s' = sa_events s @ es \<Longrightarrow> about C me s' msg"
  unfolding about_def grown_def by (fastforce simp: close_message_def later_simps)

lemma unat_u256: "unat (k :: u256) < 2 ^ 256"
  using unsigned_less [of k, where ?'a = nat] by simp

text \<open>The new instructions: a bid on an open auction, the close of one now closing.\<close>

lemma emitted_about:
  assumes "transact C x r s = Inr s'" and "cx_this x = me" and "msg \<in> set (emitted C x r s)"
  shows "about C me s' msg"
proof -
  have g: "grown s s'" using assms(1) by (intro sale_step_grown transact_step)
  show ?thesis
  proof (cases r)
    case (Place k ct)
    with assms place_ok [of C x k ct s s'] g unat_u256 [of k] show ?thesis
      unfolding about_def bid_message_def grown_def
      by (intro exI [of _ "unat k"]) (auto simp: Auction_System.bid_message_def)
  next
    case (Close k)
    with assms close_ok [of C x k s s'] g unat_u256 [of k] show ?thesis
      unfolding about_def close_message_def grown_def
      by (intro exI [of _ "unat k"]) (auto simp: Let_def later_simps)
  qed (use assms(3) in auto)
qed

lemma close_injective:
  assumes "coder_laws L C me" and "close_message C me i a = close_message C me j a'"
    and "i < 2 ^ 256" and "j < 2 ^ 256"
  shows "i = j"
proof -
  let ?d = "\<lambda>m. decode_close L CloseMessageArg (snd m)"
  have "?d (close_message C me i a) = ?d (close_message C me j a')" using assms(2) by (rule arg_cong)
  then show ?thesis
    unfolding close_message_def snd_conv coder_simps(5) [OF assms(1) assms(3)]
      coder_simps(5) [OF assms(1) assms(4)] by simp
qed

lemma bid_injective:
  assumes "coder_laws L C me" and "bid_message C i b ct = bid_message C j b' ct'"
    and "i < 2 ^ 256" and "j < 2 ^ 256"
  shows "i = j \<and> b = b' \<and> ct = ct'"
proof -
  let ?d = "\<lambda>m. decode_place_bid L PlaceBidMessageArg (snd m)"
  have "?d (bid_message C i b ct) = ?d (bid_message C j b' ct')" using assms(2) by (rule arg_cong)
  then show ?thesis
    unfolding bid_message_def snd_conv coder_simps(4) [OF assms(1) assms(3)]
      coder_simps(4) [OF assms(1) assms(4)] by simp
qed

text \<open>While an auction is open its close is not queued.\<close>

lemma open_not_closed:
  assumes "coder_laws L C me" and "queue_ok C me s q" and "close_message C me i a \<in> set q"
    and "i < 2 ^ 256"
  shows "i < length (sa_auctions s) \<and> au_state (sa_auctions s ! i) \<noteq> State_Open"
proof -
  obtain j where j: "j < length (sa_auctions s)" "j < 2 ^ 256"
    "close_message C me i a = close_message C me j (sa_auctions s ! j)"
    "au_state (sa_auctions s ! j) \<noteq> State_Open"
    using assms(2,3) messages_differ [symmetric] unfolding queue_ok_def about_def by blast
  with close_injective [OF assms(1) j(3) assms(4) j(2)] show ?thesis by simp
qed

lemma emitted_behind:
  assumes laws: "coder_laws L C me" and ok: "queue_ok C me s q"
    and tx: "transact C x r s = Inr s'" and m: "m \<in> set q" and m': "m' \<in> set (emitted C x r s)"
  shows "never_behind C me m m'"
  unfolding never_behind_def
proof (intro allI impI notI)
  fix i a b ct
  assume i: "i < 2 ^ 256" "m = close_message C me i a" "m' = bid_message C i b ct"
  from m' i(3) obtain k ct' where r: "r = Place k ct'"
    and e: "bid_message C i b ct = bid_message C (unat k) (cx_sender x) ct'"
    using messages_differ by (cases r) (auto simp: bid_message_def close_message_def Let_def)
  have "i = unat k" using bid_injective [OF laws e i(1) unat_u256] by simp
  with place_ok [OF tx [unfolded r]] open_not_closed [OF laws ok _ i(1)] m i(2) show False by auto
qed

lemma queue_transact:
  assumes laws: "coder_laws L C me" and ok: "queue_ok C me s q"
    and tx: "transact C x r s = Inr s'" and me: "cx_this x = me"
  shows "queue_ok C me s' (q @ emitted C x r s)"
proof -
  have g: "grown s s'" using tx by (intro sale_step_grown transact_step)
  obtain es where es: "sa_events s' = sa_events s @ es" using transact_events [OF tx, of 0 0] by blast
  have "\<forall>msg \<in> set q. about C me s' msg" using ok about_grown [OF _ g es] by (simp add: queue_ok_def)
  moreover have "\<forall>msg \<in> set (emitted C x r s). about C me s' msg"
    using emitted_about [OF tx me] by blast
  moreover have "sorted_wrt (never_behind C me) (q @ emitted C x r s)"
    using ok emitted_behind [OF laws ok tx] unfolding queue_ok_def sorted_wrt_append
    by (cases r) (auto simp: Let_def)
  moreover have "\<exists>ct. bid_message C i b ct \<in> set (q @ emitted C x r s)" if "placed i b (sa_events s')" for i b
  proof (cases "placed i b (sa_events s)")
    case True
    with ok show ?thesis unfolding queue_ok_def by fastforce
  next
    case False
    with that transact_events [OF tx, of i b] obtain k ct where
      "r = Place k ct" "i = unat k" "b = cx_sender x" by auto
    then show ?thesis by (auto simp: bid_message_def)
  qed
  ultimately show ?thesis by (auto simp: queue_ok_def)
qed

section \<open>What the machines were handed\<close>

text \<open>
  \<open>heard\<close>: every action of a machine carries a queued instruction; when the machine serves the
  queue in order, the \<open>j\<close>-th action carries the \<open>j\<close>-th instruction.
\<close>

definition heard ::
  "lib \<Rightarrow> (bytes \<Rightarrow> bytes result) \<Rightarrow> bool \<Rightarrow> (bytes \<times> bytes) list \<Rightarrow> handled \<Rightarrow> bool" where
  "heard L key ordered q h \<longleftrightarrow>
     (\<forall>e \<in> set h. faithful key (fst e) \<and> (\<exists>msg \<in> set q. \<exists>df. carries L msg (snd e) df))
     \<and> (ordered \<longrightarrow> length h \<le> length q \<and> (\<forall>j < length h. \<exists>df. carries L (q ! j) (snd (h ! j)) df))"

lemma heard_Nil [simp]: "heard L key ordered q []"
  by (simp add: heard_def)

lemma heard_append: "heard L key ordered q h \<Longrightarrow> heard L key ordered (q @ q') h"
  by (fastforce simp: heard_def nth_append)

lemma heard_snoc:
  assumes "heard L key ordered q h" and "j < length q" and "ordered \<Longrightarrow> j = length h"
    and "carries L (q ! j) a df" and "faithful key decrypt"
  shows "heard L key ordered q (h @ [(decrypt, a)])"
  using assms by (fastforce simp: heard_def nth_append less_Suc_eq)

lemma heard_butlast:
  assumes "heard L key ordered q (h @ [e])"
  shows "heard L key ordered q h"
proof -
  have "\<exists>df. carries L (q ! j) (snd (h ! j)) df" if "ordered" "j < length h" for j
  proof -
    have "j < length (h @ [e])" using that(2) by simp
    then have "\<exists>df. carries L (q ! j) (snd ((h @ [e]) ! j)) df" using assms that(1) unfolding heard_def by blast
    then show ?thesis using that(2) by (simp add: nth_append)
  qed
  then show ?thesis using assms by (auto simp: heard_def)
qed

text \<open>Every answer is the extension's, after the history recorded with it, which was heard.\<close>

definition answered ::
  "lib \<Rightarrow> (bytes \<Rightarrow> bytes result) \<Rightarrow> bool \<Rightarrow> (bytes \<times> bytes) list \<Rightarrow> handled \<Rightarrow> bytes \<Rightarrow> 8 word \<Rightarrow> bool" where
  "answered L key ordered q h data status \<longleftrightarrow>
     (\<exists>h0 decrypt a ar j df. h = h0 @ [(decrypt, a)] \<and> heard L key ordered q h
        \<and> length h0 < 2 ^ 64 - 1 \<and> j < length q \<and> (ordered \<longrightarrow> j = length h0) \<and> carries L (q ! j) a df
        \<and> answer L decrypt (serve L New h0) a = Some ar \<and> res_Data ar = data \<and> res_Status ar = status)"

lemma answered_append:
  assumes "answered L key ordered q h data status"
  shows "answered L key ordered (q @ q') h data status"
proof -
  obtain h0 decrypt a ar j df where "h = h0 @ [(decrypt, a)]" "heard L key ordered q h"
    "length h0 < 2 ^ 64 - 1" "j < length q" "ordered \<longrightarrow> j = length h0" "carries L (q ! j) a df"
    "answer L decrypt (serve L New h0) a = Some ar" "res_Data ar = data" "res_Status ar = status"
    using assms unfolding answered_def by blast
  then show ?thesis unfolding answered_def
    by (intro exI [of _ h0] exI [of _ decrypt] exI [of _ a] exI [of _ ar] exI [of _ j] exI [of _ df])
      (simp add: heard_append nth_append)
qed

text \<open>The invariant of the machines; one that does not restart answers after a part of its history.\<close>

definition machines_ok ::
  "lib \<Rightarrow> (address \<Rightarrow> bytes \<Rightarrow> bytes result) \<Rightarrow> bool \<Rightarrow> (bytes \<times> bytes) list \<Rightarrow> 'w auction_system \<Rightarrow> bool" where
  "machines_ok L D ordered q y \<longleftrightarrow> (\<forall>m. heard L (D m) ordered q (as_served y m)
     \<and> (\<forall>(h, data, status) \<in> set (as_answers y m). answered L (D m) ordered q h data status
          \<and> (ordered \<longrightarrow> prefix h (as_served y m))))"

lemma machines_append:
  "machines_ok L D ordered q y \<Longrightarrow> machines_ok L D ordered (q @ q') (y\<lparr>as_sale := s\<rparr>)"
  by (fastforce simp: machines_ok_def intro: heard_append answered_append)

lemma machines_served:
  assumes ok: "machines_ok L D ordered q y" and j: "j < length q"
    "ordered \<Longrightarrow> j = length (as_served y m)" "carries L (q ! j) a df"
    and few: "length (as_served y m) < 2 ^ 64 - 1" and key: "faithful (D m) decrypt"
  shows "machines_ok L D ordered q
      (y\<lparr>as_served := (as_served y)(m := as_served y m @ [(decrypt, a)]),
         as_answers := (as_answers y)(m := add_answer (as_served y m @ [(decrypt, a)])
           (answer L decrypt (serve L New (as_served y m)) a) (as_answers y m))\<rparr>)"
proof -
  let ?h = "as_served y m @ [(decrypt, a)]"
  have h: "heard L (D m) ordered q ?h"
    using ok j key by (intro heard_snoc) (auto simp: machines_ok_def)
  have "answered L (D m) ordered q ?h (res_Data ar) (res_Status ar)"
    if "answer L decrypt (serve L New (as_served y m)) a = Some ar" for ar
    unfolding answered_def using h j few that by blast
  with ok h show ?thesis
    by (auto simp: machines_ok_def add_answer_def split: option.splits)
qed

section \<open>What an ended auction means\<close>

text \<open>
  A machine that was the contract's TEE served a close of the auction after history \<open>h\<close>, its
  answer names winner and price of \<open>out\<close>, and \<open>out\<close> is the outcome of the book of \<open>h\<close>.
\<close>

definition closed_by ::
  "lib \<Rightarrow> 'w callees \<Rightarrow> (address \<Rightarrow> bytes \<Rightarrow> bytes result) \<Rightarrow> address \<Rightarrow> bool \<Rightarrow> 'w auction_system
     \<Rightarrow> (bytes \<times> bytes) list \<Rightarrow> nat \<Rightarrow> auction \<Rightarrow> address \<times> int \<times> bool \<Rightarrow> bool" where
  "closed_by L C D me ordered y q i a out \<longleftrightarrow> i < 2 ^ 256 \<and> (\<exists>m h e j.
       named_winner C me y m (h @ [e]) i (fst out) (word_of_int (fst (snd out)))
     \<and> heard L (D m) ordered q (h @ [e]) \<and> (ordered \<longrightarrow> prefix (h @ [e]) (as_served y m))
     \<and> j < length q \<and> (ordered \<longrightarrow> j = length h) \<and> q ! j = close_message C me i a
     \<and> book_outcome (book_run L empty_book h) (int i) me (uint (au_reservePrice a)) = out)"

text \<open>
  A settled auction records such an outcome; a cancelled one had no bid, or an outcome without
  a winner.
\<close>

definition ended_by ::
  "lib \<Rightarrow> 'w callees \<Rightarrow> (address \<Rightarrow> bytes \<Rightarrow> bytes result) \<Rightarrow> address \<Rightarrow> bool \<Rightarrow> 'w auction_system
     \<Rightarrow> (bytes \<times> bytes) list \<Rightarrow> nat \<Rightarrow> auction \<Rightarrow> bool"
  where
  "ended_by L C D me ordered y q i a \<longleftrightarrow>
     (au_state a = State_Settled \<longrightarrow> (\<exists>p. closed_by L C D me ordered y q i a (au_winner a, p, True)
        \<and> au_clearingPrice a = word_of_int p))
   \<and> (au_state a = State_Cancelled \<longrightarrow> (\<forall>b. \<not> placed i b (sa_events (as_sale y)))
        \<or> (\<exists>p f. closed_by L C D me ordered y q i a (0, p, f)))"

text \<open>Events, answers and histories only grow, a restart apart, which an ordered run has not.\<close>

definition extends :: "bool \<Rightarrow> 'w auction_system \<Rightarrow> 'w auction_system \<Rightarrow> bool" where
  "extends ordered y y' \<longleftrightarrow> prefix (sa_events (as_sale y)) (sa_events (as_sale y'))
     \<and> (\<forall>m. set (as_answers y m) \<subseteq> set (as_answers y' m)
          \<and> (ordered \<longrightarrow> prefix (as_served y m) (as_served y' m)))"

lemma named_winner_extends:
  "extends ordered y y' \<Longrightarrow> named_winner C me y m h i w p \<Longrightarrow> named_winner C me y' m h i w p"
  unfolding extends_def named_winner_def using set_mono_prefix by fastforce

lemma closed_by_extends:
  assumes "extends ordered y y'" and "closed_by L C D me ordered y q i a out"
  shows "closed_by L C D me ordered y' (q @ q') i a out"
proof -
  obtain m h e j where n: "named_winner C me y m (h @ [e]) i (fst out) (word_of_int (fst (snd out)))"
    and h: "heard L (D m) ordered q (h @ [e])" "ordered \<longrightarrow> prefix (h @ [e]) (as_served y m)"
    and j: "j < length q" "ordered \<longrightarrow> j = length h" "q ! j = close_message C me i a"
    and out: "book_outcome (book_run L empty_book h) (int i) me (uint (au_reservePrice a)) = out"
    and i: "i < 2 ^ 256"
    using assms(2) unfolding closed_by_def by blast
  have "ordered \<longrightarrow> prefix (h @ [e]) (as_served y' m)"
    using h(2) assms(1) prefix_order.trans unfolding extends_def by blast
  with i named_winner_extends [OF assms(1) n] heard_append [OF h(1)] j out show ?thesis
    unfolding closed_by_def
    by (intro conjI exI [of _ m] exI [of _ h] exI [of _ e] exI [of _ j]) (simp_all add: nth_append)
qed

lemma ended_by_extends:
  assumes "extends ordered y y'" and "ended_by L C D me ordered y q i a"
    and "\<And>b. placed i b (sa_events (as_sale y')) \<Longrightarrow> placed i b (sa_events (as_sale y))"
  shows "ended_by L C D me ordered y' (q @ q') i a"
  using assms(2,3) closed_by_extends [OF assms(1)] unfolding ended_by_def by blast

text \<open>An answer that a settlement can use is that of a close of one of the auctions.\<close>

lemma answered_close:
  assumes laws: "coder_laws L C me" and ok: "\<forall>msg \<in> set q. about C me s msg"
    and ans: "answered L key ordered q hh data 1" and long: "\<not> length data < 128"
  obtains h e j i winner price found where
    "hh = h @ [e]" "heard L key ordered q hh" "j < length q" "ordered \<longrightarrow> j = length h"
    "i < length (sa_auctions s)" "i < 2 ^ 256" "q ! j = close_message C me i (sa_auctions s ! i)"
    "book_outcome (book_run L empty_book h) (int i) me (uint (au_reservePrice (sa_auctions s ! i))) =
       (winner, price, found)"
    "pack_result L AuctionResultArgs me (int i) winner price = Inr data"
proof -
  obtain h decrypt a ar j df where hh: "hh = h @ [(decrypt, a)]" and h: "heard L key ordered q hh"
    "length h < 2 ^ 64 - 1" "j < length q" "ordered \<longrightarrow> j = length h" and car: "carries L (q ! j) a df"
    and ar: "answer L decrypt (serve L New h) a = Some ar" "res_Data ar = data" "res_Status ar = 1"
    using ans unfolding answered_def by blast
  have close: "df_OPCommand df = hash32 OP_COMMAND_CLOSE_AUCTION"
    "fst (processCloseAuction L (serve L New h) a df) = Some ar"
    using ar car long bid_answer_short [of L decrypt "serve L New h" a df]
    by (auto simp: answer_def carries_def coder_simps [OF laws] split: if_splits)
  have "about C me s (q ! j)" using ok h(3) by simp
  with car close(1) hash32_commands obtain i where i: "i < length (sa_auctions s)" "i < 2 ^ 256"
    "q ! j = close_message C me i (sa_auctions s ! i)"
    by (auto simp: about_def carries_def bid_message_def)
  show ?thesis
  proof (rule close_answer [OF close(2) ar(3) h(2)])
    fix req :: CloseMessage and aid winner price found
    assume d: "decode_close L CloseMessageArg (df_OriginalMessage df) = Inr req" "cm_AuctionId req = Some aid"
      and out: "book_outcome (book_run L empty_book h) aid (cm_ContractAddr req)
        (reserve_or_zero (cm_ReservePrice req)) = (winner, price, found)"
        "pack_result L AuctionResultArgs (cm_ContractAddr req) aid winner price = Inr (res_Data ar)"
    have "req = \<lparr>cm_AuctionId = Some (int i), cm_ContractAddr = me,
        cm_ReservePrice = Some (uint (au_reservePrice (sa_auctions s ! i))),
        cm_Deadline = au_deadline (sa_auctions s ! i)\<rparr>"
      using d(1) car i(3) by (simp add: carries_def close_message_def coder_simps(5) [OF laws i(2)])
    with d(2) out ar(2) show ?thesis
      by (intro that [OF hh h(1,3,4) i]) (auto simp: reserve_or_zero_def)
  qed
qed

text \<open>The contract's current TEE was announced when it was set.\<close>

definition tee_named :: "'w sale \<Rightarrow> bool" where
  "tee_named s \<longleftrightarrow> sa_teeAddress s = 0 \<or> TeeAddressSet (sa_teeAddress s) \<in> set (sa_events s)"

lemma settle_needs_tee: "settle C x rd aid tag st sig s = Inr (y, s') \<Longrightarrow> sa_teeAddress s \<noteq> 0"
  by (auto simp: settle_def committed dest!: nonReentrant_ok)

lemma transact_tee:
  assumes "transact C x r s = Inr s'" and "tee_named s"
  shows "tee_named s'"
proof (cases "\<exists>t. r = Set_Tee t")
  case True
  with assms(1) show ?thesis
    by (auto simp: tee_named_def outcome_Inr setTeeAddress_def committed emit_def)
next
  case False
  have "sa_teeAddress s' = sa_teeAddress s" using assms(1) False
    by (cases r)
      (auto simp: outcome_Inr setExtensionId_def createAuction_def placeBid_def closeAuction_def
        cancelAuction_def settle_def committed getAuction_ok emit_def update_auction_def
        split: option.splits if_splits dest!: nonReentrant_ok releaseLot_ok sendInstruction_ok)
  moreover obtain es where "sa_events s' = sa_events s @ es"
    using transact_events [OF assms(1), of 0 0] by blast
  ultimately show ?thesis using assms(2) by (auto simp: tee_named_def)
qed

lemma settle_closed:
  assumes laws: "coder_laws L C me" and ok: "\<forall>msg \<in> set q. about C me s msg"
    and tx: "settle C x rd aid tag st sig s = Inr (u, s')" and me: "cx_this x = me"
    and s: "s = as_sale y" "tee_named s" and m: "machines_ok L D ordered q y"
    and ans: "(hh, rd, st) \<in> set (as_answers y (sa_teeAddress s))"
  obtains i winner price found where
    "closed_by L C D me ordered y q i (sa_auctions s ! i) (winner, price, found)"
    "i < length (sa_auctions s)" "au_state (sa_auctions s ! i) = State_Closing"
    "sa_auctions s' = (sa_auctions s)[i := cleared (sa_auctions s ! i) winner (word_of_int price)]"
proof -
  let ?m = "sa_teeAddress s"
  obtain c k w p where d: "decode_result C rd = Some (c, k, w, p)" using tx by (rule settle_decodes)
  note eff = settle_effect [OF tx d]
  have st: "st = 1" "\<not> length rd < 128"
    using settle_authorised [OF tx] laws d by (auto simp: coder_laws_def)
  have hh: "answered L (D ?m) ordered q hh rd 1" "ordered \<longrightarrow> prefix hh (as_served y ?m)"
    using m ans st(1) by (auto simp: machines_ok_def)
  obtain h e j i winner price found where h: "hh = h @ [e]" "heard L (D ?m) ordered q hh"
    "j < length q" "ordered \<longrightarrow> j = length h"
    and i: "i < length (sa_auctions s)" "i < 2 ^ 256" "q ! j = close_message C me i (sa_auctions s ! i)"
    and out: "book_outcome (book_run L empty_book h) (int i) me
        (uint (au_reservePrice (sa_auctions s ! i))) = (winner, price, found)"
    and packed: "pack_result L AuctionResultArgs me (int i) winner price = Inr rd"
    by (rule answered_close [OF laws ok hh(1) st(2)])
  have dec: "decode_result C rd = Some (me, word_of_int (int i), winner, word_of_int price)"
    using laws packed by (auto simp: coder_laws_def)
  then have kw: "k = word_of_int (int i)" "w = winner" "p = word_of_int price" using d by simp_all
  have "named_winner C me y ?m (h @ [e]) i winner (word_of_int price)"
    using ans st(1) s settle_needs_tee [OF tx] dec h(1) by (auto simp: named_winner_def tee_named_def)
  then have "closed_by L C D me ordered y q i (sa_auctions s ! i) (winner, price, found)"
    unfolding closed_by_def using h hh(2) i(2,3) out
    by (intro conjI exI [of _ ?m] exI [of _ h] exI [of _ e] exI [of _ j]) simp_all
  moreover have "unat k = i" using kw(1) i(2) by (simp add: unat_of_nat take_bit_nat_eq_self)
  ultimately show ?thesis using that [of i winner price found] eff kw i(1) by simp
qed

lemma closed_by_cleared:
  "closed_by L C D me ordered y q i (cleared a w p) out \<longleftrightarrow> closed_by L C D me ordered y q i a out"
  by (simp add: closed_by_def close_message_def cleared_def)

lemma cleared_ended:
  assumes "closed_by L C D me ordered y q i a (winner, price, found)"
  shows "ended_by L C D me ordered y q i (cleared a winner (word_of_int price))"
proof -
  have c: "closed_by L C D me ordered y q i (cleared a winner (word_of_int price)) (winner, price, found)"
    using assms by (simp only: closed_by_cleared)
  show ?thesis
  proof (cases "winner = 0")
    case True
    then have "au_state (cleared a winner (word_of_int price)) = State_Cancelled" by (simp add: cleared_def)
    with c True show ?thesis unfolding ended_by_def by auto
  next
    case False
    then have w: "au_state (cleared a winner (word_of_int price)) = State_Settled"
      "au_winner (cleared a winner (word_of_int price)) = winner"
      "au_clearingPrice (cleared a winner (word_of_int price)) = word_of_int price"
      by (simp_all add: cleared_def)
    moreover have "found" using assms False outcome_found unfolding closed_by_def by blast
    ultimately show ?thesis using c unfolding ended_by_def by auto
  qed
qed

section \<open>The invariant of the joint system\<close>

definition counted :: "'w sale \<Rightarrow> bool" where
  "counted s \<longleftrightarrow> (\<forall>i b. placed i b (sa_events s) \<longrightarrow>
     i < length (sa_auctions s) \<and> au_bidCount (sa_auctions s ! i) \<noteq> 0)"

definition ended_ok ::
  "lib \<Rightarrow> 'w callees \<Rightarrow> (address \<Rightarrow> bytes \<Rightarrow> bytes result) \<Rightarrow> address \<Rightarrow> bool
     \<Rightarrow> (bytes \<times> bytes) list \<Rightarrow> 'w auction_system \<Rightarrow> bool" where
  "ended_ok L C D me ordered q y \<longleftrightarrow> counted (as_sale y) \<and> tee_named (as_sale y)
     \<and> (\<forall>i < length (sa_auctions (as_sale y)). ended_by L C D me ordered y q i (sa_auctions (as_sale y) ! i))"

definition system_ok ::
  "lib \<Rightarrow> 'w callees \<Rightarrow> (address \<Rightarrow> bytes \<Rightarrow> bytes result) \<Rightarrow> ('w \<Rightarrow> (bytes \<times> bytes) list) \<Rightarrow> address
     \<Rightarrow> bool \<Rightarrow> 'w auction_system \<Rightarrow> bool"
  where
  "system_ok L C D sent me ordered y \<longleftrightarrow> (let s = as_sale y; q = sent (sa_chain s) in
     queue_ok C me s q \<and> machines_ok L D ordered q y \<and> ended_ok L C D me ordered q y)"

lemma counted_transact:
  assumes "counted s" and tx: "transact C x r s = Inr s'"
  shows "counted s'"
  unfolding counted_def
proof (intro allI impI)
  fix i b assume b: "placed i b (sa_events s')"
  have g: "grown s s'" using tx by (intro sale_step_grown transact_step)
  show "i < length (sa_auctions s') \<and> au_bidCount (sa_auctions s' ! i) \<noteq> 0"
  proof (cases "placed i b (sa_events s)")
    case True
    with assms(1) g show ?thesis unfolding counted_def grown_def using later_simps(4) by blast
  next
    case False
    with b transact_events [OF tx, of i b] obtain k ct where "r = Place k ct" "i = unat k" by auto
    with tx g place_ok [of C x k ct s s'] place_count [of C x k ct s s'] show ?thesis
      by (auto simp: grown_def)
  qed
qed

lemma transact_extends:
  "transact C x r (as_sale y) = Inr s' \<Longrightarrow> extends ordered y (y\<lparr>as_sale := s'\<rparr>)"
  using transact_events [of C x r "as_sale y" s' 0 0] by (auto simp: extends_def)

text \<open>An auction that had ended before the transaction, or that the seller withdraws.\<close>

lemma ended_kept:
  assumes old: "ended_by L C D me ordered y q i (sa_auctions (as_sale y) ! i)"
    and tx: "transact C x r (as_sale y) = Inr s'" and i: "i < length (sa_auctions (as_sale y))"
    and st: "au_state (sa_auctions (as_sale y) ! i) \<in> {State_Settled, State_Cancelled}"
  shows "ended_by L C D me ordered (y\<lparr>as_sale := s'\<rparr>) q i (sa_auctions s' ! i)"
proof -
  have "sa_auctions s' ! i = sa_auctions (as_sale y) ! i"
    using sale_step_grown [OF transact_step [OF tx]] i st later_simps(5) unfolding grown_def by blast
  moreover have "placed i b (sa_events (as_sale y))" if "placed i b (sa_events s')" for b
    using transact_events [OF tx, of i b] place_ok [of C x _ _ "as_sale y" s'] tx st that by auto
  ultimately show ?thesis
    using ended_by_extends [OF transact_extends [OF tx] old, of "[]"] by simp
qed

lemma ended_withdrawn:
  assumes tx: "transact C x (Cancel k) (as_sale y) = Inr s'" and c: "counted (as_sale y)"
  shows "ended_by L C D me ordered (y\<lparr>as_sale := s'\<rparr>) q (unat k) (sa_auctions s' ! unat k)"
proof -
  have "\<not> placed (unat k) b (sa_events s')" for b
    using transact_events [OF tx, of "unat k" b] cancel_ok [OF tx]
      c [unfolded counted_def, rule_format, of "unat k" b] by auto
  then show ?thesis using cancel_ok [OF tx] by (simp add: ended_by_def)
qed

lemma ended_settled:
  assumes laws: "coder_laws L C me" and q: "\<forall>msg \<in> set q. about C me (as_sale y) msg"
    and tx: "transact C x (Settle rd aid tag st sig) (as_sale y) = Inr s'" and me: "cx_this x = me"
    and tee: "tee_named (as_sale y)" and m: "machines_ok L D ordered q y"
    and ans: "(hh, rd, st) \<in> set (as_answers y (sa_teeAddress (as_sale y)))"
    and i: "i < length (sa_auctions s')"
    and new: "\<not> (i < length (sa_auctions (as_sale y))
      \<and> au_state (sa_auctions (as_sale y) ! i) \<in> {State_Settled, State_Cancelled})"
  shows "ended_by L C D me ordered (y\<lparr>as_sale := s'\<rparr>) q i (sa_auctions s' ! i)"
proof -
  obtain u where u: "settle C x rd aid tag st sig (as_sale y) = Inr (u, s')"
    using tx by (auto simp: outcome_Inr)
  obtain k winner price found where
    out: "closed_by L C D me ordered y q k (sa_auctions (as_sale y) ! k) (winner, price, found)"
    and k: "k < length (sa_auctions (as_sale y))"
    "sa_auctions s' =
       (sa_auctions (as_sale y))[k := cleared (sa_auctions (as_sale y) ! k) winner (word_of_int price)]"
    by (rule settle_closed [OF laws q u me refl tee m ans])
  show ?thesis
  proof (cases "i = k")
    case True
    with k cleared_ended [OF closed_by_extends [OF transact_extends [OF tx] out, of "[]"]]
    show ?thesis by simp
  next
    case False
    with k i new show ?thesis by (simp add: ended_by_def)
  qed
qed

lemma ended_transact:
  assumes laws: "coder_laws L C me" and q: "queue_ok C me (as_sale y) q"
    and ok: "ended_ok L C D me ordered q y" and m: "machines_ok L D ordered q y"
    and tx: "transact C x r (as_sale y) = Inr s'" and me: "cx_this x = me"
    and ans: "case r of Settle rd _ _ st _ \<Rightarrow> \<exists>h. (h, rd, st) \<in> set (as_answers y (sa_teeAddress (as_sale y)))
      | _ \<Rightarrow> True"
  shows "ended_ok L C D me ordered q (y\<lparr>as_sale := s'\<rparr>)"
proof -
  have "ended_by L C D me ordered (y\<lparr>as_sale := s'\<rparr>) q i (sa_auctions s' ! i)" if i: "i < length (sa_auctions s')" for i
  proof (cases "i < length (sa_auctions (as_sale y))
      \<and> au_state (sa_auctions (as_sale y) ! i) \<in> {State_Settled, State_Cancelled}")
    case True
    then show ?thesis using ok by (intro ended_kept [OF _ tx]) (auto simp: ended_ok_def)
  next
    case False
    show ?thesis
    proof (cases "au_state (sa_auctions s' ! i) \<in> {State_Settled, State_Cancelled}")
      case ended: True
      with False i transact_ended [OF tx i refl] consider
        rd aid tag st sig where "r = Settle rd aid tag st sig" | k where "r = Cancel k" "i = unat k"
        by (cases r) (auto, metis+)
      then show ?thesis
      proof cases
        case 1
        with ans obtain h where "(h, rd, st) \<in> set (as_answers y (sa_teeAddress (as_sale y)))" by auto
        with 1 tx q ok i False show ?thesis
          by (intro ended_settled [OF laws _ _ me _ m]) (auto simp: queue_ok_def ended_ok_def)
      next
        case 2
        then show ?thesis using ended_withdrawn [of C x k y s'] tx ok by (auto simp: ended_ok_def)
      qed
    qed (auto simp: ended_by_def)
  qed
  then show ?thesis using counted_transact [OF _ tx] transact_tee [OF tx] ok by (simp add: ended_ok_def)
qed

lemma ended_ok_extends:
  assumes "extends ordered y y'" and "as_sale y' = as_sale y" and "ended_ok L C D me ordered q y"
  shows "ended_ok L C D me ordered q y'"
  using assms(3) ended_by_extends [OF assms(1), where q' = "[]"] by (simp add: ended_ok_def assms(2))

lemma ended_ok_append: "ended_ok L C D me ordered q y \<Longrightarrow> ended_ok L C D me ordered (q @ q') y"
  using ended_by_extends [of ordered y y] by (simp add: ended_ok_def extends_def)

lemma system_ok_transacted:
  assumes reg: "registry_laws C sent" and laws: "coder_laws L C me"
    and ok: "system_ok L C D sent me ordered y"
    and tx: "transact C x r (as_sale y) = Inr s'" "cx_this x = me"
    and ans: "case r of Settle rd _ _ st _ \<Rightarrow> \<exists>h. (h, rd, st) \<in> set (as_answers y (sa_teeAddress (as_sale y)))
      | _ \<Rightarrow> True"
  shows "system_ok L C D sent me ordered (y\<lparr>as_sale := s'\<rparr>)"
proof -
  let ?q = "sent (sa_chain (as_sale y))"
  have q': "sent (sa_chain s') = ?q @ emitted C x r (as_sale y)" using reg tx(1) by (rule transact_queue)
  have m: "machines_ok L D ordered ?q y" and q: "queue_ok C me (as_sale y) ?q"
    and s: "ended_ok L C D me ordered ?q y" using ok by (simp_all add: system_ok_def Let_def)
  have "ended_ok L C D me ordered ?q (y\<lparr>as_sale := s'\<rparr>)" by (rule ended_transact [OF laws q s m tx ans])
  then have "ended_ok L C D me ordered (?q @ emitted C x r (as_sale y)) (y\<lparr>as_sale := s'\<rparr>)"
    by (rule ended_ok_append)
  with queue_transact [OF laws q tx] machines_append [OF m] q' show ?thesis
    by (simp add: system_ok_def Let_def)
qed

lemma system_ok_served:
  assumes "system_ok L C D sent me ordered y" and "j < length (sent (sa_chain (as_sale y)))"
    and "ordered \<Longrightarrow> j = length (as_served y m)" and "carries L (sent (sa_chain (as_sale y)) ! j) a df"
    and "length (as_served y m) < 2 ^ 64 - 1" and "faithful (D m) decrypt"
  shows "system_ok L C D sent me ordered
      (y\<lparr>as_served := (as_served y)(m := as_served y m @ [(decrypt, a)]),
         as_answers := (as_answers y)(m := add_answer (as_served y m @ [(decrypt, a)])
           (answer L decrypt (serve L New (as_served y m)) a) (as_answers y m))\<rparr>)"
    (is "system_ok _ _ _ _ _ _ ?y'")
proof -
  have "extends ordered y ?y'" by (auto simp: extends_def add_answer_def split: option.splits)
  then show ?thesis using assms(1) machines_served [where m = m, OF _ assms(2-5), where decrypt = decrypt] assms(6) ended_ok_extends [of ordered y ?y']
    by (simp add: system_ok_def Let_def)
qed

lemma system_ok_restarted:
  assumes "system_ok L C D sent me False y"
  shows "system_ok L C D sent me False (y\<lparr>as_served := (as_served y)(m := [])\<rparr>)" (is "system_ok _ _ _ _ _ _ ?y'")
proof -
  have "extends False y ?y'" by (simp add: extends_def)
  then show ?thesis using assms ended_ok_extends [of False y ?y']
    by (simp add: system_ok_def Let_def machines_ok_def)
qed

lemma system_ok_elsewhere:
  assumes "system_ok L C D sent me ordered y" and "sent w = sent (sa_chain (as_sale y))"
  shows "system_ok L C D sent me ordered (y\<lparr>as_sale := (as_sale y)\<lparr>sa_chain := w\<rparr>\<rparr>)"
    (is "system_ok _ _ _ _ _ _ ?y'")
proof -
  have e: "extends ordered y ?y'" by (simp add: extends_def)
  then show ?thesis using assms ended_by_extends [OF e, where q' = "[]"]
    by (simp add: system_ok_def Let_def queue_ok_def about_def machines_ok_def ended_ok_def counted_def
        tee_named_def)
qed

lemma system_ok_step:
  assumes "registry_laws C sent" and "coder_laws L C me"
    and "system_step C L D sent me ordered y y'" and ok: "system_ok L C D sent me ordered y"
  shows "system_ok L C D sent me ordered y'"
  using assms(3)
proof cases
  case (transacted x r s')
  then show ?thesis using system_ok_transacted [OF assms(1,2) ok] by simp
next
  case (elsewhere w)
  then show ?thesis using system_ok_elsewhere [OF ok] by simp
next
  case (served j m a df decrypt)
  then show ?thesis using system_ok_served [OF ok] by simp
next
  case (restarted m)
  then show ?thesis using ok system_ok_restarted by (cases ordered) auto
qed

lemma system_ok_reachable:
  assumes "registry_laws C sent" and "coder_laws L C me"
    and "system_reachable C L D sent me ordered y"
  shows "system_ok L C D sent me ordered y"
  using assms(3)
proof (induction rule: system_reachable.induct)
  case (start hasCode x er mr w s)
  then show ?case
    by (auto simp: deploy_sale_def committed system_ok_def queue_ok_def machines_ok_def ended_ok_def counted_def
        tee_named_def placed_def Let_def)
next
  case (step y y')
  then show ?case using system_ok_step [OF assms(1,2)] by blast
qed

end
