(* ===== verification/Fair_Sale.thy ===== *)
theory Fair_Sale
  imports System_Props
begin

text \<open>
  What bidders and seller can rely on: the joint system of contract and machines sells to a
  bidder who bid on chain, at the price that was in the ciphertext, and, when the machine serves
  the queue in order, no bid placed on chain is left out. Each property names the machine whose
  answer the contract recorded, the history it had served and what its key decrypts to.
\<close>

section \<open>Reading a carried instruction\<close>

lemma carried_bid:
  assumes laws: "coder_laws L C me" and car: "carries L (bid_message C i b ct) (snd e) df"
    and bid: "bids_as L e x" and i: "i < 2 ^ 256"
  shows "en_auction x = int i \<and> en_bidder x = b \<and> authentic_bid L (fst e) df = Some x"
proof -
  have df: "authentic_bid L (fst e) df = Some x" using bid car by (auto simp: bids_as_def carries_def)
  have "decode_place_bid L PlaceBidMessageArg (df_OriginalMessage df) =
      Inr \<lparr>pbm_AuctionId = Some (int i), pbm_Bidder = b, pbm_Ciphertext = ct\<rparr>"
    using car coder_simps(4) [OF laws i] by (simp add: carries_def bid_message_def)
  with df show ?thesis by (auto simp: authentic_bid_def split: sum.splits option.splits if_splits)
qed

lemma carried_close:
  assumes laws: "coder_laws L C me" and car: "carries L (close_message C me i a) (snd e) df"
    and close: "closes_as L e aid" and i: "i < 2 ^ 256"
  shows "aid = int i"
  using close car coder_simps(5) [OF laws i, of "au_reservePrice a" "au_deadline a"]
  by (auto simp: closes_as_def carries_def close_message_def close_request_def split: if_splits)

lemma carried_bid_is_bid:
  assumes laws: "coder_laws L C me" and "about C me s msg" and "carries L msg (snd e) df"
    and "bids_as L e x"
  obtains i b ct where "i < length (sa_auctions s)" "i < 2 ^ 256" "msg = bid_message C i b ct"
    "placed i b (sa_events s)"
proof -
  have "df_OPCommand df = hash32 OP_COMMAND_PLACE_BID"
    using assms(3,4) coder_simps(2) [OF laws] by (auto simp: bids_as_def carries_def)
  then show ?thesis using assms(2,3) hash32_commands that
    by (auto simp: about_def carries_def close_message_def)
qed

lemma carried_close_is_close:
  assumes laws: "coder_laws L C me" and "about C me s msg" and "carries L msg (snd e) df"
    and "closes_as L e aid"
  obtains i where "i < 2 ^ 256" "msg = close_message C me i (sa_auctions s ! i)"
proof -
  have "df_OPCommand df = hash32 OP_COMMAND_CLOSE_AUCTION"
    using assms(3,4) coder_simps(3) [OF laws] by (auto simp: closes_as_def carries_def)
  then show ?thesis using assms(2,3) hash32_commands that
    by (auto simp: about_def carries_def bid_message_def)
qed

section \<open>The winner bid on chain\<close>

lemma faithful_bid:
  "authentic_bid L decrypt df = Some x \<Longrightarrow> faithful key decrypt \<Longrightarrow> authentic_bid L key df = Some x"
  by (fastforce simp: authentic_bid_def faithful_def split: sum.splits option.splits if_splits)

text \<open>
  The \<open>n\<close>-th action of the history \<open>h\<close> of the machine with this key carried the bid: the instruction
  that a transaction of \<open>b\<close> on auction \<open>i\<close> queued with the ciphertext \<open>ct\<close>. The machine read it as \<open>x\<close>,
  which is what its key decrypts the ciphertext to.
\<close>

definition bid_read ::
  "lib \<Rightarrow> 'w callees \<Rightarrow> (bytes \<Rightarrow> bytes result) \<Rightarrow> handled \<Rightarrow> nat \<Rightarrow> nat \<Rightarrow> address \<Rightarrow> bytes \<Rightarrow> entry \<Rightarrow> bool"
  where
  "bid_read L C key h n i b ct x \<longleftrightarrow> n < length h \<and>
     (\<exists>df. carries L (bid_message C i b ct) (snd (h ! n)) df
        \<and> authentic_bid L (fst (h ! n)) df = Some x \<and> authentic_bid L key df = Some x)"

lemma bid_readI:
  assumes "heard L key ordered q h" and "n < length h" and "carries L (bid_message C i b ct) (snd (h ! n)) df"
    and "authentic_bid L (fst (h ! n)) df = Some x"
  shows "bid_read L C key h n i b ct x"
proof -
  have "faithful key (fst (h ! n))" using assms(1) nth_mem [OF assms(2)] by (simp add: heard_def)
  from faithful_bid [OF assms(4) this] assms(2-4) show ?thesis by (auto simp: bid_read_def)
qed

lemma bid_read_bids:
  assumes "coder_laws L C me" and "bid_read L C key h n i b ct x"
  shows "bids_as L (h ! n) x"
  using assms(2) by (auto simp: bid_read_def bids_as_def carries_def bid_message_def coder_simps [OF assms(1)])

lemma heard_nth:
  assumes "heard L key ordered q h" and "n < length h"
  shows "\<exists>msg \<in> set q. \<exists>df. carries L msg (snd (h ! n)) df \<and> (ordered \<longrightarrow> q ! n = msg)"
proof (cases ordered)
  case True
  with assms have "n < length q" "\<exists>df. carries L (q ! n) (snd (h ! n)) df" unfolding heard_def by auto
  then show ?thesis using nth_mem by blast
next
  case False
  with assms(1) nth_mem [OF assms(2)] show ?thesis unfolding heard_def by blast
qed

text \<open>The winner of the book of a heard history, traced to the instruction that carried the bid.\<close>

lemma winner_bid:
  assumes laws: "coder_laws L C me" and ok: "queue_ok C me s q" and h: "heard L key ordered q h"
    and i: "i < 2 ^ 256"
    and out: "book_outcome (book_run L empty_book h) (int i) me r = (w, p, True)"
  shows "placed i w (sa_events s) \<and> (\<exists>n ct x. bid_message C i w ct \<in> set q
    \<and> (ordered \<longrightarrow> q ! n = bid_message C i w ct) \<and> bid_read L C key h n i w ct x \<and> en_amount x = p \<and> r \<le> en_amount x \<and> en_contract x = me)"
proof -
  obtain x where x: "x \<in> set (bk_log (book_run L empty_book h))" "competes (int i) me r x"
    "en_bidder x = w" "en_amount x = p"
    using out by (rule outcome_best)
  obtain e where "e \<in> set h" "bids_as L e x"
    using run_log [OF x(1)] by (auto simp: empty_book_def)
  then obtain n where e: "n < length h" "bids_as L (h ! n) x" by (metis in_set_conv_nth)
  obtain msg df where msg: "msg \<in> set q" "carries L msg (snd (h ! n)) df" "ordered \<longrightarrow> q ! n = msg"
    using heard_nth [OF h e(1)] by metis
  have "about C me s msg" using ok msg(1) by (simp add: queue_ok_def)
  then obtain i' b ct where bid: "i' < 2 ^ 256" "msg = bid_message C i' b ct" "placed i' b (sa_events s)"
    using carried_bid_is_bid [OF laws _ msg(2) e(2)] by metis
  have r: "en_auction x = int i' \<and> en_bidder x = b \<and> authentic_bid L (fst (h ! n)) df = Some x"
    using carried_bid [OF laws _ e(2) bid(1)] msg(2) bid(2) by blast
  with x(2,3) have "i' = i" "b = w" by (auto simp: competes_def)
  moreover have "r \<le> en_amount x" "en_contract x = me" using x(2) by (simp_all add: competes_def)
  moreover have "bid_read L C key h n i w ct x"
    using bid_readI [OF h e(1)] msg(2) bid(2) r calculation(1,2) by blast
  ultimately show ?thesis using bid(2,3) msg(1,3) x(4)
    by (intro conjI exI [of _ n] exI [of _ ct] exI [of _ x]) simp_all
qed

text \<open>What was read of a bid does not change when the history grows.\<close>

lemma bid_read_butlast: "bid_read L C key h n i b ct x \<Longrightarrow> bid_read L C key (h @ hs) n i b ct x"
  by (auto simp: bid_read_def nth_append)

text \<open>
  C3. In every reachable state of the joint system, a settled auction was closed by a machine
  the contract had been given as its TEE. That machine's answer names the recorded winner and
  price; in the history the machine had served by then there is a bid that the winner placed on
  this auction in a transaction of his own, and the price is the amount in its ciphertext as the
  key of this machine decrypts it. The amount is not below the reserve and the bid was made for
  this contract. This holds for any number of machines, served in any order.
\<close>

theorem settled_winner_bid_on_chain:
  assumes "registry_laws C sent" and "coder_laws L C me"
    and "system_reachable C L D sent me ordered y"
    and "i < length (sa_auctions (as_sale y))"
    and "a = sa_auctions (as_sale y) ! i" and "au_state a = State_Settled"
  shows "placed i (au_winner a) (sa_events (as_sale y))
    \<and> (\<exists>m h n ct x. named_winner C me y m h i (au_winner a) (au_clearingPrice a)
       \<and> bid_message C i (au_winner a) ct \<in> set (sent (sa_chain (as_sale y)))
       \<and> bid_read L C (D m) h n i (au_winner a) ct x
       \<and> au_clearingPrice a = word_of_int (en_amount x)
       \<and> uint (au_reservePrice a) \<le> en_amount x \<and> en_contract x = me)"
proof -
  let ?q = "sent (sa_chain (as_sale y))"
  have ok: "queue_ok C me (as_sale y) ?q" "ended_ok L C D me ordered ?q y"
    using system_ok_reachable [OF assms(1-3)] by (simp_all add: system_ok_def Let_def)
  obtain m h e p where n: "named_winner C me y m (h @ [e]) i (au_winner a) (word_of_int p)"
    and h: "heard L (D m) ordered ?q (h @ [e])" "i < 2 ^ 256"
    and out: "book_outcome (book_run L empty_book h) (int i) me (uint (au_reservePrice a)) =
      (au_winner a, p, True)" and p: "au_clearingPrice a = word_of_int p"
    using ok(2) assms(4-6) unfolding ended_ok_def ended_by_def closed_by_def fst_conv snd_conv by blast
  show ?thesis
    using winner_bid [OF assms(2) ok(1) heard_butlast [OF h(1)] h(2) out] n p bid_read_butlast by metis
qed

section \<open>No bid is left out\<close>

lemma served_bid_in_book:
  assumes laws: "coder_laws L C me" and ok: "queue_ok C me s q" and h: "heard L key True q h"
    and k: "k < length h" "q ! k = bid_message C i b ct" and x: "bids_as L (h ! k) x"
    and i: "i < 2 ^ 256"
  shows "x \<in> set (bk_log (book_run L empty_book h)) \<and> en_auction x = int i \<and> 0 < en_amount x"
proof -
  have len: "length h \<le> length q" using h by (simp add: heard_def)
  obtain df where "carries L (q ! k) (snd (h ! k)) df" using h k(1) unfolding heard_def by blast
  with k(2) have c: "en_auction x = int i" "authentic_bid L (fst (h ! k)) df = Some x"
    using carried_bid [OF laws _ x i] by auto
  have "\<not> closes_as L (h ! j) (int i)" if j: "j < k" for j
  proof
    assume close: "closes_as L (h ! j) (int i)"
    obtain df' where car: "carries L (q ! j) (snd (h ! j)) df'"
      using h j k(1) unfolding heard_def by (meson less_trans)
    have "about C me s (q ! j)" using ok len j k(1) by (simp add: queue_ok_def)
    then obtain i' where i': "i' < 2 ^ 256" "q ! j = close_message C me i' (sa_auctions s ! i')"
      using carried_close_is_close [OF laws _ car close] by metis
    then have "int i = int i'" using carried_close [OF laws _ close] car by metis
    moreover have "never_behind C me (q ! j) (q ! k)"
      using ok j k(1) len by (simp add: queue_ok_def sorted_wrt_iff_nth_less)
    ultimately show False using i' k(2) by (auto simp: never_behind_def)
  qed
  then have "x \<in> set (bk_log (book_run L empty_book h))"
    by (intro run_complete [OF k(1) x]) (simp_all add: c(1) empty_book_def)
  with c show ?thesis by (auto simp: authentic_bid_def split: sum.splits option.splits if_splits)
qed

lemma served_before_close:
  assumes "queue_ok C me s q" and "j < length q" and "q ! j = close_message C me i a" and "i < 2 ^ 256"
    and "k < length q" and "q ! k = bid_message C i b ct"
  shows "k < j"
proof (cases j k rule: linorder_cases)
  case less
  then have "never_behind C me (q ! j) (q ! k)"
    using assms(1,5) by (simp add: queue_ok_def sorted_wrt_iff_nth_less)
  then show ?thesis using assms(3,4,6) unfolding never_behind_def by blast
qed (use assms(3,6) in \<open>auto simp: messages_differ\<close>)

text \<open>
  A machine's history read in order against the queue: it is a part of what the machine has
  served, its last action is the close of auction \<open>i\<close>, and every bid on the auction that the queue
  holds is the action before it that carries this instruction.
\<close>

definition heard_all ::
  "lib \<Rightarrow> 'w callees \<Rightarrow> address \<Rightarrow> (bytes \<times> bytes) list \<Rightarrow> 'w auction_system \<Rightarrow> address \<Rightarrow> handled
     \<Rightarrow> nat \<Rightarrow> auction \<Rightarrow> bool" where
  "heard_all L C me q y m h i a \<longleftrightarrow> prefix h (as_served y m) \<and> h \<noteq> []
     \<and> q ! (length h - 1) = close_message C me i a
     \<and> (\<forall>k < length q. \<forall>b ct. q ! k = bid_message C i b ct \<longrightarrow> k < length h - 1
          \<and> (\<exists>df. carries L (bid_message C i b ct) (snd (h ! k)) df))"

lemma heard_allI:
  assumes "queue_ok C me s q" and h: "heard L key True q (h @ [e])" and i: "i < 2 ^ 256"
    and at: "length h < length q" "q ! length h = close_message C me i a"
    and p: "prefix (h @ [e]) (as_served y m)"
  shows "heard_all L C me q y m (h @ [e]) i a"
  unfolding heard_all_def
proof (intro conjI allI impI)
  fix k b ct assume k: "k < length q" "q ! k = bid_message C i b ct"
  show less: "k < length (h @ [e]) - 1" using served_before_close [OF assms(1) at i k] by simp
  then have "k < length (h @ [e])" by simp
  then show "\<exists>df. carries L (bid_message C i b ct) (snd ((h @ [e]) ! k)) df"
    using h k(2) unfolding heard_def by metis
qed (use at p in simp_all)

lemma bid_read_before:
  assumes "bid_read L C key (h @ [e]) k i b ct x" and "q ! k = bid_message C i b ct"
    and "q ! length h = close_message C' me j a"
  shows "k < length h"
proof (rule ccontr)
  assume "\<not> k < length h"
  with assms(1) have "k = length h" by (simp add: bid_read_def)
  with assms(2,3) messages_differ show False by metis
qed

text \<open>
  C4. If the machines serve the queue in order and do not restart, no bid is left out. Every
  bid placed on chain on a settled auction is queued. The machine whose answer was settled had
  been handed every queued bid on the auction before the close that it answered. The recorded
  price is the amount of the winner's bid, and none of the bids the machine read as an authentic
  offer to this contract at or above the reserve is higher.
\<close>

theorem no_bid_left_out:
  assumes "registry_laws C sent" and "coder_laws L C me"
    and "system_reachable C L D sent me True y"
    and "i < length (sa_auctions (as_sale y))"
    and "a = sa_auctions (as_sale y) ! i" and "au_state a = State_Settled"
    and "q = sent (sa_chain (as_sale y))"
  shows "(\<forall>b. placed i b (sa_events (as_sale y)) \<longrightarrow> (\<exists>ct. bid_message C i b ct \<in> set q))
    \<and> (\<exists>m h n ct x. named_winner C me y m h i (au_winner a) (au_clearingPrice a)
       \<and> heard_all L C me q y m h i a
       \<and> bid_read L C (D m) h n i (au_winner a) ct x \<and> q ! n = bid_message C i (au_winner a) ct
       \<and> au_clearingPrice a = word_of_int (en_amount x)
       \<and> uint (au_reservePrice a) \<le> en_amount x \<and> en_contract x = me
       \<and> (\<forall>k b ct z. bid_read L C (D m) h k i b ct z \<longrightarrow> q ! k = bid_message C i b ct
            \<longrightarrow> en_contract z = me \<longrightarrow> uint (au_reservePrice a) \<le> en_amount z
            \<longrightarrow> en_amount z \<le> en_amount x))"
proof -
  have ok: "queue_ok C me (as_sale y) q" "ended_ok L C D me True q y"
    using system_ok_reachable [OF assms(1-3)] assms(7) by (simp_all add: system_ok_def Let_def)
  obtain m h e p where n: "named_winner C me y m (h @ [e]) i (au_winner a) (word_of_int p)"
    and h: "heard L (D m) True q (h @ [e])" "prefix (h @ [e]) (as_served y m)" and i: "i < 2 ^ 256"
    and at: "length h < length q" "q ! length h = close_message C me i a"
    and out: "book_outcome (book_run L empty_book h) (int i) me (uint (au_reservePrice a)) =
      (au_winner a, p, True)" and p: "au_clearingPrice a = word_of_int p"
    using ok(2) assms(4-6) unfolding ended_ok_def ended_by_def closed_by_def fst_conv snd_conv by blast
  note hb = heard_butlast [OF h(1)]
  obtain k ct x where x: "bid_read L C (D m) h k i (au_winner a) ct x" "q ! k = bid_message C i (au_winner a) ct"
    "en_amount x = p" "uint (au_reservePrice a) \<le> en_amount x" "en_contract x = me"
    using winner_bid [OF assms(2) ok(1) hb i out] by blast
  have best: "en_amount z \<le> en_amount x"
    if z: "bid_read L C (D m) (h @ [e]) k i b ct z" "q ! k = bid_message C i b ct" "en_contract z = me"
      "uint (au_reservePrice a) \<le> en_amount z" for k b ct z
  proof -
    have "k < length h" using bid_read_before [OF z(1,2) at(2)] .
    with z(1) have "bid_read L C (D m) h k i b ct z" by (auto simp: bid_read_def nth_append)
    from served_bid_in_book [OF assms(2) ok(1) hb \<open>k < length h\<close> z(2) bid_read_bids [OF assms(2) this] i]
    show ?thesis using outcome_best [OF out] z(3,4) x(3) unfolding competes_def by metis
  qed
  have "\<forall>b. placed i b (sa_events (as_sale y)) \<longrightarrow> (\<exists>ct. bid_message C i b ct \<in> set q)"
    using ok(1) by (simp add: queue_ok_def)
  moreover have "heard_all L C me q y m (h @ [e]) i a" by (rule heard_allI [OF ok(1) h(1) i at h(2)])
  moreover have "named_winner C me y m (h @ [e]) i (au_winner a) (au_clearingPrice a)"
    "au_clearingPrice a = word_of_int (en_amount x)" using n p x(3) by simp_all
  moreover have "\<forall>k b ct z. bid_read L C (D m) (h @ [e]) k i b ct z \<longrightarrow> q ! k = bid_message C i b ct
      \<longrightarrow> en_contract z = me \<longrightarrow> uint (au_reservePrice a) \<le> en_amount z \<longrightarrow> en_amount z \<le> en_amount x"
    using best by blast
  ultimately show ?thesis using x(2,4,5) bid_read_butlast [OF x(1), of "[e]"] by blast
qed

text \<open>
  C6. Bids are only turned down for cause. If the machines serve the queue in order and do not
  restart, an auction that was cancelled although someone bid on it was closed by a machine the
  contract had been given as its TEE. Its answer names no winner; it had been handed every
  queued bid on the auction before the close it answered; and none of them was read as an authentic offer to
  this contract at or above the reserve. (The zero address, which no transaction can come
  from, is excluded as a bidder.)
\<close>

theorem unsold_only_without_offers:
  assumes "registry_laws C sent" and "coder_laws L C me"
    and "system_reachable C L D sent me True y"
    and "i < length (sa_auctions (as_sale y))"
    and "a = sa_auctions (as_sale y) ! i" and "au_state a = State_Cancelled"
    and "q = sent (sa_chain (as_sale y))"
    and "placed i b (sa_events (as_sale y))" and "\<not> placed i 0 (sa_events (as_sale y))"
  shows "\<exists>m h. named_winner C me y m h i 0 0 \<and> heard_all L C me q y m h i a
    \<and> (\<forall>k b ct z. bid_read L C (D m) h k i b ct z \<longrightarrow> q ! k = bid_message C i b ct
         \<longrightarrow> en_contract z = me \<longrightarrow> en_amount z < uint (au_reservePrice a))"
proof -
  have ok: "queue_ok C me (as_sale y) q" "ended_ok L C D me True q y"
    using system_ok_reachable [OF assms(1-3)] assms(7) by (simp_all add: system_ok_def Let_def)
  obtain m h e p f where n: "named_winner C me y m (h @ [e]) i 0 (word_of_int p)"
    and h: "heard L (D m) True q (h @ [e])" "prefix (h @ [e]) (as_served y m)" and i: "i < 2 ^ 256"
    and at: "length h < length q" "q ! length h = close_message C me i a"
    and out: "book_outcome (book_run L empty_book h) (int i) me (uint (au_reservePrice a)) = (0, p, f)"
    using ok(2) assms(4-6,8) unfolding ended_ok_def ended_by_def closed_by_def fst_conv snd_conv by blast
  note hb = heard_butlast [OF h(1)]
  have f: "\<not> f" using winner_bid [OF assms(2) ok(1) hb i] out assms(9) by metis
  have none: "en_amount z < uint (au_reservePrice a)"
    if z: "bid_read L C (D m) (h @ [e]) k i b ct z" "q ! k = bid_message C i b ct" "en_contract z = me"
    for k b ct z
  proof -
    have "k < length h" using bid_read_before [OF z(1,2) at(2)] .
    with z(1) have "bid_read L C (D m) h k i b ct z" by (auto simp: bid_read_def nth_append)
    from served_bid_in_book [OF assms(2) ok(1) hb \<open>k < length h\<close> z(2) bid_read_bids [OF assms(2) this] i]
    show ?thesis using outcome_none [where p = p and x = z and w = 0 and b = "book_run L empty_book h" and aid = "int i"
          and c = me and r = "uint (au_reservePrice a)"] out f z(3)
      by (auto simp: competes_def not_le)
  qed
  have "p = 0" using out f by (auto simp: book_outcome_def split: list.splits)
  then show ?thesis using n none heard_allI [OF ok(1) h(1) i at h(2)] by auto
qed

end
