(* ===== verification/Demo_System.thy ===== *)
theory Demo_System
  imports Fair_Sale
begin

text \<open>
  A concrete joint system, at which the hypotheses of the properties are checked: a chain that
  is only the queue, coders that write numbers in decimal, one bid of 90 and its sale. It stands
  for nothing in the program.
\<close>

section \<open>Coders\<close>

definition slash :: char where
  "slash = CHR ''/''"

definition put :: "nat \<Rightarrow> bytes \<Rightarrow> bytes" where
  "put n rest = show_nat n @ slash # rest"

definition get :: "bytes \<Rightarrow> nat \<times> bytes" where
  "get m = (read_dec (takeWhile (\<lambda>c. c \<noteq> slash) m), tl (dropWhile (\<lambda>c. c \<noteq> slash) m))"

lemma slash_notin_show_nat: "slash \<notin> set (show_nat n)"
  using show_nat_digits [of n] by (auto simp: slash_def is_dec_def)

lemma get_put [simp]: "get (put n rest) = (n, rest)"
  using slash_notin_show_nat [of n]
  by (simp add: get_def put_def takeWhile_neq_notin dropWhile_neq_notin read_show_nat)

section \<open>The two sides\<close>

definition demo_payout :: "address \<Rightarrow> int \<Rightarrow> address \<Rightarrow> int \<Rightarrow> bytes" where
  "demo_payout c i w p = replicate 128 (CHR ''.'') @
     put (unat c) (put (unat (word_of_int i :: u256)) (put (unat w) (put (unat (word_of_int p :: u256)) [])))"

definition demo_read_payout :: "bytes \<Rightarrow> (address \<times> u256 \<times> address \<times> u256) option" where
  "demo_read_payout d =
     (if length d < 128 then None
      else let (c, d1) = get (drop 128 d); (i, d2) = get d1; (w, d3) = get d2; (p, _) = get d3
        in Some (of_nat c, of_nat i, of_nat w, of_nat p))"

definition queue_callees :: "(bytes \<times> bytes) list callees" where
  "queue_callees =
     \<lparr>nft_transferFrom = (\<lambda>w _ _ _ _ _. Some w), nft_ownerOf = (\<lambda>_ _ _. Some 5),
      erc20_transferFrom = (\<lambda>w _ _ _ _ _. Some (True, w)), erc20_transfer = (\<lambda>w _ _ _ _. Some (True, w)),
      erc20_balanceOf = (\<lambda>_ _ _. Some 0), nextPublicExtensionId = (\<lambda>_. Some 65537),
      instructionsSenderOf = (\<lambda>_ _. Some 5), getRandomTeeIds = (\<lambda>_ _ _. Some [6]),
      sendInstructions = (\<lambda>w _ _ _ command m _. Some (8, w @ [(command, m)])),
      keccak = (\<lambda>_. ''h''), ecrecover = (\<lambda>_ _ _ _. 6),
      encode_bid_message = (\<lambda>i b ct. put i (put (unat b) ct)),
      encode_close_message = (\<lambda>i c r d. put i (put (unat c) (put (unat r) (put (unat d) [])))),
      encode_commitment = (\<lambda>_ _ _. []), decode_result = demo_read_payout\<rparr>"

definition system_lib :: lib where
  "system_lib = demo_lib\<lparr>to_hash := (\<lambda>s. hash32 (bytes32 s)),
     parse_data_fixed := (\<lambda>m. case m of
         k # rest \<Rightarrow> Inr \<lparr>df_Timestamp = 5, df_OPType = hash32 OP_TYPE_AUCTION,
           df_OPCommand = hash32 (if k = CHR ''B'' then OP_COMMAND_PLACE_BID else OP_COMMAND_CLOSE_AUCTION),
           df_OriginalMessage = rest\<rparr>
       | [] \<Rightarrow> Inl ''short''),
     decode_place_bid := (\<lambda>_ m. let (i, m1) = get m; (b, ct) = get m1 in
       Inr \<lparr>pbm_AuctionId = Some (int i), pbm_Bidder = of_nat b, pbm_Ciphertext = ct\<rparr>),
     decode_close := (\<lambda>_ m. let (i, m1) = get m; (c, m2) = get m1; (r, m3) = get m2; (d, _) = get m3 in
       Inr \<lparr>cm_AuctionId = Some (int i), cm_ContractAddr = of_nat c, cm_ReservePrice = Some (int r),
            cm_Deadline = of_nat d\<rparr>),
     pack_result := (\<lambda>_ c i w p. Inr (demo_payout c i w p))\<rparr>"

lemma demo_registry: "registry_laws queue_callees id"
  by (simp add: registry_laws_def queue_callees_def)

lemma demo_payout_read: "demo_read_payout (demo_payout c i w p) = Some (c, word_of_int i, w, word_of_int p)"
proof -
  have "drop 128 (demo_payout c i w p) = put (unat c) (put (unat (word_of_int i :: u256))
      (put (unat w) (put (unat (word_of_int p :: u256)) [])))"
    and "\<not> length (demo_payout c i w p) < 128"
    by (simp_all add: demo_payout_def)
  then show ?thesis by (simp add: demo_read_payout_def)
qed

lemma demo_read_short: "length d < 128 \<Longrightarrow> demo_read_payout d = None"
  by (simp add: demo_read_payout_def)

lemma demo_coders: "coder_laws system_lib queue_callees 5"
  by (auto simp: coder_laws_def system_lib_def queue_callees_def demo_payout_read demo_read_short
      OPTypeAuction_def OPCommandPlaceBid_def OPCommandCloseAuction_def OP_TYPE_AUCTION_def
      OP_COMMAND_PLACE_BID_def OP_COMMAND_CLOSE_AUCTION_def)

section \<open>A run\<close>

definition demo_tx :: "address \<Rightarrow> nat \<Rightarrow> request \<Rightarrow> (bytes \<times> bytes) list sale \<Rightarrow> (bytes \<times> bytes) list sale" where
  "demo_tx from time r s = projr (transact queue_callees (demo_context from time) r s)"

definition demo_request_bid :: "char \<Rightarrow> request" where
  "demo_request_bid v = Place 0 [CHR 0x00, CHR 0x05, CHR 0x07, v]"

definition demo_request_settle :: "address \<Rightarrow> int \<Rightarrow> request" where
  "demo_request_settle w p = Settle (demo_payout 5 0 w p) [] ''submit'' 1 (replicate 64 (CHR ''s'') @ [CHR 0x1B])"

definition sale0 :: "(bytes \<times> bytes) list sale" where
  "sale0 = projr (deploy_sale (\<lambda>_ _. True) (demo_context 1 0) 2 3 [])"

definition sale1 :: "(bytes \<times> bytes) list sale" where
  "sale1 = demo_tx 1 0 Set_Extension (demo_tx 1 0 (Set_Tee 6) sale0)"

definition sale2 :: "(bytes \<times> bytes) list sale" where
  "sale2 = demo_tx 4 10 (Create ''lot'' Lot_ERC721 20 21 0 22 100 60) sale1"

definition sale3 :: "char \<Rightarrow> (bytes \<times> bytes) list sale" where
  "sale3 v = demo_tx 9 100 (Close 0) (demo_tx 7 50 (demo_request_bid v) sale2)"

definition sale4 :: "(bytes \<times> bytes) list sale" where
  "sale4 = demo_tx 9 120 (demo_request_settle 7 90) (sale3 (CHR 0x5A))"

definition sale5 :: "(bytes \<times> bytes) list sale" where
  "sale5 = demo_tx 9 120 (demo_request_settle 0 0) (sale3 (CHR 0x10))"

lemma queue_fields:
  "nft_transferFrom queue_callees w t me f to i = Some w" "nft_ownerOf queue_callees w t i = Some 5"
  "erc20_transferFrom queue_callees w t me f to n = Some (True, w)"
  "nextPublicExtensionId queue_callees w = Some 65537" "instructionsSenderOf queue_callees w j = Some 5"
  "getRandomTeeIds queue_callees w k j = Some [6]"
  "sendInstructions queue_callees w v ts op cm m from = Some (8, w @ [(cm, m)])"
  "keccak queue_callees kb = ''h''" "ecrecover queue_callees d b r b2 = 6"
  "encode_commitment queue_callees ci ca kb = []" "decode_result queue_callees = demo_read_payout"
  by (simp_all add: queue_callees_def)

lemmas demo_tx_defs = queue_fields demo_tx_def outcome_def demo_context_def and_then_def require_def
  called_def nonReentrant_def getAuction_def update_auction_def emit_def

lemma demo_sale1:
  "transact queue_callees (demo_context 1 0) (Set_Tee 6) sale0 = Inr (demo_tx 1 0 (Set_Tee 6) sale0)"
  "transact queue_callees (demo_context 1 0) Set_Extension (demo_tx 1 0 (Set_Tee 6) sale0) = Inr sale1"
  "sale1 = \<lparr>sa_extensionId = 65536, sa_owner = 1, sa_teeAddress = 6, sa_auctions = [],
     sa_bidCommitments = [], sa_entered = 0, sa_events = [TeeAddressSet 6], sa_chain = []\<rparr>"
  by (simp_all add: sale1_def sale0_def deploy_sale_def setTeeAddress_def setExtensionId_def
      FIRST_PUBLIC_EXTENSION_ID_def demo_tx_defs)

lemma demo_sale2:
  "transact queue_callees (demo_context 4 10) (Create ''lot'' Lot_ERC721 20 21 0 22 100 60) sale1 = Inr sale2"
  "sale2 = sale1\<lparr>sa_auctions := [demo_auction],
     sa_events := [TeeAddressSet 6, AuctionCreated 0 4 22 100 60 ''lot'', LotEscrowed 0 Lot_ERC721 20 21 1]\<rparr>"
  by (simp_all add: sale2_def demo_sale1(3) createAuction_def pullLot_def demo_auction_def demo_tx_defs)

definition demo_bid_msg :: "char \<Rightarrow> bytes \<times> bytes" where
  "demo_bid_msg v = bid_message queue_callees 0 7 [CHR 0x00, CHR 0x05, CHR 0x07, v]"

definition demo_close_msg :: "bytes \<times> bytes" where
  "demo_close_msg = close_message queue_callees 5 0 demo_auction"

lemma demo_sale3:
  "transact queue_callees (demo_context 7 50) (demo_request_bid v) sale2 = Inr (demo_tx 7 50 (demo_request_bid v) sale2)"
  "transact queue_callees (demo_context 9 100) (Close 0) (demo_tx 7 50 (demo_request_bid v) sale2) = Inr (sale3 v)"
  "sale3 v = sale2\<lparr>sa_auctions := [demo_auction\<lparr>au_bidCount := 1, au_state := State_Closing\<rparr>],
     sa_bidCommitments := [''h''], sa_events := sa_events sale2 @ [BidPlaced 0 7 ''h'' 8, AuctionClosing 0 8],
     sa_chain := [(demo_bid_msg v), demo_close_msg]\<rparr>"
  by (simp_all add: sale3_def demo_sale2(2) demo_sale1(3) demo_request_bid_def placeBid_def closeAuction_def
      sendInstruction_def demo_bid_msg_def demo_close_msg_def bid_message_def close_message_def
      demo_auction_def demo_tx_defs Let_def)

lemma queue_recovers: "recover queue_callees d (replicate 64 (CHR ''s'') @ [CHR 0x1B]) = Inr 6"
  by (simp add: recover_def demo_tx_defs nth_append)

lemma demo_sale4:
  "transact queue_callees (demo_context 9 120) (demo_request_settle 7 90) (sale3 (CHR 0x5A)) = Inr sale4"
  "sale4 = (sale3 (CHR 0x5A))\<lparr>sa_auctions := [demo_auction\<lparr>au_bidCount := 1, au_state := State_Settled,
       au_winner := 7, au_clearingPrice := 90\<rparr>],
     sa_events := sa_events (sale3 (CHR 0x5A)) @ [LotReleased 0 7, AuctionSettled 0 7 90]\<rparr>"
  by (simp_all add: sale4_def demo_sale3(3) demo_sale2(2) demo_sale1(3) demo_request_settle_def settle_def
      queue_recovers demo_payout_read releaseLot_def demo_auction_def demo_tx_defs)

lemma demo_sale5:
  "transact queue_callees (demo_context 9 120) (demo_request_settle 0 0) (sale3 (CHR 0x10)) = Inr sale5"
  "sale5 = (sale3 (CHR 0x10))\<lparr>sa_auctions := [demo_auction\<lparr>au_bidCount := 1, au_state := State_Cancelled\<rparr>],
     sa_events := sa_events (sale3 (CHR 0x10)) @ [LotReleased 0 4, AuctionCancelled 0]\<rparr>"
  by (simp_all add: sale5_def demo_sale3(3) demo_sale2(2) demo_sale1(3) demo_request_settle_def settle_def
      queue_recovers demo_payout_read releaseLot_def demo_auction_def demo_tx_defs)

section \<open>The machine\<close>

definition demo_act :: "char \<Rightarrow> bytes \<times> bytes \<Rightarrow> Action" where
  "demo_act k msg = demo_action (k # snd msg)"

definition demo_served :: "char \<Rightarrow> (bytes \<Rightarrow> bytes result) \<times> Action" where
  "demo_served v = (Inr, demo_act (CHR ''B'') (demo_bid_msg v))"

lemma demo_carries:
  "carries system_lib (demo_bid_msg v) (demo_act (CHR ''B'') (demo_bid_msg v))
     \<lparr>df_Timestamp = 5, df_OPType = hash32 OP_TYPE_AUCTION, df_OPCommand = hash32 OP_COMMAND_PLACE_BID,
      df_OriginalMessage = snd (demo_bid_msg v)\<rparr>"
  "carries system_lib demo_close_msg (demo_act (CHR ''C'') demo_close_msg)
     \<lparr>df_Timestamp = 5, df_OPType = hash32 OP_TYPE_AUCTION, df_OPCommand = hash32 OP_COMMAND_CLOSE_AUCTION,
      df_OriginalMessage = snd demo_close_msg\<rparr>"
  by (simp_all add: carries_def system_lib_def demo_act_def demo_action_def demo_bid_msg_def
      demo_close_msg_def bid_message_def close_message_def)

definition demo_answer :: "char \<Rightarrow> ActionResult option" where
  "demo_answer v = answer system_lib Inr (serve system_lib New [demo_served v]) (demo_act (CHR ''C'') demo_close_msg)"

lemma demo_answered:
  "map_option (\<lambda>r. (res_Data r, res_Status r)) (demo_answer (CHR 0x5A)) = Some (demo_payout 5 0 7 90, 1)"
  by code_simp

lemma demo_answered_none:
  "map_option (\<lambda>r. (res_Data r, res_Status r)) (demo_answer (CHR 0x10)) = Some (demo_payout 5 0 0 0, 1)"
  by code_simp

section \<open>The joint run\<close>

lemma step_transacted:
  assumes "system_reachable C L D sent me ordered \<lparr>as_sale = s, as_served = f, as_answers = g\<rparr>"
    and "transact C x r s = Inr s'" and "cx_this x = me"
    and "case r of Settle rd _ _ st _ \<Rightarrow> \<exists>h. (h, rd, st) \<in> set (g (sa_teeAddress s)) | _ \<Rightarrow> True"
  shows "system_reachable C L D sent me ordered \<lparr>as_sale = s', as_served = f, as_answers = g\<rparr>"
  using system_reachable.step [OF assms(1) system_step.transacted [where x = x and r = r and s' = s']] assms(2-4)
  by (simp split: request.splits)

lemma step_served:
  assumes "system_reachable C L D sent me ordered \<lparr>as_sale = s, as_served = f, as_answers = g\<rparr>"
    and "length (f m) < length (sent (sa_chain s))" and "carries L (sent (sa_chain s) ! length (f m)) a df"
    and "length (f m) < 2 ^ 64 - 1" and "faithful (D m) decrypt"
  shows "system_reachable C L D sent me ordered \<lparr>as_sale = s, as_served = f(m := f m @ [(decrypt, a)]),
    as_answers = g(m := add_answer (f m @ [(decrypt, a)]) (answer L decrypt (serve L New (f m)) a) (g m))\<rparr>"
  using system_reachable.step [OF assms(1) system_step.served
      [where j = "length (f m)" and m = m and a = a and df = df and decrypt = decrypt]] assms(2-5)
  by simp

lemma demo_this [simp]: "cx_this (demo_context from time) = 5"
  by (simp add: demo_context_def)

lemma demo_sale0: "deploy_sale (\<lambda>_ _. True) (demo_context 1 0) 2 3 [] = Inr sale0"
  by (simp add: sale0_def deploy_sale_def demo_tx_defs)

lemma demo_system3:
  "system_reachable queue_callees system_lib (\<lambda>_. Inr) id 5 ordered
     \<lparr>as_sale = (sale3 v), as_served = (\<lambda>_. []), as_answers = (\<lambda>_. [])\<rparr>"
  by (rule step_transacted [OF step_transacted [OF step_transacted [OF step_transacted
      [OF step_transacted [OF system_reachable.start [OF demo_sale0] demo_sale1(1)] demo_sale1(2)]
      demo_sale2(1)] demo_sale3(1) [of v]] demo_sale3(2) [of v]])
    (simp_all add: demo_request_bid_def)

definition demo_serving :: "char \<Rightarrow> (address \<Rightarrow> handled) \<times> (address \<Rightarrow> answers)" where
  "demo_serving v = ((\<lambda>_. [])(6 := [(demo_served v)]),
     (\<lambda>_. [])(6 := add_answer [demo_served v] (answer system_lib Inr New (demo_act (CHR ''B'') (demo_bid_msg v))) []))"

definition demo_history :: "char \<Rightarrow> handled" where
  "demo_history v = [demo_served v, (Inr, demo_act (CHR ''C'') demo_close_msg)]"

lemma faithful_refl [simp]: "faithful key key"
  by (simp add: faithful_def)

definition demo_last :: "char \<Rightarrow> (bytes \<times> bytes) list sale \<Rightarrow> (bytes \<times> bytes) list auction_system" where
  "demo_last v s = \<lparr>as_sale = s,
     as_served = (fst (demo_serving v))(6 := demo_history v),
     as_answers = (snd (demo_serving v))(6 := add_answer (demo_history v) (demo_answer v) (snd (demo_serving v) 6))\<rparr>"

lemma demo_system_served:
  "system_reachable queue_callees system_lib (\<lambda>_. Inr) id 5 ordered
     \<lparr>as_sale = (sale3 v), as_served = fst (demo_serving v), as_answers = snd (demo_serving v)\<rparr>"
  using step_served [OF demo_system3 [of ordered v], where m = 6 and decrypt = Inr] demo_carries(1) [of v]
  by (simp add: demo_serving_def demo_served_def demo_sale3(3))

lemma demo_system_last:
  assumes "map_option (\<lambda>r. (res_Data r, res_Status r)) (demo_answer v) = Some (demo_payout 5 0 w p, 1)"
    and "transact queue_callees (demo_context 9 120) (demo_request_settle w p) (sale3 v) = Inr s"
  shows "system_reachable queue_callees system_lib (\<lambda>_. Inr) id 5 ordered (demo_last v s)"
proof -
  have "system_reachable queue_callees system_lib (\<lambda>_. Inr) id 5 ordered \<lparr>as_sale = sale3 v,
      as_served = as_served (demo_last v s), as_answers = as_answers (demo_last v s)\<rparr>"
    using step_served [OF demo_system_served, where m = 6 and decrypt = Inr] demo_carries(2)
    by (simp add: demo_serving_def demo_last_def demo_history_def demo_answer_def demo_sale3(3))
  moreover have "\<exists>h. (h, demo_payout 5 0 w p, 1) \<in> set (as_answers (demo_last v s) 6)"
    using assms(1) by (auto simp: demo_last_def add_answer_def)
  ultimately show ?thesis
    using step_transacted [OF _ assms(2), where L = system_lib and sent = id and me = 5 and ordered = ordered
        and f = "as_served (demo_last v s)" and g = "as_answers (demo_last v s)"]
    by (simp add: demo_last_def demo_request_settle_def demo_sale3(3) demo_sale2(2) demo_sale1(3))
qed

lemmas demo_sold_system = demo_system_last [OF demo_answered demo_sale4(1)]

lemmas demo_unsold_system = demo_system_last [OF demo_answered_none demo_sale5(1)]

lemma demo_last_sale:
  "as_sale (demo_last v s) = s" "length (sa_auctions sale4) = 1" "length (sa_auctions sale5) = 1"
  "au_state (sa_auctions sale4 ! 0) = State_Settled" "au_winner (sa_auctions sale4 ! 0) = 7"
  "au_state (sa_auctions sale5 ! 0) = State_Cancelled"
  "sa_chain sale4 = [demo_bid_msg (CHR 0x5A), demo_close_msg]"
  "sa_chain sale5 = [demo_bid_msg (CHR 0x10), demo_close_msg]"
  "placed 0 7 (sa_events sale5)" "\<not> placed 0 0 (sa_events sale5)"
  by (simp_all add: demo_last_def demo_sale4(2) demo_sale5(2) demo_sale3(3) demo_sale2(2) placed_def)

text \<open>The answer that was settled is the one after the whole history.\<close>

lemma demo_bid_answer:
  "map_option (\<lambda>r. demo_read_payout (res_Data r))
     (answer system_lib Inr New (demo_act (CHR ''B'') (demo_bid_msg (CHR 0x5A)))) = Some None"
  "map_option (\<lambda>r. demo_read_payout (res_Data r))
     (answer system_lib Inr New (demo_act (CHR ''B'') (demo_bid_msg (CHR 0x10)))) = Some None"
  by code_simp+

lemma demo_named_by:
  assumes "named_winner queue_callees 5 (demo_last v s) m h i w p" and "v = CHR 0x5A \<or> v = CHR 0x10"
  shows "m = 6 \<and> h = demo_history v"
proof -
  obtain rd where rd: "(h, rd, 1) \<in> set (as_answers (demo_last v s) m)" "demo_read_payout rd \<noteq> None"
    using assms(1) by (auto simp: named_winner_def queue_callees_def)
  have m: "m = 6" using rd(1) by (auto simp: demo_last_def demo_serving_def split: if_splits)
  have "demo_read_payout (res_Data r) = None"
    if "answer system_lib Inr New (demo_act (CHR ''B'') (demo_bid_msg v)) = Some r" for r
    using assms(2) demo_bid_answer that by auto
  with rd m show ?thesis
    by (auto simp: demo_last_def demo_serving_def add_answer_def split: option.splits)
qed

definition demo_offer :: "int \<Rightarrow> entry" where
  "demo_offer n = \<lparr>en_auction = 0, en_bidder = 7, en_contract = 5, en_amount = n, en_time = 5\<rparr>"

lemma demo_authentic:
  "authentic_bid system_lib Inr \<lparr>df_Timestamp = 5, df_OPType = hash32 OP_TYPE_AUCTION,
     df_OPCommand = hash32 OP_COMMAND_PLACE_BID, df_OriginalMessage = snd (demo_bid_msg (CHR 0x5A))\<rparr>
     = Some (demo_offer 90)"
  "authentic_bid system_lib Inr \<lparr>df_Timestamp = 5, df_OPType = hash32 OP_TYPE_AUCTION,
     df_OPCommand = hash32 OP_COMMAND_PLACE_BID, df_OriginalMessage = snd (demo_bid_msg (CHR 0x10))\<rparr>
     = Some (demo_offer 16)"
  by code_simp+

definition demo_ciphertext :: "char \<Rightarrow> bytes" where
  "demo_ciphertext v = [CHR 0x00, CHR 0x05, CHR 0x07, v]"

lemma demo_bid_read:
  "bid_read system_lib queue_callees Inr (demo_history (CHR 0x5A)) 0 0 7
     (demo_ciphertext (CHR 0x5A)) (demo_offer 90)"
  "bid_read system_lib queue_callees Inr (demo_history (CHR 0x10)) 0 0 7
     (demo_ciphertext (CHR 0x10)) (demo_offer 16)"
  using demo_carries(1) [of "CHR 0x5A"] demo_carries(1) [of "CHR 0x10"] demo_authentic
  by (auto simp: bid_read_def demo_history_def demo_served_def demo_bid_msg_def demo_ciphertext_def)

lemma demo_last_prices:
  "au_clearingPrice (sa_auctions sale4 ! 0) = 90" "au_reservePrice (sa_auctions sale4 ! 0) = 60"
  "au_reservePrice (sa_auctions sale5 ! 0) = 60"
  by (simp_all add: demo_sale4(2) demo_sale5(2) demo_sale3(3) demo_sale2(2) demo_auction_def)

lemma settled_winner_bid_on_chain_witness:
  "\<exists>n ct x. bid_message queue_callees 0 7 ct \<in> set [demo_bid_msg (CHR 0x5A), demo_close_msg]
     \<and> bid_read system_lib queue_callees Inr (demo_history (CHR 0x5A)) n 0 7 ct x
     \<and> (90 :: u256) = word_of_int (en_amount x)"
proof -
  let ?y = "demo_last (CHR 0x5A) sale4"
  have "0 < length (sa_auctions (as_sale ?y))" "au_state (sa_auctions (as_sale ?y) ! 0) = State_Settled"
    by (simp_all add: demo_last_sale)
  from settled_winner_bid_on_chain [OF demo_registry demo_coders demo_sold_system [of False] this(1) refl this(2)]
  obtain m h n ct x where w: "named_winner queue_callees 5 ?y m h 0 7 90"
    "bid_message queue_callees 0 7 ct \<in> set [demo_bid_msg (CHR 0x5A), demo_close_msg]"
    "bid_read system_lib queue_callees Inr h n 0 7 ct x" "(90 :: u256) = word_of_int (en_amount x)"
    unfolding demo_last_sale demo_last_prices id_apply by blast
  from demo_named_by [OF w(1)] have "h = demo_history (CHR 0x5A)" by simp
  with w(2-4) show ?thesis by blast
qed

lemma no_bid_left_out_witness:
  "\<exists>n ct x. bid_read system_lib queue_callees Inr (demo_history (CHR 0x5A)) n 0 7 ct x
     \<and> (90 :: u256) = word_of_int (en_amount x) \<and> 90 \<le> en_amount x"
proof -
  let ?y = "demo_last (CHR 0x5A) sale4" and ?q = "[demo_bid_msg (CHR 0x5A), demo_close_msg]"
  have "0 < length (sa_auctions (as_sale ?y))" "au_state (sa_auctions (as_sale ?y) ! 0) = State_Settled"
    by (simp_all add: demo_last_sale)
  from no_bid_left_out [OF demo_registry demo_coders demo_sold_system this(1) refl this(2) refl]
  obtain m h n ct x where w: "named_winner queue_callees 5 ?y m h 0 7 90"
    "bid_read system_lib queue_callees Inr h n 0 7 ct x" "(90 :: u256) = word_of_int (en_amount x)"
    and best: "\<And>k b ct z. bid_read system_lib queue_callees Inr h k 0 b ct z \<Longrightarrow>
      ?q ! k = bid_message queue_callees 0 b ct \<Longrightarrow> en_contract z = 5 \<Longrightarrow> uint (60 :: u256) \<le> en_amount z
      \<Longrightarrow> en_amount z \<le> en_amount x"
    unfolding demo_last_sale demo_last_prices id_apply by blast
  from demo_named_by [OF w(1)] have h: "h = demo_history (CHR 0x5A)" by simp
  have "?q ! 0 = bid_message queue_callees 0 7 (demo_ciphertext (CHR 0x5A))"
    by (simp add: demo_bid_msg_def demo_ciphertext_def)
  from best [OF demo_bid_read(1) [folded h] this] have "90 \<le> en_amount x" by (simp add: demo_offer_def)
  with w(2,3) h show ?thesis by blast
qed

lemma unsold_only_without_offers_witness:
  "heard_all system_lib queue_callees 5 [demo_bid_msg (CHR 0x10), demo_close_msg] (demo_last (CHR 0x10) sale5)
     6 (demo_history (CHR 0x10)) 0 (sa_auctions sale5 ! 0)
   \<and> en_amount (demo_offer 16) < uint (60 :: u256)"
proof -
  let ?y = "demo_last (CHR 0x10) sale5" and ?q = "[demo_bid_msg (CHR 0x10), demo_close_msg]"
  have "0 < length (sa_auctions (as_sale ?y))" "au_state (sa_auctions (as_sale ?y) ! 0) = State_Cancelled"
    "placed 0 7 (sa_events (as_sale ?y))" "\<not> placed 0 0 (sa_events (as_sale ?y))"
    by (simp_all add: demo_last_sale)
  from unsold_only_without_offers [OF demo_registry demo_coders demo_unsold_system this(1) refl this(2) refl this(3,4)]
  obtain m h where w: "named_winner queue_callees 5 ?y m h 0 0 0"
    and all: "heard_all system_lib queue_callees 5 ?q ?y m h 0 (sa_auctions sale5 ! 0)"
    and low: "\<And>k b ct z. bid_read system_lib queue_callees Inr h k 0 b ct z \<Longrightarrow>
      ?q ! k = bid_message queue_callees 0 b ct \<Longrightarrow> en_contract z = 5 \<Longrightarrow> en_amount z < uint (60 :: u256)"
    unfolding demo_last_sale demo_last_prices id_apply by blast
  from demo_named_by [OF w] have h: "m = 6" "h = demo_history (CHR 0x10)" by simp_all
  have "?q ! 0 = bid_message queue_callees 0 7 (demo_ciphertext (CHR 0x10))"
    by (simp add: demo_bid_msg_def demo_ciphertext_def)
  from low [OF demo_bid_read(2) [folded h(2)] this] all h show ?thesis by (simp add: demo_offer_def)
qed

end
