(* ===== verification/Reentry.thy ===== *)
theory Reentry
  imports Sale_Props
begin

text \<open>
  The auction contract when the contracts it calls call back. Every external call that is not a
  view is followed by a reaction: any sequence of transactions of the contract and changes of the
  rest of the chain, in which further calls react in turn. The operations of \<^verbatim>\<open>Sale_Contract\<close>
  are these operations when nothing reacts. What is read from the storage after a call is read
  after the reaction.
\<close>

section \<open>Operations with reactions\<close>

definition pullLot_reacting ::
  "'w callees \<Rightarrow> ('w sale \<Rightarrow> 'w sale) \<Rightarrow> context_info \<Rightarrow> lot_kind \<Rightarrow> address \<Rightarrow> u256 \<Rightarrow> u256 \<Rightarrow> 'w sale
     \<Rightarrow> (u256 \<times> 'w sale) result" where
  "pullLot_reacting C react x kind token tokenId amount s =
     (case kind of
        Lot_ERC721 \<Rightarrow>
          and_then (called (nft_transferFrom C (sa_chain s) token (cx_this x) (cx_sender x) (cx_this x)
                      tokenId)) (\<lambda>w.
          let s1 = react (s\<lparr>sa_chain := w\<rparr>) in
          and_then (called (nft_ownerOf C (sa_chain s1) token tokenId)) (\<lambda>holder.
          and_then (require (holder = cx_this x) ''lot escrow failed'') (\<lambda>_. Inr (1, s1))))
      | Lot_ERC20 \<Rightarrow>
          and_then (require (0 < amount) ''zero lot amount'') (\<lambda>_.
          and_then (called (erc20_balanceOf C (sa_chain s) token (cx_this x))) (\<lambda>before.
          and_then (called (erc20_transferFrom C (sa_chain s) token (cx_this x) (cx_sender x) (cx_this x)
                      amount)) (\<lambda>(ok, w).
          and_then (require ok ''lot escrow failed'') (\<lambda>_.
          let s1 = react (s\<lparr>sa_chain := w\<rparr>) in
          and_then (called (erc20_balanceOf C (sa_chain s1) token (cx_this x))) (\<lambda>after.
          and_then (require (before \<le> after) ''arithmetic underflow'') (\<lambda>_.
          and_then (require (0 < after - before) ''lot escrow failed'') (\<lambda>_.
          Inr (after - before, s1)))))))))"

definition releaseLot_reacting ::
  "'w callees \<Rightarrow> ('w sale \<Rightarrow> 'w sale) \<Rightarrow> context_info \<Rightarrow> nat \<Rightarrow> address \<Rightarrow> 'w sale
     \<Rightarrow> (unit \<times> 'w sale) result" where
  "releaseLot_reacting C react x i to s =
     (let a = sa_auctions s ! i in
      and_then
        (case au_lotKind a of
           Lot_ERC721 \<Rightarrow>
             called (nft_transferFrom C (sa_chain s) (au_lotToken a) (cx_this x) (cx_this x) to (au_lotTokenId a))
         | Lot_ERC20 \<Rightarrow>
             and_then (called (erc20_transfer C (sa_chain s) (au_lotToken a) (cx_this x) to (au_lotAmount a)))
               (\<lambda>(ok, w). and_then (require ok ''lot release failed'') (\<lambda>_. Inr w)))
        (\<lambda>w. Inr ((), emit (LotReleased i to) (react (s\<lparr>sa_chain := w\<rparr>)))))"

definition opened ::
  "context_info \<Rightarrow> string \<Rightarrow> lot_kind \<Rightarrow> address \<Rightarrow> u256 \<Rightarrow> u256 \<Rightarrow> address \<Rightarrow> u64 \<Rightarrow> u256 \<Rightarrow> auction" where
  "opened x lot kind token tokenId escrowed payToken deadline reserve =
     \<lparr>au_seller = cx_sender x, au_lot = lot, au_lotKind = kind, au_lotToken = token,
      au_lotTokenId = tokenId, au_lotAmount = escrowed, au_payToken = payToken,
      au_deadline = deadline, au_reservePrice = reserve, au_state = State_Open,
      au_winner = 0, au_clearingPrice = 0, au_bidCount = 0\<rparr>"

text \<open>The body of \<^verbatim>\<open>createAuction\<close>, without its guard.\<close>

definition create_body ::
  "'w callees \<Rightarrow> ('w sale \<Rightarrow> 'w sale) \<Rightarrow> context_info \<Rightarrow> string \<Rightarrow> lot_kind \<Rightarrow> address \<Rightarrow> u256 \<Rightarrow> u256
     \<Rightarrow> address \<Rightarrow> u64 \<Rightarrow> u256 \<Rightarrow> 'w sale \<Rightarrow> (nat \<times> 'w sale) result" where
  "create_body C react x lot kind token tokenId amount payToken deadline reserve s =
     and_then (require (payToken \<noteq> 0) ''zero pay token'') (\<lambda>_.
     and_then (require (token \<noteq> 0) ''zero lot token'') (\<lambda>_.
     and_then (require (cx_timestamp x < unat deadline) ''deadline in the past'') (\<lambda>_.
     and_then (require (0 < length lot) ''lot required'') (\<lambda>_.
     and_then (pullLot_reacting C react x kind token tokenId amount s) (\<lambda>(escrowed, s1).
     let i = length (sa_auctions s1);
         a = opened x lot kind token tokenId escrowed payToken deadline reserve in
     Inr (i, emit (LotEscrowed i kind token tokenId escrowed)
               (emit (AuctionCreated i (cx_sender x) payToken deadline reserve lot)
                 (s1\<lparr>sa_auctions := sa_auctions s1 @ [a]\<rparr>))))))))"

definition createAuction_reacting ::
  "'w callees \<Rightarrow> ('w sale \<Rightarrow> 'w sale) \<Rightarrow> context_info \<Rightarrow> string \<Rightarrow> lot_kind \<Rightarrow> address \<Rightarrow> u256 \<Rightarrow> u256
     \<Rightarrow> address \<Rightarrow> u64 \<Rightarrow> u256 \<Rightarrow> 'w sale \<Rightarrow> (nat \<times> 'w sale) result" where
  "createAuction_reacting C react x lot kind token tokenId amount payToken deadline reserve =
     nonReentrant (create_body C react x lot kind token tokenId amount payToken deadline reserve)"

definition sendInstruction_reacting ::
  "'w callees \<Rightarrow> ('w sale \<Rightarrow> 'w sale) \<Rightarrow> context_info \<Rightarrow> string \<Rightarrow> bytes \<Rightarrow> 'w sale
     \<Rightarrow> (hash \<times> 'w sale) result" where
  "sendInstruction_reacting C react x command message s =
     and_then (sendInstruction C x command message s) (\<lambda>(instructionId, s1). Inr (instructionId, react s1))"

definition placeBid_reacting ::
  "'w callees \<Rightarrow> ('w sale \<Rightarrow> 'w sale) \<Rightarrow> context_info \<Rightarrow> u256 \<Rightarrow> bytes \<Rightarrow> 'w sale
     \<Rightarrow> (unit \<times> 'w sale) result" where
  "placeBid_reacting C react x auctionId ciphertext s =
     and_then (getAuction auctionId s) (\<lambda>(i, a).
     and_then (require (au_state a = State_Open) ''auction not open'') (\<lambda>_.
     and_then (require (cx_timestamp x < unat (au_deadline a)) ''bidding closed'') (\<lambda>_.
     and_then (require (0 < length ciphertext) ''empty ciphertext'') (\<lambda>_.
     and_then (sendInstruction_reacting C react x OP_COMMAND_PLACE_BID
                 (encode_bid_message C i (cx_sender x) ciphertext) s) (\<lambda>(instructionId, s1).
     let commitment = keccak C (encode_commitment C i (cx_sender x) (keccak C ciphertext)) in
     and_then (require (au_bidCount (sa_auctions s1 ! i) \<noteq> - 1) ''arithmetic overflow'') (\<lambda>_.
     Inr ((), emit (BidPlaced i (cx_sender x) commitment instructionId)
       (update_auction i (\<lambda>a. a\<lparr>au_bidCount := au_bidCount a + 1\<rparr>)
         (s1\<lparr>sa_bidCommitments := commitment # sa_bidCommitments s1\<rparr>)))))))))"

definition closeAuction_reacting ::
  "'w callees \<Rightarrow> ('w sale \<Rightarrow> 'w sale) \<Rightarrow> context_info \<Rightarrow> u256 \<Rightarrow> 'w sale \<Rightarrow> (unit \<times> 'w sale) result" where
  "closeAuction_reacting C react x auctionId s =
     and_then (getAuction auctionId s) (\<lambda>(i, a).
     and_then (require (au_state a = State_Open \<or> au_state a = State_Closing) ''auction not closable'') (\<lambda>_.
     and_then (require (unat (au_deadline a) \<le> cx_timestamp x) ''bidding still open'') (\<lambda>_.
     let s1 = update_auction i (\<lambda>a. a\<lparr>au_state := State_Closing\<rparr>) s in
     and_then (sendInstruction_reacting C react x OP_COMMAND_CLOSE_AUCTION
                 (encode_close_message C i (cx_this x) (au_reservePrice a) (au_deadline a)) s1)
       (\<lambda>(instructionId, s2). Inr ((), emit (AuctionClosing i instructionId) s2)))))"

definition cancelAuction_reacting ::
  "'w callees \<Rightarrow> ('w sale \<Rightarrow> 'w sale) \<Rightarrow> context_info \<Rightarrow> u256 \<Rightarrow> 'w sale \<Rightarrow> (unit \<times> 'w sale) result" where
  "cancelAuction_reacting C react x auctionId =
     nonReentrant (\<lambda>s.
       and_then (getAuction auctionId s) (\<lambda>(i, a).
       and_then (require (cx_sender x = au_seller a) ''not seller'') (\<lambda>_.
       and_then (require (au_state a = State_Open) ''auction not open'') (\<lambda>_.
       and_then (require (au_bidCount a = 0) ''bids exist'') (\<lambda>_.
       and_then (releaseLot_reacting C react x i (au_seller a)
                   (update_auction i (\<lambda>a. a\<lparr>au_state := State_Cancelled\<rparr>) s)) (\<lambda>(_, s1).
       Inr ((), emit (AuctionCancelled i) s1)))))))"

text \<open>The second half of \<^verbatim>\<open>settle\<close>, after its checks.\<close>

definition conclude_reacting ::
  "'w callees \<Rightarrow> ('w sale \<Rightarrow> 'w sale) \<Rightarrow> context_info \<Rightarrow> nat \<Rightarrow> auction \<Rightarrow> address \<Rightarrow> u256 \<Rightarrow> 'w sale
     \<Rightarrow> (unit \<times> 'w sale) result" where
  "conclude_reacting C react x i a winner clearingPrice s =
     (if winner = 0
      then and_then (releaseLot_reacting C react x i (au_seller a)
                       (update_auction i (\<lambda>a. a\<lparr>au_state := State_Cancelled\<rparr>) s)) (\<lambda>(_, s1).
             Inr ((), emit (AuctionCancelled i) s1))
      else
        and_then (require (au_reservePrice a \<le> clearingPrice) ''below reserve'') (\<lambda>_.
        let s1 = update_auction i (\<lambda>a. a\<lparr>au_state := State_Settled, au_winner := winner,
                    au_clearingPrice := clearingPrice\<rparr>) s in
        and_then (called (erc20_transferFrom C (sa_chain s1) (au_payToken a) (cx_this x) winner
                    (au_seller a) clearingPrice)) (\<lambda>(ok, w).
        and_then (require ok ''payment failed'') (\<lambda>_.
        and_then (releaseLot_reacting C react x i winner (react (s1\<lparr>sa_chain := w\<rparr>))) (\<lambda>(_, s2).
        Inr ((), emit (AuctionSettled i winner clearingPrice) s2))))))"

definition settle_body ::
  "'w callees \<Rightarrow> ('w sale \<Rightarrow> 'w sale) \<Rightarrow> context_info \<Rightarrow> bytes \<Rightarrow> bytes \<Rightarrow> string \<Rightarrow> 8 word \<Rightarrow> bytes
     \<Rightarrow> 'w sale \<Rightarrow> (unit \<times> 'w sale) result" where
  "settle_body C react x resultData actionId tag status sig s =
     and_then (require (sa_teeAddress s \<noteq> 0) ''TEE address not set'') (\<lambda>_.
     and_then (require (status = 1) ''TEE reported failure'') (\<lambda>_.
     and_then (recover C (result_digest C (cx_chainId x) resultData actionId tag status) sig) (\<lambda>signer.
     and_then (require (signer = sa_teeAddress s) ''bad TEE signature'') (\<lambda>_.
     and_then (called (decode_result C resultData)) (\<lambda>(contractAddr, auctionId, winner, clearingPrice).
     and_then (require (contractAddr = cx_this x) ''result not for this contract'') (\<lambda>_.
     and_then (getAuction auctionId s) (\<lambda>(i, a).
     and_then (require (au_state a = State_Closing) ''auction not closing'') (\<lambda>_.
     conclude_reacting C react x i a winner clearingPrice s))))))))"

definition settle_reacting ::
  "'w callees \<Rightarrow> ('w sale \<Rightarrow> 'w sale) \<Rightarrow> context_info \<Rightarrow> bytes \<Rightarrow> bytes \<Rightarrow> string \<Rightarrow> 8 word \<Rightarrow> bytes
     \<Rightarrow> 'w sale \<Rightarrow> (unit \<times> 'w sale) result" where
  "settle_reacting C react x resultData actionId tag status sig =
     nonReentrant (settle_body C react x resultData actionId tag status sig)"

section \<open>Without reactions\<close>

text \<open>When nothing reacts, these are the operations of \<^verbatim>\<open>Sale_Contract\<close>.\<close>

lemmas revert_defs = and_then_def require_def called_def

lemma pull_inert:
  "pullLot_reacting C (\<lambda>s. s) x kind token tokenId amount s =
     and_then (pullLot C x kind token tokenId amount (sa_chain s)) (\<lambda>(n, w). Inr (n, s\<lparr>sa_chain := w\<rparr>))"
  by (simp add: pullLot_reacting_def pullLot_def revert_defs Let_def
      split: lot_kind.split option.split sum.split prod.split)

lemma release_inert:
  "releaseLot_reacting C (\<lambda>s. s) x i to s = releaseLot C x i (sa_auctions s ! i) to s"
  by (simp add: releaseLot_reacting_def releaseLot_def Let_def split: lot_kind.split)

lemma release_kind:
  "releaseLot C x i (a\<lparr>au_state := st\<rparr>) to s = releaseLot C x i a to s"
  "releaseLot C x i (a\<lparr>au_state := st, au_winner := w, au_clearingPrice := p\<rparr>) to s = releaseLot C x i a to s"
  by (simp_all add: releaseLot_def split: lot_kind.split)

lemma send_inert: "sendInstruction_reacting C (\<lambda>s. s) x command m s = sendInstruction C x command m s"
  by (simp add: sendInstruction_reacting_def and_then_def split: sum.split)

lemma create_inert:
  "createAuction_reacting C (\<lambda>s. s) x lot k t ti n p d r = createAuction C x lot k t ti n p d r"
  unfolding createAuction_reacting_def createAuction_def create_body_def opened_def pull_inert
  by (simp add: revert_defs Let_def split_def fun_eq_iff nonReentrant_def emit_def split: sum.split)

lemma bid_inert: "placeBid_reacting C (\<lambda>s. s) x i ct s = placeBid C x i ct s"
  unfolding placeBid_reacting_def placeBid_def send_inert
  by (auto simp: revert_defs Let_def getAuction_def sendInstruction_def split: sum.split option.split)

lemma close_inert: "closeAuction_reacting C (\<lambda>s. s) x i s = closeAuction C x i s"
  unfolding closeAuction_reacting_def closeAuction_def send_inert ..

lemma cancel_inert: "cancelAuction_reacting C (\<lambda>s. s) x i s = cancelAuction C x i s"
  unfolding cancelAuction_reacting_def cancelAuction_def release_inert
  by (auto simp: nonReentrant_def revert_defs getAuction_def release_kind split: sum.split)

lemma settle_inert: "settle_reacting C (\<lambda>s. s) x rd aid tag st sig s = settle C x rd aid tag st sig s"
  unfolding settle_reacting_def settle_body_def settle_def conclude_reacting_def release_inert
  by (auto simp: nonReentrant_def revert_defs getAuction_def release_kind Let_def
      split: sum.split option.split)

lemmas inert = create_inert bid_inert close_inert cancel_inert settle_inert

section \<open>Every history, with calls back\<close>

text \<open>
  \<open>ctx\<close> are the contexts transactions come in, \<open>results\<close> the results that are settled, \<open>moves\<close> what
  the rest of the chain can do between two calls of the contract. A reaction is a run of
  transactions and moves.
\<close>

inductive re_step ::
  "'w callees \<Rightarrow> (context_info \<Rightarrow> bool) \<Rightarrow> (bytes \<Rightarrow> bool) \<Rightarrow> ('w \<Rightarrow> 'w \<Rightarrow> bool)
     \<Rightarrow> 'w sale \<Rightarrow> 'w sale \<Rightarrow> bool"
  and re_runs ::
  "'w callees \<Rightarrow> (context_info \<Rightarrow> bool) \<Rightarrow> (bytes \<Rightarrow> bool) \<Rightarrow> ('w \<Rightarrow> 'w \<Rightarrow> bool)
     \<Rightarrow> 'w sale \<Rightarrow> 'w sale \<Rightarrow> bool"
  for C ctx results moves where
  extended: "ctx x \<Longrightarrow> setExtensionId C x s = Inr (y, s') \<Longrightarrow> re_step C ctx results moves s s'"
| named: "ctx x \<Longrightarrow> setTeeAddress x t s = Inr (y, s') \<Longrightarrow> re_step C ctx results moves s s'"
| created: "ctx x \<Longrightarrow> (\<forall>u. re_runs C ctx results moves u (react u)) \<Longrightarrow>
    createAuction_reacting C react x lot k t ti n p d r s = Inr (j, s') \<Longrightarrow> re_step C ctx results moves s s'"
| bid: "ctx x \<Longrightarrow> (\<forall>u. re_runs C ctx results moves u (react u)) \<Longrightarrow>
    placeBid_reacting C react x i ct s = Inr (y, s') \<Longrightarrow> re_step C ctx results moves s s'"
| closing: "ctx x \<Longrightarrow> (\<forall>u. re_runs C ctx results moves u (react u)) \<Longrightarrow>
    closeAuction_reacting C react x i s = Inr (y, s') \<Longrightarrow> re_step C ctx results moves s s'"
| cancelled: "ctx x \<Longrightarrow> (\<forall>u. re_runs C ctx results moves u (react u)) \<Longrightarrow>
    cancelAuction_reacting C react x i s = Inr (y, s') \<Longrightarrow> re_step C ctx results moves s s'"
| settled: "ctx x \<Longrightarrow> results rd \<Longrightarrow> (\<forall>u. re_runs C ctx results moves u (react u)) \<Longrightarrow>
    settle_reacting C react x rd aid tag st sig s = Inr (y, s') \<Longrightarrow> re_step C ctx results moves s s'"
| elsewhere: "moves (sa_chain s) w \<Longrightarrow> re_step C ctx results moves s (s\<lparr>sa_chain := w\<rparr>)"
| stop: "re_runs C ctx results moves s s"
| more: "re_step C ctx results moves s s1 \<Longrightarrow> re_runs C ctx results moves s1 s2 \<Longrightarrow>
    re_runs C ctx results moves s s2"

definition anything :: "'a \<Rightarrow> bool" where
  "anything a = True"

text \<open>Runs without calls back are among these.\<close>

lemma re_step_of_sale_step:
  assumes "sale_step C s s'"
  shows "re_step C anything anything (\<lambda>_. anything) s s'"
proof -
  have still: "\<forall>u. re_runs C anything anything (\<lambda>_. anything) u u" by (blast intro: re_step_re_runs.stop)
  note steps = re_step_re_runs.created [OF _ still, unfolded inert] re_step_re_runs.bid [OF _ still, unfolded inert]
    re_step_re_runs.closing [OF _ still, unfolded inert]
    re_step_re_runs.cancelled [OF _ still, unfolded inert]
    re_step_re_runs.settled [OF _ _ still, unfolded inert]
  show ?thesis using assms
    by (induction rule: sale_step.induct)
      (blast intro: anything_def [THEN iffD2, OF TrueI] extended named elsewhere steps)+
qed

section \<open>What a transaction did around its reactions\<close>

text \<open>The calls: an instruction to the registry, a lot taken in, a lot given out.\<close>

definition instructed :: "'w callees \<Rightarrow> context_info \<Rightarrow> 'w \<Rightarrow> 'w \<Rightarrow> bool" where
  "instructed C x w w' \<longleftrightarrow>
     (\<exists>ids command m h. sendInstructions C w (cx_value x) ids OP_TYPE_AUCTION command m (cx_sender x) = Some (h, w'))"

definition released :: "'w callees \<Rightarrow> context_info \<Rightarrow> auction \<Rightarrow> address \<Rightarrow> 'w \<Rightarrow> 'w \<Rightarrow> bool" where
  "released C x a to w w' \<longleftrightarrow>
     (case au_lotKind a of
        Lot_ERC721 \<Rightarrow> nft_transferFrom C w (au_lotToken a) (cx_this x) (cx_this x) to (au_lotTokenId a) = Some w'
      | Lot_ERC20 \<Rightarrow> erc20_transfer C w (au_lotToken a) (cx_this x) to (au_lotAmount a) = Some (True, w'))"

text \<open>Between \<open>w1\<close> and \<open>w2\<close> is the reaction to the token's call.\<close>

definition pulled :: "'w callees \<Rightarrow> context_info \<Rightarrow> auction \<Rightarrow> 'w \<Rightarrow> 'w \<Rightarrow> 'w \<Rightarrow> bool" where
  "pulled C x a w w1 w2 \<longleftrightarrow>
     (case au_lotKind a of
        Lot_ERC721 \<Rightarrow>
          nft_transferFrom C w (au_lotToken a) (cx_this x) (cx_sender x) (cx_this x) (au_lotTokenId a) = Some w1
          \<and> nft_ownerOf C w2 (au_lotToken a) (au_lotTokenId a) = Some (cx_this x)
      | Lot_ERC20 \<Rightarrow>
          (\<exists>before n after. erc20_balanceOf C w (au_lotToken a) (cx_this x) = Some before
            \<and> erc20_transferFrom C w (au_lotToken a) (cx_this x) (cx_sender x) (cx_this x) n = Some (True, w1)
            \<and> erc20_balanceOf C w2 (au_lotToken a) (cx_this x) = Some after
            \<and> before \<le> after \<and> au_lotAmount a = after - before))"

lemma pull_ok:
  assumes "pullLot_reacting C react x k t ti n s = Inr (e, s')"
    and "au_lotKind a = k" and "au_lotToken a = t" and "au_lotTokenId a = ti" and "au_lotAmount a = e"
  shows "\<exists>w. s' = react (s\<lparr>sa_chain := w\<rparr>) \<and> pulled C x a (sa_chain s) w (sa_chain s')"
  using assms by (auto simp: pullLot_reacting_def committed pulled_def split: lot_kind.splits) blast

lemma release_ok:
  "releaseLot_reacting C react x i to s = Inr (u, s') \<Longrightarrow>
     \<exists>w. s' = emit (LotReleased i to) (react (s\<lparr>sa_chain := w\<rparr>))
       \<and> released C x (sa_auctions s ! i) to (sa_chain s) w"
  by (auto simp: releaseLot_reacting_def committed released_def split: lot_kind.splits)

lemma send_ok:
  "sendInstruction C x command m s = Inr (h, s') \<Longrightarrow>
     \<exists>w. s' = s\<lparr>sa_chain := w\<rparr> \<and> instructed C x (sa_chain s) w"
  unfolding instructed_def by (auto simp: sendInstruction_def committed) blast

lemma create_effect:
  assumes "createAuction_reacting C react x lot k t ti n p d r s = Inr (j, s')"
  obtains w s1 a where "sa_entered s = 0" "s1 = react (s\<lparr>sa_entered := 1, sa_chain := w\<rparr>)"
    "au_state a = State_Open" "sa_auctions s' = sa_auctions s1 @ [a]"
    "\<And>i. releases i (sa_events s') = releases i (sa_events s1)" "sa_entered s' = 0"
    "pulled C x a (sa_chain s) w (sa_chain s1)" "sa_chain s' = sa_chain s1"
proof -
  obtain s0 where e: "sa_entered s = 0" "s' = s0\<lparr>sa_entered := 0\<rparr>"
    and body: "create_body C react x lot k t ti n p d r (s\<lparr>sa_entered := 1\<rparr>) = Inr (j, s0)"
    using nonReentrant_ok [OF assms [unfolded createAuction_reacting_def]] by blast
  obtain e1 s1 where pull: "pullLot_reacting C react x k t ti n (s\<lparr>sa_entered := 1\<rparr>) = Inr (e1, s1)"
    and "s0 = emit (LotEscrowed (length (sa_auctions s1)) k t ti e1)
      (emit (AuctionCreated (length (sa_auctions s1)) (cx_sender x) p d r lot)
        (s1\<lparr>sa_auctions := sa_auctions s1 @ [opened x lot k t ti e1 p d r]\<rparr>))"
    using body unfolding create_body_def by (auto simp: committed)
  then have s0: "sa_auctions s0 = sa_auctions s1 @ [opened x lot k t ti e1 p d r]" "sa_chain s0 = sa_chain s1"
      "\<And>i. releases i (sa_events s0) = releases i (sa_events s1)" by simp_all
  obtain w where "s1 = react (s\<lparr>sa_entered := 1, sa_chain := w\<rparr>)"
    "pulled C x (opened x lot k t ti e1 p d r) (sa_chain s) w (sa_chain s1)"
    using pull_ok [OF pull, of "opened x lot k t ti e1 p d r"] by (auto simp: opened_def)
  with e s0 show ?thesis by (intro that [OF e(1)]) (simp_all add: opened_def)
qed

lemma bid_effect:
  assumes "placeBid_reacting C react x i ct s = Inr (y, s')"
  obtains w s1 where "unat i < length (sa_auctions s)" "au_state (sa_auctions s ! unat i) = State_Open"
    "s1 = react (s\<lparr>sa_chain := w\<rparr>)" "sa_entered s' = sa_entered s1"
    "sa_auctions s' = (sa_auctions s1)[unat i := (sa_auctions s1 ! unat i)
       \<lparr>au_bidCount := au_bidCount (sa_auctions s1 ! unat i) + 1\<rparr>]"
    "\<And>j. releases j (sa_events s') = releases j (sa_events s1)"
    "instructed C x (sa_chain s) w" "sa_chain s' = sa_chain s1"
  using assms unfolding placeBid_reacting_def sendInstruction_reacting_def
  by (auto simp: committed getAuction_ok dest!: send_ok)

lemma close_effect:
  assumes "closeAuction_reacting C react x i s = Inr (y, s')"
  obtains w s1 where "unat i < length (sa_auctions s)"
    "au_state (sa_auctions s ! unat i) \<in> {State_Open, State_Closing}"
    "s1 = react ((update_auction (unat i) (\<lambda>a. a\<lparr>au_state := State_Closing\<rparr>) s)\<lparr>sa_chain := w\<rparr>)"
    "sa_entered s' = sa_entered s1" "sa_auctions s' = sa_auctions s1"
    "\<And>j. releases j (sa_events s') = releases j (sa_events s1)"
    "instructed C x (sa_chain s) w" "sa_chain s' = sa_chain s1"
  using assms unfolding closeAuction_reacting_def sendInstruction_reacting_def
  by (auto simp: committed getAuction_ok dest!: send_ok)

lemma cancel_effect:
  assumes "cancelAuction_reacting C react x k s = Inr (y, s')"
  obtains i w v where "i < length (sa_auctions s)" "sa_entered s = 0"
    "au_state (sa_auctions s ! i) = State_Open" "au_bidCount (sa_auctions s ! i) = 0"
    "v = react ((update_auction i (\<lambda>a. a\<lparr>au_state := State_Cancelled\<rparr>) (s\<lparr>sa_entered := 1\<rparr>))\<lparr>sa_chain := w\<rparr>)"
    "sa_auctions s' = sa_auctions v"
    "sa_events s' = sa_events v @ [LotReleased i (au_seller (sa_auctions s ! i)), AuctionCancelled i]"
    "sa_entered s' = 0"
    "released C x ((sa_auctions s ! i)\<lparr>au_state := State_Cancelled\<rparr>) (au_seller (sa_auctions s ! i)) (sa_chain s) w"
    "sa_chain s' = sa_chain v"
  using assms unfolding cancelAuction_reacting_def
  by (auto simp: committed getAuction_ok dest!: nonReentrant_ok release_ok)

lemma settle_body_ok:
  assumes "settle_body C react x rd aid tag st sig s = Inr (y, s')"
  shows "\<exists>k winner price. decode_result C rd = Some (cx_this x, k, winner, price)
    \<and> unat k < length (sa_auctions s) \<and> au_state (sa_auctions s ! unat k) = State_Closing
    \<and> conclude_reacting C react x (unat k) (sa_auctions s ! unat k) winner price s = Inr (y, s')"
  using assms by (auto simp: settle_body_def committed getAuction_ok)

text \<open>A settlement ends the auction, and for a sale calls twice: the payment, then the release.\<close>

lemma settle_reacting_effect:
  assumes "settle_reacting C react x rd aid tag st sig s = Inr (y, s')"
  obtains (unsold) i w v where "i < length (sa_auctions s)" "sa_entered s = 0"
    "au_state (sa_auctions s ! i) = State_Closing"
    "v = react ((update_auction i (\<lambda>a. a\<lparr>au_state := State_Cancelled\<rparr>) (s\<lparr>sa_entered := 1\<rparr>))\<lparr>sa_chain := w\<rparr>)"
    "sa_auctions s' = sa_auctions v"
    "sa_events s' = sa_events v @ [LotReleased i (au_seller (sa_auctions s ! i)), AuctionCancelled i]"
    "sa_entered s' = 0"
    "released C x ((sa_auctions s ! i)\<lparr>au_state := State_Cancelled\<rparr>) (au_seller (sa_auctions s ! i)) (sa_chain s) w"
    "sa_chain s' = sa_chain v"
  | (sold) i winner price w w' v v' where "i < length (sa_auctions s)" "sa_entered s = 0"
    "au_state (sa_auctions s ! i) = State_Closing" "winner \<noteq> 0" "au_reservePrice (sa_auctions s ! i) \<le> price"
    "v = react ((update_auction i (\<lambda>a. a\<lparr>au_state := State_Settled, au_winner := winner,
       au_clearingPrice := price\<rparr>) (s\<lparr>sa_entered := 1\<rparr>))\<lparr>sa_chain := w\<rparr>)"
    "v' = react (v\<lparr>sa_chain := w'\<rparr>)" "sa_auctions s' = sa_auctions v'"
    "sa_events s' = sa_events v' @ [LotReleased i winner, AuctionSettled i winner price]"
    "sa_entered s' = 0" "\<exists>k. decode_result C rd = Some (cx_this x, k, winner, price)"
    "erc20_transferFrom C (sa_chain s) (au_payToken (sa_auctions s ! i)) (cx_this x) winner
       (au_seller (sa_auctions s ! i)) price = Some (True, w)"
    "released C x (sa_auctions v ! i) winner (sa_chain v) w'" "sa_chain s' = sa_chain v'"
proof -
  obtain s0 where e: "sa_entered s = 0" "s' = s0\<lparr>sa_entered := 0\<rparr>"
    and body: "settle_body C react x rd aid tag st sig (s\<lparr>sa_entered := 1\<rparr>) = Inr (y, s0)"
    using nonReentrant_ok [OF assms [unfolded settle_reacting_def]] by blast
  obtain k :: u256 and winner price where k: "unat k < length (sa_auctions s)"
      "au_state (sa_auctions s ! unat k) = State_Closing"
    and d: "decode_result C rd = Some (cx_this x, k, winner, price)"
    and fin: "conclude_reacting C react x (unat k) (sa_auctions s ! unat k) winner price (s\<lparr>sa_entered := 1\<rparr>) =
      Inr (y, s0)"
    using settle_body_ok [OF body] by auto
  show ?thesis
  proof (cases "winner = 0")
    case True
    with fin show ?thesis using e k
      by (auto simp: conclude_reacting_def committed dest!: release_ok intro!: unsold)
  next
    case False
    with fin show ?thesis using e k d
      by (auto simp: conclude_reacting_def committed dest!: release_ok intro!: sold)
  qed
qed

section \<open>While the guard is held\<close>

definition live :: "auction \<Rightarrow> bool" where
  "live a \<longleftrightarrow> au_state a = State_Open \<or> au_state a = State_Closing"

definition lot :: "auction \<Rightarrow> lot_kind \<times> address \<times> u256 \<times> u256" where
  "lot a = (au_lotKind a, au_lotToken a, au_lotTokenId a, au_lotAmount a)"

definition same_lot :: "auction \<Rightarrow> auction \<Rightarrow> bool" where
  "same_lot a a' \<longleftrightarrow> lot a' = lot a \<and> (live a' \<longleftrightarrow> live a) \<and> (\<not> live a \<longrightarrow> a' = a)"

text \<open>What can change then: bids are counted and closing starts, nothing more.\<close>

definition locked :: "'w sale \<Rightarrow> 'w sale \<Rightarrow> bool" where
  "locked s s' \<longleftrightarrow> sa_entered s' = sa_entered s
     \<and> list_all2 same_lot (sa_auctions s) (sa_auctions s')
     \<and> (\<forall>j. releases j (sa_events s') = releases j (sa_events s))"

lemma same_lot_refl [simp]: "same_lot a a"
  by (simp add: same_lot_def)

lemma same_lot_trans: "same_lot a b \<Longrightarrow> same_lot b c \<Longrightarrow> same_lot a c"
  by (auto simp: same_lot_def)

lemma locked_refl [simp]: "locked s s"
  by (simp add: locked_def list_all2_refl)

lemma locked_trans: "locked s u \<Longrightarrow> locked u v \<Longrightarrow> locked s v"
  unfolding locked_def using list_all2_trans [of same_lot same_lot same_lot] same_lot_trans
  by (metis (no_types, lifting))

lemma locked_chain [simp]:
  "locked (s\<lparr>sa_chain := w\<rparr>) s' \<longleftrightarrow> locked s s'" "locked s (s'\<lparr>sa_chain := w\<rparr>) \<longleftrightarrow> locked s s'"
  by (simp_all add: locked_def)

lemma locked_nth:
  assumes "locked s s'" and "i < length (sa_auctions s)"
  shows "i < length (sa_auctions s') \<and> same_lot (sa_auctions s ! i) (sa_auctions s' ! i)"
  using assms by (auto simp: locked_def list_all2_conv_all_nth)

text \<open>A change of one live auction that keeps it live with its lot.\<close>

lemma locked_update:
  assumes "locked s u" and "i < length (sa_auctions s)" and "live (sa_auctions s ! i)"
    and "sa_auctions s' = (sa_auctions u)[i := a]" and "live a" and "lot a = lot (sa_auctions u ! i)"
    and "\<And>j. releases j (sa_events s') = releases j (sa_events u)" and "sa_entered s' = sa_entered u"
  shows "locked s s'"
proof -
  have "same_lot (sa_auctions s ! i) a"
    using locked_nth [OF assms(1,2)] assms(3,5,6) by (auto simp: same_lot_def)
  then show ?thesis using assms
    by (auto simp: locked_def list_all2_conv_all_nth nth_list_update)
qed

lemma bid_locked:
  assumes "placeBid_reacting C react x i ct s = Inr (y, s')"
    and "\<And>u. sa_entered u \<noteq> 0 \<Longrightarrow> locked u (react u)" and "sa_entered s \<noteq> 0"
  shows "locked s s'"
  using assms(1)
proof (rule bid_effect)
  fix w s1
  assume i: "unat i < length (sa_auctions s)" "au_state (sa_auctions s ! unat i) = State_Open"
    and r: "s1 = react (s\<lparr>sa_chain := w\<rparr>)" and e: "sa_entered s' = sa_entered s1"
    and a: "sa_auctions s' = (sa_auctions s1)[unat i := (sa_auctions s1 ! unat i)
       \<lparr>au_bidCount := au_bidCount (sa_auctions s1 ! unat i) + 1\<rparr>]"
    and rel: "\<And>j. releases j (sa_events s') = releases j (sa_events s1)"
  have l: "locked s s1" using assms(2) [of "s\<lparr>sa_chain := w\<rparr>"] assms(3) r by simp
  have "live (sa_auctions s ! unat i)" using i(2) by (simp add: live_def)
  then show ?thesis using locked_nth [OF l i(1)] l i(1) a rel e
    by (intro locked_update [OF l i(1) _ a]) (auto simp: same_lot_def live_def lot_def)
qed

lemma close_locked:
  assumes "closeAuction_reacting C react x i s = Inr (y, s')"
    and "\<And>u. sa_entered u \<noteq> 0 \<Longrightarrow> locked u (react u)" and "sa_entered s \<noteq> 0"
  shows "locked s s'"
  using assms(1)
proof (rule close_effect)
  fix w s1
  let ?u = "update_auction (unat i) (\<lambda>a. a\<lparr>au_state := State_Closing\<rparr>) s"
  assume i: "unat i < length (sa_auctions s)"
      "au_state (sa_auctions s ! unat i) \<in> {State_Open, State_Closing}"
    and r: "s1 = react (?u\<lparr>sa_chain := w\<rparr>)" and e: "sa_entered s' = sa_entered s1"
    and a: "sa_auctions s' = sa_auctions s1" and rel: "\<And>j. releases j (sa_events s') = releases j (sa_events s1)"
  have "locked s ?u"
    by (rule locked_update [OF locked_refl i(1) _ update_select(1)])
      (use i in \<open>auto simp: live_def lot_def\<close>)
  moreover have "locked ?u s1" using assms(2) [of "?u\<lparr>sa_chain := w\<rparr>"] assms(3) r by simp
  ultimately have "locked s s1" by (rule locked_trans)
  with e a rel show ?thesis by (simp add: locked_def)
qed

lemma re_step_locked:
  "re_step C ctx results moves s s' \<Longrightarrow> sa_entered s \<noteq> 0 \<longrightarrow> locked s s'"
  "re_runs C ctx results moves s s' \<Longrightarrow> sa_entered s \<noteq> 0 \<longrightarrow> locked s s'"
proof (induction rule: re_step_re_runs.inducts)
  case (more s s1 s2)
  then show ?case using locked_trans [of s s1 s2] by (auto simp: locked_def [of s s1])
next
  case (bid x react i ct s y s')
  then show ?case using bid_locked by blast
next
  case (closing x react i s y s')
  then show ?case using close_locked by blast
qed (auto simp: setExtensionId_def setTeeAddress_def locked_def committed list_all2_refl
    createAuction_reacting_def cancelAuction_reacting_def settle_reacting_def
    dest!: nonReentrant_ok split: option.splits)

text \<open>So a reaction to a call of a guarded operation leaves the lots alone.\<close>

lemma reaction_locked:
  assumes "\<forall>u. re_runs C ctx results moves u (react u)" and "sa_entered u \<noteq> 0"
  shows "locked u (react u)"
  using assms re_step_locked(2) by blast

section \<open>The escrow, with calls back\<close>

lemma locked_escrow:
  assumes "locked s s'" and "escrow_ok s i"
  shows "escrow_ok s' i"
proof (cases "i < length (sa_auctions s)")
  case True
  then have "same_lot (sa_auctions s ! i) (sa_auctions s' ! i)" "i < length (sa_auctions s')"
    using locked_nth [OF assms(1)] by blast+
  with True assms show ?thesis
    by (cases "live (sa_auctions s ! i)")
      (auto simp: escrow_ok_def locked_def same_lot_def live_def auction_ok_def lot_went_to_def)
next
  case False
  with assms show ?thesis by (auto simp: escrow_ok_def locked_def dest: list_all2_lengthD)
qed

text \<open>An auction that ends, when its call back only made locked changes before the release.\<close>

lemma ended_escrow:
  assumes "\<And>j. escrow_ok s j" and "i < length (sa_auctions s)" and "life_step (sa_auctions s ! i) [to] a"
    and "locked (update_auction i (\<lambda>_. a) (s\<lparr>sa_entered := 1\<rparr>)) v" and "\<not> live a"
    and "sa_auctions s' = sa_auctions v"
    and "\<And>j. releases j (sa_events s') = releases j (sa_events v) @ (if j = i then [to] else [])"
  shows "escrow_ok s' j"
proof -
  let ?u = "update_auction i (\<lambda>_. a) (s\<lparr>sa_entered := 1\<rparr>)"
  show ?thesis
  proof (cases "j = i")
    case True
    have "sa_auctions v ! i = a \<and> i < length (sa_auctions v)"
      using locked_nth [OF assms(4), of i] assms(2,5) by (simp add: same_lot_def)
    then show ?thesis using True assms(1) [of i] assms(2-4,6,7) life_step_ok [OF assms(3)]
      by (simp add: escrow_ok_def locked_def)
  next
    case False
    then have "escrow_ok ?u j" using assms(1) [of j] by (simp add: escrow_ok_def)
    from locked_escrow [OF assms(4) this] show ?thesis using False assms(6,7) by (simp add: escrow_ok_def)
  qed
qed

lemma create_escrow:
  assumes "createAuction_reacting C react x lt k t ti n p d r s = Inr (y, s')"
    and "\<forall>u. re_runs C ctx results moves u (react u)" and "\<And>j. escrow_ok s j"
  shows "escrow_ok s' j \<and> sa_entered s' = 0"
  using assms(1)
proof (rule create_effect)
  fix w s1 a
  assume s1: "s1 = react (s\<lparr>sa_entered := 1, sa_chain := w\<rparr>)" and e: "sa_entered s' = 0"
    and a: "au_state a = State_Open" "sa_auctions s' = sa_auctions s1 @ [a]"
    and rel: "\<And>i. releases i (sa_events s') = releases i (sa_events s1)"
  let ?u = "s\<lparr>sa_entered := 1, sa_chain := w\<rparr>"
  have "locked ?u s1" using reaction_locked [OF assms(2), of ?u] s1 by simp
  moreover have "escrow_ok ?u j" using assms(3) by (simp add: escrow_ok_def)
  ultimately have "escrow_ok s1 j" by (rule locked_escrow)
  with a rel e opened_ok [OF a(1)] show ?thesis
    by (auto simp: escrow_ok_def nth_append less_Suc_eq split: if_splits)
qed

lemma cancel_escrow:
  assumes "cancelAuction_reacting C react x k s = Inr (y, s')"
    and "\<forall>u. re_runs C ctx results moves u (react u)" and "\<And>j. escrow_ok s j"
  shows "escrow_ok s' j \<and> sa_entered s' = 0"
  using assms(1)
proof (rule cancel_effect)
  fix i w v
  let ?a = "sa_auctions s ! i"
  let ?u = "update_auction i (\<lambda>a. a\<lparr>au_state := State_Cancelled\<rparr>) (s\<lparr>sa_entered := 1\<rparr>)"
  assume i: "i < length (sa_auctions s)" "au_state ?a = State_Open" "au_bidCount ?a = 0"
    and v: "v = react (?u\<lparr>sa_chain := w\<rparr>)" and s': "sa_auctions s' = sa_auctions v"
    "sa_events s' = sa_events v @ [LotReleased i (au_seller ?a), AuctionCancelled i]" "sa_entered s' = 0"
  have "locked ?u v" using reaction_locked [OF assms(2), of "?u\<lparr>sa_chain := w\<rparr>"] v by simp
  then have "locked (update_auction i (\<lambda>_. ?a\<lparr>au_state := State_Cancelled\<rparr>) (s\<lparr>sa_entered := 1\<rparr>)) v"
    by (simp add: locked_def)
  from ended_escrow [OF assms(3) i(1) life_step.withdrawn [OF i(2,3)] this, of s' j] s'
  show ?thesis by (simp add: live_def)
qed

lemma settle_escrow:
  assumes "settle_reacting C react x rd aid tag st sig s = Inr (y, s')"
    and "\<forall>u. re_runs C ctx results moves u (react u)" and "\<And>j. escrow_ok s j"
  shows "escrow_ok s' j \<and> sa_entered s' = 0"
  using assms(1)
proof (cases rule: settle_reacting_effect)
  case (unsold i w v)
  let ?u = "update_auction i (\<lambda>a. a\<lparr>au_state := State_Cancelled\<rparr>) (s\<lparr>sa_entered := 1\<rparr>)"
  have "locked ?u v" using reaction_locked [OF assms(2), of "?u\<lparr>sa_chain := w\<rparr>"] unsold(4) by simp
  then have "locked (update_auction i (\<lambda>_. (sa_auctions s ! i)\<lparr>au_state := State_Cancelled\<rparr>)
      (s\<lparr>sa_entered := 1\<rparr>)) v"
    by (simp add: locked_def)
  from ended_escrow [OF assms(3) unsold(1) life_step.unsold [OF unsold(3)] this, of s' j] unsold(5-7)
  show ?thesis by (simp add: live_def)
next
  case (sold i winner price w w' v v')
  let ?b = "(sa_auctions s ! i)\<lparr>au_state := State_Settled, au_winner := winner, au_clearingPrice := price\<rparr>"
  let ?u = "update_auction i (\<lambda>a. a\<lparr>au_state := State_Settled, au_winner := winner,
    au_clearingPrice := price\<rparr>) (s\<lparr>sa_entered := 1\<rparr>)"
  have l: "locked ?u v" using reaction_locked [OF assms(2), of "?u\<lparr>sa_chain := w\<rparr>"] sold(6) by simp
  then have "sa_entered v \<noteq> 0" by (simp add: locked_def)
  then have "locked v v'" using reaction_locked [OF assms(2), of "v\<lparr>sa_chain := w'\<rparr>"] sold(7) by simp
  with l have "locked ?u v'" by (rule locked_trans)
  then have "locked (update_auction i (\<lambda>_. ?b) (s\<lparr>sa_entered := 1\<rparr>)) v'" by (simp add: locked_def)
  from ended_escrow [OF assms(3) sold(1) life_step.sold [OF sold(3-5)] this, of s' j] sold(8-10)
  show ?thesis by (simp add: live_def)
qed

definition ledger_ok :: "'w sale \<Rightarrow> bool" where
  "ledger_ok s \<longleftrightarrow> sa_entered s = 0 \<and> (\<forall>j. escrow_ok s j)"

lemma ledger_chain [simp]: "ledger_ok (s\<lparr>sa_chain := w\<rparr>) \<longleftrightarrow> ledger_ok s"
  by (simp add: ledger_ok_def escrow_ok_def)

lemma escrow_ok_update:
  assumes "escrow_ok s j" and "auction_ok (sa_auctions s ! i) \<Longrightarrow> auction_ok a \<and> lot_went_to a = lot_went_to (sa_auctions s ! i)"
    and "sa_auctions s' = (sa_auctions s)[i := a]" and "\<And>j. releases j (sa_events s') = releases j (sa_events s)"
  shows "escrow_ok s' j"
  using assms by (cases "j = i") (auto simp: escrow_ok_def split: if_splits)

lemma counted_ok [simp]:
  "auction_ok (a\<lparr>au_bidCount := n\<rparr>) \<longleftrightarrow> auction_ok a" "lot_went_to (a\<lparr>au_bidCount := n\<rparr>) = lot_went_to a"
  by (simp_all add: auction_ok_def lot_went_to_def split: auction_state.split)

lemma ledger_leaves: "leaves s s' \<Longrightarrow> sa_entered s' = sa_entered s \<Longrightarrow> ledger_ok s \<longrightarrow> ledger_ok s'"
  using leaves_ok unfolding ledger_ok_def by metis

lemma re_step_ledger:
  "re_step C ctx results moves s s' \<Longrightarrow> ledger_ok s \<longrightarrow> ledger_ok s'"
  "re_runs C ctx results moves s s' \<Longrightarrow> ledger_ok s \<longrightarrow> ledger_ok s'"
proof (induction rule: re_step_re_runs.inducts)
  case (extended x s y s')
  have "sa_entered s' = sa_entered s"
    using extended(2) by (auto simp: setExtensionId_def committed split: option.splits)
  then show ?case using ledger_leaves [OF setExtensionId_leaves [OF extended(2)]] by blast
next
  case (named x t s y s')
  have "sa_entered s' = sa_entered s" using named(2) by (auto simp: setTeeAddress_def committed)
  then show ?case using ledger_leaves [OF setTeeAddress_leaves [OF named(2)]] by blast
next
  case (bid x react i ct s y s')
  from bid(3) show ?case
  proof (rule bid_effect, intro impI)
    fix w s1
    assume s: "ledger_ok s" "s1 = react (s\<lparr>sa_chain := w\<rparr>)" and e: "sa_entered s' = sa_entered s1"
      and a: "sa_auctions s' = (sa_auctions s1)[unat i := (sa_auctions s1 ! unat i)
         \<lparr>au_bidCount := au_bidCount (sa_auctions s1 ! unat i) + 1\<rparr>]"
      and rel: "\<And>j. releases j (sa_events s') = releases j (sa_events s1)"
    have "ledger_ok s1" using bid(2) s by simp
    then show "ledger_ok s'" using e escrow_ok_update [OF _ _ a rel] by (simp add: ledger_ok_def)
  qed
next
  case (closing x react i s y s')
  from closing(3) show ?case
  proof (rule close_effect, intro impI)
    fix w s1
    let ?u = "update_auction (unat i) (\<lambda>a. a\<lparr>au_state := State_Closing\<rparr>) s"
    assume i: "au_state (sa_auctions s ! unat i) \<in> {State_Open, State_Closing}"
      and s: "ledger_ok s" "s1 = react (?u\<lparr>sa_chain := w\<rparr>)" and e: "sa_entered s' = sa_entered s1"
      and a: "sa_auctions s' = sa_auctions s1" and rel: "\<And>j. releases j (sa_events s') = releases j (sa_events s1)"
    have "escrow_ok ?u j" for j
      using s(1) i by (intro escrow_ok_update [OF _ _ update_select(1)])
        (auto simp: ledger_ok_def auction_ok_def lot_went_to_def)
    then have "ledger_ok ?u" using s(1) by (simp add: ledger_ok_def)
    then have "ledger_ok s1" using closing(2) s(2) by simp
    with e a rel show "ledger_ok s'" by (simp add: ledger_ok_def escrow_ok_def)
  qed
next
  case (created x react lt k t ti n p d r s j s')
  then show ?case using create_escrow [OF created(3)] unfolding ledger_ok_def by blast
next
  case (cancelled x react i s y s')
  then show ?case using cancel_escrow [OF cancelled(3)] unfolding ledger_ok_def by blast
next
  case (settled x rd react aid tag st sig s y s')
  then show ?case using settle_escrow [OF settled(4)] unfolding ledger_ok_def by blast
qed simp_all

text \<open>The storages the contract can reach when everything it calls may call back.\<close>

definition re_reachable ::
  "'w callees \<Rightarrow> (context_info \<Rightarrow> bool) \<Rightarrow> (bytes \<Rightarrow> bool) \<Rightarrow> ('w \<Rightarrow> 'w \<Rightarrow> bool) \<Rightarrow> 'w sale \<Rightarrow> bool" where
  "re_reachable C ctx results moves s \<longleftrightarrow>
     (\<exists>hasCode x er mr w s0. deploy_sale hasCode x er mr w = Inr s0 \<and> re_runs C ctx results moves s0 s)"

lemma deployed_ledger: "deploy_sale hasCode x er mr w = Inr s \<Longrightarrow> ledger_ok s"
proof -
  assume d: "deploy_sale hasCode x er mr w = Inr s"
  then have "sa_entered s = 0" by (auto simp: deploy_sale_def committed)
  with deployed_ok [OF d] show ?thesis by (simp add: ledger_ok_def)
qed

text \<open>
  C9. The lot of an auction leaves the escrow at most once and to the right party, whatever
  the contracts that are called do: tokens and registries may be of any kind, and from any call
  that is not a view they may run any transactions of the contract, to any depth.
\<close>

theorem lot_released_once_despite_reentry:
  assumes "re_reachable C ctx results moves s" and "i < length (sa_auctions s)"
  shows "sa_entered s = 0 \<and> (case au_state (sa_auctions s ! i) of
      State_None \<Rightarrow> False
    | State_Open \<Rightarrow> releases i (sa_events s) = []
    | State_Closing \<Rightarrow> releases i (sa_events s) = []
    | State_Settled \<Rightarrow> releases i (sa_events s) = [au_winner (sa_auctions s ! i)]
        \<and> au_reservePrice (sa_auctions s ! i) \<le> au_clearingPrice (sa_auctions s ! i)
    | State_Cancelled \<Rightarrow> releases i (sa_events s) = [au_seller (sa_auctions s ! i)])"
proof -
  obtain hasCode x er mr w s0 where d: "deploy_sale hasCode x er mr w = Inr s0"
    and r: "re_runs C ctx results moves s0 s"
    using assms(1) unfolding re_reachable_def by blast
  have "ledger_ok s" using re_step_ledger(2) [OF r] deployed_ledger [OF d] by blast
  then have "sa_entered s = 0" "escrow_ok s i" by (simp_all add: ledger_ok_def)
  then show ?thesis using assms(2)
    by (cases "au_state (sa_auctions s ! i)") (simp_all add: escrow_ok_def auction_ok_def lot_went_to_def)
qed

end
