(* ===== verification/Demo_Asset.thy ===== *)
theory Demo_Asset
  imports Sale_Props
begin

text \<open>
  The ERC-721 contract of the repository that stands for the lots
  (\<^verbatim>\<open>contracts/DemoAsset721.sol\<close>): its storage, every operation, and what a transfer does to
  owners and balances. The sender of a call is an argument; the receiver's hook of
  \<^verbatim>\<open>safeTransferFrom\<close> is code of another contract and a parameter.
\<close>

section \<open>Storage and operations\<close>

datatype asset_event =
    Transfer address address u256
  | Approval address address u256
  | ApprovalForAll address address bool

record asset =
  da_owner :: address
  da_owners :: "u256 \<Rightarrow> address"
  da_balances :: "address \<Rightarrow> u256"
  da_tokenApprovals :: "u256 \<Rightarrow> address"
  da_operatorApprovals :: "address \<Rightarrow> address \<Rightarrow> bool"
  da_nextTokenId :: u256
  da_events :: "asset_event list"

definition deploy_asset :: "address \<Rightarrow> asset" where
  "deploy_asset sender =
     \<lparr>da_owner = sender, da_owners = (\<lambda>_. 0), da_balances = (\<lambda>_. 0), da_tokenApprovals = (\<lambda>_. 0),
      da_operatorApprovals = (\<lambda>_ _. False), da_nextTokenId = 1, da_events = []\<rparr>"

definition log_asset :: "asset_event \<Rightarrow> asset \<Rightarrow> asset" where
  "log_asset e s = s\<lparr>da_events := da_events s @ [e]\<rparr>"

text \<open>Checked arithmetic on one balance.\<close>

definition add_balance :: "address \<Rightarrow> asset \<Rightarrow> asset result" where
  "add_balance a s =
     and_then (require (da_balances s a \<noteq> - 1) ''arithmetic overflow'') (\<lambda>_.
     Inr (s\<lparr>da_balances := (da_balances s)(a := da_balances s a + 1)\<rparr>))"

definition sub_balance :: "address \<Rightarrow> asset \<Rightarrow> asset result" where
  "sub_balance a s =
     and_then (require (da_balances s a \<noteq> 0) ''arithmetic underflow'') (\<lambda>_.
     Inr (s\<lparr>da_balances := (da_balances s)(a := da_balances s a - 1)\<rparr>))"

definition mint :: "address \<Rightarrow> address \<Rightarrow> asset \<Rightarrow> (u256 \<times> asset) result" where
  "mint sender to s =
     and_then (require (sender = da_owner s) ''not owner'') (\<lambda>_.
     and_then (require (to \<noteq> 0) ''zero recipient'') (\<lambda>_.
     let tokenId = da_nextTokenId s in
     and_then (require (tokenId \<noteq> - 1) ''arithmetic overflow'') (\<lambda>_.
     and_then (add_balance to
         (s\<lparr>da_nextTokenId := tokenId + 1, da_owners := (da_owners s)(tokenId := to)\<rparr>)) (\<lambda>s1.
     Inr (tokenId, log_asset (Transfer 0 to tokenId) s1)))))"

definition supportsInterface :: "32 word \<Rightarrow> bool" where
  "supportsInterface interfaceId \<longleftrightarrow> interfaceId = 0x01ffc9a7 \<or> interfaceId = 0x80ac58cd"

definition asset_balanceOf :: "asset \<Rightarrow> address \<Rightarrow> u256 result" where
  "asset_balanceOf s account =
     and_then (require (account \<noteq> 0) ''zero address'') (\<lambda>_. Inr (da_balances s account))"

definition asset_ownerOf :: "asset \<Rightarrow> u256 \<Rightarrow> address result" where
  "asset_ownerOf s tokenId =
     and_then (require (da_owners s tokenId \<noteq> 0) ''no such token'') (\<lambda>_. Inr (da_owners s tokenId))"

definition asset_approve :: "address \<Rightarrow> address \<Rightarrow> u256 \<Rightarrow> asset \<Rightarrow> asset result" where
  "asset_approve sender to tokenId s =
     and_then (asset_ownerOf s tokenId) (\<lambda>holder.
     and_then (require (sender = holder \<or> da_operatorApprovals s holder sender) ''not authorized'') (\<lambda>_.
     Inr (log_asset (Approval holder to tokenId)
       (s\<lparr>da_tokenApprovals := (da_tokenApprovals s)(tokenId := to)\<rparr>))))"

definition getApproved :: "asset \<Rightarrow> u256 \<Rightarrow> address result" where
  "getApproved s tokenId =
     and_then (require (da_owners s tokenId \<noteq> 0) ''no such token'') (\<lambda>_. Inr (da_tokenApprovals s tokenId))"

definition setApprovalForAll :: "address \<Rightarrow> address \<Rightarrow> bool \<Rightarrow> asset \<Rightarrow> asset" where
  "setApprovalForAll sender operator approved s =
     log_asset (ApprovalForAll sender operator approved)
       (s\<lparr>da_operatorApprovals := (da_operatorApprovals s)
          (sender := (da_operatorApprovals s sender)(operator := approved))\<rparr>)"

definition isApprovedForAll :: "asset \<Rightarrow> address \<Rightarrow> address \<Rightarrow> bool" where
  "isApprovedForAll s holder operator = da_operatorApprovals s holder operator"

definition asset_transferFrom :: "address \<Rightarrow> address \<Rightarrow> address \<Rightarrow> u256 \<Rightarrow> asset \<Rightarrow> asset result" where
  "asset_transferFrom sender from to tokenId s =
     and_then (asset_ownerOf s tokenId) (\<lambda>holder.
     and_then (require (holder = from) ''wrong from'') (\<lambda>_.
     and_then (require (to \<noteq> 0) ''zero recipient'') (\<lambda>_.
     and_then (require (sender = from \<or> da_tokenApprovals s tokenId = sender
         \<or> da_operatorApprovals s from sender) ''not authorized'') (\<lambda>_.
     and_then (sub_balance from (s\<lparr>da_tokenApprovals := (da_tokenApprovals s)(tokenId := 0)\<rparr>)) (\<lambda>s1.
     and_then (add_balance to s1) (\<lambda>s2.
     Inr (log_asset (Transfer from to tokenId)
       (s2\<lparr>da_owners := (da_owners s2)(tokenId := to)\<rparr>))))))))"

text \<open>\<open>received\<close> is the receiver's hook: whether it returns the selector, None when it reverts.\<close>

definition safeTransferFrom ::
  "(address \<Rightarrow> bool) \<Rightarrow> (address \<Rightarrow> address \<Rightarrow> address \<Rightarrow> u256 \<Rightarrow> bytes \<Rightarrow> asset \<Rightarrow> (bool \<times> asset) option)
     \<Rightarrow> address \<Rightarrow> address \<Rightarrow> address \<Rightarrow> u256 \<Rightarrow> bytes \<Rightarrow> asset \<Rightarrow> asset result" where
  "safeTransferFrom hasCode received sender from to tokenId data s =
     and_then (asset_transferFrom sender from to tokenId s) (\<lambda>s1.
     if hasCode to
     then and_then (called (received to sender from tokenId data s1)) (\<lambda>(selector, s2).
          and_then (require selector ''unsafe recipient'') (\<lambda>_. Inr s2))
     else Inr s1)"

section \<open>What a transfer does\<close>

text \<open>A transfer moves the one collectible, from its owner, with the owner's leave.\<close>

lemma asset_transfer_ok:
  assumes "asset_transferFrom sender from to n s = Inr s'"
  shows "da_owners s n = from" "from \<noteq> 0" "to \<noteq> 0"
    "sender = from \<or> da_tokenApprovals s n = sender \<or> da_operatorApprovals s from sender"
    "da_owners s' = (da_owners s)(n := to)" "da_tokenApprovals s' n = 0"
    "da_operatorApprovals s' = da_operatorApprovals s"
  using assms
  by (auto simp: asset_transferFrom_def asset_ownerOf_def sub_balance_def add_balance_def log_asset_def committed)

lemma asset_ownerOf_Inr: "asset_ownerOf s n = Inr a \<longleftrightarrow> da_owners s n = a \<and> a \<noteq> 0"
  by (auto simp: asset_ownerOf_def committed)

text \<open>The sender's balance falls by one and the receiver's rises by one.\<close>

lemma asset_transfer_balances:
  assumes "asset_transferFrom sender from to n s = Inr s'" and "from \<noteq> to"
  shows "da_balances s from = da_balances s' from + 1" "da_balances s' to = da_balances s to + 1"
  using assms
  by (auto simp: asset_transferFrom_def asset_ownerOf_def sub_balance_def add_balance_def log_asset_def committed)

text \<open>Without code at the receiver, or with a receiver that accepts and does nothing else, the safe
  transfer is the transfer.\<close>

lemma safe_transfer_plain:
  assumes "\<not> hasCode to \<or> (\<forall>s'. received to sender from n data s' = Some (True, s'))"
  shows "safeTransferFrom hasCode received sender from to n data s = asset_transferFrom sender from to n s"
  using assms by (auto simp: safeTransferFrom_def and_then_def called_def require_def split: sum.split)

section \<open>Minting\<close>

text \<open>Every collectible has an id below the next one, so minting takes nobody's.\<close>

definition numbered :: "asset \<Rightarrow> bool" where
  "numbered s \<longleftrightarrow> (\<forall>n. da_owners s n \<noteq> 0 \<longrightarrow> n < da_nextTokenId s)"

inductive asset_step :: "asset \<Rightarrow> asset \<Rightarrow> bool" where
  "mint sender to s = Inr (n, s') \<Longrightarrow> asset_step s s'"
| "asset_approve sender to n s = Inr s' \<Longrightarrow> asset_step s s'"
| "asset_step s (setApprovalForAll sender operator approved s)"
| "asset_transferFrom sender src to n s = Inr s' \<Longrightarrow> asset_step s s'"

lemma mint_ok:
  "mint sender to s = Inr (n, s') \<Longrightarrow> n = da_nextTokenId s \<and> n \<noteq> - 1 \<and> to \<noteq> 0 \<and> sender = da_owner s
     \<and> da_nextTokenId s' = n + 1 \<and> da_owners s' = (da_owners s)(n := to)"
  by (auto simp: mint_def add_balance_def log_asset_def committed Let_def)

lemma asset_transfer_next: "asset_transferFrom sender src to n s = Inr s' \<Longrightarrow> da_nextTokenId s' = da_nextTokenId s"
  by (auto simp: asset_transferFrom_def asset_ownerOf_def sub_balance_def add_balance_def log_asset_def committed)

lemma less_next:
  fixes n k :: u256
  assumes "n \<noteq> - 1" and "k \<le> n"
  shows "k < n + 1"
proof -
  have "1 + n \<noteq> 0" using assms(1) by (metis add.commute eq_neg_iff_add_eq_0)
  from unatSuc [OF this] assms(2) show ?thesis
    by (simp add: word_less_nat_alt word_le_nat_alt add.commute)
qed

lemma numbered_step: "asset_step s s' \<Longrightarrow> numbered s \<Longrightarrow> numbered s'"
proof (induction rule: asset_step.induct)
  case (1 sender to s n s')
  have m: "n = da_nextTokenId s" "n \<noteq> - 1" "da_nextTokenId s' = n + 1" "da_owners s' = (da_owners s)(n := to)"
    using mint_ok [OF 1(1)] by blast+
  show ?case unfolding numbered_def m(3,4)
  proof (intro allI impI)
    fix k assume "((da_owners s)(n := to)) k \<noteq> 0"
    with 1(2) m(1) have "k \<le> n" by (cases "k = n") (auto simp: numbered_def less_imp_le)
    with m(2) show "k < n + 1" by (rule less_next)
  qed
next
  case (4 sender src to n s s')
  then show ?case using asset_transfer_ok(1,2,5) [OF 4(1)] asset_transfer_next [OF 4(1)]
    by (auto simp: numbered_def)
qed (auto simp: numbered_def asset_approve_def setApprovalForAll_def asset_ownerOf_def log_asset_def committed)

lemma mint_takes_nothing:
  assumes "asset_step\<^sup>*\<^sup>* (deploy_asset sender) s" and "mint sender2 to s = Inr (n, s')"
  shows "da_owners s n = 0"
proof -
  have "numbered (deploy_asset sender)" by (simp add: numbered_def deploy_asset_def)
  with assms(1) have "numbered s" by (induction rule: rtranclp_induct) (auto intro: numbered_step)
  then show ?thesis using mint_ok [OF assms(2)] by (auto simp: numbered_def)
qed

end
