(* ===== verification/Custody.thy ===== *)
theory Custody
  imports Reentry Demo_Asset
begin

text \<open>
  What the contract owes it holds: for every token that behaves, the balance covers the lots in
  escrow, and every collectible in escrow is owned by the contract, once. Other tokens may
  misbehave, and every call may call back (\<^verbatim>\<open>Reentry\<close>). At the end: the same operation without
  its guard would break this.
\<close>

section \<open>Holdings\<close>

definition held :: "'w callees \<Rightarrow> address \<Rightarrow> 'w \<Rightarrow> address \<Rightarrow> nat" where
  "held C me w t = (case erc20_balanceOf C w t me of None \<Rightarrow> 0 | Some b \<Rightarrow> unat b)"

definition owned :: "'w callees \<Rightarrow> address \<Rightarrow> 'w \<Rightarrow> address \<Rightarrow> u256 \<Rightarrow> bool" where
  "owned C me w t n \<longleftrightarrow> nft_ownerOf C w t n = Some me"

definition keeps :: "'w callees \<Rightarrow> address \<Rightarrow> address set \<Rightarrow> address set \<Rightarrow> 'w \<Rightarrow> 'w \<Rightarrow> bool" where
  "keeps C me F N w w' \<longleftrightarrow> (\<forall>t \<in> F. held C me w t \<le> held C me w' t)
     \<and> (\<forall>t \<in> N. \<forall>n. owned C me w t n \<longrightarrow> owned C me w' t n)"

lemma keeps_refl: "keeps C me F N w w"
  by (simp add: keeps_def)

lemma keeps_trans: "keeps C me F N w w1 \<Longrightarrow> keeps C me F N w1 w2 \<Longrightarrow> keeps C me F N w w2"
  unfolding keeps_def by (meson le_trans)

text \<open>
  Two sets of tokens behave. What the contract holds of a fungible one in \<open>F\<close> is only reduced by
  its own transfers, by no more than their amount; such a token has no \<^verbatim>\<open>ownerOf\<close>. What it owns of
  a collection in \<open>N\<close> only leaves by its own transfer of that token id, and a collectible is only
  moved from its owner; nothing is said about the balances of a collection, which fall when a
  collectible leaves. The contract never grants an allowance or an approval, so a transfer from
  somebody else takes nothing from it. Nothing is said about what a call to another token does
  elsewhere.
\<close>

definition custody_laws :: "'w callees \<Rightarrow> address \<Rightarrow> address set \<Rightarrow> address set \<Rightarrow> bool" where
  "custody_laws C me F N \<longleftrightarrow>
     (\<forall>w. \<forall>t \<in> F. \<forall>n. nft_ownerOf C w t n = None)
   \<and> (\<forall>w t from to n w'. nft_transferFrom C w t me from to n = Some w' \<longrightarrow> from \<noteq> me \<longrightarrow>
        keeps C me F N w w' \<and> (t \<in> N \<longrightarrow> nft_ownerOf C w t n = Some from))
   \<and> (\<forall>w t to n w'. nft_transferFrom C w t me me to n = Some w' \<longrightarrow> t \<notin> F \<longrightarrow>
        (\<forall>t' \<in> F. held C me w t' \<le> held C me w' t')
      \<and> (\<forall>t' \<in> N. \<forall>n'. owned C me w t' n' \<longrightarrow> (t', n') \<noteq> (t, n) \<longrightarrow> owned C me w' t' n'))
   \<and> (\<forall>w t from to n ok w'. erc20_transferFrom C w t me from to n = Some (ok, w') \<longrightarrow> from \<noteq> me \<longrightarrow>
        keeps C me F N w w')
   \<and> (\<forall>w t to n w'. erc20_transfer C w t me to n = Some (True, w') \<longrightarrow>
        (\<forall>t' \<in> F. held C me w t' \<le> held C me w' t' + (if t' = t then unat n else 0))
      \<and> (\<forall>t' \<in> N. \<forall>n'. owned C me w t' n' \<longrightarrow> owned C me w' t' n'))
   \<and> (\<forall>w v ids command m from h w'.
        sendInstructions C w v ids OP_TYPE_AUCTION command m from = Some (h, w') \<longrightarrow> keeps C me F N w w')"

lemma custody_law:
  assumes "custody_laws C me F N"
  shows "t \<in> F \<Longrightarrow> nft_ownerOf C w t n = None"
    "nft_transferFrom C w t me from to n = Some w' \<Longrightarrow> from \<noteq> me \<Longrightarrow> keeps C me F N w w'"
    "nft_transferFrom C w t me from to n = Some w' \<Longrightarrow> from \<noteq> me \<Longrightarrow> t \<in> N \<Longrightarrow> nft_ownerOf C w t n = Some from"
    "nft_transferFrom C w t me me to n = Some w' \<Longrightarrow> t \<notin> F \<Longrightarrow> t' \<in> F \<Longrightarrow> held C me w t' \<le> held C me w' t'"
    "nft_transferFrom C w t me me to n = Some w' \<Longrightarrow> t \<notin> F \<Longrightarrow> t' \<in> N \<Longrightarrow> owned C me w t' n' \<Longrightarrow>
       (t', n') \<noteq> (t, n) \<Longrightarrow> owned C me w' t' n'"
    "erc20_transferFrom C w t me from to n = Some (ok, w') \<Longrightarrow> from \<noteq> me \<Longrightarrow> keeps C me F N w w'"
    "erc20_transfer C w t me to n = Some (True, w') \<Longrightarrow> t' \<in> F \<Longrightarrow>
       held C me w t' \<le> held C me w' t' + (if t' = t then unat n else 0)"
    "erc20_transfer C w t me to n = Some (True, w') \<Longrightarrow> t' \<in> N \<Longrightarrow> owned C me w t' n' \<Longrightarrow> owned C me w' t' n'"
    "sendInstructions C w v ids OP_TYPE_AUCTION command m from = Some (h, w') \<Longrightarrow> keeps C me F N w w'"
  using assms unfolding custody_laws_def by ((elim conjE)?, metis)+

text \<open>
  The transactions come from others than the contract, no settled result names the contract as
  the winner (the machine only names bidders), and what happens elsewhere keeps its holdings.
\<close>

definition custody_setting ::
  "'w callees \<Rightarrow> address \<Rightarrow> address set \<Rightarrow> address set \<Rightarrow> (context_info \<Rightarrow> bool) \<Rightarrow> (bytes \<Rightarrow> bool)
     \<Rightarrow> ('w \<Rightarrow> 'w \<Rightarrow> bool) \<Rightarrow> bool" where
  "custody_setting C me F N ctx results moves \<longleftrightarrow>
     custody_laws C me F N
   \<and> (\<forall>x. ctx x \<longrightarrow> cx_this x = me \<and> cx_sender x \<noteq> me)
   \<and> (\<forall>rd c k winner price. results rd \<longrightarrow> decode_result C rd = Some (c, k, winner, price) \<longrightarrow> winner \<noteq> me)
   \<and> (\<forall>w w'. moves w w' \<longrightarrow> keeps C me F N w w')"

section \<open>What is owed\<close>

definition due :: "address \<Rightarrow> auction \<Rightarrow> nat" where
  "due t a = (if live a \<and> au_lotKind a = Lot_ERC20 \<and> au_lotToken a = t then unat (au_lotAmount a) else 0)"

definition owed :: "address \<Rightarrow> auction list \<Rightarrow> nat" where
  "owed t aus = sum_list (map (due t) aus)"

text \<open>\<open>keeping aus t n i\<close>: the collectible \<open>n\<close> of \<open>t\<close> is the lot of auction \<open>i\<close>, in escrow.\<close>

definition keeping :: "auction list \<Rightarrow> address \<Rightarrow> u256 \<Rightarrow> nat \<Rightarrow> bool" where
  "keeping aus t n i \<longleftrightarrow> i < length aus \<and> live (aus ! i) \<and> au_lotKind (aus ! i) = Lot_ERC721
     \<and> au_lotToken (aus ! i) = t \<and> au_lotTokenId (aus ! i) = n"

definition backed :: "'w callees \<Rightarrow> address \<Rightarrow> address set \<Rightarrow> address set \<Rightarrow> auction list \<Rightarrow> 'w \<Rightarrow> bool" where
  "backed C me F N aus w \<longleftrightarrow> (\<forall>t \<in> F. owed t aus \<le> held C me w t)
     \<and> (\<forall>t \<in> N. \<forall>n i. keeping aus t n i \<longrightarrow> owned C me w t n \<and> (\<forall>j. keeping aus t n j \<longrightarrow> j = i))
     \<and> (\<forall>t \<in> F. \<forall>n i. \<not> keeping aus t n i)"

lemma backed_keeps: "backed C me F N aus w \<Longrightarrow> keeps C me F N w w' \<Longrightarrow> backed C me F N aus w'"
  unfolding backed_def keeps_def by (meson le_trans)

definition same_due :: "auction \<Rightarrow> auction \<Rightarrow> bool" where
  "same_due a a' \<longleftrightarrow> lot a' = lot a \<and> (live a' \<longleftrightarrow> live a)"

lemma same_lot_due: "same_lot a a' \<Longrightarrow> same_due a a'"
  by (simp add: same_lot_def same_due_def)

lemma owed_same: "list_all2 same_due aus aus' \<Longrightarrow> owed t aus' = owed t aus"
  by (induction rule: list_all2_induct) (auto simp: owed_def due_def same_due_def lot_def)

lemma keeping_same: "list_all2 same_due aus aus' \<Longrightarrow> keeping aus' t n i \<longleftrightarrow> keeping aus t n i"
  by (auto simp: keeping_def list_all2_conv_all_nth same_due_def lot_def)

lemma backed_same: "list_all2 same_due aus aus' \<Longrightarrow> backed C me F N aus w \<Longrightarrow> backed C me F N aus' w"
  by (simp add: backed_def owed_same keeping_same)

lemma locked_dues: "locked s s' \<Longrightarrow> list_all2 same_due (sa_auctions s) (sa_auctions s')"
  unfolding locked_def using list_all2_mono same_lot_due by blast

lemma update_dues: "i < length aus \<Longrightarrow> same_due (aus ! i) a \<Longrightarrow> list_all2 same_due aus (aus[i := a])"
  by (auto simp: list_all2_conv_all_nth nth_list_update same_due_def)

lemma owed_update:
  "i < length aus \<Longrightarrow> owed t (aus[i := a]) + due t (aus ! i) = owed t aus + due t a"
  using elem_le_sum_list [of i "map (due t) aus"] by (simp add: owed_def map_update sum_list_update)

text \<open>A lot that leaves reduces what is owed by as much as what is held.\<close>

lemma keeping_ended: "i < length aus \<Longrightarrow> \<not> live a \<Longrightarrow>
  keeping (aus[i := a]) t n j \<longleftrightarrow> keeping aus t n j \<and> j \<noteq> i"
  by (auto simp: keeping_def nth_list_update)

lemma release_held:
  assumes laws: "custody_laws C me F N" and t: "t \<in> F" and b: "backed C me F N aus w"
    and i: "i < length aus" "live (aus ! i)"
    and r: "released C x d to w w'" "cx_this x = me" "lot d = lot (aus ! i)"
  shows "held C me w t \<le> held C me w' t + due t (aus ! i)"
proof (cases "au_lotKind d")
  case Lot_ERC721
  then have "keeping aus (au_lotToken d) (au_lotTokenId d) i"
    using i r(3) by (simp add: keeping_def lot_def)
  then have "au_lotToken d \<notin> F" using b unfolding backed_def by blast
  with Lot_ERC721 r custody_law(4) [OF laws _ _ t] show ?thesis
    by (fastforce simp: released_def intro: trans_le_add1)
next
  case Lot_ERC20
  then have "held C me w t \<le> held C me w' t + (if t = au_lotToken d then unat (au_lotAmount d) else 0)"
    using r(1,2) custody_law(7) [OF laws _ t] by (simp add: released_def)
  with Lot_ERC20 r(3) i(2) show ?thesis by (auto simp: due_def lot_def)
qed

lemma release_owned:
  assumes laws: "custody_laws C me F N" and t: "t \<in> N" and b: "backed C me F N aus w"
    and i: "i < length aus" "live (aus ! i)"
    and r: "released C x d to w w'" "cx_this x = me" "lot d = lot (aus ! i)"
    and j: "keeping aus t n j" "j \<noteq> i"
  shows "owned C me w' t n"
proof -
  have own: "owned C me w t n" and one: "\<And>k. keeping aus t n k \<Longrightarrow> k = j"
    using b t j(1) unfolding backed_def by blast+
  show ?thesis
  proof (cases "au_lotKind d")
    case Lot_ERC721
    then have d: "keeping aus (au_lotToken d) (au_lotTokenId d) i"
      using i r(3) by (simp add: keeping_def lot_def)
    then have "au_lotToken d \<notin> F" "(t, n) \<noteq> (au_lotToken d, au_lotTokenId d)"
      using b one [of i] j(2) unfolding backed_def by blast+
    with Lot_ERC721 own r(1,2) show ?thesis
      using custody_law(5) [OF laws _ _ t own] by (simp add: released_def)
  next
    case Lot_ERC20
    with own r(1,2) custody_law(8) [OF laws _ t own] show ?thesis by (simp add: released_def)
  qed
qed

lemma backed_release:
  assumes laws: "custody_laws C me F N" and b: "backed C me F N aus w" and i: "i < length aus" "live (aus ! i)"
    and a: "\<not> live a" and r: "released C x d to w w'" "cx_this x = me" "lot d = lot (aus ! i)"
  shows "backed C me F N (aus[i := a]) w'"
  unfolding backed_def keeping_ended [OF i(1) a]
proof (intro conjI ballI allI impI)
  fix t assume t: "t \<in> F"
  have "owed t (aus[i := a]) + due t (aus ! i) = owed t aus"
    using owed_update [OF i(1), of t a] a by (simp add: due_def)
  moreover have "owed t aus \<le> held C me w t" using b t by (simp add: backed_def)
  ultimately show "owed t (aus[i := a]) \<le> held C me w' t"
    using release_held [OF laws t b i r] by linarith
  show "\<not> (keeping aus t n j \<and> j \<noteq> i)" for n j using b t unfolding backed_def by blast
next
  fix t n j assume t: "t \<in> N" and j: "keeping aus t n j \<and> j \<noteq> i"
  from j show "owned C me w' t n" using release_owned [OF laws t b i r] by blast
  show "k = j" if "keeping aus t n k \<and> k \<noteq> i" for k using b t j that unfolding backed_def by blast
qed

text \<open>A lot that comes in was measured, or was not the contract's before.\<close>

lemma pull_held:
  assumes laws: "custody_laws C me F N" and t: "t \<in> F" and x: "cx_this x = me"
    and p: "pulled C x a w w1 w2" and k: "keeps C me F N w w2" and new: "live a"
  shows "held C me w t + due t a \<le> held C me w2 t"
proof (cases "au_lotKind a = Lot_ERC20 \<and> au_lotToken a = t")
  case True
  then obtain before after where "erc20_balanceOf C w t me = Some before"
    "erc20_balanceOf C w2 t me = Some after" "before \<le> after" "au_lotAmount a = after - before"
    using p x by (auto simp: pulled_def)
  then have "held C me w2 t = held C me w t + unat (au_lotAmount a)"
    by (simp add: held_def unat_sub word_le_nat_alt)
  with True new show ?thesis by (simp add: due_def)
next
  case False
  then have "due t a = 0" by (auto simp: due_def)
  with k t show ?thesis by (simp add: keeps_def)
qed

lemma backed_pull:
  assumes laws: "custody_laws C me F N" and b: "backed C me F N aus w" and x: "cx_this x = me" "cx_sender x \<noteq> me"
    and p: "pulled C x a w w1 w2" and k: "keeps C me F N w1 w2" and new: "live a"
    and aus: "list_all2 same_due aus aus2"
  shows "backed C me F N (aus2 @ [a]) w2"
proof -
  have kw: "keeps C me F N w w1"
  proof (cases "au_lotKind a")
    case Lot_ERC721
    with p x custody_law(2) [OF laws _ x(2)] show ?thesis by (auto simp: pulled_def)
  next
    case Lot_ERC20
    with p x custody_law(6) [OF laws _ x(2)] show ?thesis by (auto simp: pulled_def)
  qed
  note kw2 = keeps_trans [OF kw k]
  have b2: "backed C me F N aus2 w2" and b0: "backed C me F N aus2 w"
    using backed_same [OF aus backed_keeps [OF b kw2]] backed_same [OF aus b] by blast+
  have step: "keeping (aus2 @ [a]) t n i \<longleftrightarrow> keeping aus2 t n i
      \<or> i = length aus2 \<and> au_lotKind a = Lot_ERC721 \<and> au_lotToken a = t \<and> au_lotTokenId a = n" for t n i
    using new by (auto simp: keeping_def nth_append)
  have own: "nft_ownerOf C w2 (au_lotToken a) (au_lotTokenId a) = Some me" if "au_lotKind a = Lot_ERC721"
    using p that x(1) by (simp add: pulled_def)
  have fresh: "\<not> keeping aus2 (au_lotToken a) (au_lotTokenId a) j"
    if "au_lotKind a = Lot_ERC721" "au_lotToken a \<in> N" for j
  proof
    assume "keeping aus2 (au_lotToken a) (au_lotTokenId a) j"
    then have "nft_ownerOf C w (au_lotToken a) (au_lotTokenId a) = Some me"
      using b0 that(2) unfolding backed_def owned_def by blast
    moreover have "nft_ownerOf C w (au_lotToken a) (au_lotTokenId a) = Some (cx_sender x)"
      using p that(1) custody_law(3) [OF laws _ x(2) that(2)] x(1) by (auto simp: pulled_def)
    ultimately show False using x(2) by simp
  qed
  have "owed t (aus2 @ [a]) \<le> held C me w2 t" if t: "t \<in> F" for t
  proof -
    have "owed t aus2 \<le> held C me w t" using b0 t by (simp add: backed_def)
    with pull_held [OF laws t x(1) p kw2 new] show ?thesis by (simp add: owed_def)
  qed
  moreover have "\<not> keeping (aus2 @ [a]) t n i" if t: "t \<in> F" for t n i
    unfolding step using b2 t own custody_law(1) [OF laws t, of w2 n] by (auto simp: backed_def)
  moreover have "owned C me w2 t n \<and> (\<forall>j. keeping (aus2 @ [a]) t n j \<longrightarrow> j = i)"
    if "t \<in> N" "keeping (aus2 @ [a]) t n i" for t n i
    using that b2 own fresh unfolding step backed_def owned_def by blast
  ultimately show ?thesis unfolding backed_def by blast
qed

section \<open>Every history, with calls back\<close>

lemma setting_parts:
  assumes "custody_setting C me F N ctx results moves"
  shows "custody_laws C me F N" "ctx x \<Longrightarrow> cx_this x = me \<and> cx_sender x \<noteq> me"
    "results rd \<Longrightarrow> decode_result C rd = Some (c, k, winner, price) \<Longrightarrow> winner \<noteq> me"
    "moves w w' \<Longrightarrow> keeps C me F N w w'"
  using assms unfolding custody_setting_def by blast+

lemma instructed_keeps: "custody_laws C me F N \<Longrightarrow> instructed C x w w' \<Longrightarrow> keeps C me F N w w'"
  unfolding custody_laws_def instructed_def by blast

text \<open>While the guard is held, the holdings only grow.\<close>

lemma re_step_keeps:
  assumes set: "custody_setting C me F N ctx results moves"
  shows "re_step C ctx results moves s s' \<Longrightarrow> sa_entered s \<noteq> 0 \<longrightarrow> keeps C me F N (sa_chain s) (sa_chain s')"
    "re_runs C ctx results moves s s' \<Longrightarrow> sa_entered s \<noteq> 0 \<longrightarrow> keeps C me F N (sa_chain s) (sa_chain s')"
proof (induction rule: re_step_re_runs.inducts)
  case (bid x react i ct s y s')
  from bid(3) show ?case
  proof (rule bid_effect, intro impI)
    fix w s1 assume "s1 = react (s\<lparr>sa_chain := w\<rparr>)" "sa_entered s \<noteq> 0" "sa_chain s' = sa_chain s1"
      and w: "instructed C x (sa_chain s) w"
    then have "keeps C me F N w (sa_chain s')" using bid(2) [rule_format, of "s\<lparr>sa_chain := w\<rparr>"] by simp
    with instructed_keeps [OF setting_parts(1) [OF set] w] show "keeps C me F N (sa_chain s) (sa_chain s')"
      by (rule keeps_trans)
  qed
next
  case (closing x react i s y s')
  from closing(3) show ?case
  proof (rule close_effect, intro impI)
    let ?u = "update_auction (unat i) (\<lambda>a. a\<lparr>au_state := State_Closing\<rparr>) s"
    fix w s1 assume "s1 = react (?u\<lparr>sa_chain := w\<rparr>)" "sa_entered s \<noteq> 0" "sa_chain s' = sa_chain s1"
      and w: "instructed C x (sa_chain s) w"
    then have "keeps C me F N w (sa_chain s')" using closing(2) [rule_format, of "?u\<lparr>sa_chain := w\<rparr>"] by simp
    with instructed_keeps [OF setting_parts(1) [OF set] w] show "keeps C me F N (sa_chain s) (sa_chain s')"
      by (rule keeps_trans)
  qed
next
  case (more s s1 s2)
  then show ?case using re_step_locked(1) [OF more(1)] by (auto simp: locked_def intro: keeps_trans)
next
  case (elsewhere s w)
  then show ?case using setting_parts(4) [OF set] by simp
qed (auto simp: setExtensionId_def setTeeAddress_def committed keeps_refl
    createAuction_reacting_def cancelAuction_reacting_def settle_reacting_def
    dest!: nonReentrant_ok split: option.splits)

text \<open>A reaction under the guard: the lots stay, the holdings grow.\<close>

lemma reaction_keeps:
  assumes "custody_setting C me F N ctx results moves" and "\<forall>u. re_runs C ctx results moves u (react u)"
    and "sa_entered u \<noteq> 0"
  shows "locked u (react u) \<and> keeps C me F N (sa_chain u) (sa_chain (react u))"
  using reaction_locked [OF assms(2,3)] re_step_keeps(2) [OF assms(1)] assms(2,3) by blast

lemma backed_reaction:
  "backed C me F N (sa_auctions u) w \<Longrightarrow> locked u v \<and> keeps C me F N w (sa_chain v) \<Longrightarrow>
     backed C me F N (sa_auctions v) (sa_chain v)"
  by (elim conjE) (rule backed_keeps [OF backed_same [OF locked_dues]])

definition custody :: "'w callees \<Rightarrow> address \<Rightarrow> address set \<Rightarrow> address set \<Rightarrow> 'w sale \<Rightarrow> bool" where
  "custody C me F N s \<longleftrightarrow> sa_entered s = 0 \<and> backed C me F N (sa_auctions s) (sa_chain s)"

lemma create_custody:
  assumes set: "custody_setting C me F N ctx results moves" "ctx x"
    and "createAuction_reacting C react x lt k t ti n p d r s = Inr (y, s')"
    and react: "\<forall>u. re_runs C ctx results moves u (react u)" and "custody C me F N s"
  shows "custody C me F N s'"
  using assms(3)
proof (rule create_effect)
  fix w s1 a
  let ?u = "s\<lparr>sa_entered := 1, sa_chain := w\<rparr>"
  assume s1: "s1 = react ?u" and e: "sa_entered s' = 0"
    and a: "au_state a = State_Open" "sa_auctions s' = sa_auctions s1 @ [a]"
    and p: "pulled C x a (sa_chain s) w (sa_chain s1)" "sa_chain s' = sa_chain s1"
  have l: "locked ?u s1 \<and> keeps C me F N w (sa_chain s1)"
    using reaction_keeps [OF set(1) react, of ?u] s1 by simp
  have "backed C me F N (sa_auctions s1 @ [a]) (sa_chain s1)"
    using assms(5) a(1) l locked_dues [of ?u s1] setting_parts(2) [OF set]
    by (intro backed_pull [OF setting_parts(1) [OF set(1)] _ _ _ p(1)]) (auto simp: custody_def live_def)
  with e a(2) p(2) show ?thesis by (simp add: custody_def)
qed

text \<open>A cancellation, by the seller or by a settlement: written, called, reacted to.\<close>

lemma withdrawn_custody:
  assumes set: "custody_setting C me F N ctx results moves" "ctx x"
    and react: "\<forall>u. re_runs C ctx results moves u (react u)" and "custody C me F N s"
    and i: "i < length (sa_auctions s)" "live (sa_auctions s ! i)"
    and v: "v = react ((update_auction i (\<lambda>a. a\<lparr>au_state := State_Cancelled\<rparr>) (s\<lparr>sa_entered := 1\<rparr>))\<lparr>sa_chain := w\<rparr>)"
    and r: "released C x ((sa_auctions s ! i)\<lparr>au_state := State_Cancelled\<rparr>) to (sa_chain s) w"
    and s': "sa_auctions s' = sa_auctions v" "sa_entered s' = 0" "sa_chain s' = sa_chain v"
  shows "custody C me F N s'"
proof -
  let ?u = "(update_auction i (\<lambda>a. a\<lparr>au_state := State_Cancelled\<rparr>) (s\<lparr>sa_entered := 1\<rparr>))\<lparr>sa_chain := w\<rparr>"
  have "backed C me F N (sa_auctions ?u) w"
    using assms(4) i setting_parts(2) [OF set]
    by simp (intro backed_release [OF setting_parts(1) [OF set(1)] _ i _ r],
      auto simp: custody_def live_def lot_def)
  moreover have "locked ?u v \<and> keeps C me F N w (sa_chain v)"
    using reaction_keeps [OF set(1) react, of ?u] v by simp
  ultimately have "backed C me F N (sa_auctions v) (sa_chain v)" by (rule backed_reaction)
  with s' show ?thesis by (simp add: custody_def)
qed

lemma sold_custody:
  assumes set: "custody_setting C me F N ctx results moves" "ctx x"
    and react: "\<forall>u. re_runs C ctx results moves u (react u)" and "custody C me F N s"
    and i: "i < length (sa_auctions s)" "live (sa_auctions s ! i)"
    and a: "\<not> live a" "lot a = lot (sa_auctions s ! i)"
    and u: "sa_auctions u = (sa_auctions s)[i := a]" "sa_entered u \<noteq> 0" "sa_chain u = w"
    and pay: "keeps C me F N (sa_chain s) w"
    and v: "v = react u" "v' = react (v\<lparr>sa_chain := w'\<rparr>)"
    and r: "released C x (sa_auctions v ! i) to (sa_chain v) w'"
    and s': "sa_auctions s' = sa_auctions v'" "sa_entered s' = 0" "sa_chain s' = sa_chain v'"
  shows "custody C me F N s'"
proof -
  let ?orig = "(sa_auctions v)[i := sa_auctions s ! i]"
  have lv: "locked u v \<and> keeps C me F N w (sa_chain v)"
    using reaction_keeps [OF set(1) react u(2)] u(3) v(1) by simp
  then have ended: "i < length (sa_auctions v)" "sa_auctions v ! i = a"
    using locked_nth [of u v i] i(1) a(1) u(1) by (auto simp: same_lot_def)
  have "list_all2 same_due (sa_auctions s) ?orig"
    using list_all2_update_cong [OF locked_dues [of u v], of "sa_auctions s ! i" "sa_auctions s ! i" i] lv u(1)
    by (simp add: same_due_def)
  moreover have "backed C me F N (sa_auctions s) (sa_chain v)"
    by (rule backed_keeps [OF _ keeps_trans [OF pay]]) (use assms(4) lv in \<open>simp_all add: custody_def\<close>)
  ultimately have "backed C me F N ?orig (sa_chain v)" by (rule backed_same)
  then have "backed C me F N (?orig[i := a]) w'"
    by (rule backed_release [OF setting_parts(1) [OF set(1)] _ _ _ _ r])
      (use ended i(2) a setting_parts(2) [OF set] in simp_all)
  then have "backed C me F N (sa_auctions v) w'" 
    using ended list_update_id [of "sa_auctions v" i] by simp
  moreover have "locked v v' \<and> keeps C me F N w' (sa_chain v')"
    using reaction_keeps [OF set(1) react, of "v\<lparr>sa_chain := w'\<rparr>"] lv u(2) v(2) by (simp add: locked_def)
  ultimately have "backed C me F N (sa_auctions v') (sa_chain v')" by (rule backed_reaction)
  with s' show ?thesis by (simp add: custody_def)
qed

lemma payment_keeps:
  "custody_laws C me F N \<Longrightarrow> erc20_transferFrom C w t me from to n = Some (ok, w') \<Longrightarrow> from \<noteq> me \<Longrightarrow>
     keeps C me F N w w'"
  by (rule custody_law(6))

lemma settle_custody:
  assumes set: "custody_setting C me F N ctx results moves" "ctx x" "results rd"
    and "settle_reacting C react x rd aid tag st sig s = Inr (y, s')"
    and react: "\<forall>u. re_runs C ctx results moves u (react u)" and "custody C me F N s"
  shows "custody C me F N s'"
  using assms(4)
proof (cases rule: settle_reacting_effect)
  case (unsold i w v)
  then show ?thesis
    by (intro withdrawn_custody [OF set(1,2) react assms(6) unsold(1) _ unsold(4,8)]) (simp_all add: live_def)
next
  case (sold i winner price w w' v v')
  let ?a = "(sa_auctions s ! i)\<lparr>au_state := State_Settled, au_winner := winner, au_clearingPrice := price\<rparr>"
  have "winner \<noteq> me" using sold(11) setting_parts(3) [OF set(1,3)] by blast
  then have "keeps C me F N (sa_chain s) w"
    using payment_keeps [OF setting_parts(1) [OF set(1)]] setting_parts(2) [OF set(1,2)] sold(12) by metis
  with sold show ?thesis
    by (intro sold_custody [OF set(1,2) react assms(6) sold(1) _ _ _ _ _ _ _ sold(6,7,13), of ?a])
      (simp_all add: live_def lot_def)
qed

lemma re_step_custody:
  assumes set: "custody_setting C me F N ctx results moves"
  shows "re_step C ctx results moves s s' \<Longrightarrow> custody C me F N s \<longrightarrow> custody C me F N s'"
    "re_runs C ctx results moves s s' \<Longrightarrow> custody C me F N s \<longrightarrow> custody C me F N s'"
proof (induction rule: re_step_re_runs.inducts)
  case (bid x react i ct s y s')
  from bid(3) show ?case
  proof (rule bid_effect, intro impI)
    fix w s1 assume i: "unat i < length (sa_auctions s)" and s: "custody C me F N s"
      and s1: "s1 = react (s\<lparr>sa_chain := w\<rparr>)" and e: "sa_entered s' = sa_entered s1" "sa_chain s' = sa_chain s1"
      and a: "sa_auctions s' = (sa_auctions s1)[unat i := (sa_auctions s1 ! unat i)
         \<lparr>au_bidCount := au_bidCount (sa_auctions s1 ! unat i) + 1\<rparr>]"
      and w: "instructed C x (sa_chain s) w"
    have "custody C me F N (s\<lparr>sa_chain := w\<rparr>)"
      using s backed_keeps [OF _ instructed_keeps [OF setting_parts(1) [OF set] w]] by (simp add: custody_def)
    then have c: "custody C me F N s1" using bid(2) s1 by blast
    show "custody C me F N s'"
    proof (cases "unat i < length (sa_auctions s1)")
      case True
      from update_dues [OF True] a have "list_all2 same_due (sa_auctions s1) (sa_auctions s')"
        by (simp add: same_due_def lot_def live_def)
      from backed_same [OF this, of C me F N "sa_chain s1"] c e show ?thesis by (simp add: custody_def)
    next
      case False
      with c e a show ?thesis by (simp add: custody_def list_update_beyond)
    qed
  qed
next
  case (closing x react i s y s')
  from closing(3) show ?case
  proof (rule close_effect, intro impI)
    let ?u = "update_auction (unat i) (\<lambda>a. a\<lparr>au_state := State_Closing\<rparr>) s"
    fix w s1 assume i: "unat i < length (sa_auctions s)"
        "au_state (sa_auctions s ! unat i) \<in> {State_Open, State_Closing}" and s: "custody C me F N s"
      and s1: "s1 = react (?u\<lparr>sa_chain := w\<rparr>)" and e: "sa_entered s' = sa_entered s1"
        "sa_auctions s' = sa_auctions s1" "sa_chain s' = sa_chain s1"
      and w: "instructed C x (sa_chain s) w"
    have "list_all2 same_due (sa_auctions s) (sa_auctions ?u)"
      using update_dues [OF i(1)] i(2) by (auto simp: same_due_def lot_def live_def)
    then have "custody C me F N (?u\<lparr>sa_chain := w\<rparr>)"
      using s backed_same backed_keeps [OF _ instructed_keeps [OF setting_parts(1) [OF set] w]]
      by (fastforce simp: custody_def)
    then have "custody C me F N s1" using closing(2) s1 by blast
    with e show "custody C me F N s'" by (simp add: custody_def)
  qed
next
  case (created x react lt k t ti n p d r s j s')
  then show ?case using create_custody [OF set created(1,3)] by blast
next
  case (cancelled x react i s y s')
  from cancelled(3) show ?case
  proof (rule cancel_effect, intro impI)
    fix i w v
    assume i: "i < length (sa_auctions s)" "au_state (sa_auctions s ! i) = State_Open" and c: "custody C me F N s"
      and v: "v = react ((update_auction i (\<lambda>a. a\<lparr>au_state := State_Cancelled\<rparr>) (s\<lparr>sa_entered := 1\<rparr>))\<lparr>sa_chain := w\<rparr>)"
      and r: "released C x ((sa_auctions s ! i)\<lparr>au_state := State_Cancelled\<rparr>) (au_seller (sa_auctions s ! i)) (sa_chain s) w"
      and s': "sa_auctions s' = sa_auctions v" "sa_entered s' = 0" "sa_chain s' = sa_chain v"
    from cancelled(2) have react: "\<forall>u. re_runs C ctx results moves u (react u)" by blast
    show "custody C me F N s'"
      by (rule withdrawn_custody [OF set cancelled(1) react c i(1) _ v r s']) (simp add: i(2) live_def)
  qed
next
  case (settled x rd react aid tag st sig s y s')
  then show ?case using settle_custody [OF set settled(1,2,4)] by blast
next
  case (elsewhere s w)
  then show ?case
    using setting_parts(4) [OF set elsewhere] backed_keeps [of C me F N "sa_auctions s" "sa_chain s" w]
    by (simp add: custody_def)
qed (auto simp: setExtensionId_def setTeeAddress_def committed custody_def split: option.splits)

text \<open>
  C7. The escrow is backed: in every state the contract can reach, whatever calls back into it
  and whatever other tokens do, for every well-behaved fungible token the contract's balance covers the
  amounts of all open and closing auctions in it; each collectible of a well-behaved collection
  that is the lot of an open or closing auction is owned by the contract, and no two such
  auctions have the same one.
\<close>

theorem escrow_is_backed:
  assumes "custody_setting C me F N ctx results moves" and "re_reachable C ctx results moves s"
  shows "(\<forall>t \<in> F. owed t (sa_auctions s) \<le> held C me (sa_chain s) t)
    \<and> (\<forall>t \<in> N. \<forall>n i. keeping (sa_auctions s) t n i \<longrightarrow> nft_ownerOf C (sa_chain s) t n = Some me
         \<and> (\<forall>j. keeping (sa_auctions s) t n j \<longrightarrow> j = i))"
proof -
  obtain hasCode x er mr w s0 where d: "deploy_sale hasCode x er mr w = Inr s0"
    and r: "re_runs C ctx results moves s0 s"
    using assms(2) unfolding re_reachable_def by blast
  have "custody C me F N s0"
    using d by (auto simp: deploy_sale_def committed custody_def backed_def owed_def keeping_def)
  then have "custody C me F N s" using re_step_custody(2) [OF assms(1) r] by blast
  then show ?thesis by (auto simp: custody_def backed_def owned_def)
qed

section \<open>Without the guard\<close>

text \<open>What a creation of a fungible lot records, whether guarded or not.\<close>

lemma create_body_records:
  assumes "create_body C react x lt Lot_ERC20 t ti n p d r s = Inr (j, s')"
  obtains w s1 where "erc20_transferFrom C (sa_chain s) t (cx_this x) (cx_sender x) (cx_this x) n = Some (True, w)"
    "s1 = react (s\<lparr>sa_chain := w\<rparr>)" "sa_chain s' = sa_chain s1" "j = length (sa_auctions s1)"
    "sa_auctions s' = sa_auctions s1 @ [sa_auctions s' ! j]" "live (sa_auctions s' ! j)"
    "due t (sa_auctions s' ! j) = unat (au_lotAmount (sa_auctions s' ! j))"
    "0 < au_lotAmount (sa_auctions s' ! j)"
    "held C (cx_this x) (sa_chain s1) t = held C (cx_this x) (sa_chain s) t + unat (au_lotAmount (sa_auctions s' ! j))"
  using assms that
  by (auto simp: create_body_def pullLot_reacting_def committed Let_def opened_def live_def due_def held_def
      unat_sub word_le_nat_alt)

lemma owed_append: "owed t (aus @ [a]) = owed t aus + due t a"
  by (simp add: owed_def)

text \<open>
  C10. Why \<^verbatim>\<open>createAuction\<close> needs its guard. Take its body without the guard, any tokens, and a token whose
  \<^verbatim>\<open>transferFrom\<close> calls the sender, who in turn creates an auction of the same token. If both
  creations go through, what is owed in the token has grown by the inner amount more than what
  is held: an escrow that was exactly backed no longer is. With the guard the inner call is
  refused, whatever it is asked to create; and the guard does not stay on, a creation
  that goes through leaves the contract ready for the next.
\<close>

theorem guard_is_needed:
  assumes outer: "create_body C react x lt Lot_ERC20 t ti n p d r s = Inr (j, s')"
    and call: "erc20_transferFrom C (sa_chain s) t me (cx_sender x) me n = Some (True, w)"
    and inner: "create_body C (\<lambda>u. u) x2 lt2 Lot_ERC20 t ti2 n2 p2 d2 r2 (s\<lparr>sa_chain := w\<rparr>) =
      Inr (j2, react (s\<lparr>sa_chain := w\<rparr>))"
    and me: "cx_this x = me" "cx_this x2 = me"
    and tight: "owed t (sa_auctions s) = held C me (sa_chain s) t"
  shows "owed t (sa_auctions s') = held C me (sa_chain s') t + unat (au_lotAmount (sa_auctions s' ! j2))
    \<and> held C me (sa_chain s') t < owed t (sa_auctions s')
    \<and> createAuction_reacting C react2 x2 lt3 k3 t3 ti3 n3 p3 d3 r3 (s\<lparr>sa_entered := 1, sa_chain := w\<rparr>) =
        Inl ''reentrant''
    \<and> (\<forall>j3 s1. createAuction_reacting C react3 x lt Lot_ERC20 t ti n p d r s = Inr (j3, s1) \<longrightarrow>
         sa_entered s1 = 0)"
proof -
  let ?u = "s\<lparr>sa_chain := w\<rparr>"
  obtain w' v where "erc20_transferFrom C (sa_chain s) t me (cx_sender x) me n = Some (True, w')"
    "v = react (s\<lparr>sa_chain := w'\<rparr>)" and o: "sa_chain s' = sa_chain v" "j = length (sa_auctions v)"
    "sa_auctions s' = sa_auctions v @ [sa_auctions s' ! j]" "live (sa_auctions s' ! j)"
    "due t (sa_auctions s' ! j) = unat (au_lotAmount (sa_auctions s' ! j))"
    "0 < au_lotAmount (sa_auctions s' ! j)"
    "held C me (sa_chain v) t = held C me (sa_chain s) t + unat (au_lotAmount (sa_auctions s' ! j))"
    by (rule create_body_records [OF outer, unfolded me])
  with call have v: "v = react ?u" by simp
  obtain w2 v2 where "erc20_transferFrom C (sa_chain ?u) t me (cx_sender x2) me n2 = Some (True, w2)"
    "v2 = ?u\<lparr>sa_chain := w2\<rparr>" and i: "sa_chain v = sa_chain v2" "j2 = length (sa_auctions v2)"
    "sa_auctions v = sa_auctions v2 @ [sa_auctions v ! j2]" "live (sa_auctions v ! j2)"
    "due t (sa_auctions v ! j2) = unat (au_lotAmount (sa_auctions v ! j2))" "0 < au_lotAmount (sa_auctions v ! j2)"
    "held C me (sa_chain v2) t = held C me (sa_chain ?u) t + unat (au_lotAmount (sa_auctions v ! j2))"
    by (rule create_body_records [OF inner [folded v], unfolded me])
  then have j2: "sa_auctions v = sa_auctions s @ [sa_auctions v ! j2]" "j2 = length (sa_auctions s)" by simp_all
  have same: "sa_auctions s' ! j2 = sa_auctions v ! j2"
    using j2 o(3) by (metis length_append_singleton lessI nth_append)
  have "owed t (sa_auctions s') = owed t (sa_auctions s) + due t (sa_auctions v ! j2) + due t (sa_auctions s' ! j)"
    using o(3) j2(1) owed_append by metis
  then have "owed t (sa_auctions s') = held C me (sa_chain s') t + unat (au_lotAmount (sa_auctions s' ! j2))"
    using o(1,5,7) i(5) same tight by simp
  moreover have "0 < unat (au_lotAmount (sa_auctions s' ! j2))" using i(6) same by (simp add: word_less_nat_alt)
  moreover have "createAuction_reacting C react2 x2 lt3 k3 t3 ti3 n3 p3 d3 r3 (s\<lparr>sa_entered := 1, sa_chain := w\<rparr>) =
      Inl ''reentrant''"
    by (simp add: createAuction_reacting_def nonReentrant_def revert_defs)
  moreover have "sa_entered s1 = 0"
    if "createAuction_reacting C react3 x lt Lot_ERC20 t ti n p d r s = Inr (j3, s1)" for j3 s1
    using that by (auto simp: createAuction_reacting_def dest!: nonReentrant_ok)
  ultimately show ?thesis by simp
qed

end
