(* ===== verification/Demo_Custody.thy ===== *)
theory Demo_Custody
  imports Custody
begin

text \<open>
  A chain with a fungible token at address 20 and the repository's ERC-721 contract at address 30,
  on which the hypotheses of the escrow properties are checked. The contract is 5, the seller
  4, whose code is called back when it transfers. It stands for nothing in the program, the
  ERC-721 contract apart.
\<close>

section \<open>Two tokens\<close>

record token_world =
  tw_coin :: "address \<Rightarrow> u256"
  tw_asset :: asset

definition coin_move :: "address \<Rightarrow> address \<Rightarrow> u256 \<Rightarrow> (address \<Rightarrow> u256) \<Rightarrow> (address \<Rightarrow> u256) option" where
  "coin_move from to n f =
     (let g = f(from := f from - n) in if n \<le> f from \<and> g to \<le> g to + n then Some (g(to := g to + n)) else None)"

text \<open>Everybody but the contract has approved the contract for the coin.\<close>

definition coin_transferFrom :: "token_world \<Rightarrow> address \<Rightarrow> address \<Rightarrow> address \<Rightarrow> u256 \<Rightarrow> token_world option" where
  "coin_transferFrom w me from to n =
     (if from = me then None else map_option (\<lambda>f. w\<lparr>tw_coin := f\<rparr>) (coin_move from to n (tw_coin w)))"

definition asset_call :: "token_world \<Rightarrow> asset result \<Rightarrow> token_world option" where
  "asset_call w r = (case r of Inl _ \<Rightarrow> None | Inr a \<Rightarrow> Some (w\<lparr>tw_asset := a\<rparr>))"

definition view :: "'a result \<Rightarrow> 'a option" where
  "view r = (case r of Inl _ \<Rightarrow> None | Inr a \<Rightarrow> Some a)"

text \<open>
  Both kinds have \<^verbatim>\<open>transferFrom\<close> with one selector; the ERC-721 one returns no boolean, so a
  call that expects one reverts.
\<close>

definition hook_callees :: "token_world callees" where
  "hook_callees =
     \<lparr>nft_transferFrom = (\<lambda>w t me from to n.
        if t = 30 then asset_call w (asset_transferFrom me from to n (tw_asset w))
        else if t = 20 then coin_transferFrom w me from to n else None),
      nft_ownerOf = (\<lambda>w t n. if t = 30 then view (asset_ownerOf (tw_asset w) n) else None),
      erc20_transferFrom = (\<lambda>w t me from to n.
        if t = 20 then map_option (\<lambda>w'. (True, w')) (coin_transferFrom w me from to n) else None),
      erc20_transfer = (\<lambda>w t me to n. if t = 20
        then map_option (\<lambda>f. (True, w\<lparr>tw_coin := f\<rparr>)) (coin_move me to n (tw_coin w)) else None),
      erc20_balanceOf = (\<lambda>w t a. if t = 20 then Some (tw_coin w a)
        else if t = 30 then view (asset_balanceOf (tw_asset w) a) else None),
      nextPublicExtensionId = (\<lambda>_. None),
      instructionsSenderOf = (\<lambda>_ _. None), getRandomTeeIds = (\<lambda>_ _ _. None),
      sendInstructions = (\<lambda>w _ _ _ _ _ _. Some (8, w)), keccak = (\<lambda>_. ''h''), ecrecover = (\<lambda>_ _ _ _. 6),
      encode_bid_message = (\<lambda>_ _ _. []), encode_close_message = (\<lambda>_ _ _ _. []),
      encode_commitment = (\<lambda>_ _ _. []), decode_result = (\<lambda>_. None)\<rparr>"

lemma hook_fields:
  "nft_transferFrom hook_callees w t me from to n =
     (if t = 30 then asset_call w (asset_transferFrom me from to n (tw_asset w))
      else if t = 20 then coin_transferFrom w me from to n else None)"
  "nft_ownerOf hook_callees w t n = (if t = 30 then view (asset_ownerOf (tw_asset w) n) else None)"
  "erc20_transferFrom hook_callees w t me from to n =
     (if t = 20 then map_option (\<lambda>w'. (True, w')) (coin_transferFrom w me from to n) else None)"
  "erc20_transfer hook_callees w t me to n =
     (if t = 20 then map_option (\<lambda>f. (True, w\<lparr>tw_coin := f\<rparr>)) (coin_move me to n (tw_coin w)) else None)"
  "erc20_balanceOf hook_callees w t a =
     (if t = 20 then Some (tw_coin w a)
      else if t = 30 then view (asset_balanceOf (tw_asset w) a) else None)"
  "sendInstructions hook_callees w v ids op cm m from = Some (8, w)" "decode_result hook_callees rd = None"
  by (simp_all add: hook_callees_def)

section \<open>The tokens behave\<close>

lemma hook_held: "held hook_callees a w 20 = unat (tw_coin w a)"
  by (simp add: held_def hook_fields)

lemma hook_owned: "owned hook_callees a w 30 n \<longleftrightarrow> da_owners (tw_asset w) n = a \<and> a \<noteq> 0"
  by (auto simp: owned_def hook_fields view_def asset_ownerOf_def and_then_def require_def)

lemma coin_others: "coin_move from to n f = Some g \<Longrightarrow> a \<noteq> from \<Longrightarrow> f a \<le> g a"
  by (auto simp: coin_move_def Let_def split: if_splits)

lemma coin_own: "coin_move from to n f = Some g \<Longrightarrow> unat (f from) \<le> unat (g from) + unat n"
  by (auto simp: coin_move_def Let_def unat_sub word_le_nat_alt split: if_splits)

lemma coin_transfer_keeps: "coin_transferFrom w 5 from to n = Some w' \<Longrightarrow> keeps hook_callees 5 {20} {30} w w'"
  by (auto simp: keeps_def hook_held hook_owned coin_transferFrom_def word_le_nat_alt [symmetric]
      intro: coin_others split: if_splits)

lemma asset_call_Some: "asset_call w r = Some w' \<longleftrightarrow> (\<exists>a. r = Inr a \<and> w' = w\<lparr>tw_asset := a\<rparr>)"
  by (auto simp: asset_call_def split: sum.splits)

lemma asset_keeps:
  assumes "asset_transferFrom 5 from to n (tw_asset w) = Inr a" and "from \<noteq> 5"
  shows "keeps hook_callees 5 {20} {30} w (w\<lparr>tw_asset := a\<rparr>)"
  using asset_transfer_ok [OF assms(1)] assms(2) by (auto simp: keeps_def hook_held hook_owned)

lemma hook_laws: "custody_laws hook_callees 5 {20} {30}"
  unfolding custody_laws_def
proof (intro conjI allI impI ballI)
  fix w t src to n w'
  assume r: "nft_transferFrom hook_callees w t 5 src to n = Some w'" "src \<noteq> 5"
  then show "keeps hook_callees 5 {20} {30} w w'"
    by (auto simp: hook_fields asset_call_Some asset_keeps coin_transfer_keeps split: if_splits)
  assume "t \<in> {30}"
  with r show "nft_ownerOf hook_callees w t n = Some src"
    by (auto simp: hook_fields asset_call_Some view_def asset_ownerOf_def and_then_def require_def
        dest: asset_transfer_ok(1) asset_transfer_ok(2))
next
  fix w t to n w' t'
  assume r: "nft_transferFrom hook_callees w t 5 5 to n = Some w'" "t \<notin> {20}"
  then obtain a where a: "asset_transferFrom 5 5 to n (tw_asset w) = Inr a" "w' = w\<lparr>tw_asset := a\<rparr>" "t = 30"
    by (auto simp: hook_fields asset_call_Some split: if_splits)
  show "held hook_callees 5 w t' \<le> held hook_callees 5 w' t'" if "t' \<in> {20}"
    using that a by (simp add: hook_held)
  show "owned hook_callees 5 w' t' n'" if "t' \<in> {30}" "owned hook_callees 5 w t' n'" "(t', n') \<noteq> (t, n)" for n'
    using that a(2,3) asset_transfer_ok(5) [OF a(1)] by (auto simp: hook_owned)
next
  fix w t to n w' t'
  assume r: "erc20_transfer hook_callees w t 5 to n = Some (True, w')"
  then obtain f where f: "coin_move 5 to n (tw_coin w) = Some f" "w' = w\<lparr>tw_coin := f\<rparr>" "t = 20"
    by (auto simp: hook_fields split: if_splits)
  show "held hook_callees 5 w t' \<le> held hook_callees 5 w' t' + (if t' = t then unat n else 0)" if "t' \<in> {20}"
    using that f coin_own [OF f(1)] by (simp add: hook_held)
  show "owned hook_callees 5 w' t' n'" if "t' \<in> {30}" "owned hook_callees 5 w t' n'" for n'
    using that f(2) by (simp add: hook_owned)
qed (auto simp: hook_fields coin_transfer_keeps keeps_refl split: if_splits)

definition from_seller :: "context_info \<Rightarrow> bool" where
  "from_seller x \<longleftrightarrow> x = demo_context 4 10"

lemma hook_setting: "custody_setting hook_callees 5 {20} {30} from_seller anything (=)"
  using hook_laws
  by (auto simp: custody_setting_def from_seller_def demo_context_def hook_fields keeps_refl)

section \<open>A run\<close>

definition hook_world :: token_world where
  "hook_world = \<lparr>tw_coin = (\<lambda>_. 0)(4 := 1000),
     tw_asset = projr (asset_approve 4 5 1 (snd (projr (mint 1 4 (deploy_asset 1)))))\<rparr>"

definition hook_start :: "token_world sale" where
  "hook_start = projr (deploy_sale (\<lambda>_ _. True) (demo_context 1 0) 2 3 hook_world)"

text \<open>The seller's callback offers another lot of 100, if the contract lets it.\<close>

definition greedy :: "token_world sale \<Rightarrow> token_world sale" where
  "greedy u = (case create_body hook_callees (\<lambda>s. s) (demo_context 4 10) ''lot'' Lot_ERC20 20 0 100 22 100 60 u of
     Inl _ \<Rightarrow> u | Inr (_, u') \<Rightarrow> u')"

definition greedy_guarded :: "token_world sale \<Rightarrow> token_world sale" where
  "greedy_guarded u = (case createAuction_reacting hook_callees (\<lambda>s. s) (demo_context 4 10) ''lot'' Lot_ERC20
     20 0 100 22 100 60 u of Inl _ \<Rightarrow> u | Inr (_, u') \<Rightarrow> u')"

definition unguarded :: "token_world sale" where
  "unguarded = after_ok (create_body hook_callees greedy (demo_context 4 10) ''lot'' Lot_ERC20 20 0 1 22 100 60
     hook_start)"

text \<open>A lot of one coin, then the collectible; then the seller takes back one or the other.\<close>

definition guarded :: "token_world sale" where
  "guarded = after_ok (createAuction_reacting hook_callees greedy_guarded (demo_context 4 10) ''lot'' Lot_ERC20
     20 0 1 22 100 60 hook_start)"

definition two_lots :: "token_world sale" where
  "two_lots = after_ok (createAuction_reacting hook_callees greedy_guarded (demo_context 4 10) ''art'' Lot_ERC721
     30 1 0 22 100 60 guarded)"

definition withdrawn :: "token_world sale" where
  "withdrawn = after_ok (cancelAuction_reacting hook_callees greedy_guarded (demo_context 4 10) 0 two_lots)"

definition art_back :: "token_world sale" where
  "art_back = after_ok (cancelAuction_reacting hook_callees greedy_guarded (demo_context 4 10) 1 two_lots)"

lemma hook_deployed: "deploy_sale (\<lambda>_ _. True) (demo_context 1 0) 2 3 hook_world = Inr hook_start"
  by (simp add: hook_start_def deploy_sale_def demo_sale_defs)

lemma hook_start_value: "hook_start = \<lparr>sa_extensionId = 0, sa_owner = 1, sa_teeAddress = 0,
    sa_auctions = [], sa_bidCommitments = [], sa_entered = 0, sa_events = [], sa_chain = hook_world\<rparr>"
  by (simp add: hook_start_def deploy_sale_def demo_sale_defs)

lemma hook_world_value:
  "tw_coin hook_world = (\<lambda>_. 0)(4 := 1000)"
  "da_owners (tw_asset hook_world) = (\<lambda>_. 0)(1 := 4)" "da_balances (tw_asset hook_world) = (\<lambda>_. 0)(4 := 1)"
  "da_tokenApprovals (tw_asset hook_world) = (\<lambda>_. 0)(1 := 5)"
  by (simp_all add: hook_world_def deploy_asset_def mint_def asset_approve_def asset_ownerOf_def add_balance_def
      log_asset_def and_then_def require_def Let_def)

lemmas hook_defs = hook_fields demo_context_def after_ok_def and_then_def require_def called_def
  nonReentrant_def getAuction_def update_auction_def emit_def Let_def pullLot_reacting_def
  releaseLot_reacting_def create_body_def opened_def createAuction_reacting_def
  coin_transferFrom_def coin_move_def asset_call_def view_def asset_transferFrom_def asset_ownerOf_def
  asset_balanceOf_def sub_balance_def add_balance_def log_asset_def

lemma unguarded_value:
  "create_body hook_callees greedy (demo_context 4 10) ''lot'' Lot_ERC20 20 0 1 22 100 60 hook_start =
     Inr (1, unguarded)"
  "map au_lotAmount (sa_auctions unguarded) = [100, 101]" "tw_coin (sa_chain unguarded) 5 = 101"
  by (simp_all add: unguarded_def greedy_def hook_start_value hook_world_value hook_defs)

lemma guarded_value:
  "createAuction_reacting hook_callees greedy_guarded (demo_context 4 10) ''lot'' Lot_ERC20 20 0 1 22 100 60
     hook_start = Inr (0, guarded)"
  "sa_auctions guarded = [opened (demo_context 4 10) ''lot'' Lot_ERC20 20 0 1 22 100 60]"
  "tw_coin (sa_chain guarded) = (\<lambda>_. 0)(4 := 999, 5 := 1)" "sa_entered guarded = 0"
  "releases 0 (sa_events guarded) = []" "tw_asset (sa_chain guarded) = tw_asset hook_world"
  by (simp_all add: guarded_def greedy_guarded_def hook_start_value hook_world_value hook_defs)

lemma two_lots_value:
  "createAuction_reacting hook_callees greedy_guarded (demo_context 4 10) ''art'' Lot_ERC721 30 1 0 22 100 60
     guarded = Inr (1, two_lots)"
  "sa_auctions two_lots = [opened (demo_context 4 10) ''lot'' Lot_ERC20 20 0 1 22 100 60,
     opened (demo_context 4 10) ''art'' Lot_ERC721 30 1 1 22 100 60]"
  "tw_coin (sa_chain two_lots) = (\<lambda>_. 0)(4 := 999, 5 := 1)" "sa_entered two_lots = 0"
  "releases 0 (sa_events two_lots) = []" "da_owners (tw_asset (sa_chain two_lots)) = (\<lambda>_. 0)(1 := 5)"
  "da_balances (tw_asset (sa_chain two_lots)) = (\<lambda>_. 0)(4 := 0, 5 := 1)"
  by (simp_all add: two_lots_def greedy_guarded_def guarded_value hook_world_value hook_defs)

lemma withdrawn_value:
  "cancelAuction_reacting hook_callees greedy_guarded (demo_context 4 10) 0 two_lots = Inr ((), withdrawn)"
  "map au_state (sa_auctions withdrawn) = [State_Cancelled, State_Open]"
  "au_seller (sa_auctions withdrawn ! 0) = 4"
  by (simp_all add: withdrawn_def cancelAuction_reacting_def greedy_guarded_def two_lots_value hook_defs)

lemma art_back_value:
  "cancelAuction_reacting hook_callees greedy_guarded (demo_context 4 10) 1 two_lots = Inr ((), art_back)"
  "sa_auctions art_back = [opened (demo_context 4 10) ''lot'' Lot_ERC20 20 0 1 22 100 60,
     (opened (demo_context 4 10) ''art'' Lot_ERC721 30 1 1 22 100 60)\<lparr>au_state := State_Cancelled\<rparr>]"
  "da_balances (tw_asset (sa_chain art_back)) = (\<lambda>_. 0)(5 := 0, 4 := 1)"
  by (simp_all add: art_back_def cancelAuction_reacting_def greedy_guarded_def two_lots_value hook_defs)

lemma greedy_runs: "\<forall>u. re_runs hook_callees from_seller anything (=) u (greedy_guarded u)"
proof
  fix u
  let ?r = "createAuction_reacting hook_callees (\<lambda>s. s) (demo_context 4 10) ''lot'' Lot_ERC20 20 0 100 22 100 60 u"
  have still: "\<forall>u. re_runs hook_callees from_seller anything (=) u u" by (blast intro: re_step_re_runs.stop)
  show "re_runs hook_callees from_seller anything (=) u (greedy_guarded u)"
  proof (cases ?r)
    case (Inr p)
    then have "?r = Inr (fst p, snd p)" by simp
    from re_step_re_runs.created [OF _ still this] have "re_step hook_callees from_seller anything (=) u (snd p)"
      by (simp add: from_seller_def)
    with Inr show ?thesis
      by (auto simp: greedy_guarded_def split_def intro: re_step_re_runs.more re_step_re_runs.stop)
  qed (simp add: greedy_guarded_def re_step_re_runs.stop)
qed

lemma hook_steps:
  "re_step hook_callees from_seller anything (=) hook_start guarded"
  "re_step hook_callees from_seller anything (=) guarded two_lots"
  "re_step hook_callees from_seller anything (=) two_lots withdrawn"
  "re_step hook_callees from_seller anything (=) two_lots art_back"
  by (rule re_step_re_runs.created [OF _ greedy_runs guarded_value(1)], simp add: from_seller_def)
    (rule re_step_re_runs.created [OF _ greedy_runs two_lots_value(1)], simp add: from_seller_def,
     rule re_step_re_runs.cancelled [OF _ greedy_runs withdrawn_value(1)], simp add: from_seller_def,
     rule re_step_re_runs.cancelled [OF _ greedy_runs art_back_value(1)], simp add: from_seller_def)

lemma hook_reachable:
  assumes "s = two_lots \<or> re_step hook_callees from_seller anything (=) two_lots s"
  shows "re_reachable hook_callees from_seller anything (=) s"
proof -
  have "re_runs hook_callees from_seller anything (=) two_lots s"
    using assms re_step_re_runs.more [OF _ re_step_re_runs.stop] re_step_re_runs.stop by metis
  then have "re_runs hook_callees from_seller anything (=) hook_start s"
    by (rule re_step_re_runs.more [OF hook_steps(1) re_step_re_runs.more [OF hook_steps(2)]])
  then show ?thesis unfolding re_reachable_def using hook_deployed by blast
qed

lemma lot_released_once_despite_reentry_witness: "releases 0 (sa_events withdrawn) = [4]"
proof -
  have "sa_auctions withdrawn \<noteq> []" "au_state (sa_auctions withdrawn ! 0) = State_Cancelled"
    using withdrawn_value(2) by (auto simp: map_eq_Cons_conv)
  then show ?thesis
    using lot_released_once_despite_reentry [OF hook_reachable, of withdrawn 0] hook_steps(3) withdrawn_value(3)
    by simp
qed

text \<open>
  With both lots in escrow the contract owns the collectible; when the seller takes it back, the
  balance of the contract in the collection falls to 0, and the coin is still covered.
\<close>

lemma escrow_is_backed_witness:
  "nft_ownerOf hook_callees (sa_chain two_lots) 30 1 = Some 5
   \<and> owed 20 (sa_auctions art_back) = 1 \<and> 1 \<le> held hook_callees 5 (sa_chain art_back) 20
   \<and> held hook_callees 5 (sa_chain two_lots) 30 = 1 \<and> held hook_callees 5 (sa_chain art_back) 30 = 0"
proof -
  have owed: "owed 20 (sa_auctions art_back) = 1"
    by (simp add: art_back_value(2) owed_def due_def live_def opened_def)
  have "re_reachable hook_callees from_seller anything (=) art_back"
    using hook_reachable hook_steps(4) by blast
  from escrow_is_backed [OF hook_setting this] owed
  have a: "1 \<le> held hook_callees 5 (sa_chain art_back) 20" by simp
  have "keeping (sa_auctions two_lots) 30 1 1"
    by (simp add: two_lots_value(2) keeping_def live_def opened_def)
  with escrow_is_backed [OF hook_setting hook_reachable, of two_lots]
  have b: "nft_ownerOf hook_callees (sa_chain two_lots) 30 1 = Some 5" by blast
  from a b owed show ?thesis
    by (simp add: held_def hook_fields view_def asset_balanceOf_def and_then_def require_def
        two_lots_value(7) art_back_value(3))
qed

definition called_back :: token_world where
  "called_back = the (coin_transferFrom hook_world 5 4 5 1)"

lemma guard_is_needed_witness:
  "owed 20 (sa_auctions unguarded) = held hook_callees 5 (sa_chain unguarded) 20 + 100
   \<and> createAuction_reacting hook_callees (\<lambda>u. u) (demo_context 4 10) ''lot'' Lot_ERC20 20 0 100 22 100 60
       (hook_start\<lparr>sa_entered := 1, sa_chain := called_back\<rparr>) = Inl ''reentrant''
   \<and> sa_entered guarded = 0"
proof -
  have call: "erc20_transferFrom hook_callees (sa_chain hook_start) 20 5 (cx_sender (demo_context 4 10)) 5 1 =
      Some (True, called_back)"
    by (simp add: called_back_def hook_start_value hook_world_value hook_defs)
  have inner: "create_body hook_callees (\<lambda>u. u) (demo_context 4 10) ''lot'' Lot_ERC20 20 0 100 22 100 60
      (hook_start\<lparr>sa_chain := called_back\<rparr>) = Inr (0, greedy (hook_start\<lparr>sa_chain := called_back\<rparr>))"
    by (simp add: greedy_def called_back_def hook_start_value hook_world_value hook_defs)
  have this5: "cx_this (demo_context 4 10) = 5" by (simp add: demo_context_def)
  have tight: "owed 20 (sa_auctions hook_start) = held hook_callees 5 (sa_chain hook_start) 20"
    by (simp add: hook_start_value hook_world_value owed_def hook_held)
  note g = guard_is_needed [OF unguarded_value(1) call inner this5 this5 tight]
  have amount: "au_lotAmount (sa_auctions unguarded ! 0) = 100"
    using unguarded_value(2) by (auto simp: map_eq_Cons_conv)
  from g amount guarded_value(1) show ?thesis by auto
qed

end
