(* ===== verification/Spec2Isabelle.thy ===== *)
theory Spec2Isabelle
  imports Sealed_Book Interleaving Well_Formed Decrypt Check_Props Extension_Cmds
    Run_Test_Props Inspection Service_Life Demo_System
    Demo_Custody
begin

text \<open>
  A verification library for the sealed-bid auction extension of Flare Confidential Compute
  and for the Go tools that deploy, register and check it.

  \<^bold>\<open>The program.\<close> The extension (\<^verbatim>\<open>go/\<close>) runs beside a
  TEE node. Instructions reach it over HTTP: \<^verbatim>\<open>PLACE_BID\<close> carries an
  encrypted bid that is decrypted in the TEE, checked against its on-chain wrapper and stored;
  \<^verbatim>\<open>CLOSE_AUCTION\<close> closes an auction and reports winner and clearing
  price, which a contract settles. Losing amounts never leave the extension. The tools
  (\<^verbatim>\<open>tools/\<close>) set the extension and its TEE machine up on chain, keep the
  machine registry in order, and check a deployment.

  \<^bold>\<open>The theories.\<close>

  \<^item> \<^verbatim>\<open>Prelude\<close>: shared types (\<^verbatim>\<open>common.Address\<close> is a 160-bit word, \<^verbatim>\<open>common.Hash\<close> a 256-bit
    word, a Go string or byte slice a list of bytes, \<^verbatim>\<open>(value, error)\<close> a sum). \<^verbatim>\<open>Go_Text\<close>: the
    functions of Go's standard library that the program uses on text (decimal and hexadecimal
    numbers, splitting, trimming over UTF-8, scanning lines of at most 64 KiB, quoting, JSON
    strings).

  \<^item> \<^verbatim>\<open>Auction_Types\<close>: \<^verbatim>\<open>go/pkg/types/types.go\<close> and \<^verbatim>\<open>go/internal/config/config.go\<close>.
    \<^verbatim>\<open>Winner\<close>: \<^verbatim>\<open>winner.go\<close>, the scan for the winning bid; amounts are unbounded integers
    (\<^verbatim>\<open>*big.Int\<close>), timestamps 64-bit words, a nil amount is \<^term>\<open>None\<close> and a nil dereference makes the scan
    \<^term>\<open>None\<close>. \<^verbatim>\<open>Extension\<close>: \<^verbatim>\<open>extension.go\<close> and \<^verbatim>\<open>utils.go\<close>, the state (bids per auction, closed
    auctions, a 64-bit arrival counter), each handler split at its critical sections, the
    dispatch on operation type and command, and the HTTP entry points. Decryption, the ABI
    decoder and the JSON codec of tee-node's own types are parameters (record \<open>lib\<close>).
    \<^verbatim>\<open>Decrypt\<close>: \<^verbatim>\<open>decrypt.go\<close>, the client that the decryption parameter stands for, with its
    base64 and JSON.
    \<^verbatim>\<open>Bid_Store\<close>: the interface \<open>bid_store\<close> between the handlers and the maps they share,
    interpreted on the extension's own operations. \<^verbatim>\<open>Handlers\<close>: what each operation does on
    every branch. \<^verbatim>\<open>Well_Formed\<close>: the type invariant of the memory. \<^verbatim>\<open>Sealed_Book\<close>: the
    abstract book, a log of authentic bids, and the refinement.
    \<^verbatim>\<open>Interleaving\<close>: concurrent handlers as a step relation over their critical sections.
    \<^verbatim>\<open>Demo_Lib\<close>: a concrete library at which hypotheses are checked.

  \<^item> \<^verbatim>\<open>Sale_Contract\<close>: \<^verbatim>\<open>contracts/InstructionSender.sol\<close>, the contract that sends the
    extension its instructions and settles its signed results: the storage, every transaction
    as a function to a revert reason or the next storage, escrow and events. \<^verbatim>\<open>Sale_Props\<close>:
    the life of an auction and the reachable storages as inductive relations, the escrow
    invariant, and the agreement of a settlement with the sealed book.
    \<^verbatim>\<open>Reentry\<close>: the same transactions when every called contract may call back, as a relation
    that nests; \<^verbatim>\<open>Custody\<close>: that the contract holds what it owes, for fungible tokens and
    collections that obey the laws stated there, and what goes wrong without the guard.
    \<^verbatim>\<open>Demo_Asset\<close>: \<^verbatim>\<open>contracts/DemoAsset721.sol\<close>, the ERC-721 contract of the demo lots;
    \<^verbatim>\<open>Demo_Custody\<close>: a chain with that contract and a fungible token, where the laws hold.

  \<^item> The contract and the machines together. \<^verbatim>\<open>Channel\<close>: the contract's transactions as values,
    and the interface \<open>queueing\<close>, that a transaction appends exactly its own instructions to
    the registry's queue, interpreted for all seven. \<^verbatim>\<open>Auction_System\<close>: the joint step
    relation: a transaction (a settlement carries an answer of the registered machine), the rest
    of the chain, a machine serving a queued instruction, a machine losing its memory. An answer
    is recorded with the history the machine had served when it gave it, and what a machine
    decrypts is an error or what its own key gives, so the properties speak of the very
    history and key behind a settlement.
    \<^verbatim>\<open>Book_History\<close>: the bids and closes of a history of instructions, and the book's log in
    their terms. \<^verbatim>\<open>System_Props\<close>: the joint invariant, that what the contract recorded, what is
    queued and what the machines have answered fit together. \<^verbatim>\<open>Fair_Sale\<close>: what bidders and
    seller can rely on; \<^verbatim>\<open>Demo_System\<close>: a concrete joint system for its hypotheses.

  \<^item> \<^verbatim>\<open>Report\<close>, \<^verbatim>\<open>Env_File\<close>, \<^verbatim>\<open>Checks\<close>, \<^verbatim>\<open>Check_Props\<close>: \<^verbatim>\<open>tools/pkg/validate\<close>, the deployment
    checks D1 to E6 over a \<open>world\<close> of observations, the report and its two printed forms.
    \<^verbatim>\<open>Verify_Deploy\<close>: the command \<^verbatim>\<open>verify-deploy\<close>, its filter in place and its exit code.

  \<^item> \<^verbatim>\<open>IO_Trace\<close>: programs that talk to the outside, as functions of the history of calls, with
    two calculi: \<open>only P m\<close> (every call of \<open>m\<close> satisfies \<open>P\<close>) and \<open>follows A P m\<close> (every call
    is justified by the history just before it). \<^verbatim>\<open>Chain_Access\<close>: the outside (RPC node, HTTP,
    files, third-party functions) as the record \<open>outside\<close>; an answer may depend on the whole
    history, so nothing is assumed about a chain staying the same. \<^verbatim>\<open>Support_Setup\<close> and
    \<^verbatim>\<open>Tx_Check\<close>: \<^verbatim>\<open>tools/pkg/support/support.go\<close> and \<^verbatim>\<open>fccutils/revert.go\<close>. \<^verbatim>\<open>Tee_Client\<close>:
    \<^verbatim>\<open>tee_calls.go\<close>, \<^verbatim>\<open>common.go\<close>, \<^verbatim>\<open>policy_consistency.go\<close>. \<^verbatim>\<open>Diag\<close>: \<^verbatim>\<open>diag.go\<close>.
    \<^verbatim>\<open>Governance\<close>: \<^verbatim>\<open>governance.go\<close> and \<^verbatim>\<open>set-governance\<close>. \<^verbatim>\<open>Registration\<close> and
    \<^verbatim>\<open>Registration_Props\<close>: \<^verbatim>\<open>registration.go\<close> and \<^verbatim>\<open>register-tee\<close>. \<^verbatim>\<open>Machines\<close>:
    \<^verbatim>\<open>reconcile-tee\<close> and \<^verbatim>\<open>pause-tee\<close>. \<^verbatim>\<open>Setup_Extension\<close>: \<^verbatim>\<open>fccutils/extension.go\<close>, with the
    interface \<open>permission\<close> (ask, and grant only on a denial) interpreted for its three
    permissions. \<^verbatim>\<open>Extension_Cmds\<close>: \<^verbatim>\<open>register-extension\<close> and \<^verbatim>\<open>allow-tee-version\<close>.
    \<^verbatim>\<open>Demo_Outside\<close>: a concrete outside for witnesses.

  \<^item> \<^verbatim>\<open>Auction_Net\<close>: what the end-to-end test and the audits use of other code beyond
    \<open>outside\<close> (record \<open>auction_net\<close>), and waiting for receipts. \<^verbatim>\<open>Token_Utils\<close>:
    \<^verbatim>\<open>tools/pkg/utils/erc20.go\<close>, \<^verbatim>\<open>fxrp.go\<close> and \<^verbatim>\<open>nft.go\<close>. \<^verbatim>\<open>Instructions\<close>:
    \<^verbatim>\<open>instructions.go\<close>, the calls of the auction contract. \<^verbatim>\<open>Ecies\<close>: \<^verbatim>\<open>fccutils/ecies.go\<close>.
    \<^verbatim>\<open>Run_Test\<close>: \<^verbatim>\<open>tools/cmd/run-test\<close> as phases (\<open>before_deadline\<close>, the wait
    \<open>await_deadline\<close>, \<open>after_deadline\<close>) composed by \<open>run_test_main\<close>; \<^verbatim>\<open>Run_Test_Props\<close>: its
    properties, and its agreement with the extension. \<^verbatim>\<open>Inspection\<close>: \<^verbatim>\<open>audit-deploy\<close> and
    \<^verbatim>\<open>query-tee\<close>, printing being a call. \<^verbatim>\<open>Deploy_Cmds\<close>: \<^verbatim>\<open>deploy-contract\<close>,
    \<^verbatim>\<open>go/cmd/start-tee\<close>, \<^verbatim>\<open>start-proxy\<close> and \<^verbatim>\<open>go/cmd/docker\<close>. \<^verbatim>\<open>Service_Life\<close>: the entry point
    \<^verbatim>\<open>go/cmd/main.go\<close>, and the processes that start the extension's server in a goroutine
    (\<^verbatim>\<open>go/pkg/server\<close>), as state machines with signals.

  \<^bold>\<open>What is shown.\<close> For the auction: the winner is the first bid of a stable
  sort of the qualifying bids, depends only on the multiset of bids, and hides losing amounts;
  handlers accept exactly authentic bids, reveal nothing, refuse late bids and close idempotently
  when they run one at a time; the extension's state refines the abstract book; with concurrent
  handlers the invariants still hold, but a bid that passed the closed check can be stored after
  the close, which changes a repeated result. For the contract: the lot leaves the escrow once and
  to the right party, and the escrow is backed, whatever calls back into the contract (without
  the guard of \<^verbatim>\<open>createAuction\<close> a callback breaks it); a sale is one swap, the terms
  never change, and the settlement of a signed answer records the outcome of the sealed book. For
  both together: the winner of a settled auction placed the bid himself and pays what was in his
  ciphertext under the key of the machine that answered, whatever the machines are served; when
  they serve the queue in order, no bid placed on chain is left out, and an auction is only
  cancelled after bids when none was read as an authentic offer at the reserve. For the checks: when each group is clean, that two parsers of the same
  file agree, that environment files read back with their comments, and exactly when the command
  fails. For the tools:
  which transactions each command can send and after which answers, that a failed registration
  keeps its progress, and that the signing-policy gate refuses exactly a confirmed mismatch. For
  the end-to-end test: what a passed run has established on the chain, that it closes only after
  the deadline, when its wait returns, and that the answers it expects are those of the
  extension's model. For inspection and deployment: what can make an audit fail, that it changes
  nothing, and that nothing is deployed before the checks pass. For the processes: the exit codes
  of the entry point, that its shutdown can drop requests in progress, and which of the start
  commands notices that the extension's server has died.

  \<^bold>\<open>Bounds.\<close> Polling for an action result takes the source's fifteen rounds as
  the recursion's fuel, so no bound is added. The wait for the bidding deadline has no bound in
  the source; it is a partial function into \<open>option\<close> whose
  \<^term>\<open>None\<close> is a wait that never ends. The arrival counter is a 64-bit word:
  properties about arrival order say where they need fewer than $2^{64}$ accepted bids, and in the
  joint system a machine serves fewer than $2^{64} - 1$ instructions between restarts. All other
  recursions are over lists or strictly decreasing numbers and are total.

  \<^bold>\<open>What is not modelled.\<close> Logging, timeouts as such (a timed-out call is a
  failed answer), flag parsing (flags are arguments), JSON decoding into structures, cryptography,
  ABI coding and the contract bindings (parameters), the TEE node, the extension proxy and
  \<^verbatim>\<open>godotenv\<close> (third party), how an error is logged before a command exits
  (\<^verbatim>\<open>FatalWithCause\<close>), the platform constants and encoders of
  \<^verbatim>\<open>encoding.go\<close> that no code uses, the contract's
  \<^verbatim>\<open>onERC721Received\<close> and \<^verbatim>\<open>auctionCount\<close>, the demo token's \<^verbatim>\<open>tokenURI\<close> and the frontend.
  In the joint system called contracts do not call back, and the handlers of one machine run one at a time; their interleaving is
  \<^verbatim>\<open>Interleaving\<close>. Planned next: the joint system over interleaved
  handlers. \<close>

end
